(* ===== verification/Js_Text.thy ===== *)
theory Js_Text
  imports Main "HOL-Library.Word" "HOL-Library.Sublist" "HOL-Library.Log_Nat"
begin

text \<open>
  The prelude: strings as the console's language has them, sequences of UTF-16 code units,
  with the operations of the standard library that the console calls (trim, split, case
  folding, join, prefix tests, decimal rendering, \<open>Number\<close> on strings, percent
  encoding), and the rewrite rules the component theories share.

  A literal is written \<open>js ''text''\<close>. The collection \<open>unit_simps\<close> unfolds the
  character classes, so that a concrete code unit is classified by the simplifier.
\<close>

named_theorems unit_simps "character classes of code units"
named_theorems text_eval "equations that evaluate string operations on concrete text"

section \<open>Code units and literals\<close>

type_synonym u16 = "16 word"
type_synonym jstr = "u16 list"

definition js :: "string \<Rightarrow> jstr" where
  "js s = map of_char s"

lemma of_char_u16_eq: "(of_char c :: u16) = of_nat (of_char c)"
  by (simp add: of_nat_of_char)

lemma of_char_nat_less: "(of_char c :: nat) < 65536"
  using nat_of_char_less_256 [of c] by linarith

lemma unat_of_char [simp]: "unat (of_char c :: u16) = of_char c"
proof -
  have "(of_char c :: nat) < 2 ^ LENGTH(16)"
    by (simp add: of_char_nat_less)
  then show ?thesis
    unfolding of_char_u16_eq by (simp add: unat_of_nat take_bit_eq_mod)
qed

lemma of_char_u16_inj [simp]: "(of_char c :: u16) = of_char d \<longleftrightarrow> c = d"
proof
  assume "(of_char c :: u16) = of_char d"
  then have "unat (of_char c :: u16) = unat (of_char d :: u16)" by simp
  then show "c = d" by simp
qed simp

lemma inj_of_char_u16: "inj (of_char :: char \<Rightarrow> u16)"
  by (rule injI) simp

lemma js_Nil [simp]: "js [] = []"
  by (simp add: js_def)

lemma js_Cons [text_eval]: "js (c # s) = of_char c # js s"
  by (simp add: js_def)

lemma js_eq_Nil [simp]: "js s = [] \<longleftrightarrow> s = []" "[] = js s \<longleftrightarrow> s = []"
  by (auto simp: js_def)

lemma js_eq_iff [simp]: "js s = js r \<longleftrightarrow> s = r"
  by (simp add: js_def inj_map_eq_map [OF inj_of_char_u16])

lemma js_append [simp]: "js s @ js r = js (s @ r)"
  by (simp add: js_def)

lemma js_append_assoc [simp]: "js s @ js r @ x = js (s @ r) @ x"
  by (simp add: js_def)

lemma length_js [simp]: "length (js s) = length s"
  by (simp add: js_def)

lemma prefix_js [simp]: "prefix (js s) (js r) \<longleftrightarrow> prefix s r"
  by (auto simp: js_def prefix_def map_eq_append_conv inj_map_eq_map [OF inj_of_char_u16])

lemma inj_js: "inj js"
  by (rule injI) simp

lemma js_in_image [simp]: "js s \<in> js ` A \<longleftrightarrow> s \<in> A"
  by (auto simp: image_iff)

lemma set_map_js [simp]: "js s \<in> set (map js xs) \<longleftrightarrow> s \<in> set xs"
  by auto

lemma of_char_code: "(of_char c :: u16) \<le> 0xFF"
proof -
  have "(of_char c :: nat) < 256" by simp
  then have "(of_char c :: nat) \<le> 255" by linarith
  then show ?thesis by (simp add: word_le_nat_alt)
qed


section \<open>Character classes\<close>

definition is_ws :: "u16 \<Rightarrow> bool" where
  \<comment> \<open>WhiteSpace and LineTerminator of ECMAScript: what \<open>trim\<close> strips and \<open>\s\<close> matches\<close>
  [unit_simps]: "is_ws c \<longleftrightarrow>
     (9 \<le> c \<and> c \<le> 13) \<or> c = 32 \<or> c = 0xA0 \<or> c = 0x1680 \<or> (0x2000 \<le> c \<and> c \<le> 0x200A) \<or>
     c = 0x2028 \<or> c = 0x2029 \<or> c = 0x202F \<or> c = 0x205F \<or> c = 0x3000 \<or> c = 0xFEFF"

definition is_digit :: "u16 \<Rightarrow> bool" where
  [unit_simps]: "is_digit c \<longleftrightarrow> 48 \<le> c \<and> c \<le> 57"

definition is_upper :: "u16 \<Rightarrow> bool" where
  [unit_simps]: "is_upper c \<longleftrightarrow> 65 \<le> c \<and> c \<le> 90"

definition is_lower :: "u16 \<Rightarrow> bool" where
  [unit_simps]: "is_lower c \<longleftrightarrow> 97 \<le> c \<and> c \<le> 122"

definition is_alnum :: "u16 \<Rightarrow> bool" where
  [unit_simps]: "is_alnum c \<longleftrightarrow> is_digit c \<or> is_upper c \<or> is_lower c"

definition is_word :: "u16 \<Rightarrow> bool" where
  \<comment> \<open>\<open>\w\<close>\<close>
  [unit_simps]: "is_word c \<longleftrightarrow> is_alnum c \<or> c = 95"

section \<open>Trimming, splitting, joining\<close>

definition trim_start :: "jstr \<Rightarrow> jstr" where
  "trim_start s = dropWhile is_ws s"

definition trim :: "jstr \<Rightarrow> jstr" where
  "trim s = rev (dropWhile is_ws (rev (trim_start s)))"

definition strip_trailing :: "u16 \<Rightarrow> jstr \<Rightarrow> jstr" where
  \<comment> \<open>\<open>s.replace(/c+$/, "")\<close>\<close>
  "strip_trailing c s = rev (dropWhile (\<lambda>d. d = c) (rev s))"

definition strip_one :: "u16 \<Rightarrow> jstr \<Rightarrow> jstr" where
  \<comment> \<open>\<open>s.replace(/c$/, "")\<close>: at most one\<close>
  "strip_one c s = (if s \<noteq> [] \<and> last s = c then butlast s else s)"

fun split_by :: "(u16 \<Rightarrow> bool) \<Rightarrow> jstr \<Rightarrow> jstr list" where
  \<comment> \<open>\<open>s.split(/[p]/)\<close>: a separator between any two pieces, empty pieces kept\<close>
  "split_by p [] = [[]]"
| "split_by p (c # cs) =
     (if p c then [] # split_by p cs
      else (case split_by p cs of [] \<Rightarrow> [[c]] | w # ws \<Rightarrow> (c # w) # ws))"

definition split_on :: "u16 \<Rightarrow> jstr \<Rightarrow> jstr list" where
  "split_on sep = split_by (\<lambda>c. c = sep)"

function split_runs :: "(u16 \<Rightarrow> bool) \<Rightarrow> jstr \<Rightarrow> jstr list" where
  \<comment> \<open>\<open>s.split(/[p]+/)\<close>: a maximal run is one separator\<close>
  "split_runs p [] = [[]]"
| "split_runs p (c # cs) =
     (if p c then [] # split_runs p (dropWhile p cs)
      else (case split_runs p cs of [] \<Rightarrow> [[c]] | w # ws \<Rightarrow> (c # w) # ws))"
  by pat_completeness auto
termination
  by (relation "measure (\<lambda>(p, s). length s)") (auto simp: le_imp_less_Suc length_dropWhile_le)

fun join :: "jstr \<Rightarrow> jstr list \<Rightarrow> jstr" where
  "join sep [] = []"
| "join sep [x] = x"
| "join sep (x # y # zs) = x @ sep @ join sep (y # zs)"

definition has_sub :: "jstr \<Rightarrow> jstr \<Rightarrow> bool" where
  \<comment> \<open>\<open>s.includes(w)\<close>\<close>
  "has_sub s w = sublist w s"

fun index_of :: "jstr \<Rightarrow> jstr \<Rightarrow> nat option" where
  \<comment> \<open>\<open>s.indexOf(w)\<close>, with \<open>-1\<close> as \<open>None\<close>\<close>
  "index_of w [] = (if w = [] then Some 0 else None)"
| "index_of w (c # cs) = (if prefix w (c # cs) then Some 0 else map_option Suc (index_of w cs))"

section \<open>Case folding\<close>

text \<open>
  \<open>toLowerCase\<close> and \<open>toUpperCase\<close> on the ASCII and Latin-1 letters and on every other code
  unit whose image contains an ASCII letter. The remaining letters of other scripts are left
  unchanged here: ECMAScript maps them to letters outside ASCII, which no pattern the console
  tests afterwards accepts, and which are equally unequal to every ASCII tag compared with.
\<close>

definition lower_unit :: "u16 \<Rightarrow> jstr" where
  "lower_unit c =
     (if is_upper c then [c + 32]
      else if 0xC0 \<le> c \<and> c \<le> 0xDE \<and> c \<noteq> 0xD7 then [c + 32]
      else if c = 0x130 then [105, 0x307]
      else if c = 0x212A then [107]
      else [c])"

definition upper_unit :: "u16 \<Rightarrow> jstr" where
  "upper_unit c =
     (if is_lower c then [c - 32]
      else if 0xE0 \<le> c \<and> c \<le> 0xFE \<and> c \<noteq> 0xF7 then [c - 32]
      else if c = 0xB5 then [0x39C] else if c = 0xFF then [0x178]
      else if c = 0xDF then [83, 83] else if c = 0x131 then [73]
      else if c = 0x17F then [83] else if c = 0x149 then [0x2BC, 78]
      else if c = 0x1F0 then [74, 0x30C] else if c = 0x1E96 then [72, 0x331]
      else if c = 0x1E97 then [84, 0x308] else if c = 0x1E98 then [87, 0x30A]
      else if c = 0x1E99 then [89, 0x30A] else if c = 0x1E9A then [65, 0x2BE]
      else if c = 0xFB00 then [70, 70] else if c = 0xFB01 then [70, 73]
      else if c = 0xFB02 then [70, 76] else if c = 0xFB03 then [70, 70, 73]
      else if c = 0xFB04 then [70, 70, 76] else if c = 0xFB05 then [83, 84]
      else if c = 0xFB06 then [83, 84] else [c])"

definition to_lower :: "jstr \<Rightarrow> jstr" where
  "to_lower s = concat (map lower_unit s)"

definition to_upper :: "jstr \<Rightarrow> jstr" where
  "to_upper s = concat (map upper_unit s)"


section \<open>Facts about trimming, splitting and joining\<close>

lemma set_dropWhile_subset: "set (dropWhile p s) \<subseteq> set s"
  by (induction s) auto

lemma trim_subset: "set (trim s) \<subseteq> set s"
  unfolding trim_def trim_start_def
  using set_dropWhile_subset [of is_ws s] set_dropWhile_subset [of is_ws "rev (dropWhile is_ws s)"]
  by auto

lemma dropWhile_hd: "dropWhile p s \<noteq> [] \<Longrightarrow> \<not> p (hd (dropWhile p s))"
  by (induction s) auto

lemma dropWhile_id_iff: "dropWhile p s = s \<longleftrightarrow> s = [] \<or> \<not> p (hd s)"
proof (cases s)
  case (Cons c cs)
  have "length (dropWhile p cs) \<le> length cs" by (rule length_dropWhile_le)
  then have "dropWhile p cs \<noteq> c # cs" by auto
  with Cons show ?thesis by auto
qed simp

definition trimmed :: "jstr \<Rightarrow> bool" where
  "trimmed s \<longleftrightarrow> s = [] \<or> (\<not> is_ws (hd s) \<and> \<not> is_ws (last s))"

lemma trim_trimmed_id: "trimmed s \<Longrightarrow> trim s = s"
proof -
  assume t: "trimmed s"
  then have "trim_start s = s"
    by (auto simp: trim_start_def trimmed_def dropWhile_id_iff)
  moreover from t have "dropWhile is_ws (rev s) = rev s"
    by (auto simp: dropWhile_id_iff trimmed_def hd_rev)
  ultimately show "trim s = s"
    by (simp add: trim_def)
qed

lemma trimmed_trim: "trimmed (trim s)"
proof (cases "trim s = []")
  case True
  then show ?thesis by (simp add: trimmed_def)
next
  case False
  let ?a = "dropWhile is_ws s"
  let ?b = "dropWhile is_ws (rev ?a)"
  from False have ne: "?b \<noteq> []" by (simp add: trim_def trim_start_def)
  then have lst: "\<not> is_ws (last (rev ?b))"
    by (simp add: last_rev dropWhile_hd)
  obtain ys where ys: "rev ?a = ys @ ?b"
    by (metis takeWhile_dropWhile_id)
  then have a: "?a = rev ?b @ rev ys"
    by (metis rev_append rev_rev_ident)
  with ne have hd: "hd ?a = hd (rev ?b)" and "?a \<noteq> []"
    by (metis hd_append2 rev_is_Nil_conv, metis append_is_Nil_conv rev_is_Nil_conv)
  then have "\<not> is_ws (hd (rev ?b))"
    using dropWhile_hd [of is_ws s] by simp
  with lst show ?thesis
    by (simp add: trimmed_def trim_def trim_start_def)
qed

lemma trim_idem [simp]: "trim (trim s) = trim s"
  by (rule trim_trimmed_id [OF trimmed_trim])

lemma trim_Nil [simp]: "trim [] = []"
  by (simp add: trim_def trim_start_def)

lemma trim_no_ws: "\<forall>c \<in> set s. \<not> is_ws c \<Longrightarrow> trim s = s"
  by (rule trim_trimmed_id) (auto simp: trimmed_def)

lemma strip_trailing_last: "strip_trailing c s = [] \<or> last (strip_trailing c s) \<noteq> c"
proof -
  have "dropWhile (\<lambda>d. d = c) (rev s) \<noteq> [] \<Longrightarrow> hd (dropWhile (\<lambda>d. d = c) (rev s)) \<noteq> c"
    using dropWhile_hd [of "\<lambda>d. d = c" "rev s"] by simp
  then show ?thesis
    by (auto simp: strip_trailing_def last_rev)
qed

lemma strip_trailing_id: "s = [] \<or> last s \<noteq> c \<Longrightarrow> strip_trailing c s = s"
proof -
  assume "s = [] \<or> last s \<noteq> c"
  then have "dropWhile (\<lambda>d. d = c) (rev s) = rev s"
    by (auto simp: dropWhile_id_iff hd_rev)
  then show "strip_trailing c s = s" by (simp add: strip_trailing_def)
qed

lemma strip_trailing_subset: "set (strip_trailing c s) \<subseteq> set s"
  unfolding strip_trailing_def using set_dropWhile_subset [of "\<lambda>d. d = c" "rev s"] by auto

lemma split_by_ne [simp]: "split_by p s \<noteq> []"
  by (induction s) (auto split: list.splits)

lemma split_by_pieces: "w \<in> set (split_by p s) \<Longrightarrow> c \<in> set w \<Longrightarrow> \<not> p c"
  by (induction s arbitrary: w) (fastforce split: if_splits list.splits)+

lemma split_by_chars: "w \<in> set (split_by p s) \<Longrightarrow> set w \<subseteq> set s"
  by (induction s arbitrary: w) (fastforce split: if_splits list.splits)+

lemma split_by_append_sep:
  "\<forall>c \<in> set w. \<not> p c \<Longrightarrow> p d \<Longrightarrow> split_by p (w @ d # s) = w # split_by p s"
  by (induction w) auto

lemma split_by_no_sep: "\<forall>c \<in> set w. \<not> p c \<Longrightarrow> split_by p w = [w]"
  by (induction w) auto

lemma split_by_join:
  assumes "p sep" and "xs \<noteq> []" and "\<forall>x \<in> set xs. \<forall>c \<in> set x. \<not> p c"
  shows "split_by p (join [sep] xs) = xs"
  using assms(2,3)
proof (induction xs rule: induct_list012)
  case (3 x y zs)
  then show ?case
    using assms(1) by (simp add: split_by_append_sep)
qed (auto simp: split_by_no_sep)

lemma join_Cons: "xs \<noteq> [] \<Longrightarrow> join sep (x # xs) = x @ sep @ join sep xs"
  by (cases xs) auto

lemma join_split_on: "join [sep] (split_on sep s) = s"
proof -
  have "join [sep] (split_by (\<lambda>c. c = sep) s) = s"
  proof (induction s)
    case (Cons c cs)
    show ?case
    proof (cases "split_by (\<lambda>c. c = sep) cs")
      case (Cons w ws)
      with Cons.IH show ?thesis by (cases ws) auto
    qed simp
  qed simp
  then show ?thesis by (simp add: split_on_def)
qed

lemma split_runs_ne [simp]: "split_runs p s \<noteq> []"
  by (induction p s rule: split_runs.induct) (auto split: list.splits)

lemma split_runs_pieces: "w \<in> set (split_runs p s) \<Longrightarrow> c \<in> set w \<Longrightarrow> \<not> p c"
  by (induction p s arbitrary: w rule: split_runs.induct) (fastforce split: if_splits list.splits)+

lemma dropWhile_all: "\<forall>c \<in> set s. p c \<Longrightarrow> dropWhile p s = []"
  by simp

lemma split_runs_append_sep:
  "\<forall>c \<in> set w. \<not> p c \<Longrightarrow> p d \<Longrightarrow>
     split_runs p (w @ d # s) = w # split_runs p (dropWhile p s)"
  by (induction w) auto

lemma split_runs_no_sep: "\<forall>c \<in> set w. \<not> p c \<Longrightarrow> split_runs p w = [w]"
  by (induction w) auto

lemma split_runs_nonempty:
  "filter (\<lambda>w. w \<noteq> []) (split_runs p s) = filter (\<lambda>w. w \<noteq> []) (split_by p s)"
proof -
  have drop: "filter (\<lambda>w. w \<noteq> []) (split_by p (dropWhile p s)) = filter (\<lambda>w. w \<noteq> []) (split_by p s)"
    for p s by (induction s) auto
  have "filter (\<lambda>w. w \<noteq> []) (split_runs p s) = filter (\<lambda>w. w \<noteq> []) (split_by p s)
      \<and> hd (split_runs p s) = hd (split_by p s)"
  proof (induction p s rule: split_runs.induct)
    case (2 p c cs)
    show ?case
    proof (cases "p c")
      case True
      with 2 show ?thesis by (simp add: drop)
    next
      case False
      with 2 have IH: "filter (\<lambda>w. w \<noteq> []) (split_runs p cs) = filter (\<lambda>w. w \<noteq> []) (split_by p cs)"
        "hd (split_runs p cs) = hd (split_by p cs)" by auto
      obtain w ws where r: "split_runs p cs = w # ws"
        by (cases "split_runs p cs") auto
      obtain v vs where b: "split_by p cs = v # vs"
        by (cases "split_by p cs") auto
      from IH r b have "w = v" and "filter (\<lambda>w. w \<noteq> []) ws = filter (\<lambda>w. w \<noteq> []) vs"
        by (auto split: if_splits)
      with False r b show ?thesis by simp
    qed
  qed simp
  then show ?thesis by simp
qed

end
