(* ===== verification/Js_Number.thy ===== *)
theory Js_Number
  imports Complex_Main Js_Text
begin

text \<open>
  Numbers as the console uses them: the decimal rendering of integers (\<open>String(n)\<close>) and the
  reading of a string (\<open>Number(s)\<close>), with the rounding of a decimal literal to the nearest
  double. A finite number is its rational value, so the two zeros are one.
\<close>

datatype jnum = JNaN | JInf bool | JFin rat

section \<open>Decimal rendering\<close>

fun dec_digits :: "nat \<Rightarrow> jstr" where
  "dec_digits n =
     (if n < 10 then [48 + of_nat n] else dec_digits (n div 10) @ [48 + of_nat (n mod 10)])"

declare dec_digits.simps [simp del]

definition js_of_nat :: "nat \<Rightarrow> jstr" where
  "js_of_nat n = dec_digits n"

definition js_of_int :: "int \<Rightarrow> jstr" where
  "js_of_int i = (if i < 0 then 45 # dec_digits (nat (- i)) else dec_digits (nat i))"

section \<open>Rounding to a double\<close>

definition pow2 :: "int \<Rightarrow> rat" where
  "pow2 k = (if 0 \<le> k then 2 ^ nat k else 1 / 2 ^ nat (- k))"

definition exponent_of :: "rat \<Rightarrow> int" where
  \<comment> \<open>the \<open>e\<close> with \<open>2^e \<le> q < 2^(e+1)\<close>, for a positive \<open>q\<close>\<close>
  "exponent_of q =
     (let (a, b) = quotient_of q;
          k = bitlen a - bitlen b
      in if pow2 k \<le> q then k else k - 1)"

definition round_even :: "rat \<Rightarrow> int" where
  "round_even x =
     (let f = \<lfloor>x\<rfloor>; d = x - of_int f
      in if d < 1 / 2 \<or> (d = 1 / 2 \<and> even f) then f else f + 1)"

definition round_double :: "rat \<Rightarrow> rat" where
  "round_double q =
     (if q = 0 then 0
      else let u = pow2 (max (exponent_of q) (- 1022) - 52) in of_int (round_even (q / u)) * u)"

definition to_double :: "bool \<Rightarrow> rat \<Rightarrow> jnum" where
  "to_double neg q =
     (let r = round_double q
      in if 2 ^ 1024 \<le> r then JInf neg else JFin (if neg then - r else r))"

section \<open>Reading a number\<close>

definition digits_val :: "jstr \<Rightarrow> int" where
  "digits_val ds = foldl (\<lambda>n c. 10 * n + uint (c - 48)) 0 ds"

definition parse_exp :: "jstr \<Rightarrow> int option" where
  "parse_exp s =
     (case s of
        [] \<Rightarrow> Some 0
      | e # r \<Rightarrow>
          if e = 101 \<or> e = 69
          then (let neg = (r \<noteq> [] \<and> hd r = 45);
                    ds = (if r \<noteq> [] \<and> (hd r = 43 \<or> hd r = 45) then tl r else r)
                in if ds \<noteq> [] \<and> list_all is_digit ds
                   then Some (if neg then - digits_val ds else digits_val ds)
                   else None)
          else None)"

definition parse_decimal :: "jstr \<Rightarrow> rat option" where
  \<comment> \<open>an unsigned decimal literal: digits, an optional point and digits, an optional exponent\<close>
  "parse_decimal s =
     (let ip = takeWhile is_digit s;
          r = dropWhile is_digit s;
          dot = (r \<noteq> [] \<and> hd r = 46);
          fp = (if dot then takeWhile is_digit (tl r) else []);
          rest = (if dot then dropWhile is_digit (tl r) else r)
      in if ip = [] \<and> fp = [] then None
         else (case parse_exp rest of
                 None \<Rightarrow> None
               | Some e \<Rightarrow>
                   (let k = e - int (length fp); m = of_int (digits_val (ip @ fp))
                    in Some (if 0 \<le> k then m * 10 ^ nat k else m / 10 ^ nat (- k)))))"

definition hex_val :: "u16 \<Rightarrow> int option" where
  "hex_val c =
     (if is_digit c then Some (uint (c - 48))
      else if 97 \<le> c \<and> c \<le> 102 then Some (uint (c - 87))
      else if 65 \<le> c \<and> c \<le> 70 then Some (uint (c - 55))
      else None)"

definition parse_radix :: "int \<Rightarrow> jstr \<Rightarrow> int option" where
  "parse_radix b ds =
     (if ds = [] then None
      else foldl (\<lambda>acc c. case (acc, hex_val c) of
                            (Some n, Some v) \<Rightarrow> if v < b then Some (b * n + v) else None
                          | _ \<Rightarrow> None) (Some 0) ds)"

definition signed_number :: "bool \<Rightarrow> jstr \<Rightarrow> jnum" where
  "signed_number neg r =
     (if r = js ''Infinity'' then JInf neg
      else case parse_decimal r of None \<Rightarrow> JNaN | Some q \<Rightarrow> to_double neg q)"

definition radix_of :: "u16 \<Rightarrow> int option" where
  "radix_of x =
     (if x = 120 \<or> x = 88 then Some 16 else if x = 111 \<or> x = 79 then Some 8
      else if x = 98 \<or> x = 66 then Some 2 else None)"

definition js_number :: "jstr \<Rightarrow> jnum" where
  \<comment> \<open>\<open>Number(s)\<close>\<close>
  "js_number s =
     (case trim s of
        [] \<Rightarrow> JFin 0
      | c # r \<Rightarrow>
          if c = 43 then signed_number False r
          else if c = 45 then signed_number True r
          else (case (if c = 48 \<and> r \<noteq> [] then radix_of (hd r) else None) of
                  Some b \<Rightarrow> (case parse_radix b (tl r) of
                               None \<Rightarrow> JNaN | Some n \<Rightarrow> to_double False (of_int n))
                | None \<Rightarrow> signed_number False (c # r)))"

definition is_finite :: "jnum \<Rightarrow> bool" where
  "is_finite v = (case v of JFin _ \<Rightarrow> True | _ \<Rightarrow> False)"

definition safe_integer :: "jnum \<Rightarrow> int option" where
  \<comment> \<open>\<open>Number.isSafeInteger\<close>, with the integer\<close>
  "safe_integer v =
     (case v of
        JFin q \<Rightarrow> if of_int \<lfloor>q\<rfloor> = q \<and> \<bar>\<lfloor>q\<rfloor>\<bar> \<le> 2 ^ 53 - 1 then Some \<lfloor>q\<rfloor> else None
      | _ \<Rightarrow> None)"


section \<open>An integer survives rendering and reading\<close>

lemma digit_unit: "n < 10 \<Longrightarrow> is_digit (48 + of_nat n)"
  by (cases "n = 0 \<or> n = 1 \<or> n = 2 \<or> n = 3 \<or> n = 4 \<or> n = 5 \<or> n = 6 \<or> n = 7 \<or> n = 8 \<or> n = 9")
    (auto simp: is_digit_def)

lemma dec_digits_ne [simp]: "dec_digits n \<noteq> []"
  by (subst dec_digits.simps) simp

lemma dec_digits_all: "list_all is_digit (dec_digits n)"
proof (induction n rule: dec_digits.induct)
  case (1 n)
  then show ?case
    by (subst dec_digits.simps) (auto simp: digit_unit)
qed

lemma dec_digits_is_digit: "c \<in> set (dec_digits n) \<Longrightarrow> is_digit c"
  using dec_digits_all [of n] by (auto simp: list_all_iff)

lemma digit_unit_val': "n < 10 \<Longrightarrow> uint (of_nat n :: u16) = int n"
  by (simp add: unsigned_of_nat take_bit_eq_mod)

lemma digits_val_append: "digits_val (xs @ [c]) = 10 * digits_val xs + uint (c - 48)"
  by (simp add: digits_val_def)

lemma digits_val_dec: "digits_val (dec_digits n) = int n"
proof (induction n rule: dec_digits.induct)
  case (1 n)
  show ?case
  proof (cases "n < 10")
    case True
    then show ?thesis
      by (subst dec_digits.simps) (simp add: digits_val_def digit_unit_val')
  next
    case False
    with 1 have "digits_val (dec_digits (n div 10)) = int (n div 10)" by simp
    with False show ?thesis
      by (subst dec_digits.simps)
        (simp add: digits_val_append digit_unit_val' zdiv_int zmod_int)
  qed
qed

lemma digit_not_ws: "is_digit c \<Longrightarrow> \<not> is_ws c"
  unfolding is_digit_def is_ws_def by (auto simp: word_le_nat_alt)

lemma parse_decimal_dec: "parse_decimal (dec_digits n) = Some (of_nat n)"
proof -
  have all: "\<forall>c \<in> set (dec_digits n). is_digit c" by (auto dest: dec_digits_is_digit)
  then have tw: "takeWhile is_digit (dec_digits n) = dec_digits n"
    and dw: "dropWhile is_digit (dec_digits n) = []" by auto
  show ?thesis
    unfolding parse_decimal_def Let_def tw dw by (simp add: parse_exp_def digits_val_dec)
qed

lemma round_even_int [simp]: "round_even (of_int i) = i"
  by (simp add: round_even_def)

lemma exponent_of_nat:
  assumes "0 < n"
  shows "exponent_of (of_nat n) = bitlen (int n) - 1"
proof -
  have q: "quotient_of (of_nat n) = (int n, 1)"
    using quotient_of_int [of "int n"] by (simp add: Rat.of_int_def)
  have b: "1 \<le> bitlen (int n)"
    using assms bitlen_eq_zero_iff [of "int n"] bitlen_nonneg [of "int n"] by linarith
  have "(2::int) ^ nat (bitlen (int n) - 1) \<le> int n"
    using bitlen_bounds [of "int n"] assms by simp
  then have "(of_int (2 ^ nat (bitlen (int n) - 1)) :: rat) \<le> of_int (int n)"
    by (simp only: of_int_le_iff)
  with b have "pow2 (bitlen (int n) - 1) \<le> of_nat n"
    by (simp add: pow2_def)
  moreover have "bitlen 1 = 1" by (simp add: bitlen_def floorlog_def)
  ultimately show ?thesis
    by (simp add: exponent_of_def q)
qed

lemma round_double_nat:
  assumes "n < 2 ^ 53"
  shows "round_double (of_nat n) = of_nat n"
proof (cases "n = 0")
  case False
  then have pos: "0 < n" by simp
  define k where "k = 53 - bitlen (int n)"
  have "bitlen (int n) \<le> 53"
    using assms by (simp add: bitlen_le_iff_power)
  then have k0: "0 \<le> k" by (simp add: k_def)
  have b: "1 \<le> bitlen (int n)"
    using pos bitlen_eq_zero_iff [of "int n"] bitlen_nonneg [of "int n"] by linarith
  have u: "pow2 (max (exponent_of (of_nat n)) (- 1022) - 52) = 1 / 2 ^ nat k"
    using k0 b by (auto simp: exponent_of_nat [OF pos] k_def pow2_def)
  have "of_nat n / (1 / 2 ^ nat k) = (of_int (int n * 2 ^ nat k) :: rat)"
    by simp
  then have "round_even (of_nat n / (1 / 2 ^ nat k)) = int n * 2 ^ nat k"
    by (simp only: round_even_int)
  then have "round_double (of_nat n) = of_int (int n * 2 ^ nat k) * (1 / 2 ^ nat k)"
    using False unfolding round_double_def u Let_def by simp
  then show ?thesis by simp
qed (simp add: round_double_def)

lemma to_double_nat: "n < 2 ^ 53 \<Longrightarrow> to_double neg (of_nat n) = JFin (if neg then - of_nat n else of_nat n)"
proof -
  assume n: "n < 2 ^ 53"
  then have "(of_nat n :: rat) < of_nat (2 ^ 53)" by (simp only: of_nat_less_iff)
  also have "\<dots> \<le> 2 ^ 1024" by simp
  finally show ?thesis
    using n by (simp add: to_double_def round_double_nat)
qed

lemma signed_number_dec:
  "n < 2 ^ 53 \<Longrightarrow> signed_number neg (dec_digits n) = JFin (if neg then - of_nat n else of_nat n)"
proof -
  assume n: "n < 2 ^ 53"
  have "is_digit (hd (dec_digits n))" by (rule dec_digits_is_digit [where n = n]) simp
  moreover have "\<not> is_digit (hd (js ''Infinity''))" by (simp add: text_eval unit_simps)
  ultimately have "dec_digits n \<noteq> js ''Infinity''" by metis
  with n show ?thesis
    by (simp add: signed_number_def parse_decimal_dec to_double_nat)
qed

lemma radix_of_digit: "is_digit c \<Longrightarrow> radix_of c = None"
  by (auto simp: radix_of_def is_digit_def word_le_nat_alt)

lemma js_number_dec: "n < 2 ^ 53 \<Longrightarrow> js_number (dec_digits n) = JFin (of_nat n)"
proof -
  assume n: "n < 2 ^ 53"
  have all: "\<forall>c \<in> set (dec_digits n). is_digit c" by (auto dest: dec_digits_is_digit)
  then have t: "trim (dec_digits n) = dec_digits n"
    by (intro trim_no_ws) (auto dest: digit_not_ws)
  obtain c r where cr: "dec_digits n = c # r" by (cases "dec_digits n") auto
  with all have c: "is_digit c" and r: "r \<noteq> [] \<Longrightarrow> is_digit (hd r)" by auto
  from c have "c \<noteq> 43" and "c \<noteq> 45" by (auto simp: is_digit_def)
  with r show ?thesis
    using signed_number_dec [OF n, of False]
    using t cr by (auto simp: js_number_def radix_of_digit)
qed

lemma js_number_neg_dec: "n < 2 ^ 53 \<Longrightarrow> js_number (45 # dec_digits n) = JFin (- of_nat n)"
proof -
  assume n: "n < 2 ^ 53"
  have "trim (45 # dec_digits n) = 45 # dec_digits n"
    by (intro trim_no_ws) (auto dest!: dec_digits_is_digit digit_not_ws simp: is_ws_def)
  then show ?thesis
    using signed_number_dec [OF n, of True] by (simp add: js_number_def)
qed

theorem js_number_of_int:
  assumes "\<bar>i\<bar> \<le> 2 ^ 53 - 1"
  shows "js_number (js_of_int i) = JFin (of_int i)"
proof (cases "i < 0")
  case True
  then have n: "nat (- i) < 2 ^ 53" using assms by simp
  from True js_number_neg_dec [OF n] show ?thesis by (simp add: js_of_int_def)
next
  case False
  then have n: "nat i < 2 ^ 53" using assms by simp
  from False js_number_dec [OF n] show ?thesis by (simp add: js_of_int_def)
qed

lemma safe_integer_of_int: "\<bar>i\<bar> \<le> 2 ^ 53 - 1 \<Longrightarrow> safe_integer (JFin (of_int i)) = Some i"
  by (simp add: safe_integer_def)

lemma js_of_int_ne [simp]: "js_of_int i \<noteq> []"
  by (simp add: js_of_int_def)

lemma js_of_int_inj: "js_of_int i = js_of_int j \<Longrightarrow> i = j"
proof -
  have d: "dec_digits m = dec_digits n \<Longrightarrow> m = n" for m n
    by (metis digits_val_dec of_nat_eq_iff)
  have m: "45 # x \<noteq> dec_digits n" for x n
  proof
    assume "45 # x = dec_digits n"
    then have "45 \<in> set (dec_digits n)" by (metis list.set_intros(1))
    from dec_digits_is_digit [OF this] show False by (simp add: is_digit_def)
  qed
  assume eq: "js_of_int i = js_of_int j"
  show "i = j"
  proof (cases "i < 0")
    case True
    with eq m have "j < 0" unfolding js_of_int_def by (metis (full_types))
    with True eq have "nat (- i) = nat (- j)" by (intro d) (simp add: js_of_int_def)
    with True \<open>j < 0\<close> show ?thesis by simp
  next
    case False
    with eq m have "\<not> j < 0" unfolding js_of_int_def by (metis (full_types))
    with False eq have "nat i = nat j" by (intro d) (simp add: js_of_int_def)
    with False \<open>\<not> j < 0\<close> show ?thesis by simp
  qed
qed

end
