(* ===== verification/Js_Value.thy ===== *)
theory Js_Value
  imports Js_Number
begin

text \<open>
  Dynamic values: JSON payloads, what a rejected promise carries, the truthiness tests of the
  source, and the two percent encodings the client applies to text it puts into a URL
  (\<open>encodeURIComponent\<close> for a path segment, \<open>URLSearchParams\<close> for a query string), both over
  the UTF-8 bytes of the code points of a UTF-16 string.
\<close>

section \<open>Payloads and outcomes\<close>

datatype json =
    JNull
  | JBool bool
  | JNum jnum
  | JText jstr
  | JArr "json list"
  | JObj "(jstr \<times> json) list"

text \<open>
  What a promise rejects with: an \<open>ApiError\<close> of the client (message, status, code, details),
  a plain \<open>Error\<close> with its message, or a thrown value that is no \<open>Error\<close>. The result of an
  asynchronous call is a sum: \<open>Inl\<close> the rejection, \<open>Inr\<close> the resolved value.
\<close>

datatype exn =
    ApiError (exn_message: jstr) (exn_status: int) (exn_code: jstr) (exn_details: "json option")
  | PlainError jstr
  | Thrown

type_synonym 'a promise = "exn + 'a"

definition or_else :: "jstr \<Rightarrow> jstr \<Rightarrow> jstr" where
  \<comment> \<open>\<open>a || b\<close> on strings: the empty string is falsy\<close>
  "or_else a b = (if a = [] then b else a)"

definition text_or_empty :: "jstr option \<Rightarrow> jstr" where
  \<comment> \<open>\<open>a || ""\<close> on an optional string\<close>
  "text_or_empty a = (case a of None \<Rightarrow> [] | Some s \<Rightarrow> s)"

definition jint :: "int \<Rightarrow> json" where
  "jint n = JNum (JFin (of_int n))"

fun opt_field :: "string \<Rightarrow> json option \<Rightarrow> (jstr \<times> json) list" where
  \<comment> \<open>a property whose value is \<open>undefined\<close> is left out by \<open>JSON.stringify\<close>\<close>
  "opt_field k None = []"
| "opt_field k (Some v) = [(js k, v)]"

lemma or_else_simps [simp]:
  "or_else [] b = b" "a \<noteq> [] \<Longrightarrow> or_else a b = a"
  "or_else a b = [] \<longleftrightarrow> a = [] \<and> b = []"
  by (auto simp: or_else_def)

lemma text_or_empty_simps [simp]:
  "text_or_empty None = []" "text_or_empty (Some s) = s"
  by (auto simp: text_or_empty_def)

section \<open>Code points and UTF-8\<close>

definition is_high :: "u16 \<Rightarrow> bool" where
  [unit_simps]: "is_high c \<longleftrightarrow> 0xD800 \<le> c \<and> c \<le> 0xDBFF"

definition is_low :: "u16 \<Rightarrow> bool" where
  [unit_simps]: "is_low c \<longleftrightarrow> 0xDC00 \<le> c \<and> c \<le> 0xDFFF"

fun code_points :: "jstr \<Rightarrow> int option list" where
  \<comment> \<open>\<open>None\<close> is a lone surrogate\<close>
  "code_points [] = []"
| "code_points [c] = [if is_high c \<or> is_low c then None else Some (uint c)]"
| "code_points (h # l # s) =
     (if is_high h \<and> is_low l
      then Some (0x10000 + (uint h - 0xD800) * 0x400 + (uint l - 0xDC00)) # code_points s
      else (if is_high h \<or> is_low h then None else Some (uint h)) # code_points (l # s))"

definition utf8 :: "int \<Rightarrow> int list" where
  "utf8 p =
     (if p < 0x80 then [p]
      else if p < 0x800 then [0xC0 + p div 64, 0x80 + p mod 64]
      else if p < 0x10000 then [0xE0 + p div 4096, 0x80 + p div 64 mod 64, 0x80 + p mod 64]
      else [0xF0 + p div 262144, 0x80 + p div 4096 mod 64, 0x80 + p div 64 mod 64, 0x80 + p mod 64])"

definition hex_digit :: "int \<Rightarrow> u16" where
  "hex_digit d = (if d < 10 then 48 + of_int d else 55 + of_int d)"

definition pct :: "int \<Rightarrow> jstr" where
  "pct b = [37, hex_digit (b div 16), hex_digit (b mod 16)]"

section \<open>Percent encodings\<close>

definition uri_unreserved :: "u16 \<Rightarrow> bool" where
  \<comment> \<open>letters, digits and \<open>- _ . ! ~ * ' ( )\<close>\<close>
  "uri_unreserved c \<longleftrightarrow> is_alnum c \<or> c \<in> {45, 95, 46, 33, 126, 42, 39, 40, 41}"

definition form_unreserved :: "u16 \<Rightarrow> bool" where
  \<comment> \<open>letters, digits and \<open>* - . _\<close>\<close>
  "form_unreserved c \<longleftrightarrow> is_alnum c \<or> c \<in> {42, 45, 46, 95}"

definition enc_point :: "int \<Rightarrow> jstr" where
  "enc_point p =
     (if p < 0x80 \<and> uri_unreserved (of_int p) then [of_int p] else concat (map pct (utf8 p)))"

definition encode_component :: "jstr \<Rightarrow> jstr promise" where
  \<comment> \<open>\<open>encodeURIComponent\<close>: a lone surrogate throws a \<open>URIError\<close>\<close>
  "encode_component s =
     (if None \<in> set (code_points s) then Inl (PlainError (js ''URI malformed''))
      else Inr (concat (map (\<lambda>p. enc_point (the p)) (code_points s))))"

definition form_point :: "int option \<Rightarrow> jstr" where
  \<comment> \<open>a lone surrogate is replaced by U+FFFD\<close>
  "form_point q =
     (let p = (case q of None \<Rightarrow> 0xFFFD | Some p \<Rightarrow> p)
      in if p = 32 then [43]
         else if p < 0x80 \<and> form_unreserved (of_int p) then [of_int p]
         else concat (map pct (utf8 p)))"

definition form_encode :: "jstr \<Rightarrow> jstr" where
  "form_encode s = concat (map form_point (code_points s))"

section \<open>What the encodings can contain\<close>

lemma hex_digit_alnum:
  assumes "0 \<le> d" "d < 16"
  shows "is_alnum (hex_digit d)"
proof -
  have "d = 0 \<or> d = 1 \<or> d = 2 \<or> d = 3 \<or> d = 4 \<or> d = 5 \<or> d = 6 \<or> d = 7 \<or> d = 8 \<or> d = 9 \<or> d = 10 \<or> d = 11 \<or> d = 12 \<or> d = 13 \<or> d = 14 \<or> d = 15"
    using assms by presburger
  then show ?thesis by (auto simp: hex_digit_def unit_simps)
qed

lemma pct_chars: "0 \<le> b \<Longrightarrow> b < 256 \<Longrightarrow> c \<in> set (pct b) \<Longrightarrow> c = 37 \<or> is_alnum c"
proof -
  assume b: "0 \<le> b" "b < 256" and c: "c \<in> set (pct b)"
  have "0 \<le> b div 16 \<and> b div 16 < 16 \<and> 0 \<le> b mod 16 \<and> b mod 16 < 16"
    using b by presburger
  with c hex_digit_alnum show ?thesis by (auto simp: pct_def)
qed

lemma utf8_bytes: "0 \<le> p \<Longrightarrow> p < 0x110000 \<Longrightarrow> b \<in> set (utf8 p) \<Longrightarrow> 0 \<le> b \<and> b < 256"
  by (auto simp: utf8_def split: if_splits)

lemma surrogate_bounds:
  "is_high h \<Longrightarrow> 0xD800 \<le> uint h \<and> uint h \<le> 0xDBFF"
  "is_low l \<Longrightarrow> 0xDC00 \<le> uint l \<and> uint l \<le> 0xDFFF"
  by (simp_all add: is_high_def is_low_def word_le_def)

lemma code_points_range: "Some p \<in> set (code_points s) \<Longrightarrow> 0 \<le> p \<and> p < 0x110000"
proof (induction s rule: code_points.induct)
  case (2 c)
  then show ?case using uint_lt2p [of c] by (auto split: if_splits)
next
  case (3 h l s)
  then show ?case
    using uint_lt2p [of h] surrogate_bounds(1) [of h] surrogate_bounds(2) [of l]
    by (auto split: if_splits)
qed simp

lemma enc_point_chars:
  assumes "0 \<le> p" "p < 0x110000" "c \<in> set (enc_point p)"
  shows "c = 37 \<or> uri_unreserved c"
proof (cases "p < 0x80 \<and> uri_unreserved (of_int p)")
  case True
  with assms show ?thesis by (simp add: enc_point_def)
next
  case False
  with assms obtain b where "b \<in> set (utf8 p)" "c \<in> set (pct b)"
    by (auto simp: enc_point_def)
  with assms utf8_bytes pct_chars show ?thesis
    by (metis uri_unreserved_def)
qed

theorem encode_component_chars:
  "encode_component s = Inr r \<Longrightarrow> c \<in> set r \<Longrightarrow> c = 37 \<or> uri_unreserved c"
proof -
  assume e: "encode_component s = Inr r" and c: "c \<in> set r"
  then have n: "None \<notin> set (code_points s)"
    and r: "r = concat (map (\<lambda>p. enc_point (the p)) (code_points s))"
    by (auto simp: encode_component_def split: if_splits)
  from r c obtain q where q: "q \<in> set (code_points s)" "c \<in> set (enc_point (the q))" by auto
  with n obtain p where "q = Some p" by (cases q) auto
  with q show ?thesis using enc_point_chars [of p c] code_points_range [of p s] by simp
qed

lemma form_point_chars:
  assumes "\<And>p. q = Some p \<Longrightarrow> 0 \<le> p \<and> p < 0x110000" and "c \<in> set (form_point q)"
  shows "c = 37 \<or> c = 43 \<or> form_unreserved c"
proof -
  define p where "p = (case q of None \<Rightarrow> 0xFFFD | Some p \<Rightarrow> p)"
  have p: "0 \<le> p" "p < 0x110000" using assms(1) by (auto simp: p_def split: option.splits)
  show ?thesis
  proof (cases "p = 32 \<or> p < 0x80 \<and> form_unreserved (of_int p)")
    case True
    with assms(2) show ?thesis by (auto simp: form_point_def p_def [symmetric] split: if_splits)
  next
    case False
    with assms(2) obtain b where "b \<in> set (utf8 p)" "c \<in> set (pct b)"
      by (auto simp: form_point_def p_def [symmetric])
    with p utf8_bytes pct_chars show ?thesis by (metis form_unreserved_def)
  qed
qed

lemma form_encode_chars: "c \<in> set (form_encode s) \<Longrightarrow> c = 37 \<or> c = 43 \<or> form_unreserved c"
proof -
  assume "c \<in> set (form_encode s)"
  then obtain q where "q \<in> set (code_points s)" "c \<in> set (form_point q)"
    by (auto simp: form_encode_def)
  then show ?thesis using form_point_chars [of q c] code_points_range [of _ s] by blast
qed

end
