(* ===== verification/Api_Types.thy ===== *)
theory Api_Types
  imports Js_Value
begin

text \<open>
  The data of \<open>web/src/lib/api-client.ts\<close>: one record per exported object type, in the
  order of the file, one datatype per closed vocabulary the console itself chooses from.
  An optional property is an \<open>option\<close>. Values the API chooses from an open set (roles,
  statuses, devices, actions) stay strings, as the client treats them.
\<close>

section \<open>Accounts, second factor, roles\<close>

record admin_user =
  au_id :: "jstr option"
  au_username :: jstr
  au_role :: "jstr option"
  au_scopes :: "jstr list option"
  au_unrestricted :: "bool option"
  au_mfa_enabled :: "bool option"
  au_display_name :: "jstr option"

record account_record =
  ac_id :: jstr
  ac_username :: jstr
  ac_role :: jstr
  ac_disabled :: bool
  ac_auth_source :: jstr
  ac_auth_provider :: "jstr option"
  ac_mfa_enabled :: bool
  ac_created_at :: jstr

record mfa_status =
  ms_available :: bool
  ms_enabled :: bool
  ms_pending :: bool
  ms_codes_remaining :: int

record mfa_enrollment =
  me_secret :: jstr
  me_otpauth_url :: jstr
  me_qr :: jstr

record login_response =
  lr_user :: "admin_user option"
  lr_csrf_token :: "jstr option"
  lr_mfa_required :: "bool option"
  lr_challenge :: "jstr option"

record role_record =
  rr_name :: jstr
  rr_scopes :: "jstr list"
  rr_unrestricted :: bool

section \<open>Sign-in providers\<close>

record oidc_provider =
  op_id :: jstr
  op_slug :: jstr
  op_display_name :: jstr
  op_issuer :: jstr
  op_client_id :: jstr
  op_has_secret :: bool
  op_scopes :: "jstr list"
  op_auto_provision :: bool
  op_enabled :: bool
  op_identity_count :: int
  op_created_at :: jstr
  op_updated_at :: jstr

record public_provider =
  pp_slug :: jstr
  pp_display_name :: jstr

record oidc_input =
  oi_slug :: "jstr option"
  oi_display_name :: "jstr option"
  oi_issuer :: "jstr option"
  oi_client_id :: "jstr option"
  oi_client_secret :: "jstr option"
  oi_scopes :: "jstr list option"
  oi_auto_provision :: "bool option"
  oi_enabled :: "bool option"

section \<open>Links\<close>

record link_rule =
  ru_id :: "jstr option"
  ru_position :: int
  ru_match_type :: jstr
  ru_match_value :: jstr
  ru_destination :: jstr
  ru_redirect_code :: int

record rule_input =
  ri_match_type :: jstr
  ri_match_value :: jstr
  ri_destination :: jstr
  ri_redirect_code :: int

record link_record =
  lk_id :: jstr
  lk_alias :: jstr
  lk_destination :: jstr
  lk_title :: jstr
  lk_tags :: "jstr list"
  lk_redirect_code :: int
  lk_status :: jstr
  lk_version :: int
  lk_expires_at :: "jstr option"
  lk_created_at :: jstr
  lk_updated_at :: jstr
  lk_clicks :: "int option"
  lk_checked_at :: "jstr option"
  lk_status_code :: "int option"
  lk_rules :: "link_rule list option"
  lk_domain :: "jstr option"
  lk_interstitial :: int

record link_health =
  lh_checked_at :: jstr
  lh_status_code :: int
  lh_ok :: bool
  lh_error :: "jstr option"

datatype bulk_action = BDelete | BDisable | BEnable | BTag | BUntag | BSetExpiry

record bulk_input =
  bi_action :: bulk_action
  bi_ids :: "jstr list"
  bi_tags :: "jstr list option"
  bi_expires_at :: "jstr option"

record link_input =
  li_destination :: "jstr option"
  li_alias :: "jstr option"
  li_title :: "jstr option"
  li_tags :: "jstr list option"
  li_redirect_code :: "jnum option"
  li_expires_at :: "jstr option"
  li_rules :: "rule_input list option"
  li_domain :: "jstr option"
  li_interstitial :: "jnum option"
  li_status :: "jstr option"

record app_config =
  cf_short_domains :: "jstr list"
  cf_default_domain :: jstr

section \<open>Tracking, CAPTCHA and runtime settings\<close>

record analytics_input =
  an_ga4 :: jstr
  an_gtm :: jstr
  an_google_tag :: jstr
  an_matomo_url :: jstr
  an_matomo_site :: jstr
  an_clarity :: jstr

record analytics_settings = analytics_input +
  an_updated_at :: jstr

record captcha_settings =
  cs_provider :: jstr
  cs_enabled :: bool
  cs_site_key :: jstr
  cs_has_secret :: bool
  cs_hostname :: jstr
  cs_action :: jstr
  cs_updated_at :: jstr

record public_captcha =
  pc_enabled :: bool
  pc_provider :: jstr
  pc_site_key :: jstr
  pc_registration_enabled :: bool

record runtime_input =
  rt_alias_mode :: jstr
  rt_unique_urls :: bool
  rt_registration_enabled :: bool
  rt_totp_enabled :: bool
  rt_count_bots :: bool
  rt_forward_query :: bool
  rt_fallback_url :: jstr
  rt_auto_prune :: bool
  rt_prune_grace :: int
  rt_max_links :: int
  rt_denylist :: "jstr list"
  rt_short_domains :: "jstr list"
  rt_health_enabled :: bool
  rt_health_interval :: int
  rt_rate_enabled :: bool
  rt_rate_login :: int
  rt_rate_api :: int
  rt_rate_redirect :: int
  rt_rate_register :: int
  rt_rate_2fa :: int
  rt_rate_oidc :: int

record runtime_settings = runtime_input +
  rt_revision :: int
  rt_updated_at :: jstr

record captcha_input =
  ci_enabled :: "bool option"
  ci_site_key :: "jstr option"
  ci_secret :: "jstr option"
  ci_hostname :: "jstr option"
  ci_action :: "jstr option"

section \<open>Tags, import, audit, lists\<close>

record tag_stat =
  ts_name :: jstr
  ts_links :: int

record import_error =
  ie_line :: int
  ie_alias :: "jstr option"
  ie_reason :: jstr

record import_report =
  ir_created :: int
  ir_failed :: int
  ir_errors :: "import_error list"

record audit_entry =
  ae_id :: jstr
  ae_user_id :: "jstr option"
  ae_username :: "jstr option"
  ae_action :: jstr
  ae_resource_type :: "jstr option"
  ae_resource_id :: "jstr option"
  ae_metadata :: "(jstr \<times> json) list option"
  ae_created_at :: jstr

record audit_page =
  ap_entries :: "audit_entry list option"
  ap_total :: "int option"
  ap_limit :: int
  ap_offset :: int

record link_list_record = link_record +
  lk_short_url :: jstr

record link_page =
  lp_links :: "link_list_record list option"
  lp_total :: "int option"
  lp_limit :: int
  lp_offset :: int

datatype link_sort = CreatedDesc | CreatedAsc | AliasAsc | AliasDesc | ClicksDesc | ClicksAsc

datatype status_filter = FAll | FActive | FDisabled | FExpired

record list_params =
  pa_limit :: "int option"
  pa_offset :: "int option"
  pa_sort :: "link_sort option"
  pa_status :: "status_filter option"
  pa_search :: "jstr option"
  pa_tag :: "jstr option"

section \<open>Statistics and tokens\<close>

record stats_summary =
  ss_total_links :: int
  ss_total_clicks :: int

record daily_stat =
  ds_day :: jstr
  ds_clicks :: int

record referrer_stat =
  rs_referrer :: jstr
  rs_clicks :: int

record link_stats =
  lx_total_clicks :: int
  lx_daily :: "daily_stat list"
  lx_referrers :: "referrer_stat list"

record date_range =
  dr_from :: jstr
  dr_to :: jstr

record trend_point =
  tp_day :: jstr
  tp_clicks :: int

record device_stat =
  dv_device :: jstr
  dv_clicks :: int

record recent_click =
  rc_link_id :: jstr
  rc_alias :: jstr
  rc_occurred_at :: jstr
  rc_referrer :: jstr
  rc_user_agent :: jstr

record click_page =
  cp_clicks :: "recent_click list option"
  cp_total :: int
  cp_limit :: int
  cp_offset :: int
  cp_from :: jstr
  cp_to :: jstr

record stats_overview =
  so_total_links :: int
  so_total_clicks :: int
  so_unique_visitors :: int
  so_trend :: "trend_point list"
  so_referrers :: "referrer_stat list"
  so_devices :: "device_stat list"
  so_recent_clicks :: "recent_click list"
  so_from :: jstr
  so_to :: jstr
  so_ip_mode :: jstr

record token_record =
  tk_id :: jstr
  tk_name :: jstr
  tk_prefix :: jstr
  tk_scopes :: "jstr list option"
  tk_created_at :: jstr

section \<open>The vocabularies as the wire spells them\<close>

fun bulk_action_text :: "bulk_action \<Rightarrow> jstr" where
  "bulk_action_text BDelete = js ''delete''"
| "bulk_action_text BDisable = js ''disable''"
| "bulk_action_text BEnable = js ''enable''"
| "bulk_action_text BTag = js ''tag''"
| "bulk_action_text BUntag = js ''untag''"
| "bulk_action_text BSetExpiry = js ''set_expiry''"

fun link_sort_text :: "link_sort \<Rightarrow> jstr" where
  "link_sort_text CreatedDesc = js ''created_at_desc''"
| "link_sort_text CreatedAsc = js ''created_at_asc''"
| "link_sort_text AliasAsc = js ''alias_asc''"
| "link_sort_text AliasDesc = js ''alias_desc''"
| "link_sort_text ClicksDesc = js ''clicks_desc''"
| "link_sort_text ClicksAsc = js ''clicks_asc''"

fun status_filter_text :: "status_filter \<Rightarrow> jstr" where
  "status_filter_text FAll = js ''all''"
| "status_filter_text FActive = js ''active''"
| "status_filter_text FDisabled = js ''disabled''"
| "status_filter_text FExpired = js ''expired''"

lemma link_sort_text_inj: "link_sort_text a = link_sort_text b \<Longrightarrow> a = b"
  by (cases a; cases b) simp_all

lemma bulk_action_text_inj: "bulk_action_text a = bulk_action_text b \<Longrightarrow> a = b"
  by (cases a; cases b) simp_all

end
