(* ===== verification/Api_Client.thy ===== *)
theory Api_Client
  imports Api_Types "HOL-Library.AList"
begin

text \<open>
  \<open>web/src/lib/api-client.ts\<close> below its types: the transport (\<open>request\<close>, with the CSRF token
  it keeps in a module variable, the messages it sends and the ways it fails), the payload
  helpers, and the whole \<open>api\<close> object as a datatype of calls with the request each one issues.

  The network is the environment: what \<open>fetch\<close> answers is an argument. A response body is
  given by what \<open>json()\<close> and \<open>text()\<close> return, \<open>None\<close> when they reject.
\<close>

section \<open>Requests and responses\<close>

datatype req_body = BJson json | BRaw jstr

record req_options =
  ro_method :: "jstr option"
  ro_headers :: "(jstr \<times> jstr) list"
  ro_body :: "req_body option"

record http_request =
  hq_url :: jstr
  hq_method :: "jstr option"
  hq_headers :: "(jstr \<times> jstr) list"
  hq_body :: "req_body option"

record http_response =
  hr_status :: int
  hr_ctype :: "jstr option"
  hr_json :: "json option"
  hr_text :: "jstr option"

record client_env =
  ce_base :: jstr
  ce_location :: "jstr option"

datatype navigation = NoNavigation | ReplaceLocation jstr

record sent_result =
  sr_csrf :: jstr
  sr_sent :: "http_request list"
  sr_navigation :: navigation
  sr_outcome :: "json option promise"

definition response_ok :: "http_response \<Rightarrow> bool" where
  "response_ok r \<longleftrightarrow> 200 \<le> hr_status r \<and> hr_status r \<le> 299"

definition api_base_url :: "jstr option \<Rightarrow> jstr" where
  \<comment> \<open>\<open>API_BASE_URL\<close>, from the build-time variable\<close>
  "api_base_url v = strip_one 47 (text_or_empty v)"

definition pre_session_paths :: "jstr list" where
  "pre_session_paths =
     [js ''/api/v1/auth/login'', js ''/api/v1/auth/register'', js ''/api/v1/auth/2fa/verify'']"

section \<open>Reading a payload\<close>

fun prop_of :: "json \<Rightarrow> string \<Rightarrow> json option" where
  \<comment> \<open>\<open>(payload as {k?: unknown}).k\<close> on an object; \<open>None\<close> is \<open>undefined\<close>\<close>
  "prop_of (JObj fs) k = map_of fs (js k)"
| "prop_of _ k = None"

fun is_object :: "json \<Rightarrow> bool" where
  \<comment> \<open>\<open>typeof v === "object" && v !== null\<close>\<close>
  "is_object (JObj _) = True"
| "is_object (JArr _) = True"
| "is_object _ = False"

definition prop_text :: "json \<Rightarrow> string \<Rightarrow> jstr" where
  \<comment> \<open>the property when it is a string, else the empty string\<close>
  "prop_text v k = (case prop_of v k of Some (JText s) \<Rightarrow> s | _ \<Rightarrow> [])"

definition server_message :: "json option \<Rightarrow> jstr" where
  "server_message p =
     (case p of
        None \<Rightarrow> []
      | Some (JText s) \<Rightarrow> trim s
      | Some v \<Rightarrow>
          if \<not> is_object v then []
          else (let inner = (case prop_of v ''error'' of
                               Some e \<Rightarrow> if is_object e then prop_text e ''message'' else []
                             | None \<Rightarrow> [])
                in if inner \<noteq> [] then inner else prop_text v ''message''))"

definition server_code :: "json option \<Rightarrow> jstr" where
  "server_code p =
     (case p of
        None \<Rightarrow> []
      | Some v \<Rightarrow>
          if \<not> is_object v then []
          else (case prop_of v ''error'' of
                  Some e \<Rightarrow> if is_object e then prop_text e ''code'' else []
                | None \<Rightarrow> []))"

fun csrf_of_payload :: "jstr \<Rightarrow> json option \<Rightarrow> jstr" where
  \<comment> \<open>the token an answer of \<open>/auth/csrf\<close> leaves behind; a body that does not parse, or is
      \<open>null\<close>, throws and is caught, so the old token stays\<close>
  "csrf_of_payload old None = old"
| "csrf_of_payload old (Some JNull) = old"
| "csrf_of_payload old (Some v) = prop_text v ''token''"

section \<open>The transport\<close>

definition set_header :: "string \<Rightarrow> jstr \<Rightarrow> (jstr \<times> jstr) list \<Rightarrow> (jstr \<times> jstr) list" where
  "set_header k v hs = AList.update (js k) v hs"

definition is_mutation :: "req_options \<Rightarrow> bool" where
  "is_mutation o1 \<longleftrightarrow>
     (case ro_method o1 of
        None \<Rightarrow> False
      | Some m \<Rightarrow> m \<noteq> [] \<and> to_upper m \<notin> {js ''GET'', js ''HEAD'', js ''OPTIONS''})"

definition base_headers :: "req_options \<Rightarrow> (jstr \<times> jstr) list" where
  "base_headers o1 =
     (case ro_body o1 of
        Some (BJson _) \<Rightarrow> set_header ''content-type'' (js ''application/json'') (ro_headers o1)
      | _ \<Rightarrow> ro_headers o1)"

definition csrf_request :: "client_env \<Rightarrow> http_request" where
  "csrf_request env =
     \<lparr>hq_url = ce_base env @ js ''/api/v1/auth/csrf'', hq_method = None, hq_headers = [], hq_body = None\<rparr>"

definition needs_csrf_fetch :: "jstr \<Rightarrow> jstr \<Rightarrow> req_options \<Rightarrow> bool" where
  "needs_csrf_fetch csrf path o1 \<longleftrightarrow>
     is_mutation o1 \<and> csrf = [] \<and> path \<notin> set pre_session_paths"

definition csrf_after_fetch :: "jstr \<Rightarrow> http_response promise \<Rightarrow> jstr" where
  "csrf_after_fetch csrf answer =
     (case answer of
        Inl _ \<Rightarrow> csrf
      | Inr r \<Rightarrow> if response_ok r then csrf_of_payload csrf (hr_json r) else csrf)"

definition read_payload :: "http_response \<Rightarrow> json option" where
  "read_payload r =
     (if has_sub (text_or_empty (hr_ctype r)) (js ''application/json'') then hr_json r
      else map_option JText (hr_text r))"

definition failure_of :: "client_env \<Rightarrow> jstr \<Rightarrow> http_response \<Rightarrow> navigation \<times> exn" where
  \<comment> \<open>the branch of a response that is not ok\<close>
  "failure_of env path r =
     (let payload = read_payload r in
      case ce_location env of
        Some here \<Rightarrow>
          if hr_status r = 401 \<and> path \<notin> set pre_session_paths
          then (if prefix (js ''/login'') here then NoNavigation else ReplaceLocation (js ''/login''),
                ApiError (js ''Your session has expired. Please sign in again.'') 401
                  (js ''session_expired'') payload)
          else (NoNavigation,
                ApiError (or_else (server_message payload)
                    (js ''Request failed ('' @ js_of_int (hr_status r) @ js '').''))
                  (hr_status r) (or_else (server_code payload) (js ''http_error'')) payload)
      | None \<Rightarrow>
          (NoNavigation,
           ApiError (or_else (server_message payload)
               (js ''Request failed ('' @ js_of_int (hr_status r) @ js '').''))
             (hr_status r) (or_else (server_code payload) (js ''http_error'')) payload))"

definition request_run ::
  "client_env \<Rightarrow> jstr \<Rightarrow> jstr \<Rightarrow> req_options \<Rightarrow> http_response promise \<Rightarrow> http_response promise
     \<Rightarrow> sent_result" where
  \<comment> \<open>\<open>request(path, options)\<close> in a client whose token is \<open>csrf\<close>; the two answers are those of
      the token fetch, when there is one, and of the request itself\<close>
  "request_run env csrf path o1 csrf_answer answer =
     (let fetched = needs_csrf_fetch csrf path o1;
          csrf' = (if fetched then csrf_after_fetch csrf csrf_answer else csrf);
          headers = (if is_mutation o1 \<and> csrf' \<noteq> []
                     then set_header ''x-csrf-token'' csrf' (base_headers o1)
                     else base_headers o1);
          rq = \<lparr>hq_url = ce_base env @ path, hq_method = ro_method o1, hq_headers = headers,
                hq_body = ro_body o1\<rparr>;
          sent = (if fetched then [csrf_request env] else []) @ [rq]
      in case answer of
           Inl _ \<Rightarrow>
             \<lparr>sr_csrf = csrf', sr_sent = sent, sr_navigation = NoNavigation,
              sr_outcome = Inl (ApiError (js ''Cannot reach the API server. Check the backend address.'')
                                  0 (js ''network'') None)\<rparr>
         | Inr r \<Rightarrow>
             if response_ok r
             then \<lparr>sr_csrf = csrf', sr_sent = sent, sr_navigation = NoNavigation,
                   sr_outcome = Inr (read_payload r)\<rparr>
             else (let f = failure_of env path r
                   in \<lparr>sr_csrf = csrf', sr_sent = sent, sr_navigation = fst f,
                       sr_outcome = Inl (snd f)\<rparr>))"

section \<open>Payload helpers\<close>

definition unwrap_key :: "json option \<Rightarrow> string \<Rightarrow> json option" where
  \<comment> \<open>\<open>unwrapKey\<close>: the named member of an envelope, or the payload itself\<close>
  "unwrap_key p k =
     (case p of
        Some (JObj fs) \<Rightarrow> (case map_of fs (js k) of Some v \<Rightarrow> Some v | None \<Rightarrow> p)
      | _ \<Rightarrow> p)"

fun falsy :: "json option \<Rightarrow> bool" where
  "falsy None = True"
| "falsy (Some JNull) = True"
| "falsy (Some (JBool b)) = (\<not> b)"
| "falsy (Some (JNum v)) = (v = JNaN \<or> v = JFin 0)"
| "falsy (Some (JText s)) = (s = [])"
| "falsy (Some _) = False"

definition unwrap_list :: "json option \<Rightarrow> string \<Rightarrow> json option" where
  \<comment> \<open>\<open>unwrapKey(payload, k) || []\<close>\<close>
  "unwrap_list p k = (let v = unwrap_key p k in if falsy v then Some (JArr []) else v)"

datatype qval = QUndef | QText jstr | QInt int

definition query_pairs :: "(string \<times> qval) list \<Rightarrow> (jstr \<times> jstr) list" where
  "query_pairs ps =
     concat (map (\<lambda>(k, v). case v of
                     QUndef \<Rightarrow> []
                   | QText s \<Rightarrow> if s = [] then [] else [(js k, s)]
                   | QInt n \<Rightarrow> [(js k, js_of_int n)]) ps)"

definition build_query :: "(string \<times> qval) list \<Rightarrow> jstr" where
  "build_query ps =
     (let suffix = join [38] (map (\<lambda>(k, v). form_encode k @ 61 # form_encode v) (query_pairs ps))
      in if suffix = [] then [] else 63 # suffix)"

section \<open>Inputs as JSON\<close>

abbreviation jlist :: "jstr list \<Rightarrow> json" where "jlist xs \<equiv> JArr (map JText xs)"

definition rule_json :: "rule_input \<Rightarrow> json" where
  "rule_json r = JObj [(js ''match_type'', JText (ri_match_type r)), (js ''match_value'', JText (ri_match_value r)),
     (js ''destination_url'', JText (ri_destination r)), (js ''redirect_code'', jint (ri_redirect_code r))]"

definition link_input_json :: "link_input \<Rightarrow> json" where
  "link_input_json i = JObj (
     opt_field ''destination_url'' (map_option JText (li_destination i)) @
     opt_field ''alias'' (map_option JText (li_alias i)) @
     opt_field ''title'' (map_option JText (li_title i)) @
     opt_field ''tags'' (map_option jlist (li_tags i)) @
     opt_field ''redirect_code'' (map_option JNum (li_redirect_code i)) @
     opt_field ''expires_at'' (map_option JText (li_expires_at i)) @
     opt_field ''rules'' (map_option (\<lambda>rs. JArr (map rule_json rs)) (li_rules i)) @
     opt_field ''domain'' (map_option JText (li_domain i)) @
     opt_field ''interstitial_seconds'' (map_option JNum (li_interstitial i)) @
     opt_field ''status'' (map_option JText (li_status i)))"

definition bulk_json :: "bulk_input \<Rightarrow> json" where
  "bulk_json b = JObj (
     [(js ''action'', JText (bulk_action_text (bi_action b))), (js ''ids'', jlist (bi_ids b))] @
     opt_field ''tags'' (map_option jlist (bi_tags b)) @
     opt_field ''expires_at'' (map_option JText (bi_expires_at b)))"

definition oidc_json :: "oidc_input \<Rightarrow> json" where
  "oidc_json i = JObj (
     opt_field ''slug'' (map_option JText (oi_slug i)) @
     opt_field ''display_name'' (map_option JText (oi_display_name i)) @
     opt_field ''issuer'' (map_option JText (oi_issuer i)) @
     opt_field ''client_id'' (map_option JText (oi_client_id i)) @
     opt_field ''client_secret'' (map_option JText (oi_client_secret i)) @
     opt_field ''scopes'' (map_option jlist (oi_scopes i)) @
     opt_field ''auto_provision'' (map_option JBool (oi_auto_provision i)) @
     opt_field ''enabled'' (map_option JBool (oi_enabled i)))"

definition captcha_json :: "captcha_input \<Rightarrow> json" where
  "captcha_json i = JObj (
     opt_field ''enabled'' (map_option JBool (ci_enabled i)) @
     opt_field ''site_key'' (map_option JText (ci_site_key i)) @
     opt_field ''secret'' (map_option JText (ci_secret i)) @
     opt_field ''expected_hostname'' (map_option JText (ci_hostname i)) @
     opt_field ''expected_action'' (map_option JText (ci_action i)))"

definition analytics_json :: "analytics_input \<Rightarrow> json" where
  "analytics_json i = JObj [
     (js ''ga4_measurement_id'', JText (an_ga4 i)), (js ''gtm_container_id'', JText (an_gtm i)),
     (js ''google_tag_id'', JText (an_google_tag i)), (js ''matomo_url'', JText (an_matomo_url i)),
     (js ''matomo_site_id'', JText (an_matomo_site i)), (js ''clarity_project_id'', JText (an_clarity i))]"

section \<open>The calls\<close>

datatype (plugins only: code size) api_call =
    Login jstr jstr | Register jstr jstr jstr | Csrf | Me | Logout
  | MfaStatus | MfaVerify jstr jstr | MfaEnroll | MfaConfirm jstr | MfaDisable jstr jstr
  | ListLinks list_params | GetLink jstr | CreateLink link_input | UpdateLink jstr link_input
  | RemoveLink jstr | BulkLinks bulk_input | CheckLink jstr | ExportLinks list_params | ImportLinks jstr
  | ListAudit "jstr option" "int option" "int option"
  | ListUsers | UpdateUser jstr "jstr option" "bool option" | ResetMfa jstr
  | ListRoles | UpdateRole jstr "jstr list" bool
  | PublicProviders | ListProviders | CreateProvider oidc_input | UpdateProvider jstr oidc_input
  | RemoveProvider jstr
  | PublicCaptcha | GetCaptcha | UpdateCaptcha captcha_input
  | GetAnalytics | UpdateAnalytics analytics_input
  | PatchRuntime int "(jstr \<times> json) list" | GetRuntime | PutRuntime "(jstr \<times> json) list"
  | ListTags | GetConfig | Readyz
  | Summary | TopLinks jstr int "date_range option" | Overview date_range
  | StatsOfLink jstr "date_range option" | ClicksOfLink jstr date_range "int option" "int option"
  | ListTokens | CreateToken jstr | RevokeToken jstr

definition qint :: "int option \<Rightarrow> qval" where
  "qint n = (case n of None \<Rightarrow> QUndef | Some n \<Rightarrow> QInt n)"

definition qtext :: "jstr option \<Rightarrow> qval" where
  "qtext s = (case s of None \<Rightarrow> QUndef | Some s \<Rightarrow> QText s)"

definition status_query :: "status_filter option \<Rightarrow> qval" where
  \<comment> \<open>\<open>params.status && params.status !== "all" ? params.status : undefined\<close>\<close>
  "status_query f =
     (case f of Some f' \<Rightarrow> if f' \<noteq> FAll then QText (status_filter_text f') else QUndef | None \<Rightarrow> QUndef)"

definition filter_query :: "list_params \<Rightarrow> (string \<times> qval) list" where
  "filter_query p = [(''sort'', qtext (map_option link_sort_text (pa_sort p))),
     (''status'', status_query (pa_status p)), (''search'', qtext (pa_search p)), (''tag'', qtext (pa_tag p))]"

definition list_query :: "list_params \<Rightarrow> (string \<times> qval) list" where
  "list_query p = [(''limit'', qint (pa_limit p)), (''offset'', qint (pa_offset p))] @ filter_query p"

definition range_query :: "date_range option \<Rightarrow> (string \<times> qval) list" where
  "range_query r = [(''from'', qtext (map_option dr_from r)), (''to'', qtext (map_option dr_to r))]"

type_synonym prepared = "(jstr \<times> req_options) promise"

definition reading :: "jstr \<Rightarrow> prepared" where
  "reading path = Inr (path, \<lparr>ro_method = None, ro_headers = [], ro_body = None\<rparr>)"

definition sending :: "string \<Rightarrow> jstr \<Rightarrow> json option \<Rightarrow> prepared" where
  "sending verb path body =
     Inr (path, \<lparr>ro_method = Some (js verb), ro_headers = [], ro_body = map_option BJson body\<rparr>)"

definition with_id :: "string \<Rightarrow> jstr \<Rightarrow> jstr \<Rightarrow> (jstr \<Rightarrow> prepared) \<Rightarrow> prepared" where
  \<comment> \<open>\<open>`\<dots>/${encodeURIComponent(id)}\<dots>`\<close>\<close>
  "with_id front ident back f =
     (case encode_component ident of Inl e \<Rightarrow> Inl e | Inr e \<Rightarrow> f (js front @ e @ back))"

fun request_of :: "api_call \<Rightarrow> prepared" where
  "request_of (Login u p) = sending ''POST'' (js ''/api/v1/auth/login'')
     (Some (JObj [(js ''username'', JText u), (js ''password'', JText p)]))"
| "request_of (Register u p c) = sending ''POST'' (js ''/api/v1/auth/register'')
     (Some (JObj ([(js ''username'', JText u), (js ''password'', JText p)] @
        (if c = [] then [] else [(js ''captcha_token'', JText c)]))))"
| "request_of Csrf = reading (js ''/api/v1/auth/csrf'')"
| "request_of Me = reading (js ''/api/v1/auth/me'')"
| "request_of Logout = sending ''POST'' (js ''/api/v1/auth/logout'') None"
| "request_of MfaStatus = reading (js ''/api/v1/auth/2fa'')"
| "request_of (MfaVerify ch c) = sending ''POST'' (js ''/api/v1/auth/2fa/verify'')
     (Some (JObj [(js ''challenge'', JText ch), (js ''code'', JText c)]))"
| "request_of MfaEnroll = sending ''POST'' (js ''/api/v1/auth/2fa/enroll'') None"
| "request_of (MfaConfirm c) = sending ''POST'' (js ''/api/v1/auth/2fa/confirm'') (Some (JObj [(js ''code'', JText c)]))"
| "request_of (MfaDisable p c) = sending ''POST'' (js ''/api/v1/auth/2fa/disable'')
     (Some (JObj [(js ''password'', JText p), (js ''code'', JText c)]))"
| "request_of (ListLinks p) = reading (js ''/api/v1/links'' @ build_query (list_query p))"
| "request_of (GetLink i) = with_id ''/api/v1/links/'' i [] reading"
| "request_of (CreateLink l) = sending ''POST'' (js ''/api/v1/links'') (Some (link_input_json l))"
| "request_of (UpdateLink i l) = with_id ''/api/v1/links/'' i [] (\<lambda>p. sending ''PATCH'' p (Some (link_input_json l)))"
| "request_of (RemoveLink i) = with_id ''/api/v1/links/'' i [] (\<lambda>p. sending ''DELETE'' p None)"
| "request_of (BulkLinks b) = sending ''POST'' (js ''/api/v1/links/bulk'') (Some (bulk_json b))"
| "request_of (CheckLink i) = with_id ''/api/v1/links/'' i (js ''/check'') (\<lambda>p. sending ''POST'' p None)"
| "request_of (ExportLinks p) = reading (js ''/api/v1/links/export'' @ build_query (filter_query p))"
| "request_of (ImportLinks csv) = Inr (js ''/api/v1/links/import'',
     \<lparr>ro_method = Some (js ''POST''), ro_headers = [(js ''content-type'', js ''text/csv; charset=utf-8'')],
      ro_body = Some (BRaw csv)\<rparr>)"
| "request_of (ListAudit a l off) = reading (js ''/api/v1/audit'' @
     build_query [(''action'', qtext a), (''limit'', qint l), (''offset'', qint off)])"
| "request_of ListUsers = reading (js ''/api/v1/users'')"
| "request_of (UpdateUser i r d) = with_id ''/api/v1/users/'' i [] (\<lambda>p. sending ''PATCH'' p
     (Some (JObj (opt_field ''role'' (map_option JText r) @ opt_field ''disabled'' (map_option JBool d)))))"
| "request_of (ResetMfa i) = with_id ''/api/v1/users/'' i (js ''/2fa/reset'') (\<lambda>p. sending ''POST'' p None)"
| "request_of ListRoles = reading (js ''/api/v1/roles'')"
| "request_of (UpdateRole n sc u) = with_id ''/api/v1/roles/'' n [] (\<lambda>p. sending ''PATCH'' p
     (Some (JObj [(js ''scopes'', jlist sc), (js ''unrestricted'', JBool u)])))"
| "request_of PublicProviders = reading (js ''/api/v1/auth/oidc/providers'')"
| "request_of ListProviders = reading (js ''/api/v1/oidc/providers'')"
| "request_of (CreateProvider i) = sending ''POST'' (js ''/api/v1/oidc/providers'') (Some (oidc_json i))"
| "request_of (UpdateProvider i x) = with_id ''/api/v1/oidc/providers/'' i [] (\<lambda>p. sending ''PATCH'' p (Some (oidc_json x)))"
| "request_of (RemoveProvider i) = with_id ''/api/v1/oidc/providers/'' i [] (\<lambda>p. sending ''DELETE'' p None)"
| "request_of PublicCaptcha = reading (js ''/api/v1/auth/captcha'')"
| "request_of GetCaptcha = reading (js ''/api/v1/captcha'')"
| "request_of (UpdateCaptcha i) = sending ''PATCH'' (js ''/api/v1/captcha'') (Some (captcha_json i))"
| "request_of GetAnalytics = reading (js ''/api/v1/analytics'')"
| "request_of (UpdateAnalytics i) = sending ''PUT'' (js ''/api/v1/analytics'') (Some (analytics_json i))"
| "request_of (PatchRuntime r ch) = sending ''PATCH'' (js ''/api/v1/settings/runtime'')
     (Some (JObj [(js ''revision'', jint r), (js ''changes'', JObj ch)]))"
| "request_of GetRuntime = reading (js ''/api/v1/settings/runtime'')"
| "request_of (PutRuntime fs) = sending ''PUT'' (js ''/api/v1/settings/runtime'') (Some (JObj fs))"
| "request_of ListTags = reading (js ''/api/v1/tags'')"
| "request_of GetConfig = reading (js ''/api/v1/config'')"
| "request_of Readyz = reading (js ''/readyz'')"
| "request_of Summary = reading (js ''/api/v1/stats/summary'')"
| "request_of (TopLinks ord lm r) = reading (js ''/api/v1/stats/top'' @
     build_query ([(''order'', QText ord), (''limit'', QInt lm)] @ range_query r))"
| "request_of (Overview r) = reading (js ''/api/v1/stats/overview'' @ build_query (range_query (Some r)))"
| "request_of (StatsOfLink i r) = with_id ''/api/v1/links/'' i (js ''/stats'' @ build_query (range_query r)) reading"
| "request_of (ClicksOfLink i r lm off) = with_id ''/api/v1/links/'' i
     (js ''/clicks'' @ build_query (range_query (Some r) @ [(''limit'', qint lm), (''offset'', qint off)])) reading"
| "request_of ListTokens = reading (js ''/api/v1/auth/tokens'')"
| "request_of (CreateToken n) = sending ''POST'' (js ''/api/v1/auth/tokens'') (Some (JObj [(js ''name'', JText n)]))"
| "request_of (RevokeToken i) = with_id ''/api/v1/auth/tokens/'' i [] (\<lambda>p. sending ''DELETE'' p None)"

definition preview_url :: "jstr \<Rightarrow> jstr" where
  "preview_url short_url = short_url @ [43]"

definition qr_url :: "client_env \<Rightarrow> jstr \<Rightarrow> int \<Rightarrow> jstr promise" where
  "qr_url env ident size_px =
     (case encode_component ident of
        Inl e \<Rightarrow> Inl e
      | Inr e \<Rightarrow> Inr (ce_base env @ js ''/api/v1/links/'' @ e @ js ''/qr'' @ build_query [(''size'', QInt size_px)]))"

section \<open>What a call does with the payload\<close>

fun signs_in :: "api_call \<Rightarrow> bool" where
  "signs_in (Login _ _) = True"
| "signs_in (Register _ _ _) = True"
| "signs_in (MfaVerify _ _) = True"
| "signs_in _ = False"

fun after_call :: "api_call \<Rightarrow> jstr \<Rightarrow> json option \<Rightarrow> jstr \<times> json option promise" where
  \<comment> \<open>the part of each method after its \<open>await request\<close>: the token kept and the value returned;
      reading a property of \<open>undefined\<close> or \<open>null\<close> is a \<open>TypeError\<close>\<close>
  "after_call c csrf p =
     (case c of
        Csrf \<Rightarrow> (if p \<in> {None, Some JNull} then (csrf, Inl (PlainError (js ''TypeError'')))
                 else (prop_text (the p) ''token'', Inr (prop_of (the p) ''token'')))
      | Me \<Rightarrow> (csrf, Inr (unwrap_key p ''user''))
      | ListUsers \<Rightarrow> (csrf, Inr (unwrap_list p ''users''))
      | ListRoles \<Rightarrow> (csrf, Inr (unwrap_list p ''roles''))
      | PublicProviders \<Rightarrow> (csrf, Inr (unwrap_list p ''providers''))
      | CreateProvider _ \<Rightarrow> (csrf, Inr (unwrap_key p ''provider''))
      | UpdateProvider _ _ \<Rightarrow> (csrf, Inr (unwrap_key p ''provider''))
      | PublicCaptcha \<Rightarrow> (csrf, Inr (unwrap_key p ''captcha''))
      | GetCaptcha \<Rightarrow> (csrf, Inr (unwrap_key p ''captcha''))
      | UpdateCaptcha _ \<Rightarrow> (csrf, Inr (unwrap_key p ''captcha''))
      | GetAnalytics \<Rightarrow> (csrf, Inr (unwrap_key p ''analytics''))
      | UpdateAnalytics _ \<Rightarrow> (csrf, Inr (unwrap_key p ''analytics''))
      | PatchRuntime _ _ \<Rightarrow> (csrf, Inr (unwrap_key p ''settings''))
      | GetRuntime \<Rightarrow> (csrf, Inr (unwrap_key p ''settings''))
      | PutRuntime _ \<Rightarrow> (csrf, Inr (unwrap_key p ''settings''))
      | ListTags \<Rightarrow> (csrf, Inr (unwrap_list p ''tags''))
      | TopLinks _ _ _ \<Rightarrow> (csrf, Inr (unwrap_list p ''links''))
      | ListTokens \<Rightarrow> (csrf, Inr (unwrap_list p ''tokens''))
      | _ \<Rightarrow> if signs_in c
             then (if p \<in> {None, Some JNull} then (csrf, Inl (PlainError (js ''TypeError'')))
                   else (prop_text (the p) ''csrf_token'', Inr p))
             else (csrf, Inr p))"

definition call_run ::
  "client_env \<Rightarrow> jstr \<Rightarrow> api_call \<Rightarrow> http_response promise \<Rightarrow> http_response promise \<Rightarrow> sent_result" where
  "call_run env csrf c csrf_answer answer =
     (case request_of c of
        Inl e \<Rightarrow> \<lparr>sr_csrf = csrf, sr_sent = [], sr_navigation = NoNavigation, sr_outcome = Inl e\<rparr>
      | Inr (path, o1) \<Rightarrow>
          (let r = request_run env csrf path o1 csrf_answer answer in
           case sr_outcome r of
             Inl _ \<Rightarrow> r
           | Inr p \<Rightarrow> (let q = after_call c (sr_csrf r) p
                      in r\<lparr>sr_csrf := fst q, sr_outcome := snd q\<rparr>)))"

datatype readiness = Ready | Degraded | Unreachable

definition readiness_of :: "'a promise \<Rightarrow> readiness" where
  "readiness_of outcome =
     (case outcome of
        Inr _ \<Rightarrow> Ready
      | Inl (ApiError _ st _ _) \<Rightarrow>
          if st = 503 then Degraded else if st = 0 \<or> 500 \<le> st then Unreachable else Degraded
      | Inl _ \<Rightarrow> Degraded)"

end
