(* ===== verification/Js_Uri.thy ===== *)
theory Js_Uri
  imports Js_Value
begin

text \<open>
  \<open>decodeURIComponent\<close>, as the language defines it: percent escapes are bytes, bytes are UTF-8, and
  whatever is no UTF-8 throws. It undoes the encoding the client puts identifiers into a path with.
\<close>

fun hex_value :: "u16 \<Rightarrow> int option" where
  "hex_value c =
     (if 48 \<le> c \<and> c \<le> 57 then Some (uint c - 48)
      else if 65 \<le> c \<and> c \<le> 70 then Some (uint c - 55)
      else if 97 \<le> c \<and> c \<le> 102 then Some (uint c - 87) else None)"

fun take_byte :: "jstr \<Rightarrow> (int \<times> jstr) option" where
  \<comment> \<open>one escape\<close>
  "take_byte (c # i # j # r) =
     (if c \<noteq> 37 then None
      else (case (hex_value i, hex_value j) of (Some a, Some b) \<Rightarrow> Some (16 * a + b, r) | _ \<Rightarrow> None))"
| "take_byte _ = None"

fun continuation :: "nat \<Rightarrow> int \<Rightarrow> jstr \<Rightarrow> (int \<times> jstr) option" where
  \<comment> \<open>the bytes after the first, added to the value so far\<close>
  "continuation 0 v r = Some (v, r)"
| "continuation (Suc n) v r =
     (case take_byte r of
        Some (b, r') \<Rightarrow> if 0x80 \<le> b \<and> b < 0xC0 then continuation n (64 * v + (b - 0x80)) r' else None
      | None \<Rightarrow> None)"

definition decode_point :: "jstr \<Rightarrow> (int \<times> jstr) option" where
  "decode_point s =
     (case take_byte s of
        None \<Rightarrow> None
      | Some (b, r) \<Rightarrow>
          if b < 0x80 then Some (b, r)
          else if 0xC0 \<le> b \<and> b < 0xE0 then
            (case continuation 1 (b - 0xC0) r of Some (p, r') \<Rightarrow> if 0x80 \<le> p then Some (p, r') else None | None \<Rightarrow> None)
          else if 0xE0 \<le> b \<and> b < 0xF0 then
            (case continuation 2 (b - 0xE0) r of
               Some (p, r') \<Rightarrow> if 0x800 \<le> p \<and> \<not> (0xD800 \<le> p \<and> p \<le> 0xDFFF) then Some (p, r') else None
             | None \<Rightarrow> None)
          else if 0xF0 \<le> b \<and> b < 0xF8 then
            (case continuation 3 (b - 0xF0) r of
               Some (p, r') \<Rightarrow> if 0x10000 \<le> p \<and> p < 0x110000 then Some (p, r') else None
             | None \<Rightarrow> None)
          else None)"

definition utf16 :: "int \<Rightarrow> jstr" where
  "utf16 p =
     (if p < 0x10000 then [of_int p]
      else [of_int (0xD800 + (p - 0x10000) div 0x400), of_int (0xDC00 + (p - 0x10000) mod 0x400)])"

lemma take_byte_shorter: "take_byte s = Some (b, r) \<Longrightarrow> length r < length s"
  by (cases s rule: take_byte.cases) (auto split: if_splits option.splits)

lemma continuation_shorter: "continuation n v s = Some (p, r) \<Longrightarrow> length r \<le> length s"
proof (induction n arbitrary: v s)
  case (Suc n)
  then obtain b r' where "take_byte s = Some (b, r')" "continuation n (64 * v + (b - 0x80)) r' = Some (p, r)"
    by (auto split: option.splits if_splits)
  then show ?case using Suc.IH take_byte_shorter by fastforce
qed simp

lemma decode_point_shorter: "decode_point s = Some (p, r) \<Longrightarrow> length r < length s"
  by (auto simp: decode_point_def dest!: take_byte_shorter continuation_shorter split: option.splits if_splits)

function decode_units :: "jstr \<Rightarrow> jstr option" where
  "decode_units [] = Some []"
| "decode_units (c # s) =
     (if c \<noteq> 37 then map_option ((#) c) (decode_units s)
      else (case decode_point (c # s) of
              None \<Rightarrow> None
            | Some (p, r) \<Rightarrow> map_option ((@) (utf16 p)) (decode_units r)))"
  by pat_completeness auto
termination by (relation "measure length") (auto dest: decode_point_shorter)

definition decode_component :: "jstr \<Rightarrow> jstr promise" where
  "decode_component s =
     (case decode_units s of None \<Rightarrow> Inl (PlainError (js ''URI malformed'')) | Some u \<Rightarrow> Inr u)"

section \<open>Decoding what was encoded\<close>

lemma hex_digits_valued: "list_all (\<lambda>d. hex_value (hex_digit d) = Some d) [0..15]"
  by code_simp

lemma hex_value_digit: "0 \<le> d \<Longrightarrow> d < 16 \<Longrightarrow> hex_value (hex_digit d) = Some d"
  using hex_digits_valued by (simp add: list_all_iff del: hex_value.simps)

lemma take_byte_pct: "0 \<le> b \<Longrightarrow> b < 256 \<Longrightarrow> take_byte (pct b @ r) = Some (b, r)"
  by (simp add: pct_def hex_value_digit div_less_iff_less_mult del: hex_value.simps)

lemma continuation_pct:
  "0 \<le> d \<Longrightarrow> d < 64 \<Longrightarrow> continuation (Suc n) v (pct (0x80 + d) @ r) = continuation n (64 * v + d) r"
  by (simp add: take_byte_pct)

lemma continuation_1:
  "0 \<le> d \<Longrightarrow> d < 64 \<Longrightarrow> continuation 1 v (pct (0x80 + d) @ r) = Some (64 * v + d, r)"
  using continuation_pct [of d 0 v r] by simp

lemma continuation_2:
  "0 \<le> c \<Longrightarrow> c < 64 \<Longrightarrow> 0 \<le> d \<Longrightarrow> d < 64 \<Longrightarrow>
   continuation 2 v (pct (0x80 + c) @ pct (0x80 + d) @ r) = Some (64 * (64 * v + c) + d, r)"
  using continuation_pct [of c 1 v "pct (0x80 + d) @ r"] continuation_1
  by (simp add: numeral_2_eq_2 del: continuation.simps(2))

lemma continuation_3:
  "0 \<le> b \<Longrightarrow> b < 64 \<Longrightarrow> 0 \<le> c \<Longrightarrow> c < 64 \<Longrightarrow> 0 \<le> d \<Longrightarrow> d < 64 \<Longrightarrow>
   continuation 3 v (pct (0x80 + b) @ pct (0x80 + c) @ pct (0x80 + d) @ r) =
     Some (64 * (64 * (64 * v + b) + c) + d, r)"
  using continuation_pct [of b 2 v "pct (0x80 + c) @ pct (0x80 + d) @ r"] continuation_2
  by (simp add: numeral_3_eq_3 numeral_2_eq_2 del: continuation.simps(2))

lemma base64_digits: "(p :: int) div 64 * 64 + p mod 64 = p" "64 * (p div 64) + p mod 64 = p"
  by simp_all

lemma decode_point_utf8:
  assumes "0 \<le> p" "p < 0x110000" "\<not> (0xD800 \<le> p \<and> p \<le> 0xDFFF)"
  shows "decode_point (concat (map pct (utf8 p)) @ r) = Some (p, r)"
proof -
  have m: "0 \<le> x mod 64" "x mod 64 < 64" for x :: int by simp_all
  have d: "p div 4096 = p div 64 div 64" "p div 262144 = p div 64 div 64 div 64"
    by (simp_all add: zdiv_zmult2_eq [symmetric])
  consider "p < 0x80" | "0x80 \<le> p" "p < 0x800" | "0x800 \<le> p" "p < 0x10000" | "0x10000 \<le> p" by linarith
  then show ?thesis
  proof cases
    case 1
    then show ?thesis using assms by (simp add: utf8_def decode_point_def take_byte_pct)
  next
    case 2
    then have "0 \<le> p div 64" "p div 64 < 32" by (simp_all add: div_less_iff_less_mult)
    then show ?thesis using 2
      by (simp add: utf8_def decode_point_def take_byte_pct continuation_1 m base64_digits)
  next
    case 3
    define a b c where "a = p div 4096" and "b = p div 64 mod 64" and "c = p mod 64"
    have p: "64 * (64 * a + b) + c = p" by (simp add: a_def b_def c_def d)
    have u: "utf8 p = [0xE0 + a, 0x80 + b, 0x80 + c]" using 3 by (simp add: utf8_def a_def b_def c_def)
    have "0 \<le> a" "a < 16" "0 \<le> b" "b < 64" "0 \<le> c" "c < 64"
      using 3 m by (simp_all add: a_def b_def c_def div_less_iff_less_mult)
    then show ?thesis using 3 assms(3) p unfolding u
      by (simp add: decode_point_def take_byte_pct continuation_2)
  next
    case 4
    define a b c e where "a = p div 262144" and "b = p div 4096 mod 64" and "c = p div 64 mod 64" and "e = p mod 64"
    have p: "64 * (64 * (64 * a + b) + c) + e = p" by (simp add: a_def b_def c_def e_def d)
    have u: "utf8 p = [0xF0 + a, 0x80 + b, 0x80 + c, 0x80 + e]" using 4 by (simp add: utf8_def a_def b_def c_def e_def)
    have "0 \<le> a" "a < 8" "0 \<le> b" "b < 64" "0 \<le> c" "c < 64" "0 \<le> e" "e < 64"
      using 4 assms(2) m by (simp_all add: a_def b_def c_def e_def div_less_iff_less_mult)
    then show ?thesis using 4 assms(2) p unfolding u
      by (simp add: decode_point_def take_byte_pct continuation_3)
  qed
qed

lemma uint_of_point: "0 \<le> p \<Longrightarrow> p < 0x10000 \<Longrightarrow> uint (of_int p :: u16) = p"
  by (simp add: uint_word_of_int take_bit_eq_mod)

lemma of_int_unit: "of_int (uint c) = (c :: u16)"
  by simp

lemma decode_units_point:
  assumes "0 \<le> p" "p < 0x110000" "\<not> (0xD800 \<le> p \<and> p \<le> 0xDFFF)"
  shows "decode_units (enc_point p @ r) = map_option ((@) (utf16 p)) (decode_units r)"
proof (cases "p < 0x80 \<and> uri_unreserved (of_int p)")
  case True
  then have "(of_int p :: u16) \<noteq> 37" by (auto simp: uri_unreserved_def unit_simps)
  with True show ?thesis by (cases "decode_units r") (simp_all add: enc_point_def utf16_def)
next
  case False
  obtain b bs where "utf8 p = b # bs" by (cases "utf8 p") (auto simp: utf8_def split: if_splits)
  then obtain t where t: "concat (map pct (utf8 p)) @ r = 37 # t" by (simp add: pct_def)
  have "decode_point (37 # t) = Some (p, r)" using decode_point_utf8 [OF assms, of r] t by simp
  with False t show ?thesis by (auto simp: enc_point_def)
qed

lemma no_surrogate: "\<not> is_high c \<Longrightarrow> \<not> is_low c \<Longrightarrow> \<not> (0xD800 \<le> uint c \<and> uint c \<le> 0xDFFF)"
  by (auto simp: is_high_def is_low_def word_le_def)

lemma code_points_valid:
  "None \<notin> set (code_points s) \<Longrightarrow> Some p \<in> set (code_points s) \<Longrightarrow> \<not> (0xD800 \<le> p \<and> p \<le> 0xDFFF)"
proof (induction s rule: code_points.induct)
  case (2 c)
  then show ?case using no_surrogate [of c] by (simp split: if_splits)
next
  case (3 h l s)
  show ?case
  proof (cases "is_high h \<and> is_low l")
    case True
    then show ?thesis
      using 3 surrogate_bounds(1) [of h] surrogate_bounds(2) [of l] by (simp, linarith)
  next
    case False
    then show ?thesis using 3 no_surrogate [of h] by (simp split: if_splits, blast)
  qed
qed simp

lemma utf16_unit: "utf16 (uint (c :: u16)) = [c]"
  using uint_lt2p [of c] by (simp add: utf16_def)

lemma utf16_pair:
  assumes "is_high h" "is_low l"
  shows "utf16 (0x10000 + (uint h - 0xD800) * 0x400 + (uint l - 0xDC00)) = [h, l]"
proof -
  note b = surrogate_bounds(1) [OF assms(1)] surrogate_bounds(2) [OF assms(2)]
  have "(x * 0x400 + y) div 0x400 = x \<and> (x * 0x400 + y) mod 0x400 = y" if "0 \<le> y" "y < 0x400" for x y :: int
    using that by simp
  from this [of "uint l - 0xDC00" "uint h - 0xD800"]
  have "((uint h - 0xD800) * 0x400 + (uint l - 0xDC00)) div 0x400 = uint h - 0xD800"
    "((uint h - 0xD800) * 0x400 + (uint l - 0xDC00)) mod 0x400 = uint l - 0xDC00" using b by simp_all
  moreover have "0 \<le> (uint h - 0xD800) * 0x400 + (uint l - 0xDC00)" using b by simp
  ultimately show ?thesis by (simp add: utf16_def add.assoc del: diff_add_eq add_diff_eq)
qed

lemma code_points_utf16:
  "None \<notin> set (code_points s) \<Longrightarrow> concat (map (\<lambda>p. utf16 (the p)) (code_points s)) = s"
proof (induction s rule: code_points.induct)
  case (3 h l s)
  then show ?case using utf16_pair [of h l] by (auto simp: utf16_unit split: if_splits)
qed (auto simp: utf16_unit split: if_splits)

lemma decode_units_points:
  assumes "\<And>q. q \<in> set ps \<Longrightarrow> 0 \<le> q \<and> q < 0x110000 \<and> \<not> (0xD800 \<le> q \<and> q \<le> 0xDFFF)"
  shows "decode_units (concat (map enc_point ps)) = Some (concat (map utf16 ps))"
  using assms by (induction ps) (auto simp: decode_units_point)

lemma decode_encoded:
  assumes "encode_component s = Inr e"
  shows "decode_component e = Inr s"
proof -
  have n: "None \<notin> set (code_points s)" and e: "e = concat (map enc_point (map the (code_points s)))"
    using assms by (auto simp: encode_component_def comp_def split: if_splits)
  have v: "0 \<le> q \<and> q < 0x110000 \<and> \<not> (0xD800 \<le> q \<and> q \<le> 0xDFFF)"
    if "q \<in> set (map the (code_points s))" for q
  proof -
    from that n obtain p where "Some p \<in> set (code_points s)" "q = p"
      by (metis (no_types, lifting) image_iff list.set_map option.exhaust_sel)
    then show ?thesis using code_points_range code_points_valid [OF n] by blast
  qed
  have "decode_units e = Some (concat (map utf16 (map the (code_points s))))"
    unfolding e by (rule decode_units_points) (rule v)
  then show ?thesis using code_points_utf16 [OF n] by (simp add: decode_component_def comp_def)
qed

end
