(* ===== verification/Api_Contract.thy ===== *)
theory Api_Contract
  imports Api_Client Js_Uri
begin

text \<open>
  What the client promises to its callers: how a request can fail, when it navigates, how it
  handles the CSRF token, and that caller-supplied text never leaves the place of a URL it was
  meant for.
\<close>

section \<open>Failures\<close>

definition described :: "exn \<Rightarrow> bool" where
  \<comment> \<open>an \<open>ApiError\<close> with a message to show and a code to translate\<close>
  "described e \<longleftrightarrow> (case e of ApiError m _ c _ \<Rightarrow> m \<noteq> [] \<and> c \<noteq> [] | _ \<Rightarrow> False)"

lemma described_ApiError [simp]: "described (ApiError m st c d) \<longleftrightarrow> m \<noteq> [] \<and> c \<noteq> []"
  by (simp add: described_def)

lemma failure_of_described: "described (snd (failure_of env path r))"
  by (simp add: failure_of_def Let_def split: option.splits)

lemma failure_of_status: "exn_status (snd (failure_of env path r)) = hr_status r"
  by (simp add: failure_of_def Let_def split: option.splits)

lemma failure_of_navigation:
  "fst (failure_of env path r) \<noteq> NoNavigation \<longleftrightarrow>
     hr_status r = 401 \<and> path \<notin> set pre_session_paths \<and>
     (\<exists>here. ce_location env = Some here \<and> \<not> prefix (js ''/login'') here)"
  by (auto simp: failure_of_def Let_def split: option.splits)

lemmas request_run_unfold = request_run_def Let_def

lemma request_rejects:
  assumes "sr_outcome (request_run env csrf path o1 a1 a2) = Inl e"
  shows "described e \<and> (case a2 of Inl _ \<Rightarrow> exn_status e = 0
                         | Inr r \<Rightarrow> \<not> response_ok r \<and> exn_status e = hr_status r)"
  using assms failure_of_described failure_of_status
  by (auto simp: request_run_unfold split: sum.splits if_splits)

lemma request_resolves:
  "sr_outcome (request_run env csrf path o1 a1 a2) = Inr p \<longleftrightarrow>
     (\<exists>r. a2 = Inr r \<and> response_ok r \<and> p = read_payload r)"
  by (auto simp: request_run_unfold split: sum.splits if_splits)

lemma request_navigation:
  "sr_navigation (request_run env csrf path o1 a1 a2) \<noteq> NoNavigation \<longleftrightarrow>
     (\<exists>r here. a2 = Inr r \<and> hr_status r = 401 \<and> path \<notin> set pre_session_paths \<and>
        ce_location env = Some here \<and> \<not> prefix (js ''/login'') here)"
  using failure_of_navigation [of env path]
  by (auto simp: request_run_unfold response_ok_def split: sum.splits if_splits)

section \<open>The CSRF token\<close>

lemma request_csrf:
  "sr_csrf (request_run env csrf path o1 a1 a2) =
     (if needs_csrf_fetch csrf path o1 then csrf_after_fetch csrf a1 else csrf)"
  by (auto simp: request_run_unfold split: sum.splits)

lemma request_sent:
  "sr_sent (request_run env csrf path o1 a1 a2) =
     (if needs_csrf_fetch csrf path o1 then [csrf_request env] else []) @
     [\<lparr>hq_url = ce_base env @ path, hq_method = ro_method o1,
       hq_headers =
         (let token = sr_csrf (request_run env csrf path o1 a1 a2) in
          if is_mutation o1 \<and> token \<noteq> []
          then set_header ''x-csrf-token'' token (base_headers o1) else base_headers o1),
       hq_body = ro_body o1\<rparr>]"
  by (auto simp: request_run_unfold split: sum.splits)

lemma map_of_set_header:
  "map_of (set_header k v hs) = (map_of hs)(js k \<mapsto> v)"
  by (simp add: set_header_def update_conv')

lemma base_headers_csrf:
  "map_of (base_headers o1) (js ''x-csrf-token'') = map_of (ro_headers o1) (js ''x-csrf-token'')"
  by (simp add: base_headers_def map_of_set_header split: option.splits req_body.splits)

section \<open>Calls\<close>

definition prepares :: "(jstr \<Rightarrow> req_options \<Rightarrow> bool) \<Rightarrow> prepared \<Rightarrow> bool" where
  \<comment> \<open>the request, when one is issued at all, satisfies \<open>P\<close>\<close>
  "prepares P x \<longleftrightarrow> (case x of Inl _ \<Rightarrow> True | Inr (path, o1) \<Rightarrow> P path o1)"

definition plain_read :: req_options where
  "plain_read = \<lparr>ro_method = None, ro_headers = [], ro_body = None\<rparr>"

definition plain_write :: "req_options \<Rightarrow> bool" where
  "plain_write o1 \<longleftrightarrow>
     (\<exists>verb \<in> {''POST'', ''PATCH'', ''PUT'', ''DELETE''}. ro_method o1 = Some (js verb)) \<and>
     (ro_headers o1 = [] \<or> ro_headers o1 = [(js ''content-type'', js ''text/csv; charset=utf-8'')])"

lemma prepares_Inr [simp]: "prepares P (Inr (path, o1)) = P path o1"
  by (simp add: prepares_def)

lemma prepares_reading [simp]: "prepares P (reading path) = P path plain_read"
  by (simp add: prepares_def reading_def plain_read_def)

lemma prepares_sending [simp]:
  "prepares P (sending verb path body) =
     P path \<lparr>ro_method = Some (js verb), ro_headers = [], ro_body = map_option BJson body\<rparr>"
  by (simp add: prepares_def sending_def)

lemma prepares_with_id [simp]:
  "prepares P (with_id front i back f) =
     (\<forall>e. encode_component i = Inr e \<longrightarrow> prepares P (f (js front @ e @ back)))"
  by (simp add: prepares_def with_id_def split: sum.splits)

lemma preparesD: "prepares P x \<Longrightarrow> x = Inr (path, o1) \<Longrightarrow> P path o1"
  by (simp add: prepares_def)

lemma plain_write_mutation: "plain_write o1 \<Longrightarrow> is_mutation o1"
  by (auto simp: plain_write_def is_mutation_def to_upper_def upper_unit_def unit_simps text_eval)

lemma plain_read_not_mutation [simp]: "\<not> is_mutation plain_read"
  by (simp add: plain_read_def is_mutation_def)

lemma request_of_plain:
  "prepares (\<lambda>_ o1. o1 = plain_read \<or> plain_write o1) (request_of c)"
  by (cases c) (simp_all add: plain_write_def)

lemma request_of_shape:
  assumes "request_of c = Inr (path, o1)"
  shows "map_of (ro_headers o1) (js ''x-csrf-token'') = None"
    and "is_mutation o1 \<longleftrightarrow> ro_method o1 \<noteq> None"
    and "ro_body o1 \<noteq> None \<Longrightarrow> is_mutation o1"
  using preparesD [OF request_of_plain assms] plain_write_mutation [of o1]
  by (auto simp: plain_write_def plain_read_def is_mutation_def)

lemma call_run_outcome:
  "sr_outcome (call_run env csrf c a1 a2) =
     (case request_of c of
        Inl e \<Rightarrow> Inl e
      | Inr (path, o1) \<Rightarrow>
          (let r = request_run env csrf path o1 a1 a2 in
           case sr_outcome r of Inl e \<Rightarrow> Inl e | Inr p \<Rightarrow> snd (after_call c (sr_csrf r) p)))"
  by (simp add: call_run_def Let_def split: sum.splits prod.splits)

section \<open>The path of a call\<close>

fun segment_id :: "api_call \<Rightarrow> jstr option" where
  \<comment> \<open>the identifier a call puts into a path segment\<close>
  "segment_id (GetLink i) = Some i"
| "segment_id (UpdateLink i _) = Some i"
| "segment_id (RemoveLink i) = Some i"
| "segment_id (CheckLink i) = Some i"
| "segment_id (UpdateUser i _ _) = Some i"
| "segment_id (ResetMfa i) = Some i"
| "segment_id (UpdateRole i _ _) = Some i"
| "segment_id (UpdateProvider i _) = Some i"
| "segment_id (RemoveProvider i) = Some i"
| "segment_id (StatsOfLink i _) = Some i"
| "segment_id (ClicksOfLink i _ _ _) = Some i"
| "segment_id (RevokeToken i) = Some i"
| "segment_id _ = None"

definition url_safe :: "u16 \<Rightarrow> bool" where
  \<comment> \<open>what a path with a query may be written with: no space, quote, backslash, \<open>#\<close> or control\<close>
  "url_safe c \<longleftrightarrow> uri_unreserved c \<or> c \<in> {37, 38, 43, 47, 61, 63}"

definition own_segment :: "jstr \<Rightarrow> jstr \<Rightarrow> bool" where
  \<comment> \<open>\<open>i\<close>, encoded, is one whole segment of \<open>path\<close>, from which it can be read back\<close>
  "own_segment i path \<longleftrightarrow>
     (\<exists>a e b. encode_component i = Inr e \<and> decode_component e = Inr i \<and> path = a @ [47] @ e @ b \<and>
        47 \<notin> set e \<and> 63 \<notin> set e \<and> 35 \<notin> set e \<and> (b = [] \<or> hd b \<in> {47, 63}))"

lemma encoded_no_delimiter:
  assumes "encode_component i = Inr e"
  shows "47 \<notin> set e" "63 \<notin> set e" "35 \<notin> set e"
  using encode_component_chars [OF assms, of 47] encode_component_chars [OF assms, of 63]
    encode_component_chars [OF assms, of 35] by (auto simp: uri_unreserved_def unit_simps)

lemma encoded_url_safe: "encode_component i = Inr e \<Longrightarrow> c \<in> set e \<Longrightarrow> url_safe c"
  using encode_component_chars [of i e c] by (auto simp: url_safe_def)

lemma form_url_safe: "c \<in> set (form_encode s) \<Longrightarrow> url_safe c"
  using form_encode_chars [of c s] by (auto simp: url_safe_def form_unreserved_def uri_unreserved_def)

lemma set_join: "set (join s xs) \<subseteq> set s \<union> \<Union> (set ` set xs)"
proof (induction xs rule: induct_list012)
  case (3 x y xs)
  then show ?case by auto
qed simp_all

lemma build_query_safe: "c \<in> set (build_query ps) \<Longrightarrow> url_safe c"
proof -
  assume "c \<in> set (build_query ps)"
  then have "c = 63 \<or> c \<in> set (join [38] (map (\<lambda>(k, v). form_encode k @ 61 # form_encode v) (query_pairs ps)))"
    by (auto simp: build_query_def Let_def split: if_splits)
  then have "c = 63 \<or> c = 38 \<or> c = 61 \<or> (\<exists>s. c \<in> set (form_encode s))"
    using set_join [of "[38]" "map (\<lambda>(k, v). form_encode k @ 61 # form_encode v) (query_pairs ps)"] by auto
  then show ?thesis using form_url_safe by (auto simp: url_safe_def)
qed

lemma build_query_head: "build_query ps = [] \<or> hd (build_query ps) = 63"
  by (simp add: build_query_def Let_def)

lemma own_segmentI:
  assumes "encode_component i = Inr e" "b = [] \<or> hd b \<in> {47, 63}"
  shows "own_segment i (a @ [47] @ e @ b)"
  unfolding own_segment_def using assms encoded_no_delimiter [OF assms(1)] decode_encoded [OF assms(1)] by metis

lemma own_segment_js:
  assumes "encode_component i = Inr e" "b = [] \<or> hd b \<in> {47, 63}"
  shows "own_segment i (js (a @ ''/'') @ e @ b)"
proof -
  have "js (a @ ''/'') = js a @ [47]" by (simp add: text_eval flip: js_append)
  then show ?thesis using own_segmentI [OF assms, of "js a"] by simp
qed

lemma own_segment_routes:
  assumes "encode_component i = Inr e" "b = [] \<or> hd b \<in> {47, 63}"
  shows "own_segment i (js ''/api/v1/links/'' @ e @ b)" "own_segment i (js ''/api/v1/users/'' @ e @ b)"
    "own_segment i (js ''/api/v1/roles/'' @ e @ b)" "own_segment i (js ''/api/v1/oidc/providers/'' @ e @ b)"
    "own_segment i (js ''/api/v1/auth/tokens/'' @ e @ b)"
  using own_segment_js [OF assms, of "''/api/v1/links''"] own_segment_js [OF assms, of "''/api/v1/users''"]
    own_segment_js [OF assms, of "''/api/v1/roles''"] own_segment_js [OF assms, of "''/api/v1/oidc/providers''"]
    own_segment_js [OF assms, of "''/api/v1/auth/tokens''"] by simp_all

lemma slash_heads: "hd (js ''/check'') = 47" "hd (js ''/2fa/reset'') = 47"
  "hd (js ''/stats'' @ q) = 47" "hd (js ''/clicks'' @ q) = 47"
  by (simp_all add: text_eval)

lemma request_of_segment:
  "prepares (\<lambda>path _. \<forall>i. segment_id c = Some i \<longrightarrow> own_segment i path) (request_of c)"
  by (cases c) (simp_all add: own_segment_routes own_segment_routes [where b = "[]", simplified] slash_heads)

lemma build_query_safe_all: "list_all url_safe (build_query ps)"
  using build_query_safe by (auto simp: list_all_iff)

lemma encoded_safe_all: "encode_component i = Inr e \<Longrightarrow> list_all url_safe e"
  using encoded_url_safe by (auto simp: list_all_iff)

lemma url_safe_codes:
  "url_safe 47" "url_safe 49" "url_safe 50"
  "url_safe 97" "url_safe 98" "url_safe 99" "url_safe 100" "url_safe 101" "url_safe 102" "url_safe 103"
  "url_safe 104" "url_safe 105" "url_safe 106" "url_safe 107" "url_safe 108" "url_safe 109" "url_safe 110"
  "url_safe 111" "url_safe 112" "url_safe 113" "url_safe 114" "url_safe 115" "url_safe 116" "url_safe 117"
  "url_safe 118" "url_safe 119" "url_safe 120" "url_safe 121" "url_safe 122"
  by (simp_all add: url_safe_def uri_unreserved_def unit_simps)

definition rooted :: "jstr \<Rightarrow> bool" where
  "rooted path \<longleftrightarrow> prefix (js ''/api/v1/'') path \<or> path = js ''/readyz''"

lemma rooted_js [simp]: "prefix ''/api/v1/'' w \<Longrightarrow> rooted (js w)"
  by (simp add: rooted_def)

lemma rooted_js_append [simp]: "prefix ''/api/v1/'' w \<Longrightarrow> rooted (js w @ q)"
  by (auto simp: rooted_def prefix_js [symmetric] simp del: prefix_js intro: prefix_prefix)

lemma request_of_rooted: "prepares (\<lambda>path _. rooted path) (request_of c)"
  by (cases c) (simp_all, simp add: rooted_def)

lemma request_of_safe: "prepares (\<lambda>path _. list_all url_safe path) (request_of c)"
  by (cases c) (simp_all add: encoded_safe_all build_query_safe_all url_safe_codes text_eval)

section \<open>Properties\<close>

text \<open>C14 Every way a request can end: it resolves exactly when the API answered with a success
  status, with the payload read from that answer; otherwise it rejects with an \<open>ApiError\<close> that
  has both a message and a code, whose status is 0 when nobody answered and the status of the
  answer otherwise.\<close>
theorem request_outcome:
  "case sr_outcome (request_run env csrf path o1 a1 a2) of
     Inr p \<Rightarrow> (\<exists>r. a2 = Inr r \<and> response_ok r \<and> p = read_payload r)
   | Inl e \<Rightarrow> described e \<and> (case a2 of Inl _ \<Rightarrow> exn_status e = 0 \<and> exn_code e = js ''network''
                | Inr r \<Rightarrow> \<not> response_ok r \<and> exn_status e = hr_status r)"
proof (cases "sr_outcome (request_run env csrf path o1 a1 a2)")
  case (Inl e)
  then have "exn_code e = js ''network''" if "a2 = Inl x" for x
    using that by (auto simp: request_run_unfold)
  with Inl request_rejects [OF Inl] show ?thesis by (auto split: sum.splits)
next
  case (Inr p)
  with request_resolves [of env csrf path o1 a1 a2 p] show ?thesis by simp
qed

text \<open>The browser is sent to the login page exactly when the API refused the session (401) of
  a request outside the sign-in endpoints and the page is not already under \<open>/login\<close>; the
  rejection is then \<open>session_expired\<close>.\<close>
lemma request_navigation_exact:
  "(sr_navigation (request_run env csrf path o1 a1 a2) \<noteq> NoNavigation \<longleftrightarrow>
      (\<exists>r here. a2 = Inr r \<and> hr_status r = 401 \<and> path \<notin> set pre_session_paths \<and>
         ce_location env = Some here \<and> \<not> prefix (js ''/login'') here)) \<and>
   (sr_navigation (request_run env csrf path o1 a1 a2) \<noteq> NoNavigation \<longrightarrow>
      sr_navigation (request_run env csrf path o1 a1 a2) = ReplaceLocation (js ''/login'') \<and>
      (\<exists>m d. sr_outcome (request_run env csrf path o1 a1 a2) = Inl (ApiError m 401 (js ''session_expired'') d)))"
  using request_navigation [of env csrf path o1 a1 a2]
  by (auto simp: request_run_unfold failure_of_def response_ok_def split: sum.splits if_splits option.splits)

lemma request_navigation_exact_witness:
  "sr_navigation (request_run \<lparr>ce_base = [], ce_location = Some (js ''/home'')\<rparr> [] (js ''/api/v1/tags'') plain_read
      (Inl Thrown) (Inr \<lparr>hr_status = 401, hr_ctype = None, hr_json = None, hr_text = None\<rparr>)) =
   ReplaceLocation (js ''/login'')"
proof -
  let ?env = "\<lparr>ce_base = [], ce_location = Some (js ''/home'')\<rparr>"
  let ?r = "\<lparr>hr_status = 401, hr_ctype = None, hr_json = None, hr_text = None\<rparr>"
  show ?thesis
    using request_navigation_exact [of ?env "[]" "js ''/api/v1/tags''" plain_read "Inl Thrown" "Inr ?r"]
    by (simp add: pre_session_paths_def)
qed

text \<open>C28 Every call of the client sends its own request last, to the configured base followed by
  its path; a call that changes data carries the CSRF token whenever the client holds one, and is
  the only kind of call that does; and the one extra message a call may send is the token
  request, made only for a change outside the sign-in endpoints while no token is held.\<close>
theorem call_csrf_protocol:
  assumes "request_of c = Inr (path, o1)"
  shows "\<exists>rq. sr_sent (call_run env csrf c a1 a2) =
           (if ro_method o1 \<noteq> None \<and> csrf = [] \<and> path \<notin> set pre_session_paths
            then [csrf_request env, rq] else [rq]) \<and>
         hq_url rq = ce_base env @ path \<and> hq_method rq = ro_method o1 \<and> hq_body rq = ro_body o1 \<and>
         map_of (hq_headers rq) (js ''x-csrf-token'') =
           (let token = sr_csrf (request_run env csrf path o1 a1 a2)
            in if ro_method o1 \<noteq> None \<and> token \<noteq> [] then Some token else None)"
proof -
  let ?R = "request_run env csrf path o1 a1 a2"
  have "sr_sent (call_run env csrf c a1 a2) = sr_sent ?R"
    using assms by (simp add: call_run_def Let_def split: sum.splits)
  then show ?thesis
    using request_sent [of env csrf path o1 a1 a2] request_of_shape(1,2) [OF assms]
    by (cases "needs_csrf_fetch csrf path o1")
      (auto simp: needs_csrf_fetch_def Let_def map_of_set_header base_headers_csrf)
qed

theorem call_csrf_protocol_witness:
  "\<exists>rq. sr_sent (call_run \<lparr>ce_base = [], ce_location = None\<rparr> (js ''t'') Logout (Inl Thrown) (Inl Thrown)) = [rq] \<and>
     map_of (hq_headers rq) (js ''x-csrf-token'') = Some (js ''t'')"
  using call_csrf_protocol [of Logout "js ''/api/v1/auth/logout''"
      "\<lparr>ro_method = Some (js ''POST''), ro_headers = [], ro_body = None\<rparr>"
      "\<lparr>ce_base = [], ce_location = None\<rparr>" "js ''t''" "Inl Thrown" "Inl Thrown"]
  by (auto simp: sending_def request_csrf needs_csrf_fetch_def)

text \<open>The token an answer to a sign-in carries is the token the next change sends, with no
  token request in between.\<close>
lemma sign_in_token_used:
  assumes "signs_in c" and "request_of c' = Inr (path, o1)" and "ro_method o1 \<noteq> None"
    and "response_ok r" and "read_payload r = Some (JObj fs)"
    and "map_of fs (js ''csrf_token'') = Some (JText token)" and "token \<noteq> []"
  shows "\<exists>rq. sr_sent (call_run env (sr_csrf (call_run env csrf c a1 (Inr r))) c' b1 b2) = [rq] \<and>
           map_of (hq_headers rq) (js ''x-csrf-token'') = Some token"
proof -
  obtain p0 o0 where q: "request_of c = Inr (p0, o0)"
    using assms(1) by (cases c) (simp_all add: sending_def)
  have "sr_csrf (call_run env csrf c a1 (Inr r)) = token"
    using assms q by (cases c) (simp_all add: call_run_def Let_def request_run_unfold prop_text_def)
  then show ?thesis
    using assms(2,3,7) request_sent [of env token path o1 b1 b2] request_of_shape [OF assms(2)]
    by (simp add: call_run_def Let_def needs_csrf_fetch_def request_csrf map_of_set_header split: sum.splits)
qed

lemma sign_in_token_used_witness:
  "\<exists>rq. sr_sent (call_run \<lparr>ce_base = [], ce_location = None\<rparr>
       (sr_csrf (call_run \<lparr>ce_base = [], ce_location = None\<rparr> [] (Login (js ''u'') (js ''p'')) (Inl Thrown)
          (Inr \<lparr>hr_status = 200, hr_ctype = Some (js ''application/json''),
                hr_json = Some (JObj [(js ''csrf_token'', JText (js ''k''))]), hr_text = None\<rparr>)))
       Logout (Inl Thrown) (Inl Thrown)) = [rq] \<and>
     map_of (hq_headers rq) (js ''x-csrf-token'') = Some (js ''k'')"
  by (rule sign_in_token_used [where path = "js ''/api/v1/auth/logout''" and fs = "[(js ''csrf_token'', JText (js ''k''))]"
        and ?o1.0 = "\<lparr>ro_method = Some (js ''POST''), ro_headers = [], ro_body = None\<rparr>"])
    (simp_all add: sending_def response_ok_def read_payload_def has_sub_def text_eval)



text \<open>The readiness verdict is ready exactly when the probe was answered with success,
  unreachable when nobody answered or a gateway did (a 5xx other than 503, or status 0), and
  degraded in every other case.\<close>
lemma readiness_verdict:
  "readiness_of (sr_outcome (call_run env csrf Readyz a1 a2)) =
     (case a2 of
        Inl _ \<Rightarrow> Unreachable
      | Inr r \<Rightarrow> if response_ok r then Ready
                else if hr_status r \<noteq> 503 \<and> (hr_status r = 0 \<or> 500 \<le> hr_status r) then Unreachable
                else Degraded)"
proof -
  have "request_of Readyz = Inr (js ''/readyz'', plain_read)" by (simp add: reading_def plain_read_def)
  then show ?thesis
    by (auto simp: call_run_outcome request_run_unfold readiness_of_def failure_of_def split: sum.splits option.splits)
qed

end
