(* ===== verification/Messages_En.thy ===== *)
theory Messages_En
  imports Js_Value
begin

text \<open>
  The English dictionary of \<open>web/src/lib/i18n/messages/en.ts\<close>, entry by entry, in the order of the
  file: plain text, or a pair of forms chosen by a count. A unit outside ASCII is written as
  its UTF-16 code.
\<close>

datatype message = Plain jstr | Counted jstr jstr

type_synonym dictionary = "(jstr \<times> message) list"

definition en_messages_1 :: dictionary where
  "en_messages_1 = [
    (js ''settings.guard.title'', Plain (js ''Unsaved changes'')),
    (js ''settings.guard.description'', Plain (js ''This page has unsaved changes. Leaving will discard them.'')),
    (js ''settings.guard.keepEditing'', Plain (js ''Keep editing'')),
    (js ''settings.guard.discardLeave'', Plain (js ''Discard and leave'')),
    (js ''settings.nav.description'', Plain (js ''Manage links, registration, access, traffic protection, and analytics in one place.'')),
    (js ''settings.nav.links'', Plain (js ''Links'')),
    (js ''settings.nav.linksDescription'', Plain (js ''Create short links, control redirects, and manage checks and cleanup.'')),
    (js ''settings.nav.registration'', Plain (js ''Registration & sign-in'')),
    (js ''settings.nav.registrationDescription'', Plain (js ''Manage local registration, the built-in second factor, and external sign-in providers.'')),
    (js ''settings.nav.access'', Plain (js ''Users & permissions'')),
    (js ''settings.nav.accessDescription'', Plain (js ''Manage accounts and decide what each role can access.'')),
    (js ''settings.nav.traffic'', Plain (js ''Traffic protection'')),
    (js ''settings.nav.trafficDescription'', Plain (js ''Limit requests to authentication, API, and short-link routes.'')),
    (js ''settings.nav.analytics'', Plain (js ''Analytics & integrations'')),
    (js ''settings.nav.analyticsDescription'', Plain (js ''Choose which short-link visits to count and connect console analytics.'')),
    (js ''settings.nav.creation'', Plain (js ''Creation & domains'')),
    (js ''settings.nav.redirects'', Plain (js ''Redirects & destinations'')),
    (js ''settings.nav.maintenance'', Plain (js ''Checks & cleanup'')),
    (js ''settings.nav.publicRegistration'', Plain (js ''Local accounts'')),
    (js ''settings.nav.thirdParty'', Plain (js ''External sign-in'')),
    (js ''settings.nav.healthEnabled'', Plain (js ''Health checks enabled'')),
    (js ''settings.nav.healthDisabled'', Plain (js ''Health checks disabled'')),
    (js ''settings.nav.cleanupEnabled'', Plain (js ''Automatic cleanup enabled'')),
    (js ''settings.nav.cleanupDisabled'', Plain (js ''Automatic cleanup disabled'')),
    (js ''settings.nav.registrationOpen'', Plain (js ''Local registration open'')),
    (js ''settings.nav.registrationClosed'', Plain (js ''Local registration closed'')),
    (js ''settings.nav.totpEnabled'', Plain (js ''Second factor enabled'')),
    (js ''settings.nav.totpDisabled'', Plain (js ''Second factor disabled'')),
    (js ''settings.nav.captchaEnabled'', Plain (js ''Registration verification enabled'')),
    (js ''settings.nav.captchaDisabled'', Plain (js ''Registration verification disabled'')),
    (js ''settings.nav.oidcEnabled'', Plain (js ''{count} sign-in providers enabled'')),
    (js ''settings.nav.rateEnabled'', Plain (js ''Rate limiting enabled'')),
    (js ''settings.nav.rateDisabled'', Plain (js ''Rate limiting disabled'')),
    (js ''settings.nav.botsIncluded'', Plain (js ''Bot visits included'')),
    (js ''settings.nav.botsExcluded'', Plain (js ''Bot visits excluded'')),
    (js ''settings.nav.integrationsConfigured'', Plain (js ''{count} console integrations configured'')),
    (js ''settings.nav.statusUnavailable'', Plain (js ''Some settings could not be loaded'')),
    (js ''settings.nav.retryStatus'', Plain (js ''Retry loading status'')),
    (js ''settings.search.label'', Plain (js ''Find a setting'')),
    (js ''settings.search.placeholder'', Plain (js ''Search domains, registration, rate limits'' @ [8230])),
    (js ''settings.search.hint'', Plain (js ''Search opens the matching page or field. Only settings you can manage are included.'')),
    (js ''settings.search.results'', Plain (js ''Settings search results'')),
    (js ''settings.search.resultCount'', Plain (js ''{count} matching settings'')),
    (js ''settings.search.empty'', Plain (js ''No matching settings. Try a different name or keyword.'')),
    (js ''account.title'', Plain (js ''My account'')),
    (js ''account.security'', Plain (js ''Account security'')),
    (js ''account.securityDescription'', Plain (js ''Manage your two-factor authentication and recovery codes.'')),
    (js ''account.tokens'', Plain (js ''API tokens'')),
    (js ''account.tokensDescription'', Plain (js ''Create and revoke personal tokens for application access to the API.'')),
    (js ''account.tokensForbidden'', Plain (js ''You do not have permission to manage API tokens.'')),
    (js ''account.tokenSaved'', Plain (js ''I have saved this token'')),
    (js ''settings.form.retry'', Plain (js ''Retry loading'')),
    (js ''settings.form.forbidden'', Plain (js ''You do not have permission to manage these settings.'')),
    (js ''settings.form.days'', Plain (js ''Days'')),
    (js ''settings.form.hours'', Plain (js ''Hours'')),
    (js ''settings.form.minutes'', Plain (js ''Minutes'')),
    (js ''settings.form.seconds'', Plain (js ''Seconds'')),
    (js ''settings.form.unit'', Plain (js ''Time unit'')),
    (js ''settings.form.invalidNumber'', Plain (js ''Enter a valid whole number; durations must resolve to whole seconds.'')),
    (js ''settings.form.inactive'', Plain (js ''Not active while the switch is off. The saved value is retained.'')),
    (js ''settings.form.conflict'', Plain (js ''These settings changed since you opened this page. Your edits are still here. Discard and reload the latest settings before trying again.'')),
    (js ''settings.form.reload'', Plain (js ''Discard and reload'')),
    (js ''settings.form.discard'', Plain (js ''Discard changes'')),
    (js ''settings.form.save'', Plain (js ''Save changes'')),
    (js ''settings.links.title'', Plain (js ''Link settings'')),
    (js ''settings.links.description'', Plain (js ''Configure how links are created, where they redirect, and when they are checked or deleted.'')),
    (js ''settings.links.creation'', Plain (js ''Creation and domains'')),
    (js ''settings.links.redirects'', Plain (js ''Redirects and destinations'')),
    (js ''settings.links.maintenance'', Plain (js ''Checks and cleanup'')),
    (js ''settings.creation.description'', Plain (js ''Defaults and limits for creating links. Changes apply to subsequent requests.'')),
    (js ''settings.redirects.description'', Plain (js ''Control incoming query parameters, missing short codes, and allowed destinations.'')),
    (js ''settings.maintenance.description'', Plain (js ''Keep destinations reachable and choose how long to retain expired links. Changes are picked up by the background worker.'')),
    (js ''settings.links.pruneWarning'', Plain (js ''Automatic cleanup permanently deletes expired links and their click history. This cannot be undone.'')),
    (js ''settings.registration.title'', Plain (js ''Registration and sign-in'')),
    (js ''settings.registration.local'', Plain (js ''Local accounts and second factor'')),
    (js ''settings.registration.description'', Plain (js ''Local account creation and the built-in second factor are configured here. OIDC sign-in and the accounts it creates are configured separately.'')),
    (js ''settings.registration.oidcLink'', Plain (js ''Manage third-party sign-in and automatic account creation '' @ [8594])),
    (js ''settings.registration.limitsLink'', Plain (js ''Configure request limits for registration and sign-in '' @ [8594])),
    (js ''settings.traffic.title'', Plain (js ''Traffic protection'')),
    (js ''settings.traffic.description'', Plain (js ''One switch controls all request limits. Each value is per client IP, per minute; 0 disables that limit.'')),
    (js ''settings.traffic.authentication'', Plain (js ''Authentication requests'')),
    (js ''settings.traffic.service'', Plain (js ''API and redirects'')),
    (js ''settings.statistics.title'', Plain (js ''Short-link reporting'')),
    (js ''settings.statistics.description'', Plain (js ''Choose which visits are included in the built-in short-link reports.'')),
    (js ''settings.statistics.pageTitle'', Plain (js ''Statistics and integrations'')),
    (js ''settings.statistics.pageDescription'', Plain (js ''Manage short-link reporting and external tracking for every page separately.'')),
    (js ''settings.captcha.provider'', Plain (js ''Cloudflare Turnstile'')),
    (js ''settings.field.alias_mode'', Plain (js ''Random codes preserve letter case. Sequential codes use numbers and letters (Base36).'')),
    (js ''settings.field.unique_urls'', Plain (js ''Reuse a live link owned by the same user when no custom short code is supplied.'')),
    (js ''settings.field.max_links_per_user'', Plain (js ''0 means unlimited. Accounts allowed to manage every link are exempt from this quota.'')),
    (js ''settings.field.short_domains'', Plain (js ''One bare hostname per line. DNS and TLS must be configured separately; the deployment URL remains the default domain.'')),
    (js ''settings.field.forward_query'', Plain (js ''Forward query parameters from the short link to its destination.'')),
    (js ''settings.field.fallback_url'', Plain (js ''Optional http(s) URL used when a short code is not found. Leave blank to show the standard response.'')),
    (js ''settings.field.destination_denylist'', Plain (js ''One hostname per line, including its subdomains. Applies when creating or editing destinations and divert rules.'')),
    (js ''settings.field.health_check_enabled'', Plain (js ''Periodically check whether link destinations can be reached.'')),
    (js ''settings.field.health_check_interval_seconds'', Plain (js ''Time between destination checks, from 1 second to 30 days.'')),
    (js ''settings.field.auto_prune_expired'', Plain (js ''Delete expired links only after their retention period has elapsed.'')),
    (js ''settings.field.prune_grace_seconds'', Plain (js ''Retention starts at expiry, not creation. 0 allows deletion on the next cleanup run.'')),
    (js ''settings.field.registration_enabled'', Plain (js ''Controls the public username/password registration form. OIDC providers can still create accounts independently.'')),
    (js ''settings.field.totp_enabled'', Plain (js ''Only accounts that have already enrolled are challenged. Turning this off stops the second factor for everyone without unbinding any account, but it needs SECRET_ENCRYPTION_KEY to work at all.'')),
    (js ''settings.field.count_bots'', Plain (js ''Bot visits are always recorded. This switch only controls whether reports include them.'')),
    (js ''settings.field.rate_limit_enabled'', Plain (js ''Apply the limits below to all client IP addresses.'')),
    (js ''settings.field.rate_limit_login'', Plain (js ''Password sign-in requests per IP per minute.'')),
    (js ''settings.field.rate_limit_register'', Plain (js ''Local registration requests per IP per minute.'')),
    (js ''settings.field.rate_limit_2fa'', Plain (js ''Two-factor verification requests per IP per minute.'')),
    (js ''settings.field.rate_limit_oidc'', Plain (js ''Third-party sign-in and public registration-protection metadata requests per IP per minute.'')),
    (js ''settings.field.rate_limit_api'', Plain (js ''Authenticated API requests per IP per minute.'')),
    (js ''settings.field.rate_limit_redirect'', Plain (js ''Short-link redirect requests per IP per minute.'')),
    (js ''app.title'', Plain (js ''Purels Admin'')),
    (js ''app.description'', Plain (js ''Purels link management and operations console'')),
    (js ''home.title'', Plain (js ''Purels | Self-Hosted URL Shortener & Link Analytics'')),
    (js ''home.tagline'', Plain (js ''An open-source, self-hosted URL shortener.'')),
    (js ''home.description'', Plain (js ''Purels is an open-source, self-hosted URL shortener with custom domains, click analytics, and team management.'')),
    (js ''home.nav.features'', Plain (js ''Features'')),
    (js ''home.nav.how'', Plain (js ''How it works'')),
    (js ''home.nav.selfHost'', Plain (js ''Self-hosting'')),
    (js ''home.nav.faq'', Plain (js ''FAQ'')),
    (js ''home.nav.signIn'', Plain (js ''Sign in'')),
    (js ''home.nav.getStarted'', Plain (js ''Get started'')),
    (js ''home.nav.console'', Plain (js ''Console'')),
    (js ''home.hero.badge'', Plain (js ''Apache-2.0 '' @ [183] @ js '' self-hosted''))]"

definition en_messages_2 :: dictionary where
  "en_messages_2 = [
    (js ''home.hero.title'', Plain (js ''Self-hosted short links'')),
    (js ''home.hero.subhead'', Plain (js ''An open-source URL shortener. Use your own domain, track clicks, and manage links with your team.'')),
    (js ''home.hero.ctaPrimary'', Plain (js ''Get started'')),
    (js ''home.hero.ctaSecondary'', Plain (js ''Sign in to the console'')),
    (js ''home.hero.stat.deploy'', Plain (js ''command to deploy'')),
    (js ''home.hero.stat.scopes'', Plain (js ''permission scopes'')),
    (js ''home.hero.stat.modes'', Plain (js ''visitor address modes'')),
    (js ''home.hero.mock.link'', Plain (js ''Short link'')),
    (js ''home.hero.mock.links'', Plain (js ''Links'')),
    (js ''home.hero.mock.clicks'', Plain (js ''Clicks'')),
    (js ''home.hero.mock.visitors'', Plain (js ''Unique visitors'')),
    (js ''home.hero.mock.trend'', Plain (js ''Last 7 days'')),
    (js ''home.features.title'', Plain (js ''Core features'')),
    (js ''home.feature.links.title'', Plain (js ''Link management'')),
    (js ''home.feature.links.body'', Plain (js ''Create short links with custom aliases, tags, and bulk actions.'')),
    (js ''home.feature.stats.title'', Plain (js ''Click statistics'')),
    (js ''home.feature.stats.body'', Plain (js ''See click counts, referrers, devices, and trends over time.'')),
    (js ''home.feature.rules.title'', Plain (js ''Redirect rules'')),
    (js ''home.feature.rules.body'', Plain (js ''Send visitors to different destinations based on their device or user agent.'')),
    (js ''home.feature.access.title'', Plain (js ''Team management'')),
    (js ''home.feature.access.body'', Plain (js ''Manage users and roles, enable two-factor or single sign-on, and review audit logs.'')),
    (js ''home.feature.gallery.title'', Plain (js ''Redirect page'')),
    (js ''home.feature.gallery.body'', Plain (js ''Show the destination and a piece of artwork before redirecting, or go straight there.'')),
    (js ''home.feature.privacy.title'', Plain (js ''Data and privacy'')),
    (js ''home.feature.privacy.body'', Plain (js ''Keep data in your own database and choose how visitor IP addresses are recorded.'')),
    (js ''home.chip.qr'', Plain (js ''QR codes'')),
    (js ''home.chip.csv'', Plain (js ''CSV import and export'')),
    (js ''home.chip.token'', Plain (js ''Scoped API tokens'')),
    (js ''home.chip.rateLimit'', Plain (js ''Rate limiting'')),
    (js ''home.chip.domains'', Plain (js ''Multiple short domains'')),
    (js ''home.chip.probe'', Plain (js ''Destination health checks'')),
    (js ''home.how.title'', Plain (js ''How it works'')),
    (js ''home.how.create.title'', Plain (js ''Create'')),
    (js ''home.how.create.body'', Plain (js ''Enter a destination and choose an alias or generate one.'')),
    (js ''home.how.share.title'', Plain (js ''Share'')),
    (js ''home.how.share.body'', Plain (js ''Share the short link or generate a QR code.'')),
    (js ''home.how.measure.title'', Plain (js ''Measure'')),
    (js ''home.how.measure.body'', Plain (js ''See how many clicks your link gets and where visitors come from.'')),
    (js ''home.selfHost.title'', Plain (js ''Open source. Self-hosted.'')),
    (js ''home.selfHost.body'', Plain (js ''Create short links with your own domain. Keep your links and click data on your own server.'')),
    (js ''home.selfHost.docs'', Plain (js ''Installation guide'')),
    (js ''home.faq.title'', Plain (js ''Frequently asked questions'')),
    (js ''home.faq.q1'', Plain (js ''Who can create short links?'')),
    (js ''home.faq.a1'', Plain (js ''Users with an account can create links. Users manage their own links; administrators can see all links.'')),
    (js ''home.faq.q2'', Plain (js ''Can I use my own domain?'')),
    (js ''home.faq.a2'', Plain (js ''Yes. Point your domain to the server and configure it in Purels.'')),
    (js ''home.faq.q3'', Plain (js ''What is the gallery on the redirect page?'')),
    (js ''home.faq.a3'', Plain (js ''An optional page that shows the destination and a piece of artwork. Set how long it appears, or turn it off for a direct redirect.'')),
    (js ''home.faq.q4'', Plain (js ''Where is the visitor data stored?'')),
    (js ''home.faq.a4'', Plain (js ''Links and click records are stored in your PostgreSQL database.'')),
    (js ''home.faq.q5'', Plain (js ''Are two-factor authentication and single sign-on supported?'')),
    (js ''home.faq.a5'', Plain (js ''Yes. Purels supports TOTP two-factor authentication and OIDC single sign-on. Both require an encryption key.'')),
    (js ''home.faq.q6'', Plain (js ''What happens to existing accounts if registration is closed?'')),
    (js ''home.faq.a6'', Plain (js ''Existing accounts can still sign in and use Purels.'')),
    (js ''home.faq.q7'', Plain (js ''What licence is it under?'')),
    (js ''home.faq.a7'', Plain (js ''Apache-2.0.'')),
    (js ''home.cta.title'', Plain (js ''Get started with Purels'')),
    (js ''home.cta.body'', Plain (js ''Create short links or deploy Purels on your own server.'')),
    (js ''home.cta.button'', Plain (js ''Get started'')),
    (js ''home.footer.tagline'', Plain (js ''An open-source, self-hosted URL shortener.'')),
    (js ''home.footer.license'', Plain (js ''Apache-2.0'')),
    (js ''home.footer.copyright'', Plain ([169] @ js '' 2026 Purels'')),
    (js ''nav.overview'', Plain (js ''Overview'')),
    (js ''nav.links'', Plain (js ''Link management'')),
    (js ''nav.stats'', Plain (js ''Short-link statistics'')),
    (js ''nav.audit'', Plain (js ''Audit log'')),
    (js ''nav.users'', Plain (js ''Users'')),
    (js ''nav.roles'', Plain (js ''Roles & permissions'')),
    (js ''nav.oidc'', Plain (js ''Sign-in methods'')),
    (js ''nav.analytics'', Plain (js ''Statistics and integrations'')),
    (js ''nav.security'', Plain (js ''Account security'')),
    (js ''nav.captcha'', Plain (js ''Registration protection'')),
    (js ''nav.runtimeSettings'', Plain (js ''Link & service rules'')),
    (js ''nav.group.overview'', Plain (js ''Overview'')),
    (js ''nav.group.access'', Plain (js ''Users and permissions'')),
    (js ''nav.group.security'', Plain (js ''Security & protection'')),
    (js ''nav.group.links'', Plain (js ''Link service'')),
    (js ''nav.group.analytics'', Plain (js ''Analytics'')),
    (js ''shell.console'', Plain (js ''Admin console'')),
    (js ''shell.workspace'', Plain (js ''Workspace'')),
    (js ''shell.breadcrumb'', Plain (js ''Breadcrumb'')),
    (js ''shell.account'', Plain (js ''Purels account'')),
    (js ''shell.accountMenu'', Plain (js ''Account menu'')),
    (js ''shell.settings'', Plain (js ''Settings'')),
    (js ''shell.theme'', Plain (js ''Theme'')),
    (js ''shell.welcome'', Plain (js ''Welcome back'')),
    (js ''shell.welcomeNamed'', Plain (js ''Welcome back, {username}'')),
    (js ''shell.logout'', Plain (js ''Sign out'')),
    (js ''shell.loggingOut'', Plain (js ''Signing out...'')),
    (js ''shell.closeMenu'', Plain (js ''Close menu'')),
    (js ''shell.openMenu'', Plain (js ''Open menu'')),
    (js ''shell.skipToMain'', Plain (js ''Skip to main content'')),
    (js ''shell.expandSection'', Plain (js ''Expand settings section'')),
    (js ''shell.collapseSection'', Plain (js ''Collapse settings section'')),
    (js ''shell.language'', Plain (js ''Language'')),
    (js ''theme.switch'', Plain (js ''Switch theme'')),
    (js ''theme.light'', Plain (js ''Light'')),
    (js ''theme.dark'', Plain (js ''Dark'')),
    (js ''login.subtitle'', Plain (js ''Short link console'')),
    (js ''login.heading'', Plain (js ''Sign in'')),
    (js ''login.mfaHeading'', Plain (js ''Two-factor authentication'')),
    (js ''login.username'', Plain (js ''Username'')),
    (js ''login.password'', Plain (js ''Password'')),
    (js ''login.code'', Plain (js ''Verification code'')),
    (js ''login.submit'', Plain (js ''Sign in'')),
    (js ''login.submitting'', Plain (js ''Signing in...'')),
    (js ''login.verify'', Plain (js ''Verify'')),
    (js ''login.verifying'', Plain (js ''Verifying...'')),
    (js ''login.back'', Plain (js ''Back'')),
    (js ''login.or'', Plain (js ''or'')),
    (js ''login.noAccount'', Plain (js ''No account?'')),
    (js ''login.register'', Plain (js ''Register'')),
    (js ''login.failed'', Plain (js ''Sign-in failed. Please try again.'')),
    (js ''login.verifyFailed'', Plain (js ''Verification failed. Please try again.''))]"

definition en_messages_3 :: dictionary where
  "en_messages_3 = [
    (js ''oidcError.oidc_not_provisioned'', Plain (js ''No usable account is linked to this identity. Contact an administrator.'')),
    (js ''oidcError.oidc_state'', Plain (js ''This sign-in has expired. Please start again.'')),
    (js ''oidcError.oidc_exchange'', Plain (js ''The identity provider did not complete the sign-in. Please try again.'')),
    (js ''oidcError.oidc_unavailable'', Plain (js ''This sign-in method is unavailable. Contact an administrator.'')),
    (js ''oidcError.oidc_failed'', Plain (js ''Sign-in failed. Please try again.'')),
    (js ''register.heading'', Plain (js ''Register'')),
    (js ''register.username'', Plain (js ''Username'')),
    (js ''register.password'', Plain (js ''Password'')),
    (js ''register.submit'', Plain (js ''Register'')),
    (js ''register.submitting'', Plain (js ''Registering...'')),
    (js ''register.haveAccount'', Plain (js ''Already have an account?'')),
    (js ''register.login'', Plain (js ''Sign in'')),
    (js ''register.completeCaptcha'', Plain (js ''Complete the verification first.'')),
    (js ''register.captchaLoadFailed'', Plain (js ''Could not load the registration check.'')),
    (js ''register.failed'', Plain (js ''Registration failed. Please try again.'')),
    (js ''turnstile.loadFailed'', Plain (js ''The verification failed to load. Please try again.'')),
    (js ''role.admin'', Plain (js ''Administrator'')),
    (js ''role.operator'', Plain (js ''Operator'')),
    (js ''role.readonly'', Plain (js ''Read-only'')),
    (js ''role.user'', Plain (js ''User'')),
    (js ''common.cancel'', Plain (js ''Cancel'')),
    (js ''common.close'', Plain (js ''Close'')),
    (js ''common.copy'', Plain (js ''Copy'')),
    (js ''common.copied'', Plain (js ''Copied'')),
    (js ''common.notifications'', Plain (js ''Notifications'')),
    (js ''common.delete'', Plain (js ''Delete'')),
    (js ''common.edit'', Plain (js ''Edit'')),
    (js ''common.save'', Plain (js ''Save'')),
    (js ''common.saving'', Plain (js ''Saving...'')),
    (js ''common.loading'', Plain (js ''Loading...'')),
    (js ''common.previous'', Plain (js ''Previous'')),
    (js ''common.next'', Plain (js ''Next'')),
    (js ''common.page'', Plain (js ''Page {page} / {count}'')),
    (js ''common.range'', Plain (js ''{start}'' @ [8211] @ js ''{end} of {total}'')),
    (js ''common.rangeEmpty'', Plain (js ''0 of 0'')),
    (js ''common.retry'', Plain (js ''Retry'')),
    (js ''common.actionFailed'', Plain (js ''The action did not complete. Try again.'')),
    (js ''common.unavailable'', Plain (js ''Unavailable'')),
    (js ''dashboard.totalLinks'', Plain (js ''Total links'')),
    (js ''dashboard.totalClicks'', Plain (js ''Total clicks'')),
    (js ''dashboard.serviceStatus'', Plain (js ''Service status'')),
    (js ''dashboard.statusChecking'', Plain (js ''Checking'' @ [8230])),
    (js ''dashboard.statusReady'', Plain (js ''Ready'')),
    (js ''dashboard.statusDegraded'', Plain (js ''Not ready'')),
    (js ''dashboard.statusUnreachable'', Plain (js ''API unreachable'')),
    (js ''dashboard.recentLinks'', Plain (js ''Recent links'')),
    (js ''dashboard.viewAll'', Plain (js ''View all'')),
    (js ''dashboard.clicks'', Counted (js ''{count} click'') (js ''{count} clicks'')),
    (js ''dashboard.empty'', Plain (js ''No links yet'')),
    (js ''links.title'', Plain (js ''Link management'')),
    (js ''links.searchPlaceholder'', Plain (js ''Search alias or destination URL'')),
    (js ''links.allTags'', Plain (js ''All tags'')),
    (js ''links.tagOption'', Plain (js ''{name} ({count})'')),
    (js ''links.import'', Plain (js ''Import CSV'')),
    (js ''links.export'', Plain (js ''Export CSV'')),
    (js ''links.create'', Plain (js ''Create link'')),
    (js ''links.selectAll'', Plain (js ''Select all on this page'')),
    (js ''links.selectOne'', Plain (js ''Select {alias}'')),
    (js ''links.checkOk'', Plain (js ''Check {code}'')),
    (js ''links.checkFailed'', Plain (js ''Check failed'')),
    (js ''links.qr'', Plain (js ''QR code'')),
    (js ''links.confirmDelete'', Plain (js ''Delete this link?'')),
    (js ''links.confirmBulkDelete'', Counted (js ''Delete the {count} selected link?'') (js ''Delete the {count} selected links?'')),
    (js ''links.bulkTagPlaceholder'', Plain (js ''Tags'')),
    (js ''links.bulkNeedDate'', Plain (js ''Pick an expiry date first.'')),
    (js ''links.bulkNeedTag'', Plain (js ''Enter at least one tag.'')),
    (js ''links.bulkSkipped'', Plain (js ''{count} skipped'')),
    (js ''links.selected'', Plain (js ''{count} selected'')),
    (js ''links.run'', Plain (js ''Run'')),
    (js ''links.clearSelection'', Plain (js ''Clear selection'')),
    (js ''links.searchLabel'', Plain (js ''Search links'')),
    (js ''links.tagFilterLabel'', Plain (js ''Filter by tag'')),
    (js ''links.sortLabel'', Plain (js ''Sort links'')),
    (js ''links.bulkActionLabel'', Plain (js ''Bulk action'')),
    (js ''links.bulkDateLabel'', Plain (js ''Expiry date'')),
    (js ''links.emptyFiltered'', Plain (js ''No links match the current filters.'')),
    (js ''links.empty'', Plain (js ''No links yet. Create one to get started.'')),
    (js ''links.imported'', Counted (js ''Imported {count} link.'') (js ''Imported {count} links.'')),
    (js ''links.deleted'', Plain (js ''Link deleted'')),
    (js ''links.bulkComplete'', Counted (js ''Updated {count} link.'') (js ''Updated {count} links.'')),
    (js ''links.exported'', Plain (js ''CSV export started'')),
    (js ''links.importFailed'', Counted (js ''{count} row failed.'') (js ''{count} rows failed.'')),
    (js ''links.importErrorLine'', Plain (js ''Line {line}: {reason}'')),
    (js ''links.importErrorLineAlias'', Plain (js ''Line {line} ({alias}): {reason}'')),
    (js ''links.copy'', Plain (js ''Copy'')),
    (js ''links.copied'', Plain (js ''Copied'')),
    (js ''links.copyFailed'', Plain (js ''Copy failed. Select the URL manually.'')),
    (js ''links.created.title'', Plain (js ''Your short link is ready'')),
    (js ''links.created.body'', Plain (js ''Click the address below to copy the complete short link.'')),
    (js ''links.created.preview'', Plain (js ''Preview redirect'')),
    (js ''links.created.edit'', Plain (js ''Edit link'')),
    (js ''links.created.new'', Plain (js ''Create another'')),
    (js ''links.table.short'', Plain (js ''Short link'')),
    (js ''links.table.destination'', Plain (js ''Destination'')),
    (js ''links.table.tags'', Plain (js ''Tags'')),
    (js ''links.table.clicks'', Plain (js ''Clicks'')),
    (js ''links.table.redirect'', Plain (js ''Redirect'')),
    (js ''links.table.status'', Plain (js ''Status'')),
    (js ''links.table.actions'', Plain (js ''Actions'')),
    (js ''links.form.destination'', Plain (js ''Destination URL'')),
    (js ''links.form.alias'', Plain (js ''Custom alias (optional)'')),
    (js ''links.form.aliasPlaceholder'', Plain (js ''Leave blank to generate one'')),
    (js ''links.form.domain'', Plain (js ''Short domain'')),
    (js ''links.form.title'', Plain (js ''Title (optional)'')),
    (js ''links.form.tags'', Plain (js ''Tags (optional)'')),
    (js ''links.form.tagsPlaceholder'', Plain (js ''Separate tags with commas'')),
    (js ''links.form.redirectCode'', Plain (js ''Redirect code'')),
    (js ''links.form.interstitial'', Plain (js ''Show the destination first'')),
    (js ''links.form.interstitialUnit'', Plain (js ''seconds before redirecting'')),
    (js ''links.form.submit'', Plain (js ''Create link'')),
    (js ''links.form.submitting'', Plain (js ''Creating...'')),
    (js ''links.form.save'', Plain (js ''Save changes'')),
    (js ''links.form.saving'', Plain (js ''Saving...'')),
    (js ''links.redirect.follow'', Plain (js ''Follow the link'')),
    (js ''links.redirect.temporary'', Plain (js ''302 Temporary'')),
    (js ''links.redirect.permanent'', Plain (js ''301 Permanent'')),
    (js ''links.edit.title'', Plain (js ''Edit link'')),
    (js ''links.edit.breadcrumbTail'', Plain (js ''Edit'')),
    (js ''links.edit.preview'', Plain (js ''Preview'')),
    (js ''links.edit.status'', Plain (js ''Status'')),
    (js ''links.edit.statusActive'', Plain (js ''Active'')),
    (js ''links.edit.statusDisabled'', Plain (js ''Disabled'')),
    (js ''links.edit.expires'', Plain (js ''Expiry date (blank means never)'')),
    (js ''links.edit.notFound'', Plain (js ''That link was not found.''))]"

definition en_messages_4 :: dictionary where
  "en_messages_4 = [
    (js ''links.edit.loading'', Plain (js ''Loading'' @ [8230])),
    (js ''links.edit.checkNow'', Plain (js ''Check now'')),
    (js ''links.edit.checking'', Plain (js ''Checking...'')),
    (js ''links.edit.neverChecked'', Plain (js ''Not checked yet'')),
    (js ''links.edit.lastChecked'', Plain (js ''Last checked {time}'')),
    (js ''links.edit.checkUnreachable'', Plain (js ''Unreachable'')),
    (js ''bulk.disable'', Plain (js ''Disable'')),
    (js ''bulk.enable'', Plain (js ''Enable'')),
    (js ''bulk.delete'', Plain (js ''Delete'')),
    (js ''bulk.tag'', Plain (js ''Add tags'')),
    (js ''bulk.untag'', Plain (js ''Remove tags'')),
    (js ''bulk.setExpiry'', Plain (js ''Set expiry'')),
    (js ''sort.createdAtDesc'', Plain (js ''Newest first'')),
    (js ''sort.createdAtAsc'', Plain (js ''Oldest first'')),
    (js ''sort.clicksDesc'', Plain (js ''Most clicks'')),
    (js ''sort.clicksAsc'', Plain (js ''Fewest clicks'')),
    (js ''sort.aliasAsc'', Plain (js ''Alias A to Z'')),
    (js ''sort.aliasDesc'', Plain (js ''Alias Z to A'')),
    (js ''statusFilter.all'', Plain (js ''All statuses'')),
    (js ''statusFilter.active'', Plain (js ''Active'')),
    (js ''statusFilter.disabled'', Plain (js ''Disabled'')),
    (js ''statusFilter.expired'', Plain (js ''Expired'')),
    (js ''rules.title'', Plain (js ''Divert rules'')),
    (js ''rules.add'', Plain (js ''Add rule'')),
    (js ''rules.none'', Plain (js ''None'')),
    (js ''rules.matchType'', Plain (js ''Match type'')),
    (js ''rules.matchValue'', Plain (js ''Match value'')),
    (js ''rules.matchUa'', Plain (js ''User agent contains'')),
    (js ''rules.matchDevice'', Plain (js ''Device type'')),
    (js ''deviceRule.mobile'', Plain (js ''Mobile'')),
    (js ''deviceRule.tablet'', Plain (js ''Tablet'')),
    (js ''deviceRule.desktop'', Plain (js ''Desktop'')),
    (js ''deviceRule.bot'', Plain (js ''Bot'')),
    (js ''deviceRule.unknown'', Plain (js ''Unknown'')),
    (js ''deviceStat.mobile'', Plain (js ''Mobile'')),
    (js ''deviceStat.tablet'', Plain (js ''Tablet'')),
    (js ''deviceStat.desktop'', Plain (js ''Desktop'')),
    (js ''deviceStat.bot'', Plain (js ''Bot'')),
    (js ''deviceStat.unknown'', Plain (js ''Unknown'')),
    (js ''qr.alt'', Plain (js ''QR code for /{alias}'')),
    (js ''qr.download'', Plain (js ''Download PNG'')),
    (js ''stats.title'', Plain (js ''Statistics'')),
    (js ''stats.range.today'', Plain (js ''Today'')),
    (js ''stats.range.7d'', Plain (js ''Last 7 days'')),
    (js ''stats.range.30d'', Plain (js ''Last 30 days'')),
    (js ''stats.range.90d'', Plain (js ''Last 90 days'')),
    (js ''stats.range.365d'', Plain (js ''Last 365 days'')),
    (js ''stats.noClicks'', Plain (js ''No clicks in this range.'')),
    (js ''stats.peak'', Plain (js ''Peak {count}'')),
    (js ''stats.pointTitle'', Counted (js ''{day} '' @ [183] @ js '' {count} click'') (js ''{day} '' @ [183] @ js '' {count} clicks'')),
    (js ''stats.clicksInRange'', Plain (js ''Clicks in range'')),
    (js ''stats.uniqueVisitors'', Plain (js ''Unique visitors'')),
    (js ''stats.totalLinks'', Plain (js ''Total links'')),
    (js ''stats.trend'', Plain (js ''Clicks over time'')),
    (js ''stats.exportCsv'', Plain (js ''Export CSV'')),
    (js ''stats.ranking'', Plain (js ''Top links'')),
    (js ''stats.most'', Plain (js ''Most'')),
    (js ''stats.fewest'', Plain (js ''Fewest'')),
    (js ''stats.emptyRanking'', Plain (js ''No click data in this range.'')),
    (js ''stats.exportRanking'', Plain (js ''Export ranking CSV'')),
    (js ''stats.referrers'', Plain (js ''Referrers'')),
    (js ''stats.devices'', Plain (js ''Devices'')),
    (js ''stats.direct'', Plain (js ''Direct'')),
    (js ''stats.emptyReferrers'', Plain (js ''No referrer data in this range.'')),
    (js ''stats.emptyDevices'', Plain (js ''No device data in this range.'')),
    (js ''stats.linkDetail'', Plain (js ''Link detail'')),
    (js ''stats.selectLink'', Plain (js ''Select a link'' @ [8230])),
    (js ''stats.loading'', Plain (js ''Loading'' @ [8230])),
    (js ''stats.totalClicks'', Plain (js ''Total clicks'')),
    (js ''stats.dailyClicks'', Plain (js ''Clicks by day'')),
    (js ''stats.clickLog'', Plain (js ''Click log'')),
    (js ''stats.emptyClicks'', Plain (js ''No clicks recorded in this range.'')),
    (js ''stats.recentClicks'', Plain (js ''Recent clicks'')),
    (js ''stats.table.short'', Plain (js ''Short link'')),
    (js ''stats.table.clicks'', Plain (js ''Clicks'')),
    (js ''stats.table.referrer'', Plain (js ''Referrer'')),
    (js ''stats.table.time'', Plain (js ''Time'')),
    (js ''stats.table.userAgent'', Plain (js ''User-Agent'')),
    (js ''stats.csv.rank'', Plain (js ''Rank'')),
    (js ''stats.csv.destination'', Plain (js ''Destination'')),
    (js ''stats.csv.date'', Plain (js ''Date'')),
    (js ''stats.loadFailed'', Plain (js ''Failed to load the statistics.'')),
    (js ''stats.loadRankingFailed'', Plain (js ''Failed to load the ranking.'')),
    (js ''stats.loadDetailFailed'', Plain (js ''Failed to load the link detail.'')),
    (js ''stats.loadClicksFailed'', Plain (js ''Failed to load the click log.'')),
    (js ''audit.title'', Plain (js ''Audit log'')),
    (js ''audit.allActions'', Plain (js ''All actions'')),
    (js ''audit.table.time'', Plain (js ''Time'')),
    (js ''audit.table.actor'', Plain (js ''Actor'')),
    (js ''audit.table.action'', Plain (js ''Action'')),
    (js ''audit.table.detail'', Plain (js ''Detail'')),
    (js ''audit.emptyFiltered'', Plain (js ''No entries for this action.'')),
    (js ''audit.empty'', Plain (js ''No entries yet.'')),
    (js ''audit.filterLabel'', Plain (js ''Filter by action'')),
    (js ''home.skipToMain'', Plain (js ''Skip to page content'')),
    (js ''audit.loadFailed'', Plain (js ''Failed to load the audit log.'')),
    (js ''audit.action.link.create'', Plain (js ''Created a link'')),
    (js ''audit.action.link.update'', Plain (js ''Updated a link'')),
    (js ''audit.action.link.delete'', Plain (js ''Deleted a link'')),
    (js ''audit.action.link.import'', Plain (js ''Imported links'')),
    (js ''audit.action.link.bulk'', Plain (js ''Bulk action'')),
    (js ''audit.action.token.create'', Plain (js ''Created a token'')),
    (js ''audit.action.token.revoke'', Plain (js ''Revoked a token'')),
    (js ''audit.action.session.login'', Plain (js ''Signed in'')),
    (js ''audit.action.session.logout'', Plain (js ''Signed out'')),
    (js ''audit.action.session.2fa'', Plain (js ''Signed in with two-factor authentication'')),
    (js ''audit.action.user.register'', Plain (js ''Registered an account'')),
    (js ''audit.action.user.update'', Plain (js ''Updated a user'')),
    (js ''audit.action.user.2fa_enroll'', Plain (js ''Enrolled in two-factor authentication'')),
    (js ''audit.action.user.2fa_disable'', Plain (js ''Disabled two-factor authentication'')),
    (js ''audit.action.user.2fa_reset'', Plain (js ''Reset two-factor authentication'')),
    (js ''audit.action.role.update'', Plain (js ''Updated a role'')),
    (js ''audit.action.oidc.create'', Plain (js ''Added a sign-in method'')),
    (js ''audit.action.oidc.update'', Plain (js ''Changed a sign-in method'')),
    (js ''audit.action.oidc.delete'', Plain (js ''Removed a sign-in method'')),
    (js ''audit.action.analytics.update'', Plain (js ''Changed analytics settings'')),
    (js ''audit.action.captcha.update'', Plain (js ''Changed registration protection'')),
    (js ''audit.action.runtime_settings.update'', Plain (js ''Update site policies'')),
    (js ''users.title'', Plain (js ''User management'')),
    (js ''users.directoryTitle'', Plain (js ''Account directory'')),
    (js ''users.directoryDescription'', Plain (js ''Review login sources, role assignments, account status, and second-factor coverage.'')),
    (js ''users.table.username'', Plain (js ''Username'')),
    (js ''users.table.source'', Plain (js ''Sign-in source'')),
    (js ''users.table.role'', Plain (js ''Role'')),
    (js ''users.table.status'', Plain (js ''Status''))]"

definition en_messages_5 :: dictionary where
  "en_messages_5 = [
    (js ''users.table.mfa'', Plain (js ''Two-factor'')),
    (js ''users.table.created'', Plain (js ''Registered'')),
    (js ''users.table.actions'', Plain (js ''Actions'')),
    (js ''users.self'', Plain (js ''You'')),
    (js ''users.status.active'', Plain (js ''Active'')),
    (js ''users.status.disabled'', Plain (js ''Disabled'')),
    (js ''users.mfa.enabled'', Plain (js ''Enabled'')),
    (js ''users.mfa.disabled'', Plain (js ''Not enabled'')),
    (js ''users.source.password'', Plain (js ''Password'')),
    (js ''users.source.oidc'', Plain (js ''OIDC'')),
    (js ''users.resetMfa'', Plain (js ''Reset'')),
    (js ''users.resetMfaTitle'', Plain (js ''Reset two-factor?'')),
    (js ''users.resetMfaSubject'', Plain (js ''{username} will lose the second factor they have bound.'')),
    (js ''users.resetMfaHint'', Plain (js ''They can sign in with a password alone until they bind a new code. This is the only way back in after the encryption key changes.'')),
    (js ''users.resetMfaConfirm'', Plain (js ''Reset second factor'')),
    (js ''users.enable'', Plain (js ''Enable'')),
    (js ''users.disable'', Plain (js ''Disable'')),
    (js ''users.empty'', Plain (js ''No users.'')),
    (js ''settings.saved'', Plain (js ''Saved'')),
    (js ''settings.unsaved'', Plain (js ''Unsaved changes'')),
    (js ''settings.synced'', Plain (js ''Up to date'')),
    (js ''settings.configured'', Plain (js ''Configured'')),
    (js ''settings.notConfigured'', Plain (js ''Not configured'')),
    (js ''settings.leaveBlank'', Plain (js '' (leave blank to keep)'')),
    (js ''settings.home.title'', Plain (js ''Settings'')),
    (js ''settings.home.description'', Plain (js ''Configure access, protect the service, and decide how links behave.'')),
    (js ''settings.home.overviewDescription'', Plain (js ''See every configuration area from one place.'')),
    (js ''settings.home.accessDescription'', Plain (js ''Manage people, roles, and the ways they sign in.'')),
    (js ''settings.home.securityDescription'', Plain (js ''Protect administrator accounts and public registration.'')),
    (js ''settings.home.linksDescription'', Plain (js ''Control code generation, redirects, jobs, and rate limits.'')),
    (js ''settings.home.analyticsDescription'', Plain (js ''Connect the analytics tools that receive traffic data.'')),
    (js ''settings.home.usersDescription'', Plain (js ''Review accounts, roles, sign-in sources, and account status.'')),
    (js ''settings.home.rolesDescription'', Plain (js ''Decide which parts of the console each role can use.'')),
    (js ''settings.home.oidcDescription'', Plain (js ''Configure external identity providers and callback URLs.'')),
    (js ''settings.home.securityPageDescription'', Plain (js ''Set up two-factor authentication and API tokens.'')),
    (js ''settings.home.captchaDescription'', Plain (js ''Add Turnstile protection to public registration.'')),
    (js ''settings.home.runtimeDescription'', Plain (js ''Set short-code, redirect, worker, and rate-limit behaviour.'')),
    (js ''settings.home.analyticsPageDescription'', Plain (js ''Configure GA4, Google Tag Manager, Google tag, Matomo and Clarity.'')),
    (js ''settings.home.manage'', Plain (js ''Manage'')),
    (js ''settings.home.pageCount'', Counted (js ''{count} page'') (js ''{count} pages'')),
    (js ''settings.home.noAccess'', Plain (js ''There are no settings available for this account.'')),
    (js ''settings.roles.title'', Plain (js ''Roles & permissions'')),
    (js ''settings.roles.description'', Plain (js ''Create clear permission bundles for the people who operate Purels.'')),
    (js ''settings.roles.saved'', Plain (js ''Saved {name}'')),
    (js ''settings.roles.unrestricted'', Plain (js ''Manage every link'')),
    (js ''settings.roles.unrestrictedDescription'', Plain (js ''This role can view and manage links across the whole deployment.'')),
    (js ''settings.roles.group.links'', Plain (js ''Links'')),
    (js ''settings.roles.group.workspace'', Plain (js ''Workspace'')),
    (js ''settings.roles.group.access'', Plain (js ''Accounts & access'')),
    (js ''settings.roles.group.service'', Plain (js ''Service controls'')),
    (js ''scope.links:read'', Plain (js ''View links'')),
    (js ''scope.links:write'', Plain (js ''Create and edit links'')),
    (js ''scope.stats:read'', Plain (js ''View statistics'')),
    (js ''scope.audit:read'', Plain (js ''View the audit log'')),
    (js ''scope.tokens:manage'', Plain (js ''Manage own API tokens'')),
    (js ''scope.users:manage'', Plain (js ''Manage users'')),
    (js ''scope.roles:manage'', Plain (js ''Manage role permissions'')),
    (js ''scope.oidc:manage'', Plain (js ''Manage sign-in methods'')),
    (js ''scope.analytics:manage'', Plain (js ''Manage external tracking'')),
    (js ''scope.captcha:manage'', Plain (js ''Manage registration protection'')),
    (js ''scope.settings:manage'', Plain (js ''Manage site policies'')),
    (js ''settings.security.title'', Plain (js ''Account security'')),
    (js ''settings.security.description'', Plain (js ''Protect administrator accounts with a second factor and scoped API tokens.'')),
    (js ''settings.security.mfa'', Plain (js ''Two-factor authentication'')),
    (js ''settings.security.enabled'', Plain (js ''Enabled'')),
    (js ''settings.security.notEnabled'', Plain (js ''Not enabled'')),
    (js ''settings.security.unavailable'', Plain (js ''This deployment has not enabled two-factor authentication.'')),
    (js ''settings.security.recoveryWarning'', Plain (js ''These recovery codes are shown once. Save them now.'')),
    (js ''settings.security.recoverySaved'', Plain (js ''I have saved them'')),
    (js ''settings.security.qrAlt'', Plain (js ''Two-factor authentication QR code'')),
    (js ''settings.security.secret'', Plain (js ''Secret'')),
    (js ''settings.security.code'', Plain (js ''Verification code'')),
    (js ''settings.security.confirm'', Plain (js ''Confirm'')),
    (js ''settings.security.codesRemaining'', Counted (js ''{count} recovery code left'') (js ''{count} recovery codes left'')),
    (js ''settings.security.currentPassword'', Plain (js ''Current password'')),
    (js ''settings.security.turnOff'', Plain (js ''Turn off'')),
    (js ''settings.security.turnOn'', Plain (js ''Turn on'')),
    (js ''settings.security.restart'', Plain (js ''Set up again'')),
    (js ''settings.security.tokensTitle'', Plain (js ''Create a token'')),
    (js ''settings.security.tokensDescription'', Plain (js ''Use a named token for automation. The secret is shown only once.'')),
    (js ''settings.security.tokenWarning'', Plain (js ''Save the token now. It will not be shown again.'')),
    (js ''settings.security.tokenCreated'', Plain (js ''Token created'')),
    (js ''settings.security.tokenRevoked'', Plain (js ''Token revoked'')),
    (js ''settings.security.tokenName'', Plain (js ''Token name'')),
    (js ''settings.security.create'', Plain (js ''Create'')),
    (js ''settings.security.tokenList'', Plain (js ''API tokens'')),
    (js ''settings.security.noTokens'', Plain (js ''No tokens'')),
    (js ''settings.security.revoke'', Plain (js ''Revoke'')),
    (js ''settings.oidc.title'', Plain (js ''Sign-in methods'')),
    (js ''settings.oidc.description'', Plain (js ''Connect external identity providers and choose whether first-time users are provisioned automatically.'')),
    (js ''settings.oidc.noRedirectBase'', Plain (js ''The callback prefix is not known. Set OIDC_REDIRECT_BASE before configuring a sign-in method.'')),
    (js ''settings.oidc.enable'', Plain (js ''Enable'')),
    (js ''settings.oidc.enabled'', Plain (js ''Enabled'')),
    (js ''settings.oidc.disabled'', Plain (js ''Disabled'')),
    (js ''settings.oidc.confirmDelete'', Plain (js ''Delete'')),
    (js ''settings.oidc.deleteWarning'', Plain (js ''Accounts bound to this sign-in method will not be able to sign in, and no password can be set for them in the application.'')),
    (js ''settings.oidc.boundAccounts'', Counted (js ''{count} account is currently bound.'') (js ''{count} accounts are currently bound.'')),
    (js ''settings.oidc.name'', Plain (js ''Name'')),
    (js ''settings.oidc.issuer'', Plain (js ''Issuer'')),
    (js ''settings.oidc.clientId'', Plain (js ''Client ID'')),
    (js ''settings.oidc.clientSecret'', Plain (js ''Client secret'')),
    (js ''settings.oidc.scopes'', Plain (js ''Scopes'')),
    (js ''settings.secretSet'', Plain (js ''Set'')),
    (js ''settings.secretUnset'', Plain (js ''Not set'')),
    (js ''settings.oidc.autoProvision'', Plain (js ''Create an account on first sign-in'')),
    (js ''settings.oidc.callback'', Plain (js ''Callback URL'')),
    (js ''settings.oidc.newTitle'', Plain (js ''Add a sign-in method'')),
    (js ''settings.oidc.newDescription'', Plain (js ''Register the provider once, then copy the callback URL into its console.'')),
    (js ''settings.oidc.providerListDescription'', Plain (js ''Existing providers, callback addresses, and linked account counts.'')),
    (js ''settings.oidc.slug'', Plain (js ''Identifier (used in the callback URL, fixed after creation)'')),
    (js ''settings.oidc.namePlaceholder'', Plain (js ''Company account'')),
    (js ''settings.oidc.clientSecretNew'', Plain (js ''Client secret (leave blank for a public client)'')),
    (js ''settings.oidc.add'', Plain (js ''Add'')),
    (js ''settings.oidc.adding'', Plain (js ''Adding...'')),
    (js ''settings.oidc.created'', Plain (js ''Sign-in method added'')),
    (js ''settings.oidc.saved'', Plain (js ''Saved {name}'')),
    (js ''settings.oidc.deleted'', Plain (js ''Deleted {name}'')),
    (js ''settings.oidc.noPermission'', Plain (js ''You do not have permission to manage sign-in methods.'')),
    (js ''settings.analytics.title'', Plain (js ''External tracking integrations'')),
    (js ''settings.analytics.description'', Plain (js ''Load third-party tracking into every page this deployment serves: the landing page, sign-in and registration, the management console, and a short link'' @ [39] @ js ''s interstitial and preview pages. The redirect itself is a 302 and never renders a page, so it cannot be tracked.'')),
    (js ''settings.analytics.providersTitle'', Plain (js ''External tracking for every page'')),
    (js ''settings.analytics.providersDescription'', Plain (js ''These integrations track every page the deployment serves, not just the console. Leave unused services blank; Matomo needs both a URL and site ID.'')),
    (js ''settings.analytics.configuredCount'', Counted (js ''{count} provider configured'') (js ''{count} providers configured'')),
    (js ''settings.analytics.ga4Description'', Plain (js ''Measure page views using Google Analytics 4.'')),
    (js ''settings.analytics.gtmDescription'', Plain (js ''Load a Google Tag Manager container; the container'' @ [39] @ js ''s own triggers decide what is sent.'')),
    (js ''settings.analytics.googleTagDescription'', Plain (js ''Load a Google tag (gtag.js). It is a different ID from a GTM container, and neither works in the other'' @ [39] @ js ''s place.'')),
    (js ''settings.analytics.matomoDescription'', Plain (js ''Send page views to your Matomo instance.'')),
    (js ''settings.analytics.clarityDescription'', Plain (js ''Load Microsoft Clarity, which records sessions and builds heatmaps '' @ [8212] @ js '' considerably more than a page view.'')),
    (js ''settings.analytics.ga4'', Plain (js ''GA4 measurement ID'')),
    (js ''settings.analytics.gtm'', Plain (js ''GTM container ID'')),
    (js ''settings.analytics.googleTag'', Plain (js ''Google tag ID'')),
    (js ''settings.analytics.matomoUrl'', Plain (js ''Matomo URL''))]"

definition en_messages_6 :: dictionary where
  "en_messages_6 = [
    (js ''settings.analytics.matomoSiteId'', Plain (js ''Matomo site ID'')),
    (js ''settings.analytics.clarity'', Plain (js ''Clarity project ID'')),
    (js ''settings.analytics.noPermission'', Plain (js ''You do not have permission to manage analytics.'')),
    (js ''settings.analytics.invalidGa4'', Plain (js ''The GA4 measurement ID is not valid; it looks like G-XXXXXXXXXX.'')),
    (js ''settings.analytics.invalidGtm'', Plain (js ''The GTM container ID is not valid; it looks like GTM-XXXXXXX.'')),
    (js ''settings.analytics.invalidGoogleTag'', Plain (js ''The Google tag ID is not valid; it looks like GT-XXXXXXXXXX, not GTM-.'')),
    (js ''settings.analytics.invalidMatomoUrl'', Plain (js ''The Matomo URL is not valid; it must be an http(s) address without credentials, a query string or a fragment.'')),
    (js ''settings.analytics.missingMatomoSiteId'', Plain (js ''A Matomo URL needs a site ID as well.'')),
    (js ''settings.analytics.invalidMatomoSiteId'', Plain (js ''The Matomo site ID is not valid; it must be a positive integer.'')),
    (js ''settings.analytics.invalidClarity'', Plain (js ''The Clarity project ID is not valid; it is a short lower-case token such as ymutupw1dp.'')),
    (js ''settings.captcha.title'', Plain (js ''Registration protection'')),
    (js ''settings.captcha.description'', Plain (js ''Use Cloudflare Turnstile to keep automated sign-ups away from the public registration form.'')),
    (js ''settings.captcha.providerDescription'', Plain (js ''The challenge is checked before a new account is created.'')),
    (js ''settings.captcha.enable'', Plain (js ''Enable'')),
    (js ''settings.captcha.siteKey'', Plain (js ''Site key'')),
    (js ''settings.captcha.secretKey'', Plain (js ''Secret key'')),
    (js ''settings.captcha.expectedHostname'', Plain (js ''Expected hostname'')),
    (js ''settings.captcha.expectedAction'', Plain (js ''Expected action'')),
    (js ''settings.captcha.noPermission'', Plain (js ''You do not have permission to manage registration protection.'')),
    (js ''settings.runtime.title'', Plain (js ''Link & service rules'')),
    (js ''settings.runtime.description'', Plain (js ''Control short-code generation, redirects, background jobs, and rate limits. Changes are stored in the database and picked up without a restart.'')),
    (js ''settings.runtime.linksTitle'', Plain (js ''Links & redirects'')),
    (js ''settings.runtime.linksDescription'', Plain (js ''Control code generation, duplicate destinations, domains and destination policy.'')),
    (js ''settings.runtime.accessTitle'', Plain (js ''Public access & traffic'')),
    (js ''settings.runtime.accessDescription'', Plain (js ''Decide whether visitors can register and which traffic is included in statistics.'')),
    (js ''settings.runtime.aliasMode'', Plain (js ''Code generation'')),
    (js ''settings.runtime.aliasRandom'', Plain (js ''Random (case-sensitive)'')),
    (js ''settings.runtime.aliasSequential'', Plain (js ''Sequential (Base36)'')),
    (js ''settings.runtime.maxLinks'', Plain (js ''Link limit per user (0 means unlimited)'')),
    (js ''settings.runtime.fallbackUrl'', Plain (js ''Fallback URL for an unknown code'')),
    (js ''settings.runtime.shortDomains'', Plain (js ''Available short domains'')),
    (js ''settings.runtime.denylist'', Plain (js ''Destination host denylist'')),
    (js ''settings.runtime.hostHelp'', Plain (js ''One bare host per line, or comma-separated. Hosts are lower-cased and deduplicated when saved.'')),
    (js ''settings.runtime.uniqueUrls'', Plain (js ''Reuse an existing destination link for the same user'')),
    (js ''settings.runtime.registration'', Plain (js ''Allow local account registration'')),
    (js ''settings.runtime.totpEnabled'', Plain (js ''Enable the built-in second factor (TOTP)'')),
    (js ''settings.runtime.forwardQuery'', Plain (js ''Forward query parameters on redirects'')),
    (js ''settings.runtime.countBots'', Plain (js ''Count bot visits in statistics'')),
    (js ''settings.runtime.jobsTitle'', Plain (js ''Background jobs'')),
    (js ''settings.runtime.jobsDescription'', Plain (js ''Pruning and health checks read the new values on the worker'' @ [39] @ js ''s next poll. Durations are in seconds.'')),
    (js ''settings.runtime.pruneGrace'', Plain (js ''Retention after expiry'')),
    (js ''settings.runtime.healthInterval'', Plain (js ''Check interval'')),
    (js ''settings.runtime.autoPrune'', Plain (js ''Delete expired links after the retention period'')),
    (js ''settings.runtime.healthCheck'', Plain (js ''Enable destination health checks'')),
    (js ''settings.runtime.rateTitle'', Plain (js ''Rate limiting'')),
    (js ''settings.runtime.rateDescription'', Plain (js ''Requests allowed per client IP per minute. Set a route to 0 for no limit.'')),
    (js ''settings.runtime.rateEnabled'', Plain (js ''Enable rate limiting'')),
    (js ''settings.runtime.rateLogin'', Plain (js ''Sign in'')),
    (js ''settings.runtime.rateRegister'', Plain (js ''Registration'')),
    (js ''settings.runtime.rate2fa'', Plain (js ''Two-factor'')),
    (js ''settings.runtime.rateOidc'', Plain (js ''OIDC'')),
    (js ''settings.runtime.rateApi'', Plain (js ''API'')),
    (js ''settings.runtime.rateRedirect'', Plain (js ''Short-link redirect'')),
    (js ''settings.runtime.revision'', Plain (js ''Configuration revision {revision}'')),
    (js ''settings.runtime.noPermission'', Plain (js ''You do not have permission to manage link and service rules.'')),
    (js ''error.network'', Plain (js ''Cannot reach the API server. Check the backend address.'')),
    (js ''error.session_expired'', Plain (js ''Your session has expired. Please sign in again.'')),
    (js ''error.http_error'', Plain (js ''Request failed ({status}).'')),
    (js ''error.invalid_request'', Plain (js ''The request could not be read.'')),
    (js ''error.unauthorized'', Plain (js ''You are not signed in, or your session has expired.'')),
    (js ''error.insufficient_scope'', Plain (js ''You do not have permission to do that.'')),
    (js ''error.csrf_required'', Plain (js ''The security token is missing. Please reload the page.'')),
    (js ''error.csrf_invalid'', Plain (js ''The security token is invalid. Please reload the page.'')),
    (js ''error.csrf_unavailable'', Plain (js ''Could not obtain a security token. Please reload the page.'')),
    (js ''error.not_found'', Plain (js ''That record does not exist, or has been deleted.'')),
    (js ''error.conflict'', Plain (js ''That record already exists.'')),
    (js ''error.rate_limited'', Plain (js ''Too many requests. Please slow down and try again.'')),
    (js ''error.internal_error'', Plain (js ''Something went wrong. Please try again.'')),
    (js ''error.database_unavailable'', Plain (js ''The database is temporarily unavailable.'')),
    (js ''error.registration_disabled'', Plain (js ''Registration is not open on this deployment.'')),
    (js ''error.invalid_credentials'', Plain (js ''Incorrect username or password.'')),
    (js ''error.invalid_second_factor'', Plain (js ''The verification code is incorrect or has expired.'')),
    (js ''error.two_factor_unavailable'', Plain (js ''Two-factor authentication is not available on this deployment.'')),
    (js ''error.no_enrolment'', Plain (js ''No enrolment is in progress.'')),
    (js ''error.quota_exceeded'', Plain (js ''You have reached your link limit.'')),
    (js ''error.last_capability_holder'', Plain (js ''At least one enabled account must keep this permission.'')),
    (js ''error.secrets_unavailable'', Plain (js ''This deployment cannot store encrypted secrets. Set SECRET_ENCRYPTION_KEY.'')),
    (js ''error.oidc_slug_immutable'', Plain (js ''The identifier cannot be changed after creation. Add a separate method instead.'')),
    (js ''error.captcha_unavailable'', Plain (js ''Registration protection is temporarily unavailable.'')),
    (js ''error.captcha_invalid'', Plain (js ''The verification did not pass. Please try again.'')),
    (js ''error.captcha_invalid_settings'', Plain (js ''The registration protection settings are invalid.'')),
    (js ''error.captcha_secrets_unavailable'', Plain (js ''This deployment cannot store encrypted secrets. Set SECRET_ENCRYPTION_KEY.'')),
    (js ''error.analytics_invalid'', Plain (js ''The tracking settings are invalid.'')),
    (js ''error.load'', Plain (js ''Failed to load.'')),
    (js ''error.save'', Plain (js ''Failed to save.'')),
    (js ''error.create'', Plain (js ''Failed to create.'')),
    (js ''error.update'', Plain (js ''Failed to update.'')),
    (js ''error.delete'', Plain (js ''Failed to delete.'')),
    (js ''error.revoke'', Plain (js ''Failed to revoke.'')),
    (js ''error.reset'', Plain (js ''Failed to reset.'')),
    (js ''error.operation'', Plain (js ''The operation failed.'')),
    (js ''error.bulk'', Plain (js ''The bulk action failed.'')),
    (js ''error.export'', Plain (js ''Failed to export.'')),
    (js ''error.import'', Plain (js ''Failed to import.'')),
    (js ''error.check'', Plain (js ''Failed to check the destination.''))]"

definition en_messages :: dictionary where
  "en_messages = en_messages_1 @ en_messages_2 @ en_messages_3 @ en_messages_4 @ en_messages_5 @ en_messages_6"

end
