(* ===== verification/Messages_Zh.thy ===== *)
theory Messages_Zh
  imports Messages_En
begin

text \<open>
  The Chinese dictionary of \<open>web/src/lib/i18n/messages/zh-CN.ts\<close>, entry by entry, in the order of
  the file and cut at the same keys as the English one. Text outside ASCII is written as its
  UTF-16 codes.
\<close>

definition zh_messages_1 :: dictionary where
  "zh_messages_1 = [
    (js ''settings.guard.title'', Plain ([23384, 22312, 26410, 20445, 23384, 20462, 25913])),
    (js ''settings.guard.description'', Plain ([24403, 21069, 39029, 38754, 30340, 20462, 25913, 23578, 26410, 20445, 23384, 65292, 31163, 24320, 21518, 23558, 20002, 22833, 36825, 20123, 20462, 25913, 12290])),
    (js ''settings.guard.keepEditing'', Plain ([32487, 32493, 32534, 36753])),
    (js ''settings.guard.discardLeave'', Plain ([25918, 24323, 24182, 31163, 24320])),
    (js ''settings.nav.description'', Plain ([32479, 19968, 31649, 29702, 38142, 25509, 12289, 27880, 20876, 30331, 24405, 12289, 29992, 25143, 26435, 38480, 12289, 27969, 37327, 38450, 25252, 21644, 32479, 35745, 38598, 25104, 12290])),
    (js ''settings.nav.links'', Plain ([38142, 25509])),
    (js ''settings.nav.linksDescription'', Plain ([37197, 32622, 30701, 38142, 21019, 24314, 12289, 36339, 36716, 31574, 30053, 12289, 20581, 24247, 26816, 26597, 19982, 36807, 26399, 28165, 29702, 12290])),
    (js ''settings.nav.registration'', Plain ([27880, 20876, 19982, 30331, 24405])),
    (js ''settings.nav.registrationDescription'', Plain ([31649, 29702, 26412, 22320, 36134, 21495, 27880, 20876, 12289, 20869, 32622, 21452, 22240, 32032, 21644, 31532, 19977, 26041, 30331, 24405, 26041, 24335, 12290])),
    (js ''settings.nav.access'', Plain ([29992, 25143, 19982, 26435, 38480])),
    (js ''settings.nav.accessDescription'', Plain ([31649, 29702, 36134, 21495, 29366, 24577, 65292, 20915, 23450, 21508, 35282, 33394, 21487, 20197, 20351, 29992, 30340, 21151, 33021, 12290])),
    (js ''settings.nav.traffic'', Plain ([27969, 37327, 38450, 25252])),
    (js ''settings.nav.trafficDescription'', Plain ([35774, 32622, 30331, 24405, 27880, 20876, 12289] @ js ''API '' @ [21644, 30701, 38142, 36339, 36716, 30340, 35831, 27714, 38480, 39069, 12290])),
    (js ''settings.nav.analytics'', Plain ([32479, 35745, 19982, 38598, 25104])),
    (js ''settings.nav.analyticsDescription'', Plain ([35843, 25972, 30701, 38142, 32479, 35745, 21475, 24452, 65292, 36830, 25509, 25511, 21046, 21488, 30340, 22806, 37096, 32479, 35745, 24037, 20855, 12290])),
    (js ''settings.nav.creation'', Plain ([21019, 24314, 19982, 22495, 21517])),
    (js ''settings.nav.redirects'', Plain ([36339, 36716, 19982, 30446, 26631])),
    (js ''settings.nav.maintenance'', Plain ([26816, 26597, 19982, 28165, 29702])),
    (js ''settings.nav.publicRegistration'', Plain ([26412, 22320, 36134, 21495])),
    (js ''settings.nav.thirdParty'', Plain ([31532, 19977, 26041, 30331, 24405])),
    (js ''settings.nav.healthEnabled'', Plain ([20581, 24247, 26816, 26597, 24050, 21551, 29992])),
    (js ''settings.nav.healthDisabled'', Plain ([20581, 24247, 26816, 26597, 26410, 21551, 29992])),
    (js ''settings.nav.cleanupEnabled'', Plain ([33258, 21160, 28165, 29702, 24050, 21551, 29992])),
    (js ''settings.nav.cleanupDisabled'', Plain ([33258, 21160, 28165, 29702, 26410, 21551, 29992])),
    (js ''settings.nav.registrationOpen'', Plain ([26412, 22320, 36134, 21495, 27880, 20876, 24050, 24320, 25918])),
    (js ''settings.nav.registrationClosed'', Plain ([26412, 22320, 36134, 21495, 27880, 20876, 24050, 20851, 38381])),
    (js ''settings.nav.totpEnabled'', Plain ([21452, 22240, 32032, 35748, 35777, 24050, 21551, 29992])),
    (js ''settings.nav.totpDisabled'', Plain ([21452, 22240, 32032, 35748, 35777, 26410, 21551, 29992])),
    (js ''settings.nav.captchaEnabled'', Plain ([27880, 20876, 39564, 35777, 24050, 21551, 29992])),
    (js ''settings.nav.captchaDisabled'', Plain ([27880, 20876, 39564, 35777, 26410, 21551, 29992])),
    (js ''settings.nav.oidcEnabled'', Plain ([24050, 21551, 29992] @ js '' {count} '' @ [20010, 31532, 19977, 26041, 30331, 24405])),
    (js ''settings.nav.rateEnabled'', Plain ([35831, 27714, 38480, 27969, 24050, 21551, 29992])),
    (js ''settings.nav.rateDisabled'', Plain ([35831, 27714, 38480, 27969, 26410, 21551, 29992])),
    (js ''settings.nav.botsIncluded'', Plain ([35745, 20837, 26426, 22120, 20154, 35775, 38382])),
    (js ''settings.nav.botsExcluded'', Plain ([25490, 38500, 26426, 22120, 20154, 35775, 38382])),
    (js ''settings.nav.integrationsConfigured'', Plain ([24050, 37197, 32622] @ js '' {count} '' @ [20010, 25511, 21046, 21488, 32479, 35745, 38598, 25104])),
    (js ''settings.nav.statusUnavailable'', Plain ([37096, 20998, 35774, 32622, 29366, 24577, 35835, 21462, 22833, 36133])),
    (js ''settings.nav.retryStatus'', Plain ([37325, 26032, 35835, 21462, 29366, 24577])),
    (js ''settings.search.label'', Plain ([26597, 25214, 35774, 32622])),
    (js ''settings.search.placeholder'', Plain ([25628, 32034, 22495, 21517, 12289, 27880, 20876, 12289, 38480, 27969, 31561, 35774, 32622, 8230])),
    (js ''settings.search.hint'', Plain ([25628, 32034, 21518, 21487, 30452, 25509, 36827, 20837, 23545, 24212, 39029, 38754, 25110, 23383, 27573, 65292, 20165, 26174, 31034, 20320, 26377, 26435, 31649, 29702, 30340, 35774, 32622, 12290])),
    (js ''settings.search.results'', Plain ([35774, 32622, 25628, 32034, 32467, 26524])),
    (js ''settings.search.resultCount'', Plain ([25214, 21040] @ js '' {count} '' @ [20010, 35774, 32622, 39033])),
    (js ''settings.search.empty'', Plain ([27809, 26377, 25214, 21040, 21305, 37197, 30340, 35774, 32622, 65292, 35831, 23581, 35797, 20854, 20182, 21517, 31216, 25110, 20851, 38190, 35789, 12290])),
    (js ''account.title'', Plain ([25105, 30340, 36134, 25143])),
    (js ''account.security'', Plain ([36134, 21495, 23433, 20840])),
    (js ''account.securityDescription'', Plain ([31649, 29702, 20320, 30340, 20004, 27493, 39564, 35777, 21644, 24674, 22797, 30721, 12290])),
    (js ''account.tokens'', Plain (js ''API '' @ [20196, 29260])),
    (js ''account.tokensDescription'', Plain ([21019, 24314, 21644, 25764, 38144, 20379, 24212, 29992, 35775, 38382] @ js '' API '' @ [30340, 20010, 20154, 20196, 29260, 12290])),
    (js ''account.tokensForbidden'', Plain ([20320, 27809, 26377, 31649, 29702] @ js '' API '' @ [20196, 29260, 30340, 26435, 38480, 12290])),
    (js ''account.tokenSaved'', Plain ([25105, 24050, 20445, 23384, 20196, 29260])),
    (js ''settings.form.retry'', Plain ([37325, 26032, 21152, 36733])),
    (js ''settings.form.forbidden'', Plain ([20320, 27809, 26377, 31649, 29702, 36825, 20123, 35774, 32622, 30340, 26435, 38480, 12290])),
    (js ''settings.form.days'', Plain ([22825])),
    (js ''settings.form.hours'', Plain ([23567, 26102])),
    (js ''settings.form.minutes'', Plain ([20998, 38047])),
    (js ''settings.form.seconds'', Plain ([31186])),
    (js ''settings.form.unit'', Plain ([26102, 38388, 21333, 20301])),
    (js ''settings.form.invalidNumber'', Plain ([35831, 36755, 20837, 26377, 25928, 25972, 25968, 65292, 26102, 38388, 38656, 25442, 31639, 20026, 23436, 25972, 31186, 25968, 12290])),
    (js ''settings.form.inactive'', Plain ([24320, 20851, 20851, 38381, 26102, 19981, 29983, 25928, 65292, 24050, 20445, 23384, 25968, 20540, 20250, 20445, 30041, 12290])),
    (js ''settings.form.conflict'', Plain ([27492, 39029, 38754, 25171, 24320, 21518, 37197, 32622, 24050, 34987, 20462, 25913, 12290, 20320, 30340, 32534, 36753, 20173, 20445, 30041, 65292, 35831, 25918, 24323, 20462, 25913, 24182, 21152, 36733, 26368, 26032, 37197, 32622, 21518, 37325, 35797, 12290])),
    (js ''settings.form.reload'', Plain ([25918, 24323, 20462, 25913, 24182, 37325, 26032, 21152, 36733])),
    (js ''settings.form.discard'', Plain ([25918, 24323, 20462, 25913])),
    (js ''settings.form.save'', Plain ([20445, 23384, 20462, 25913])),
    (js ''settings.links.title'', Plain ([38142, 25509, 35774, 32622])),
    (js ''settings.links.description'', Plain ([37197, 32622, 38142, 25509, 30340, 21019, 24314, 26041, 24335, 12289, 36339, 36716, 31574, 30053, 65292, 20197, 21450, 26816, 26597, 19982, 28165, 29702, 35268, 21017, 12290])),
    (js ''settings.links.creation'', Plain ([21019, 24314, 19982, 22495, 21517])),
    (js ''settings.links.redirects'', Plain ([36339, 36716, 19982, 30446, 26631])),
    (js ''settings.links.maintenance'', Plain ([26816, 26597, 19982, 28165, 29702])),
    (js ''settings.creation.description'', Plain ([35774, 32622, 21019, 24314, 38142, 25509, 26102, 20351, 29992, 30340, 40664, 35748, 35268, 21017, 21644, 39069, 24230, 65292, 23545, 21518, 32493, 35831, 27714, 29983, 25928, 12290])),
    (js ''settings.redirects.description'', Plain ([25511, 21046, 35775, 38382, 21442, 25968, 30340, 36716, 21457, 12289, 30701, 30721, 19981, 23384, 22312, 26102, 30340, 22788, 29702, 65292, 20197, 21450, 30446, 26631, 22320, 22336, 38480, 21046, 12290])),
    (js ''settings.maintenance.description'', Plain ([26816, 26597, 30446, 26631, 22320, 22336, 26159, 21542, 21487, 36798, 65292, 24182, 20915, 23450, 36807, 26399, 38142, 25509, 20445, 30041, 22810, 20037, 12290, 21518, 21488, 20219, 21153, 20250, 35835, 21462, 26356, 26032, 21518, 30340, 37197, 32622, 12290])),
    (js ''settings.links.pruneWarning'', Plain ([33258, 21160, 28165, 29702, 20250, 27704, 20037, 21024, 38500, 36807, 26399, 38142, 25509, 21450, 20854, 28857, 20987, 21382, 21490, 65292, 27492, 25805, 20316, 26080, 27861, 25764, 38144, 12290])),
    (js ''settings.registration.title'', Plain ([27880, 20876, 19982, 30331, 24405])),
    (js ''settings.registration.local'', Plain ([26412, 22320, 36134, 21495, 19982, 21452, 22240, 32032])),
    (js ''settings.registration.description'', Plain ([26412, 22320, 36134, 21495, 27880, 20876, 19982, 20869, 32622, 21452, 22240, 32032, 22312, 27492, 37197, 32622, 65307] @ js ''OIDC '' @ [30331, 24405, 21450, 20854, 33258, 21160, 21019, 24314, 30340, 36134, 21495, 21333, 29420, 35774, 32622, 12290])),
    (js ''settings.registration.oidcLink'', Plain ([31649, 29702, 31532, 19977, 26041, 30331, 24405, 19982, 33258, 21160, 24320, 25143] @ js '' '' @ [8594])),
    (js ''settings.registration.limitsLink'', Plain ([37197, 32622, 27880, 20876, 19982, 30331, 24405, 30340, 35831, 27714, 38480, 27969] @ js '' '' @ [8594])),
    (js ''settings.traffic.title'', Plain ([27969, 37327, 38450, 25252])),
    (js ''settings.traffic.description'', Plain ([24635, 24320, 20851, 25511, 21046, 20197, 19979, 25152, 26377, 35831, 27714, 38480, 39069, 12290, 21333, 20301, 20026, 27599, 20010, 23458, 25143, 31471] @ js '' IP '' @ [27599, 20998, 38047, 35831, 27714, 25968, 65292] @ js ''0 '' @ [34920, 31034, 35813, 39033, 19981, 38480, 27969, 12290])),
    (js ''settings.traffic.authentication'', Plain ([30331, 24405, 19982, 27880, 20876, 35831, 27714])),
    (js ''settings.traffic.service'', Plain (js ''API '' @ [19982, 30701, 38142, 36339, 36716])),
    (js ''settings.statistics.title'', Plain ([30701, 38142, 32479, 35745, 21475, 24452])),
    (js ''settings.statistics.description'', Plain ([20915, 23450, 20869, 32622, 30701, 38142, 32479, 35745, 25253, 34920, 35745, 20837, 21738, 20123, 35775, 38382, 12290])),
    (js ''settings.statistics.pageTitle'', Plain ([32479, 35745, 19982, 38598, 25104])),
    (js ''settings.statistics.pageDescription'', Plain ([20998, 21035, 31649, 29702, 20869, 32622, 30701, 38142, 32479, 35745, 21475, 24452, 19982, 38754, 21521, 20840, 37096, 39029, 38754, 30340, 22806, 37096, 32479, 35745, 38598, 25104, 12290])),
    (js ''settings.captcha.provider'', Plain (js ''Cloudflare Turnstile'')),
    (js ''settings.field.alias_mode'', Plain ([38543, 26426, 30701, 30721, 21306, 20998, 22823, 23567, 20889, 65307, 39034, 24207, 29983, 25104, 20351, 29992, 25968, 23383, 21644, 23383, 27597, 65288] @ js ''Base36'' @ [65289, 12290])),
    (js ''settings.field.unique_urls'', Plain ([26410, 25351, 23450, 33258, 23450, 20041, 30701, 30721, 26102, 65292, 20026, 21516, 19968, 29992, 25143, 22797, 29992, 30456, 21516, 30446, 26631, 22320, 22336, 30340, 26377, 25928, 38142, 25509, 12290])),
    (js ''settings.field.max_links_per_user'', Plain (js ''0 '' @ [34920, 31034, 19981, 38480, 12290, 25317, 26377, 31649, 29702, 20840, 37096, 38142, 25509, 26435, 38480, 30340, 36134, 21495, 19981, 21463, 27492, 39069, 24230, 38480, 21046, 12290])),
    (js ''settings.field.short_domains'', Plain ([27599, 34892, 19968, 20010, 35064, 22495, 21517, 12290] @ js ''DNS '' @ [19982, 35777, 20070, 38656, 21478, 34892, 37197, 32622, 65307, 40664, 35748, 22495, 21517, 20173, 30001, 37096, 32626, 22320, 22336, 20915, 23450, 12290])),
    (js ''settings.field.forward_query'', Plain ([23558, 30701, 38142, 25509, 19978, 30340, 26597, 35810, 21442, 25968, 36716, 21457, 21040, 30446, 26631, 22320, 22336, 12290])),
    (js ''settings.field.fallback_url'', Plain ([30701, 30721, 19981, 23384, 22312, 26102, 20351, 29992, 30340] @ js '' http(s) '' @ [22320, 22336, 12290, 30041, 31354, 20351, 29992, 40664, 35748, 21709, 24212, 12290])),
    (js ''settings.field.destination_denylist'', Plain ([27599, 34892, 19968, 20010, 22495, 21517, 65292, 21253, 21547, 20854, 23376, 22495, 21517, 12290, 21019, 24314, 25110, 32534, 36753, 30446, 26631, 22320, 22336, 21644, 20998, 27969, 35268, 21017, 26102, 26816, 26597, 12290])),
    (js ''settings.field.health_check_enabled'', Plain ([23450, 26399, 26816, 26597, 38142, 25509, 30446, 26631, 22320, 22336, 26159, 21542, 21487, 36798, 12290])),
    (js ''settings.field.health_check_interval_seconds'', Plain ([30446, 26631, 22320, 22336, 26816, 26597, 38388, 38548, 65292, 33539, 22260, 20026] @ js '' 1 '' @ [31186, 33267] @ js '' 30 '' @ [22825, 12290])),
    (js ''settings.field.auto_prune_expired'', Plain ([38142, 25509, 36807, 26399, 21518, 65292, 36229, 36807, 20445, 30041, 26102, 38388, 25165, 20250, 34987, 33258, 21160, 21024, 38500, 12290])),
    (js ''settings.field.prune_grace_seconds'', Plain ([20174, 38142, 25509, 36807, 26399, 26102, 24320, 22987, 35745, 31639, 12290] @ js ''0 '' @ [34920, 31034, 20801, 35768, 22312, 19979, 27425, 28165, 29702, 20219, 21153, 20013, 21024, 38500, 12290])),
    (js ''settings.field.registration_enabled'', Plain ([25511, 21046, 20844, 24320, 30340, 29992, 25143, 21517, 19982, 23494, 30721, 27880, 20876, 20837, 21475, 12290] @ js ''OIDC '' @ [25552, 20379, 21830, 20173, 21487, 29420, 31435, 33258, 21160, 21019, 24314, 36134, 21495, 12290])),
    (js ''settings.field.totp_enabled'', Plain ([20165, 23545, 24050, 23436, 25104, 32465, 23450, 30340, 36134, 21495, 21457, 36215, 39564, 35777, 12290, 20851, 38381, 21518, 25152, 26377, 36134, 21495, 37117, 19981, 20877, 38656, 35201, 31532, 20108, 22240, 23376, 65292, 19988, 19981, 20250, 35299, 32465, 20219, 20309, 36134, 21495, 65307, 35813, 21151, 33021, 20381, 36182] @ js '' SECRET_ENCRYPTION_KEY '' @ [25165, 33021, 29983, 25928, 12290])),
    (js ''settings.field.count_bots'', Plain ([26426, 22120, 20154, 35775, 38382, 22987, 32456, 20250, 35760, 24405, 65292, 27492, 24320, 20851, 21482, 20915, 23450, 25253, 34920, 26159, 21542, 23558, 20854, 35745, 20837, 12290])),
    (js ''settings.field.rate_limit_enabled'', Plain ([23545, 25152, 26377, 23458, 25143, 31471] @ js '' IP '' @ [24212, 29992, 19979, 26041, 35831, 27714, 38480, 39069, 12290])),
    (js ''settings.field.rate_limit_login'', Plain ([27599, 20010] @ js '' IP '' @ [27599, 20998, 38047, 20801, 35768, 30340, 23494, 30721, 30331, 24405, 35831, 27714, 25968, 12290])),
    (js ''settings.field.rate_limit_register'', Plain ([27599, 20010] @ js '' IP '' @ [27599, 20998, 38047, 20801, 35768, 30340, 26412, 22320, 27880, 20876, 35831, 27714, 25968, 12290])),
    (js ''settings.field.rate_limit_2fa'', Plain ([27599, 20010] @ js '' IP '' @ [27599, 20998, 38047, 20801, 35768, 30340, 20004, 27493, 39564, 35777, 35831, 27714, 25968, 12290])),
    (js ''settings.field.rate_limit_oidc'', Plain ([27599, 20010] @ js '' IP '' @ [27599, 20998, 38047, 20801, 35768, 30340, 31532, 19977, 26041, 30331, 24405, 21450, 20844, 24320, 27880, 20876, 20445, 25252, 20803, 25968, 25454, 35831, 27714, 25968, 12290])),
    (js ''settings.field.rate_limit_api'', Plain ([27599, 20010] @ js '' IP '' @ [27599, 20998, 38047, 20801, 35768, 30340, 24050, 35748, 35777] @ js '' API '' @ [35831, 27714, 25968, 12290])),
    (js ''settings.field.rate_limit_redirect'', Plain ([27599, 20010] @ js '' IP '' @ [27599, 20998, 38047, 20801, 35768, 30340, 30701, 38142, 36339, 36716, 35831, 27714, 25968, 12290])),
    (js ''app.title'', Plain (js ''Purels '' @ [31649, 29702, 21518, 21488])),
    (js ''app.description'', Plain (js ''Purels '' @ [38142, 25509, 31649, 29702, 19982, 36816, 33829, 21518, 21488])),
    (js ''home.title'', Plain (js ''Purels | '' @ [33258, 25176, 31649, 30701, 38142, 25509, 29983, 25104, 19982, 25968, 25454, 32479, 35745, 24179, 21488])),
    (js ''home.tagline'', Plain ([24320, 28304, 30340, 33258, 25176, 31649, 30701, 38142, 25509, 26381, 21153, 12290])),
    (js ''home.description'', Plain (js ''Purels '' @ [26159, 24320, 28304, 30340, 33258, 25176, 31649, 30701, 38142, 25509, 26381, 21153, 65292, 25903, 25345, 33258, 23450, 20041, 22495, 21517, 12289, 28857, 20987, 32479, 35745, 21644, 22242, 38431, 31649, 29702, 12290])),
    (js ''home.nav.features'', Plain ([21151, 33021])),
    (js ''home.nav.how'', Plain ([24037, 20316, 21407, 29702])),
    (js ''home.nav.selfHost'', Plain ([33258, 25176, 31649])),
    (js ''home.nav.faq'', Plain ([24120, 35265, 38382, 39064])),
    (js ''home.nav.signIn'', Plain ([30331, 24405])),
    (js ''home.nav.getStarted'', Plain ([24320, 22987, 20351, 29992])),
    (js ''home.nav.console'', Plain ([25511, 21046, 21488])),
    (js ''home.hero.badge'', Plain (js ''Apache-2.0 '' @ [183] @ js '' '' @ [33258, 25176, 31649]))]"

definition zh_messages_2 :: dictionary where
  "zh_messages_2 = [
    (js ''home.hero.title'', Plain ([33258, 25176, 31649, 30701, 38142, 25509])),
    (js ''home.hero.subhead'', Plain ([24320, 28304, 30340, 30701, 38142, 25509, 26381, 21153, 12290, 20351, 29992, 33258, 24049, 30340, 22495, 21517, 21019, 24314, 38142, 25509, 65292, 26597, 30475, 28857, 20987, 32479, 35745, 65292, 19982, 22242, 38431, 19968, 36215, 31649, 29702, 12290])),
    (js ''home.hero.ctaPrimary'', Plain ([24320, 22987, 20351, 29992])),
    (js ''home.hero.ctaSecondary'', Plain ([30331, 24405, 25511, 21046, 21488])),
    (js ''home.hero.stat.deploy'', Plain ([26465, 37096, 32626, 21629, 20196])),
    (js ''home.hero.stat.scopes'', Plain ([20010, 26435, 38480, 20316, 29992, 22495])),
    (js ''home.hero.stat.modes'', Plain ([31181, 35775, 23458, 22320, 22336, 27169, 24335])),
    (js ''home.hero.mock.link'', Plain ([30701, 38142, 25509])),
    (js ''home.hero.mock.links'', Plain ([38142, 25509])),
    (js ''home.hero.mock.clicks'', Plain ([28857, 20987])),
    (js ''home.hero.mock.visitors'', Plain ([29420, 31435, 35775, 23458])),
    (js ''home.hero.mock.trend'', Plain ([36817] @ js '' 7 '' @ [22825])),
    (js ''home.features.title'', Plain ([26680, 24515, 21151, 33021])),
    (js ''home.feature.links.title'', Plain ([30701, 38142, 25509, 31649, 29702])),
    (js ''home.feature.links.body'', Plain ([21019, 24314, 30701, 38142, 25509, 65292, 33258, 23450, 20041, 21035, 21517, 65292, 24182, 29992, 26631, 31614, 21644, 25209, 37327, 25805, 20316, 31649, 29702, 38142, 25509, 12290])),
    (js ''home.feature.stats.title'', Plain ([28857, 20987, 32479, 35745])),
    (js ''home.feature.stats.body'', Plain ([26597, 30475, 28857, 20987, 27425, 25968, 12289, 26469, 28304, 12289, 35774, 22791, 21644, 35775, 38382, 36235, 21183, 12290])),
    (js ''home.feature.rules.title'', Plain ([26234, 33021, 36339, 36716])),
    (js ''home.feature.rules.body'', Plain ([26681, 25454, 35774, 22791, 25110] @ js '' User-Agent'' @ [65292, 23558, 35775, 23458, 36865, 24448, 19981, 21516, 30340, 30446, 26631, 22320, 22336, 12290])),
    (js ''home.feature.access.title'', Plain ([22242, 38431, 31649, 29702])),
    (js ''home.feature.access.body'', Plain ([31649, 29702, 29992, 25143, 21644, 35282, 33394, 65292, 20351, 29992, 21452, 22240, 32032, 35748, 35777, 25110, 21333, 28857, 30331, 24405, 65292, 24182, 26597, 30475, 25805, 20316, 26085, 24535, 12290])),
    (js ''home.feature.gallery.title'', Plain ([36339, 36716, 39029, 38754])),
    (js ''home.feature.gallery.body'', Plain ([22312, 36339, 36716, 21069, 23637, 31034, 30446, 26631, 22320, 22336, 21644, 30011, 20316, 65292, 20063, 21487, 20197, 30452, 25509, 36339, 36716, 12290])),
    (js ''home.feature.privacy.title'', Plain ([25968, 25454, 19982, 38544, 31169])),
    (js ''home.feature.privacy.body'', Plain ([25968, 25454, 20445, 23384, 22312, 33258, 24049, 30340, 25968, 25454, 24211, 20013, 65292, 35775, 23458] @ js '' IP '' @ [30340, 35760, 24405, 26041, 24335, 30001, 20320, 36873, 25321, 12290])),
    (js ''home.chip.qr'', Plain ([20108, 32500, 30721])),
    (js ''home.chip.csv'', Plain (js ''CSV '' @ [23548, 20837, 23548, 20986])),
    (js ''home.chip.token'', Plain (js ''API Token'' @ [65288, 24102, 20316, 29992, 22495, 65289])),
    (js ''home.chip.rateLimit'', Plain ([38480, 27969])),
    (js ''home.chip.domains'', Plain ([22810, 20010, 30701, 22495, 21517])),
    (js ''home.chip.probe'', Plain ([30446, 26631, 22320, 22336, 20581, 24247, 26816, 26597])),
    (js ''home.how.title'', Plain ([24037, 20316, 21407, 29702])),
    (js ''home.how.create.title'', Plain ([21019, 24314])),
    (js ''home.how.create.body'', Plain ([36755, 20837, 30446, 26631, 22320, 22336, 65292, 36873, 25321, 21035, 21517, 25110, 33258, 21160, 29983, 25104, 12290])),
    (js ''home.how.share.title'', Plain ([20998, 20139])),
    (js ''home.how.share.body'', Plain ([20998, 20139, 30701, 38142, 25509, 65292, 25110, 29983, 25104, 20108, 32500, 30721, 12290])),
    (js ''home.how.measure.title'', Plain ([26597, 30475, 32479, 35745])),
    (js ''home.how.measure.body'', Plain ([26597, 30475, 38142, 25509, 30340, 28857, 20987, 27425, 25968, 21644, 35775, 38382, 26469, 28304, 12290])),
    (js ''home.selfHost.title'', Plain ([24320, 28304, 65292, 33258, 34892, 37096, 32626])),
    (js ''home.selfHost.body'', Plain ([20351, 29992, 33258, 24049, 30340, 22495, 21517, 21019, 24314, 30701, 38142, 25509, 65292, 38142, 25509, 21644, 35775, 38382, 25968, 25454, 20445, 23384, 22312, 20320, 30340, 26381, 21153, 22120, 19978, 12290])),
    (js ''home.selfHost.docs'', Plain ([26597, 30475, 23433, 35013, 25351, 21335])),
    (js ''home.faq.title'', Plain ([24120, 35265, 38382, 39064])),
    (js ''home.faq.q1'', Plain ([35841, 33021, 21019, 24314, 30701, 38142, 65311])),
    (js ''home.faq.a1'', Plain ([25317, 26377, 36134, 21495, 30340, 29992, 25143, 21487, 20197, 21019, 24314, 30701, 38142, 25509, 12290, 26222, 36890, 29992, 25143, 31649, 29702, 33258, 24049, 30340, 38142, 25509, 65292, 31649, 29702, 21592, 21487, 20197, 26597, 30475, 20840, 37096, 38142, 25509, 12290])),
    (js ''home.faq.q2'', Plain ([21487, 20197, 29992, 25105, 33258, 24049, 30340, 22495, 21517, 21527, 65311])),
    (js ''home.faq.a2'', Plain ([21487, 20197, 12290, 23558, 22495, 21517, 35299, 26512, 21040, 20320, 30340, 26381, 21153, 65292, 24182, 22312] @ js '' Purels '' @ [20013, 37197, 32622, 30701, 22495, 21517, 12290])),
    (js ''home.faq.q3'', Plain ([36339, 36716, 39029, 19978, 30340, 30011, 20876, 26159, 20160, 20040, 65311])),
    (js ''home.faq.a3'', Plain ([36825, 26159, 21487, 36873, 30340, 36339, 36716, 39029, 38754, 65292, 23637, 31034, 30446, 26631, 22320, 22336, 21644, 19968, 24133, 30011, 20316, 12290, 20320, 21487, 20197, 35774, 32622, 20572, 30041, 26102, 38388, 65292, 25110, 20851, 38381, 39029, 38754, 30452, 25509, 36339, 36716, 12290])),
    (js ''home.faq.q4'', Plain ([35775, 38382, 25968, 25454, 23384, 22312, 21738, 37324, 65311])),
    (js ''home.faq.a4'', Plain ([38142, 25509, 21644, 28857, 20987, 35760, 24405, 20445, 23384, 22312, 20320, 37197, 32622, 30340] @ js '' PostgreSQL '' @ [25968, 25454, 24211, 20013, 12290])),
    (js ''home.faq.q5'', Plain ([25903, 25345, 20004, 27493, 39564, 35777, 21644, 21333, 28857, 30331, 24405, 21527, 65311])),
    (js ''home.faq.a5'', Plain ([25903, 25345] @ js '' TOTP '' @ [21452, 22240, 32032, 35748, 35777, 21644] @ js '' OIDC '' @ [21333, 28857, 30331, 24405, 65292, 21551, 29992, 21069, 38656, 35201, 37197, 32622, 21152, 23494, 23494, 38053, 12290])),
    (js ''home.faq.q6'', Plain ([20851, 25481, 27880, 20876, 20043, 21518, 36824, 33021, 29992, 21527, 65311])),
    (js ''home.faq.a6'', Plain ([21487, 20197, 12290, 20851, 38381, 27880, 20876, 21518, 65292, 24050, 26377, 36134, 21495, 20173, 21487, 27491, 24120, 20351, 29992, 12290])),
    (js ''home.faq.q7'', Plain ([29992, 20160, 20040, 35768, 21487, 65311])),
    (js ''home.faq.a7'', Plain (js ''Apache-2.0'' @ [12290])),
    (js ''home.cta.title'', Plain ([24320, 22987, 20351, 29992] @ js '' Purels'')),
    (js ''home.cta.body'', Plain ([21019, 24314, 30701, 38142, 25509, 65292, 25110, 22312, 33258, 24049, 30340, 26381, 21153, 22120, 19978, 37096, 32626] @ js '' Purels'' @ [12290])),
    (js ''home.cta.button'', Plain ([24320, 22987, 20351, 29992])),
    (js ''home.footer.tagline'', Plain ([24320, 28304, 30340, 33258, 25176, 31649, 30701, 38142, 25509, 26381, 21153, 12290])),
    (js ''home.footer.license'', Plain (js ''Apache-2.0'')),
    (js ''home.footer.copyright'', Plain ([169] @ js '' 2026 Purels'')),
    (js ''nav.overview'', Plain ([27010, 35272])),
    (js ''nav.links'', Plain ([38142, 25509, 31649, 29702])),
    (js ''nav.stats'', Plain ([30701, 38142, 32479, 35745])),
    (js ''nav.audit'', Plain ([25805, 20316, 26085, 24535])),
    (js ''nav.users'', Plain ([29992, 25143])),
    (js ''nav.roles'', Plain ([35282, 33394, 19982, 26435, 38480])),
    (js ''nav.oidc'', Plain ([30331, 24405, 26041, 24335])),
    (js ''nav.analytics'', Plain ([32479, 35745, 19982, 38598, 25104])),
    (js ''nav.security'', Plain ([36134, 21495, 23433, 20840])),
    (js ''nav.captcha'', Plain ([27880, 20876, 20445, 25252])),
    (js ''nav.runtimeSettings'', Plain ([38142, 25509, 19982, 36816, 34892, 35268, 21017])),
    (js ''nav.group.overview'', Plain ([35774, 32622, 24635, 35272])),
    (js ''nav.group.access'', Plain ([29992, 25143, 19982, 26435, 38480])),
    (js ''nav.group.security'', Plain ([23433, 20840, 38450, 25252])),
    (js ''nav.group.links'', Plain ([38142, 25509, 26381, 21153])),
    (js ''nav.group.analytics'', Plain ([25968, 25454, 32479, 35745])),
    (js ''shell.console'', Plain ([31649, 29702, 21518, 21488])),
    (js ''shell.workspace'', Plain ([24037, 20316, 21488])),
    (js ''shell.breadcrumb'', Plain ([39029, 38754, 23548, 33322])),
    (js ''shell.account'', Plain (js ''Purels '' @ [36134, 25143])),
    (js ''shell.accountMenu'', Plain ([36134, 25143, 33756, 21333])),
    (js ''shell.settings'', Plain ([35774, 32622])),
    (js ''shell.theme'', Plain ([20027, 39064])),
    (js ''shell.welcome'', Plain ([27426, 36814, 22238, 26469])),
    (js ''shell.welcomeNamed'', Plain ([27426, 36814, 22238, 26469, 65292] @ js ''{username}'')),
    (js ''shell.logout'', Plain ([36864, 20986, 30331, 24405])),
    (js ''shell.loggingOut'', Plain ([27491, 22312, 36864, 20986] @ js ''...'')),
    (js ''shell.closeMenu'', Plain ([20851, 38381, 33756, 21333])),
    (js ''shell.openMenu'', Plain ([25171, 24320, 33756, 21333])),
    (js ''shell.skipToMain'', Plain ([36339, 21040, 20027, 20869, 23481])),
    (js ''shell.expandSection'', Plain ([23637, 24320, 35774, 32622, 20998, 32452])),
    (js ''shell.collapseSection'', Plain ([25910, 36215, 35774, 32622, 20998, 32452])),
    (js ''shell.language'', Plain ([35821, 35328])),
    (js ''theme.switch'', Plain ([20999, 25442, 20027, 39064])),
    (js ''theme.light'', Plain ([27973, 33394])),
    (js ''theme.dark'', Plain ([28145, 33394])),
    (js ''login.subtitle'', Plain ([30701, 38142, 25509, 31649, 29702, 21518, 21488])),
    (js ''login.heading'', Plain ([30331, 24405])),
    (js ''login.mfaHeading'', Plain ([20004, 27493, 39564, 35777])),
    (js ''login.username'', Plain ([29992, 25143, 21517])),
    (js ''login.password'', Plain ([23494, 30721])),
    (js ''login.code'', Plain ([39564, 35777, 30721])),
    (js ''login.submit'', Plain ([30331, 24405])),
    (js ''login.submitting'', Plain ([30331, 24405, 20013] @ js ''...'')),
    (js ''login.verify'', Plain ([39564, 35777])),
    (js ''login.verifying'', Plain ([39564, 35777, 20013] @ js ''...'')),
    (js ''login.back'', Plain ([36820, 22238])),
    (js ''login.or'', Plain ([25110])),
    (js ''login.noAccount'', Plain ([27809, 26377, 36134, 21495, 65311])),
    (js ''login.register'', Plain ([27880, 20876])),
    (js ''login.failed'', Plain ([30331, 24405, 22833, 36133, 65292, 35831, 31245, 21518, 37325, 35797])),
    (js ''login.verifyFailed'', Plain ([39564, 35777, 22833, 36133, 65292, 35831, 31245, 21518, 37325, 35797]))]"

definition zh_messages_3 :: dictionary where
  "zh_messages_3 = [
    (js ''oidcError.oidc_not_provisioned'', Plain ([26080, 27861, 20026, 36825, 20010, 36523, 20221, 25214, 21040, 21487, 29992, 30340, 36134, 21495, 65292, 35831, 32852, 31995, 31649, 29702, 21592, 12290])),
    (js ''oidcError.oidc_state'', Plain ([36825, 27425, 30331, 24405, 24050, 22833, 25928, 65292, 35831, 37325, 26032, 24320, 22987, 12290])),
    (js ''oidcError.oidc_exchange'', Plain ([36523, 20221, 25552, 20379, 26041, 27809, 26377, 23436, 25104, 36825, 27425, 30331, 24405, 65292, 35831, 37325, 35797, 12290])),
    (js ''oidcError.oidc_unavailable'', Plain ([35813, 30331, 24405, 26041, 24335, 24403, 21069, 19981, 21487, 29992, 65292, 35831, 32852, 31995, 31649, 29702, 21592, 12290])),
    (js ''oidcError.oidc_failed'', Plain ([30331, 24405, 22833, 36133, 65292, 35831, 37325, 35797, 12290])),
    (js ''register.heading'', Plain ([27880, 20876])),
    (js ''register.username'', Plain ([29992, 25143, 21517])),
    (js ''register.password'', Plain ([23494, 30721])),
    (js ''register.submit'', Plain ([27880, 20876])),
    (js ''register.submitting'', Plain ([27880, 20876, 20013] @ js ''...'')),
    (js ''register.haveAccount'', Plain ([24050, 26377, 36134, 21495, 65311])),
    (js ''register.login'', Plain ([30331, 24405])),
    (js ''register.completeCaptcha'', Plain ([35831, 23436, 25104, 39564, 35777])),
    (js ''register.captchaLoadFailed'', Plain ([26080, 27861, 21152, 36733, 27880, 20876, 39564, 35777])),
    (js ''register.failed'', Plain ([27880, 20876, 22833, 36133, 65292, 35831, 31245, 21518, 37325, 35797])),
    (js ''turnstile.loadFailed'', Plain ([39564, 35777, 21152, 36733, 22833, 36133, 65292, 35831, 37325, 35797])),
    (js ''role.admin'', Plain ([31649, 29702, 21592])),
    (js ''role.operator'', Plain ([36816, 33829])),
    (js ''role.readonly'', Plain ([21482, 35835])),
    (js ''role.user'', Plain ([29992, 25143])),
    (js ''common.cancel'', Plain ([21462, 28040])),
    (js ''common.close'', Plain ([20851, 38381])),
    (js ''common.copy'', Plain ([22797, 21046])),
    (js ''common.copied'', Plain ([24050, 22797, 21046])),
    (js ''common.notifications'', Plain ([36890, 30693])),
    (js ''common.delete'', Plain ([21024, 38500])),
    (js ''common.edit'', Plain ([32534, 36753])),
    (js ''common.save'', Plain ([20445, 23384])),
    (js ''common.saving'', Plain ([27491, 22312, 20445, 23384] @ js ''...'')),
    (js ''common.loading'', Plain ([27491, 22312, 21152, 36733] @ js ''...'')),
    (js ''common.previous'', Plain ([19978, 19968, 39029])),
    (js ''common.next'', Plain ([19979, 19968, 39029])),
    (js ''common.page'', Plain ([31532] @ js '' {page} / {count} '' @ [39029])),
    (js ''common.range'', Plain ([31532] @ js '' {start}'' @ [8211] @ js ''{end} '' @ [26465, 65292, 20849] @ js '' {total} '' @ [26465])),
    (js ''common.rangeEmpty'', Plain ([20849] @ js '' 0 '' @ [26465])),
    (js ''common.retry'', Plain ([37325, 35797])),
    (js ''common.actionFailed'', Plain ([25805, 20316, 26410, 23436, 25104, 65292, 35831, 37325, 35797, 12290])),
    (js ''common.unavailable'', Plain ([26080, 27861, 35835, 21462])),
    (js ''dashboard.totalLinks'', Plain ([24635, 38142, 25509, 25968])),
    (js ''dashboard.totalClicks'', Plain ([32047, 35745, 28857, 20987])),
    (js ''dashboard.serviceStatus'', Plain ([26381, 21153, 29366, 24577])),
    (js ''dashboard.statusChecking'', Plain ([27491, 22312, 26816, 26597, 8230])),
    (js ''dashboard.statusReady'', Plain ([26381, 21153, 23601, 32490])),
    (js ''dashboard.statusDegraded'', Plain ([26381, 21153, 26410, 23601, 32490])),
    (js ''dashboard.statusUnreachable'', Plain ([26080, 27861, 36830, 25509] @ js '' API'')),
    (js ''dashboard.recentLinks'', Plain ([26368, 36817, 38142, 25509])),
    (js ''dashboard.viewAll'', Plain ([26597, 30475, 20840, 37096])),
    (js ''dashboard.clicks'', Plain (js ''{count} '' @ [27425, 28857, 20987])),
    (js ''dashboard.empty'', Plain ([26242, 26080, 38142, 25509])),
    (js ''links.title'', Plain ([38142, 25509, 31649, 29702])),
    (js ''links.searchPlaceholder'', Plain ([25628, 32034, 21035, 21517, 25110, 30446, 26631] @ js '' URL'')),
    (js ''links.allTags'', Plain ([20840, 37096, 26631, 31614])),
    (js ''links.tagOption'', Plain (js ''{name}'' @ [65288] @ js ''{count}'' @ [65289])),
    (js ''links.import'', Plain ([23548, 20837] @ js '' CSV'')),
    (js ''links.export'', Plain ([23548, 20986] @ js '' CSV'')),
    (js ''links.create'', Plain ([21019, 24314, 38142, 25509])),
    (js ''links.selectAll'', Plain ([20840, 36873, 26412, 39029])),
    (js ''links.selectOne'', Plain ([36873, 25321] @ js '' {alias}'')),
    (js ''links.checkOk'', Plain ([26816, 26597] @ js '' {code}'')),
    (js ''links.checkFailed'', Plain ([26816, 26597] @ js '' '' @ [22833, 36133])),
    (js ''links.qr'', Plain ([20108, 32500, 30721])),
    (js ''links.confirmDelete'', Plain ([30830, 35748, 21024, 38500, 35813, 38142, 25509, 65311])),
    (js ''links.confirmBulkDelete'', Plain ([30830, 35748, 21024, 38500, 36873, 20013, 30340] @ js '' {count} '' @ [26465, 38142, 25509, 65311])),
    (js ''links.bulkTagPlaceholder'', Plain ([26631, 31614])),
    (js ''links.bulkNeedDate'', Plain ([35831, 36873, 25321, 36807, 26399, 26085, 26399])),
    (js ''links.bulkNeedTag'', Plain ([35831, 36755, 20837, 26631, 31614])),
    (js ''links.bulkSkipped'', Plain (js ''{count} '' @ [26465, 26410, 22788, 29702])),
    (js ''links.selected'', Plain ([24050, 36873] @ js '' {count} '' @ [26465])),
    (js ''links.run'', Plain ([25191, 34892])),
    (js ''links.clearSelection'', Plain ([21462, 28040, 36873, 25321])),
    (js ''links.searchLabel'', Plain ([25628, 32034, 38142, 25509])),
    (js ''links.tagFilterLabel'', Plain ([25353, 26631, 31614, 31579, 36873])),
    (js ''links.sortLabel'', Plain ([38142, 25509, 25490, 24207])),
    (js ''links.bulkActionLabel'', Plain ([25209, 37327, 25805, 20316])),
    (js ''links.bulkDateLabel'', Plain ([36807, 26399, 26085, 26399])),
    (js ''links.emptyFiltered'', Plain ([27809, 26377, 21305, 37197, 30340, 38142, 25509, 12290])),
    (js ''links.empty'', Plain ([26242, 26080, 38142, 25509, 65292, 20808, 21019, 24314, 19968, 20010, 21543, 12290])),
    (js ''links.imported'', Plain ([23548, 20837, 25104, 21151] @ js '' {count} '' @ [26465])),
    (js ''links.deleted'', Plain ([38142, 25509, 24050, 21024, 38500])),
    (js ''links.bulkComplete'', Plain ([24050, 26356, 26032] @ js '' {count} '' @ [26465, 38142, 25509])),
    (js ''links.exported'', Plain (js ''CSV '' @ [24050, 24320, 22987, 23548, 20986])),
    (js ''links.importFailed'', Plain ([22833, 36133] @ js '' {count} '' @ [26465])),
    (js ''links.importErrorLine'', Plain ([31532] @ js '' {line} '' @ [34892, 65306] @ js ''{reason}'')),
    (js ''links.importErrorLineAlias'', Plain ([31532] @ js '' {line} '' @ [34892, 65288] @ js ''{alias}'' @ [65289, 65306] @ js ''{reason}'')),
    (js ''links.copy'', Plain ([22797, 21046])),
    (js ''links.copied'', Plain ([24050, 22797, 21046])),
    (js ''links.copyFailed'', Plain ([22797, 21046, 22833, 36133, 65292, 35831, 25163, 21160, 36873, 25321])),
    (js ''links.created.title'', Plain ([30701, 38142, 24050, 29983, 25104])),
    (js ''links.created.body'', Plain ([28857, 20987, 19979, 26041, 22320, 22336, 21363, 21487, 22797, 21046, 23436, 25972, 30701, 38142, 12290])),
    (js ''links.created.preview'', Plain ([39044, 35272, 36339, 36716, 39029])),
    (js ''links.created.edit'', Plain ([32534, 36753, 38142, 25509])),
    (js ''links.created.new'', Plain ([20877, 21019, 24314, 19968, 26465])),
    (js ''links.table.short'', Plain ([30701, 38142, 25509])),
    (js ''links.table.destination'', Plain ([30446, 26631, 22320, 22336])),
    (js ''links.table.tags'', Plain ([26631, 31614])),
    (js ''links.table.clicks'', Plain ([28857, 20987])),
    (js ''links.table.redirect'', Plain ([36339, 36716])),
    (js ''links.table.status'', Plain ([29366, 24577])),
    (js ''links.table.actions'', Plain ([25805, 20316])),
    (js ''links.form.destination'', Plain ([30446, 26631] @ js '' URL'')),
    (js ''links.form.alias'', Plain ([33258, 23450, 20041, 21035, 21517, 65288, 21487, 36873, 65289])),
    (js ''links.form.aliasPlaceholder'', Plain ([30041, 31354, 33258, 21160, 29983, 25104])),
    (js ''links.form.domain'', Plain ([30701, 22495, 21517])),
    (js ''links.form.title'', Plain ([26631, 39064, 65288, 21487, 36873, 65289])),
    (js ''links.form.tags'', Plain ([26631, 31614, 65288, 21487, 36873, 65289])),
    (js ''links.form.tagsPlaceholder'', Plain ([22810, 20010, 26631, 31614, 29992, 36887, 21495, 20998, 38548])),
    (js ''links.form.redirectCode'', Plain ([36339, 36716, 29366, 24577, 30721])),
    (js ''links.form.interstitial'', Plain ([20808, 26174, 31034, 35201, 36339, 36716, 30340, 22320, 22336])),
    (js ''links.form.interstitialUnit'', Plain ([31186, 21518, 36339, 36716])),
    (js ''links.form.submit'', Plain ([21019, 24314, 38142, 25509])),
    (js ''links.form.submitting'', Plain ([21019, 24314, 20013] @ js ''...'')),
    (js ''links.form.save'', Plain ([20445, 23384, 20462, 25913])),
    (js ''links.form.saving'', Plain ([20445, 23384, 20013] @ js ''...'')),
    (js ''links.redirect.follow'', Plain ([36319, 38543, 38142, 25509])),
    (js ''links.redirect.temporary'', Plain (js ''302 '' @ [20020, 26102, 36339, 36716])),
    (js ''links.redirect.permanent'', Plain (js ''301 '' @ [27704, 20037, 36339, 36716])),
    (js ''links.edit.title'', Plain ([32534, 36753, 38142, 25509])),
    (js ''links.edit.breadcrumbTail'', Plain ([32534, 36753])),
    (js ''links.edit.preview'', Plain ([39044, 35272])),
    (js ''links.edit.status'', Plain ([29366, 24577])),
    (js ''links.edit.statusActive'', Plain ([21551, 29992])),
    (js ''links.edit.statusDisabled'', Plain ([20572, 29992])),
    (js ''links.edit.expires'', Plain ([36807, 26399, 26085, 26399, 65288, 30041, 31354, 20026, 27704, 20037, 65289])),
    (js ''links.edit.notFound'', Plain ([26410, 25214, 21040, 35813, 38142, 25509, 12290]))]"

definition zh_messages_4 :: dictionary where
  "zh_messages_4 = [
    (js ''links.edit.loading'', Plain ([21152, 36733, 20013, 8230])),
    (js ''links.edit.checkNow'', Plain ([31435, 21363, 26816, 26597])),
    (js ''links.edit.checking'', Plain ([26816, 26597, 20013] @ js ''...'')),
    (js ''links.edit.neverChecked'', Plain ([23578, 26410, 26816, 26597])),
    (js ''links.edit.lastChecked'', Plain ([19978, 27425, 26816, 26597] @ js '' {time}'')),
    (js ''links.edit.checkUnreachable'', Plain ([26080, 27861, 36830, 25509])),
    (js ''bulk.disable'', Plain ([20572, 29992])),
    (js ''bulk.enable'', Plain ([21551, 29992])),
    (js ''bulk.delete'', Plain ([21024, 38500])),
    (js ''bulk.tag'', Plain ([25171, 26631, 31614])),
    (js ''bulk.untag'', Plain ([21435, 26631, 31614])),
    (js ''bulk.setExpiry'', Plain ([35774, 32622, 36807, 26399])),
    (js ''sort.createdAtDesc'', Plain ([26368, 26032, 21019, 24314])),
    (js ''sort.createdAtAsc'', Plain ([26368, 26089, 21019, 24314])),
    (js ''sort.clicksDesc'', Plain ([28857, 20987, 26368, 22810])),
    (js ''sort.clicksAsc'', Plain ([28857, 20987, 26368, 23569])),
    (js ''sort.aliasAsc'', Plain ([21035, 21517] @ js '' A '' @ [8594] @ js '' Z'')),
    (js ''sort.aliasDesc'', Plain ([21035, 21517] @ js '' Z '' @ [8594] @ js '' A'')),
    (js ''statusFilter.all'', Plain ([20840, 37096, 29366, 24577])),
    (js ''statusFilter.active'', Plain ([21551, 29992, 20013])),
    (js ''statusFilter.disabled'', Plain ([24050, 20572, 29992])),
    (js ''statusFilter.expired'', Plain ([24050, 36807, 26399])),
    (js ''rules.title'', Plain ([20998, 27969, 35268, 21017])),
    (js ''rules.add'', Plain ([28155, 21152, 35268, 21017])),
    (js ''rules.none'', Plain ([26080])),
    (js ''rules.matchType'', Plain ([21305, 37197, 26041, 24335])),
    (js ''rules.matchValue'', Plain ([21305, 37197, 20540])),
    (js ''rules.matchUa'', Plain (js ''UA '' @ [21253, 21547])),
    (js ''rules.matchDevice'', Plain ([35774, 22791, 31867, 22411])),
    (js ''deviceRule.mobile'', Plain ([25163, 26426])),
    (js ''deviceRule.tablet'', Plain ([24179, 26495])),
    (js ''deviceRule.desktop'', Plain ([26700, 38754])),
    (js ''deviceRule.bot'', Plain ([29228, 34411])),
    (js ''deviceRule.unknown'', Plain ([26410, 30693])),
    (js ''deviceStat.mobile'', Plain ([31227, 21160])),
    (js ''deviceStat.tablet'', Plain ([24179, 26495])),
    (js ''deviceStat.desktop'', Plain ([26700, 38754])),
    (js ''deviceStat.bot'', Plain ([26426, 22120, 20154])),
    (js ''deviceStat.unknown'', Plain ([26410, 30693])),
    (js ''qr.alt'', Plain (js ''/{alias} '' @ [30340, 20108, 32500, 30721])),
    (js ''qr.download'', Plain ([19979, 36733] @ js '' PNG'')),
    (js ''stats.title'', Plain ([25968, 25454, 32479, 35745])),
    (js ''stats.range.today'', Plain ([20170, 22825])),
    (js ''stats.range.7d'', Plain ([36817] @ js '' 7 '' @ [22825])),
    (js ''stats.range.30d'', Plain ([36817] @ js '' 30 '' @ [22825])),
    (js ''stats.range.90d'', Plain ([36817] @ js '' 90 '' @ [22825])),
    (js ''stats.range.365d'', Plain ([36817] @ js '' 365 '' @ [22825])),
    (js ''stats.noClicks'', Plain ([35813, 21306, 38388, 26242, 26080, 28857, 20987, 12290])),
    (js ''stats.peak'', Plain ([21333, 26085, 23792, 20540] @ js '' {count}'')),
    (js ''stats.pointTitle'', Plain (js ''{day} '' @ [183] @ js '' {count} '' @ [27425, 28857, 20987])),
    (js ''stats.clicksInRange'', Plain ([21306, 38388, 28857, 20987])),
    (js ''stats.uniqueVisitors'', Plain ([29420, 31435, 35775, 23458])),
    (js ''stats.totalLinks'', Plain ([24635, 38142, 25509, 25968])),
    (js ''stats.trend'', Plain ([20840, 23616, 28857, 20987, 36235, 21183])),
    (js ''stats.exportCsv'', Plain ([23548, 20986] @ js '' CSV'')),
    (js ''stats.ranking'', Plain ([28857, 20987, 25490, 34892])),
    (js ''stats.most'', Plain ([26368, 22810])),
    (js ''stats.fewest'', Plain ([26368, 23569])),
    (js ''stats.emptyRanking'', Plain ([35813, 21306, 38388, 26242, 26080, 28857, 20987, 25968, 25454, 12290])),
    (js ''stats.exportRanking'', Plain ([23548, 20986, 25490, 34892] @ js '' CSV'')),
    (js ''stats.referrers'', Plain ([26469, 28304, 20998, 24067])),
    (js ''stats.devices'', Plain ([35774, 22791, 20998, 24067])),
    (js ''stats.direct'', Plain ([30452, 25509, 35775, 38382])),
    (js ''stats.emptyReferrers'', Plain ([35813, 21306, 38388, 26242, 26080, 26469, 28304, 25968, 25454, 12290])),
    (js ''stats.emptyDevices'', Plain ([35813, 21306, 38388, 26242, 26080, 35774, 22791, 25968, 25454, 12290])),
    (js ''stats.linkDetail'', Plain ([21333, 38142, 25509, 26126, 32454])),
    (js ''stats.selectLink'', Plain ([36873, 25321, 19968, 26465, 38142, 25509, 8230])),
    (js ''stats.loading'', Plain ([21152, 36733, 20013, 8230])),
    (js ''stats.totalClicks'', Plain ([32047, 35745, 28857, 20987])),
    (js ''stats.dailyClicks'', Plain ([25353, 22825, 28857, 20987])),
    (js ''stats.clickLog'', Plain ([28857, 20987, 26126, 32454])),
    (js ''stats.emptyClicks'', Plain ([35813, 21306, 38388, 26242, 26080, 28857, 20987, 35760, 24405, 12290])),
    (js ''stats.recentClicks'', Plain ([26368, 36817, 28857, 20987])),
    (js ''stats.table.short'', Plain ([30701, 38142, 25509])),
    (js ''stats.table.clicks'', Plain ([28857, 20987])),
    (js ''stats.table.referrer'', Plain ([26469, 28304])),
    (js ''stats.table.time'', Plain ([26102, 38388])),
    (js ''stats.table.userAgent'', Plain ([29992, 25143, 20195, 29702])),
    (js ''stats.csv.rank'', Plain ([25490, 21517])),
    (js ''stats.csv.destination'', Plain ([30446, 26631, 22320, 22336])),
    (js ''stats.csv.date'', Plain ([26085, 26399])),
    (js ''stats.loadFailed'', Plain ([21152, 36733, 22833, 36133])),
    (js ''stats.loadRankingFailed'', Plain ([21152, 36733, 25490, 34892, 22833, 36133])),
    (js ''stats.loadDetailFailed'', Plain ([21152, 36733, 26126, 32454, 22833, 36133])),
    (js ''stats.loadClicksFailed'', Plain ([21152, 36733, 28857, 20987, 26126, 32454, 22833, 36133])),
    (js ''audit.title'', Plain ([25805, 20316, 26085, 24535])),
    (js ''audit.allActions'', Plain ([20840, 37096, 21160, 20316])),
    (js ''audit.table.time'', Plain ([26102, 38388])),
    (js ''audit.table.actor'', Plain ([25805, 20316, 20154])),
    (js ''audit.table.action'', Plain ([21160, 20316])),
    (js ''audit.table.detail'', Plain ([35814, 24773])),
    (js ''audit.emptyFiltered'', Plain ([35813, 21160, 20316, 26242, 26080, 35760, 24405, 12290])),
    (js ''audit.empty'', Plain ([26242, 26080, 25805, 20316, 35760, 24405, 12290])),
    (js ''audit.filterLabel'', Plain ([25353, 25805, 20316, 31579, 36873])),
    (js ''home.skipToMain'', Plain ([36339, 21040, 39029, 38754, 20869, 23481])),
    (js ''audit.loadFailed'', Plain ([21152, 36733, 22833, 36133])),
    (js ''audit.action.link.create'', Plain ([21019, 24314, 38142, 25509])),
    (js ''audit.action.link.update'', Plain ([26356, 26032, 38142, 25509])),
    (js ''audit.action.link.delete'', Plain ([21024, 38500, 38142, 25509])),
    (js ''audit.action.link.import'', Plain ([23548, 20837, 38142, 25509])),
    (js ''audit.action.link.bulk'', Plain ([25209, 37327, 25805, 20316])),
    (js ''audit.action.token.create'', Plain ([21019, 24314] @ js '' Token'')),
    (js ''audit.action.token.revoke'', Plain ([25764, 38144] @ js '' Token'')),
    (js ''audit.action.session.login'', Plain ([30331, 24405])),
    (js ''audit.action.session.logout'', Plain ([36864, 20986, 30331, 24405])),
    (js ''audit.action.session.2fa'', Plain ([20004, 27493, 39564, 35777, 30331, 24405])),
    (js ''audit.action.user.register'', Plain ([27880, 20876, 36134, 21495])),
    (js ''audit.action.user.update'', Plain ([26356, 26032, 29992, 25143])),
    (js ''audit.action.user.2fa_enroll'', Plain ([32465, 23450, 20004, 27493, 39564, 35777])),
    (js ''audit.action.user.2fa_disable'', Plain ([20851, 38381, 20004, 27493, 39564, 35777])),
    (js ''audit.action.user.2fa_reset'', Plain ([37325, 32622, 20004, 27493, 39564, 35777])),
    (js ''audit.action.role.update'', Plain ([20462, 25913, 35282, 33394])),
    (js ''audit.action.oidc.create'', Plain ([26032, 22686, 30331, 24405, 26041, 24335])),
    (js ''audit.action.oidc.update'', Plain ([20462, 25913, 30331, 24405, 26041, 24335])),
    (js ''audit.action.oidc.delete'', Plain ([21024, 38500, 30331, 24405, 26041, 24335])),
    (js ''audit.action.analytics.update'', Plain ([20462, 25913, 25968, 25454, 32479, 35745, 37197, 32622])),
    (js ''audit.action.captcha.update'', Plain ([20462, 25913, 27880, 20876, 20445, 25252])),
    (js ''audit.action.runtime_settings.update'', Plain ([20462, 25913, 31449, 28857, 31574, 30053])),
    (js ''users.title'', Plain ([29992, 25143, 31649, 29702])),
    (js ''users.directoryTitle'', Plain ([36134, 21495, 30446, 24405])),
    (js ''users.directoryDescription'', Plain ([26597, 30475, 30331, 24405, 26469, 28304, 12289, 35282, 33394, 20998, 37197, 12289, 36134, 21495, 29366, 24577, 21644, 20004, 27493, 39564, 35777, 24773, 20917, 12290])),
    (js ''users.table.username'', Plain ([29992, 25143, 21517])),
    (js ''users.table.source'', Plain ([30331, 24405, 26469, 28304])),
    (js ''users.table.role'', Plain ([35282, 33394])),
    (js ''users.table.status'', Plain ([29366, 24577]))]"

definition zh_messages_5 :: dictionary where
  "zh_messages_5 = [
    (js ''users.table.mfa'', Plain ([20004, 27493, 39564, 35777])),
    (js ''users.table.created'', Plain ([27880, 20876, 26102, 38388])),
    (js ''users.table.actions'', Plain ([25805, 20316])),
    (js ''users.self'', Plain ([24403, 21069, 36134, 21495])),
    (js ''users.status.active'', Plain ([27491, 24120])),
    (js ''users.status.disabled'', Plain ([24050, 31105, 29992])),
    (js ''users.mfa.enabled'', Plain ([24050, 21551, 29992])),
    (js ''users.mfa.disabled'', Plain ([26410, 21551, 29992])),
    (js ''users.source.password'', Plain ([23494, 30721])),
    (js ''users.source.oidc'', Plain (js ''OIDC'')),
    (js ''users.resetMfa'', Plain ([37325, 32622])),
    (js ''users.resetMfaTitle'', Plain ([37325, 32622, 20004, 27493, 39564, 35777, 65311])),
    (js ''users.resetMfaSubject'', Plain (js ''{username} '' @ [23558, 22833, 21435, 24403, 21069, 32465, 23450, 30340, 20004, 27493, 39564, 35777, 12290])),
    (js ''users.resetMfaHint'', Plain ([22312, 37325, 26032, 32465, 23450, 21069, 65292, 35813, 36134, 21495, 21487, 20165, 29992, 23494, 30721, 30331, 24405, 12290, 36825, 26159, 21152, 23494, 23494, 38053, 21464, 26356, 21518, 21807, 19968, 30340, 24674, 22797, 26041, 24335, 12290])),
    (js ''users.resetMfaConfirm'', Plain ([37325, 32622, 20004, 27493, 39564, 35777])),
    (js ''users.enable'', Plain ([21551, 29992])),
    (js ''users.disable'', Plain ([31105, 29992])),
    (js ''users.empty'', Plain ([26242, 26080, 29992, 25143, 12290])),
    (js ''settings.saved'', Plain ([24050, 20445, 23384])),
    (js ''settings.unsaved'', Plain ([26377, 26410, 20445, 23384, 26356, 25913])),
    (js ''settings.synced'', Plain ([24050, 21516, 27493])),
    (js ''settings.configured'', Plain ([24050, 37197, 32622])),
    (js ''settings.notConfigured'', Plain ([26410, 37197, 32622])),
    (js ''settings.leaveBlank'', Plain ([65288, 30041, 31354, 20445, 25345, 19981, 21464, 65289])),
    (js ''settings.home.title'', Plain ([35774, 32622])),
    (js ''settings.home.description'', Plain ([37197, 32622, 35775, 38382, 26435, 38480, 12289, 20445, 25252, 26381, 21153, 65292, 24182, 20915, 23450, 38142, 25509, 30340, 36816, 34892, 26041, 24335, 12290])),
    (js ''settings.home.overviewDescription'', Plain ([20174, 19968, 20010, 20837, 21475, 26597, 30475, 25152, 26377, 37197, 32622, 21306, 22495, 12290])),
    (js ''settings.home.accessDescription'', Plain ([31649, 29702, 29992, 25143, 12289, 35282, 33394, 20197, 21450, 30331, 24405, 26041, 24335, 12290])),
    (js ''settings.home.securityDescription'', Plain ([20445, 25252, 31649, 29702, 36134, 21495, 21644, 20844, 24320, 27880, 20876, 20837, 21475, 12290])),
    (js ''settings.home.linksDescription'', Plain ([37197, 32622, 30701, 30721, 12289, 36339, 36716, 12289, 21518, 21488, 20219, 21153, 21644, 35775, 38382, 38480, 27969, 12290])),
    (js ''settings.home.analyticsDescription'', Plain ([36830, 25509, 25509, 25910, 35775, 38382, 25968, 25454, 30340, 32479, 35745, 24037, 20855, 12290])),
    (js ''settings.home.usersDescription'', Plain ([26597, 30475, 36134, 21495, 12289, 35282, 33394, 12289, 30331, 24405, 26469, 28304, 21644, 36134, 21495, 29366, 24577, 12290])),
    (js ''settings.home.rolesDescription'', Plain ([20915, 23450, 27599, 20010, 35282, 33394, 21487, 20197, 20351, 29992, 21518, 21488, 30340, 21738, 20123, 21151, 33021, 12290])),
    (js ''settings.home.oidcDescription'', Plain ([37197, 32622, 22806, 37096, 36523, 20221, 25552, 20379, 21830, 21644, 22238, 35843, 22320, 22336, 12290])),
    (js ''settings.home.securityPageDescription'', Plain ([37197, 32622, 20004, 27493, 39564, 35777, 21644] @ js '' API Token'' @ [12290])),
    (js ''settings.home.captchaDescription'', Plain ([20026, 20844, 24320, 27880, 20876, 20837, 21475, 22686, 21152] @ js '' Turnstile '' @ [38450, 25252, 12290])),
    (js ''settings.home.runtimeDescription'', Plain ([35774, 32622, 30701, 30721, 12289, 36339, 36716, 12289, 21518, 21488, 20219, 21153, 21644, 35775, 38382, 38480, 27969, 35268, 21017, 12290])),
    (js ''settings.home.analyticsPageDescription'', Plain ([37197, 32622] @ js '' GA4'' @ [12289] @ js ''Google Tag Manager'' @ [12289] @ js ''Google '' @ [20195, 30721, 12289] @ js ''Matomo '' @ [19982] @ js '' Clarity'' @ [12290])),
    (js ''settings.home.manage'', Plain ([31649, 29702])),
    (js ''settings.home.pageCount'', Plain (js ''{count} '' @ [20010, 39029, 38754])),
    (js ''settings.home.noAccess'', Plain ([24403, 21069, 36134, 21495, 27809, 26377, 21487, 29992, 30340, 35774, 32622, 39033, 12290])),
    (js ''settings.roles.title'', Plain ([35282, 33394, 19982, 26435, 38480])),
    (js ''settings.roles.description'', Plain ([20026] @ js '' Purels '' @ [30340, 36816, 33829, 20154, 21592, 24314, 31435, 28165, 26224, 12289, 21487, 25511, 30340, 26435, 38480, 32452, 21512, 12290])),
    (js ''settings.roles.saved'', Plain ([24050, 20445, 23384] @ js '' {name}'')),
    (js ''settings.roles.unrestricted'', Plain ([31649, 29702, 20840, 37096, 38142, 25509])),
    (js ''settings.roles.unrestrictedDescription'', Plain ([35813, 35282, 33394, 21487, 20197, 31649, 29702, 25972, 20010, 37096, 32626, 20013, 30340, 20840, 37096, 38142, 25509, 12290])),
    (js ''settings.roles.group.links'', Plain ([38142, 25509])),
    (js ''settings.roles.group.workspace'', Plain ([24037, 20316, 21488])),
    (js ''settings.roles.group.access'', Plain ([36134, 25143, 19982, 26435, 38480])),
    (js ''settings.roles.group.service'', Plain ([26381, 21153, 37197, 32622])),
    (js ''scope.links:read'', Plain ([26597, 30475, 38142, 25509])),
    (js ''scope.links:write'', Plain ([21019, 24314, 21644, 20462, 25913, 38142, 25509])),
    (js ''scope.stats:read'', Plain ([26597, 30475, 32479, 35745])),
    (js ''scope.audit:read'', Plain ([26597, 30475, 25805, 20316, 26085, 24535])),
    (js ''scope.tokens:manage'', Plain ([31649, 29702, 33258, 24049, 30340] @ js '' API '' @ [20196, 29260])),
    (js ''scope.users:manage'', Plain ([31649, 29702, 29992, 25143])),
    (js ''scope.roles:manage'', Plain ([31649, 29702, 35282, 33394, 26435, 38480])),
    (js ''scope.oidc:manage'', Plain ([31649, 29702, 30331, 24405, 26041, 24335])),
    (js ''scope.analytics:manage'', Plain ([31649, 29702, 22806, 37096, 32479, 35745, 38598, 25104])),
    (js ''scope.captcha:manage'', Plain ([31649, 29702, 27880, 20876, 20445, 25252])),
    (js ''scope.settings:manage'', Plain ([31649, 29702, 31449, 28857, 31574, 30053])),
    (js ''settings.security.title'', Plain ([36134, 21495, 23433, 20840])),
    (js ''settings.security.description'', Plain ([20351, 29992, 20004, 27493, 39564, 35777, 21644, 26435, 38480, 26126, 30830, 30340] @ js '' API Token '' @ [20445, 25252, 31649, 29702, 36134, 21495, 12290])),
    (js ''settings.security.mfa'', Plain ([20004, 27493, 39564, 35777])),
    (js ''settings.security.enabled'', Plain ([24050, 21551, 29992])),
    (js ''settings.security.notEnabled'', Plain ([26410, 21551, 29992])),
    (js ''settings.security.unavailable'', Plain ([37096, 32626, 26410, 21551, 29992, 20004, 27493, 39564, 35777, 12290])),
    (js ''settings.security.recoveryWarning'', Plain ([24674, 22797, 30721, 21482, 26174, 31034, 36825, 19968, 27425, 65292, 35831, 31435, 21363, 20445, 23384, 12290])),
    (js ''settings.security.recoverySaved'', Plain ([25105, 24050, 20445, 23384])),
    (js ''settings.security.qrAlt'', Plain ([20004, 27493, 39564, 35777, 20108, 32500, 30721])),
    (js ''settings.security.secret'', Plain ([23494, 38053])),
    (js ''settings.security.code'', Plain ([39564, 35777, 30721])),
    (js ''settings.security.confirm'', Plain ([30830, 35748])),
    (js ''settings.security.codesRemaining'', Plain ([21097, 20313, 24674, 22797, 30721] @ js '' {count}'')),
    (js ''settings.security.currentPassword'', Plain ([24403, 21069, 23494, 30721])),
    (js ''settings.security.turnOff'', Plain ([20851, 38381])),
    (js ''settings.security.turnOn'', Plain ([21551, 29992])),
    (js ''settings.security.restart'', Plain ([37325, 26032, 32465, 23450])),
    (js ''settings.security.tokensTitle'', Plain ([21019, 24314] @ js '' Token'')),
    (js ''settings.security.tokensDescription'', Plain ([20026, 33258, 21160, 21270, 20219, 21153, 21019, 24314, 26377, 21517, 31216, 30340] @ js '' Token'' @ [12290, 23494, 38053, 21482, 20250, 26174, 31034, 19968, 27425, 12290])),
    (js ''settings.security.tokenWarning'', Plain ([35831, 31435, 21363, 20445, 23384] @ js '' Token'' @ [65292, 20043, 21518, 19981, 20250, 20877, 27425, 26174, 31034, 12290])),
    (js ''settings.security.tokenCreated'', Plain (js ''Token '' @ [24050, 21019, 24314])),
    (js ''settings.security.tokenRevoked'', Plain (js ''Token '' @ [24050, 25764, 38144])),
    (js ''settings.security.tokenName'', Plain (js ''Token '' @ [21517, 31216])),
    (js ''settings.security.create'', Plain ([21019, 24314])),
    (js ''settings.security.tokenList'', Plain (js ''API Token'')),
    (js ''settings.security.noTokens'', Plain ([26242, 26080] @ js '' Token'')),
    (js ''settings.security.revoke'', Plain ([25764, 38144])),
    (js ''settings.oidc.title'', Plain ([30331, 24405, 26041, 24335])),
    (js ''settings.oidc.description'', Plain ([36830, 25509, 22806, 37096, 36523, 20221, 25552, 20379, 21830, 65292, 24182, 20915, 23450, 39318, 27425, 30331, 24405, 26159, 21542, 33258, 21160, 21019, 24314, 36134, 21495, 12290])),
    (js ''settings.oidc.noRedirectBase'', Plain ([26410, 30830, 23450, 22238, 35843, 22320, 22336, 21069, 32512, 65292, 35831, 35774, 32622] @ js '' OIDC_REDIRECT_BASE '' @ [21518, 20877, 37197, 32622, 30331, 24405, 26041, 24335, 12290])),
    (js ''settings.oidc.enable'', Plain ([21551, 29992])),
    (js ''settings.oidc.enabled'', Plain ([24050, 21551, 29992])),
    (js ''settings.oidc.disabled'', Plain ([24050, 20572, 29992])),
    (js ''settings.oidc.confirmDelete'', Plain ([30830, 35748, 21024, 38500])),
    (js ''settings.oidc.deleteWarning'', Plain ([21024, 38500, 21518, 32465, 23450, 35813, 30331, 24405, 26041, 24335, 30340, 36134, 21495, 23558, 26080, 27861, 30331, 24405, 65292, 19988, 24212, 29992, 20869, 26080, 27861, 20026, 23427, 20204, 35774, 32622, 23494, 30721, 12290])),
    (js ''settings.oidc.boundAccounts'', Plain ([24403, 21069, 24050, 32465, 23450] @ js '' {count} '' @ [20010, 36134, 21495, 12290])),
    (js ''settings.oidc.name'', Plain ([21517, 31216])),
    (js ''settings.oidc.issuer'', Plain (js ''Issuer '' @ [22320, 22336])),
    (js ''settings.oidc.clientId'', Plain (js ''Client ID'')),
    (js ''settings.oidc.clientSecret'', Plain (js ''Client Secret'')),
    (js ''settings.oidc.scopes'', Plain (js ''Scopes'')),
    (js ''settings.secretSet'', Plain ([24050, 35774, 32622])),
    (js ''settings.secretUnset'', Plain ([26410, 35774, 32622])),
    (js ''settings.oidc.autoProvision'', Plain ([39318, 27425, 30331, 24405, 33258, 21160, 21019, 24314, 36134, 21495])),
    (js ''settings.oidc.callback'', Plain ([22238, 35843, 22320, 22336])),
    (js ''settings.oidc.newTitle'', Plain ([26032, 22686, 30331, 24405, 26041, 24335])),
    (js ''settings.oidc.newDescription'', Plain ([28155, 21152, 19968, 27425, 30331, 24405, 25552, 20379, 21830, 65292, 28982, 21518, 23558, 22238, 35843, 22320, 22336, 22797, 21046, 21040, 23545, 26041, 25511, 21046, 21488, 12290])),
    (js ''settings.oidc.providerListDescription'', Plain ([26597, 30475, 24050, 37197, 32622, 30340, 30331, 24405, 26041, 24335, 12289, 22238, 35843, 22320, 22336, 21644, 32465, 23450, 36134, 21495, 25968, 37327, 12290])),
    (js ''settings.oidc.slug'', Plain ([26631, 35782, 65288, 29992, 20110, 22238, 35843, 22320, 22336, 65292, 21019, 24314, 21518, 19981, 21487, 25913, 65289])),
    (js ''settings.oidc.namePlaceholder'', Plain ([20844, 21496, 36134, 21495])),
    (js ''settings.oidc.clientSecretNew'', Plain (js ''Client Secret'' @ [65288, 20844, 24320, 23458, 25143, 31471, 21487, 30041, 31354, 65289])),
    (js ''settings.oidc.add'', Plain ([26032, 22686])),
    (js ''settings.oidc.adding'', Plain ([27491, 22312, 26032, 22686] @ js ''...'')),
    (js ''settings.oidc.created'', Plain ([24050, 26032, 22686, 30331, 24405, 26041, 24335])),
    (js ''settings.oidc.saved'', Plain ([24050, 20445, 23384] @ js '' {name}'')),
    (js ''settings.oidc.deleted'', Plain ([24050, 21024, 38500] @ js '' {name}'')),
    (js ''settings.oidc.noPermission'', Plain ([27809, 26377, 26435, 38480, 31649, 29702, 30331, 24405, 26041, 24335, 12290])),
    (js ''settings.analytics.title'', Plain ([22806, 37096, 32479, 35745, 38598, 25104])),
    (js ''settings.analytics.description'', Plain ([25226, 31532, 19977, 26041, 32479, 35745, 21152, 36733, 21040, 26412, 37096, 32626, 25552, 20379, 30340, 25152, 26377, 39029, 38754, 65306, 33853, 22320, 39029, 12289, 30331, 24405, 19982, 27880, 20876, 12289, 31649, 29702, 25511, 21046, 21488, 65292, 20197, 21450, 30701, 38142, 30340, 24310, 36831, 20013, 36716, 39029, 21644, 39044, 35272, 39029, 12290, 30701, 38142, 36339, 36716, 26412, 36523, 26159] @ js '' 302'' @ [65292, 19981, 32463, 36807, 39029, 38754, 65292, 26080, 27861, 32479, 35745, 12290])),
    (js ''settings.analytics.providersTitle'', Plain ([20840, 37096, 39029, 38754, 30340, 22806, 37096, 32479, 35745])),
    (js ''settings.analytics.providersDescription'', Plain ([36825, 20123, 38598, 25104, 20250, 32479, 35745, 26412, 37096, 32626, 30340, 27599, 19968, 20010, 39029, 38754, 65292, 19981, 21482, 26159, 25511, 21046, 21488, 12290, 19981, 20351, 29992, 30340, 26381, 21153, 30041, 31354, 21363, 21487, 65307] @ js ''Matomo '' @ [38656, 21516, 26102, 22635, 20889, 22320, 22336, 21644, 31449, 28857] @ js '' ID'' @ [12290])),
    (js ''settings.analytics.configuredCount'', Plain ([24050, 37197, 32622] @ js '' {count} '' @ [20010, 26381, 21153])),
    (js ''settings.analytics.ga4Description'', Plain ([29992] @ js '' Google Analytics 4 '' @ [34913, 37327, 39029, 38754, 35775, 38382, 12290])),
    (js ''settings.analytics.gtmDescription'', Plain ([21152, 36733] @ js '' Google Tag Manager '' @ [23481, 22120, 65292, 30001, 23481, 22120, 20869, 30340, 35302, 21457, 22120, 20915, 23450, 19978, 25253, 20869, 23481, 12290])),
    (js ''settings.analytics.googleTagDescription'', Plain ([21152, 36733] @ js '' Google '' @ [20195, 30721, 65288] @ js ''gtag.js'' @ [65289, 12290, 23427, 19982] @ js '' GTM '' @ [23481, 22120, 26159, 20004, 31181, 19981, 21516, 30340] @ js '' ID'' @ [65292, 20114, 19981, 36890, 29992, 12290])),
    (js ''settings.analytics.matomoDescription'', Plain ([25226, 39029, 38754, 35775, 38382, 21457, 36865, 21040, 20320, 30340] @ js '' Matomo '' @ [23454, 20363, 12290])),
    (js ''settings.analytics.clarityDescription'', Plain ([21152, 36733] @ js '' Microsoft Clarity'' @ [65292, 24405, 21046, 20250, 35805, 24182, 29983, 25104, 28909, 22270, 65292, 37319, 38598, 33539, 22260, 27604, 21333, 32431, 30340, 35775, 38382, 32479, 35745, 26356, 22823, 12290])),
    (js ''settings.analytics.ga4'', Plain (js ''GA4 '' @ [34913, 37327] @ js '' ID'')),
    (js ''settings.analytics.gtm'', Plain (js ''GTM '' @ [23481, 22120] @ js '' ID'')),
    (js ''settings.analytics.googleTag'', Plain (js ''Google '' @ [20195, 30721] @ js '' ID'')),
    (js ''settings.analytics.matomoUrl'', Plain (js ''Matomo '' @ [22320, 22336]))]"

definition zh_messages_6 :: dictionary where
  "zh_messages_6 = [
    (js ''settings.analytics.matomoSiteId'', Plain (js ''Matomo '' @ [31449, 28857] @ js '' ID'')),
    (js ''settings.analytics.clarity'', Plain (js ''Clarity '' @ [39033, 30446] @ js '' ID'')),
    (js ''settings.analytics.noPermission'', Plain ([27809, 26377, 26435, 38480, 31649, 29702, 25968, 25454, 32479, 35745, 12290])),
    (js ''settings.analytics.invalidGa4'', Plain (js ''GA4 '' @ [34913, 37327] @ js '' ID '' @ [26684, 24335, 19981, 27491, 30830, 65292, 24212, 24418, 22914] @ js '' G-XXXXXXXXXX'' @ [12290])),
    (js ''settings.analytics.invalidGtm'', Plain (js ''GTM '' @ [23481, 22120] @ js '' ID '' @ [26684, 24335, 19981, 27491, 30830, 65292, 24212, 24418, 22914] @ js '' GTM-XXXXXXX'' @ [12290])),
    (js ''settings.analytics.invalidGoogleTag'', Plain (js ''Google '' @ [20195, 30721] @ js '' ID '' @ [26684, 24335, 19981, 27491, 30830, 65292, 24212, 24418, 22914] @ js '' GT-XXXXXXXXXX'' @ [65288, 27880, 24847, 19981, 26159] @ js '' GTM- '' @ [24320, 22836, 65289, 12290])),
    (js ''settings.analytics.invalidMatomoUrl'', Plain (js ''Matomo '' @ [22320, 22336, 26684, 24335, 19981, 27491, 30830, 65292, 24212, 26159, 19981, 24102, 20973, 25454, 12289, 26597, 35810, 20018, 21644, 29255, 27573, 30340] @ js '' http(s) '' @ [22320, 22336, 12290])),
    (js ''settings.analytics.missingMatomoSiteId'', Plain ([22635, 20889, 20102] @ js '' Matomo '' @ [22320, 22336, 65292, 36824, 38656, 35201, 31449, 28857] @ js '' ID'' @ [12290])),
    (js ''settings.analytics.invalidMatomoSiteId'', Plain (js ''Matomo '' @ [31449, 28857] @ js '' ID '' @ [26684, 24335, 19981, 27491, 30830, 65292, 24212, 20026, 27491, 25972, 25968, 12290])),
    (js ''settings.analytics.invalidClarity'', Plain (js ''Clarity '' @ [39033, 30446] @ js '' ID '' @ [26684, 24335, 19981, 27491, 30830, 65292, 24212, 26159, 19968, 20018, 23567, 20889, 23383, 27597, 21644, 25968, 23383, 65292, 20363, 22914] @ js '' ymutupw1dp'' @ [12290])),
    (js ''settings.captcha.title'', Plain ([27880, 20876, 20445, 25252])),
    (js ''settings.captcha.description'', Plain ([20351, 29992] @ js '' Cloudflare Turnstile '' @ [38459, 27490, 33258, 21160, 21270, 31243, 24207, 25552, 20132, 20844, 24320, 27880, 20876, 34920, 21333, 12290])),
    (js ''settings.captcha.providerDescription'', Plain ([26032, 36134, 21495, 21019, 24314, 21069, 20250, 20808, 23436, 25104] @ js '' Turnstile '' @ [26657, 39564, 12290])),
    (js ''settings.captcha.enable'', Plain ([21551, 29992])),
    (js ''settings.captcha.siteKey'', Plain ([31449, 28857, 23494, 38053])),
    (js ''settings.captcha.secretKey'', Plain ([23494, 38053])),
    (js ''settings.captcha.expectedHostname'', Plain ([39044, 26399, 20027, 26426, 21517])),
    (js ''settings.captcha.expectedAction'', Plain ([39044, 26399, 21160, 20316])),
    (js ''settings.captcha.noPermission'', Plain ([27809, 26377, 26435, 38480, 31649, 29702, 27880, 20876, 20445, 25252, 12290])),
    (js ''settings.runtime.title'', Plain ([38142, 25509, 19982, 36816, 34892, 35268, 21017])),
    (js ''settings.runtime.description'', Plain ([25511, 21046, 30701, 30721, 29983, 25104, 12289, 36339, 36716, 12289, 21518, 21488, 20219, 21153, 21644, 35775, 38382, 38480, 27969, 12290, 20462, 25913, 21518, 20250, 20445, 23384, 21040, 25968, 25454, 24211, 65292, 26080, 38656, 37325, 21551, 26381, 21153, 12290])),
    (js ''settings.runtime.linksTitle'', Plain ([38142, 25509, 19982, 36339, 36716])),
    (js ''settings.runtime.linksDescription'', Plain ([25511, 21046, 30701, 30721, 29983, 25104, 12289, 37325, 22797, 38142, 25509, 12289, 22495, 21517, 21644, 30446, 26631, 22320, 22336, 31574, 30053, 12290])),
    (js ''settings.runtime.accessTitle'', Plain ([20844, 24320, 35775, 38382, 19982, 27969, 37327])),
    (js ''settings.runtime.accessDescription'', Plain ([20915, 23450, 35775, 23458, 26159, 21542, 21487, 20197, 27880, 20876, 65292, 20197, 21450, 21738, 20123, 35775, 38382, 20250, 35745, 20837, 32479, 35745, 12290])),
    (js ''settings.runtime.aliasMode'', Plain ([30701, 30721, 29983, 25104, 26041, 24335])),
    (js ''settings.runtime.aliasRandom'', Plain ([38543, 26426, 65288, 21306, 20998, 22823, 23567, 20889, 65289])),
    (js ''settings.runtime.aliasSequential'', Plain ([39034, 24207, 29983, 25104, 65288] @ js ''Base36'' @ [65289])),
    (js ''settings.runtime.maxLinks'', Plain ([21333, 20010, 29992, 25143, 38142, 25509, 19978, 38480, 65288] @ js ''0 '' @ [34920, 31034, 19981, 38480, 65289])),
    (js ''settings.runtime.fallbackUrl'', Plain ([25214, 19981, 21040, 30701, 30721, 26102, 36339, 36716, 22320, 22336])),
    (js ''settings.runtime.shortDomains'', Plain ([21487, 29992, 30701, 22495, 21517])),
    (js ''settings.runtime.denylist'', Plain ([30446, 26631, 22495, 21517, 40657, 21517, 21333])),
    (js ''settings.runtime.hostHelp'', Plain ([27599, 34892, 19968, 20010, 35064, 22495, 21517, 65292, 20063, 25903, 25345, 36887, 21495, 20998, 38548, 65307, 20445, 23384, 26102, 20250, 32479, 19968, 23567, 20889, 24182, 21435, 37325, 12290])),
    (js ''settings.runtime.uniqueUrls'', Plain ([21516, 19968, 29992, 25143, 37325, 22797, 30446, 26631, 22320, 22336, 22797, 29992, 24050, 26377, 38142, 25509])),
    (js ''settings.runtime.registration'', Plain ([20801, 35768, 26412, 22320, 36134, 21495, 27880, 20876])),
    (js ''settings.runtime.totpEnabled'', Plain ([21551, 29992, 20869, 32622, 21452, 22240, 32032, 35748, 35777, 65288] @ js ''TOTP'' @ [65289])),
    (js ''settings.runtime.forwardQuery'', Plain ([37325, 23450, 21521, 26102, 36716, 21457, 26597, 35810, 21442, 25968])),
    (js ''settings.runtime.countBots'', Plain ([32479, 35745, 26426, 22120, 20154, 35775, 38382])),
    (js ''settings.runtime.jobsTitle'', Plain ([21518, 21488, 20219, 21153])),
    (js ''settings.runtime.jobsDescription'', Plain ([28165, 29702, 21644, 20581, 24247, 26816, 26597, 20250, 22312] @ js '' worker '' @ [30340, 19979, 19968, 27425, 36718, 35810, 20013, 35835, 21462, 26032, 37197, 32622, 12290, 26102, 38388, 21333, 20301, 20026, 31186, 12290])),
    (js ''settings.runtime.pruneGrace'', Plain ([36807, 26399, 21518, 20445, 30041, 26102, 38388])),
    (js ''settings.runtime.healthInterval'', Plain ([26816, 26597, 38388, 38548])),
    (js ''settings.runtime.autoPrune'', Plain ([33258, 21160, 21024, 38500, 36229, 36807, 20445, 30041, 26399, 30340, 36807, 26399, 38142, 25509])),
    (js ''settings.runtime.healthCheck'', Plain ([21551, 29992, 30446, 26631, 22320, 22336, 20581, 24247, 26816, 26597])),
    (js ''settings.runtime.rateTitle'', Plain ([35775, 38382, 38480, 27969])),
    (js ''settings.runtime.rateDescription'', Plain ([27599, 20010, 23458, 25143, 31471] @ js '' IP '' @ [27599, 20998, 38047, 20801, 35768, 30340, 35831, 27714, 25968, 65307, 22635] @ js '' 0 '' @ [34920, 31034, 35813, 36335, 30001, 19981, 38480, 27969, 12290])),
    (js ''settings.runtime.rateEnabled'', Plain ([21551, 29992, 38480, 27969])),
    (js ''settings.runtime.rateLogin'', Plain ([30331, 24405])),
    (js ''settings.runtime.rateRegister'', Plain ([27880, 20876])),
    (js ''settings.runtime.rate2fa'', Plain ([20004, 27493, 39564, 35777])),
    (js ''settings.runtime.rateOidc'', Plain (js ''OIDC'')),
    (js ''settings.runtime.rateApi'', Plain (js ''API'')),
    (js ''settings.runtime.rateRedirect'', Plain ([30701, 38142, 36339, 36716])),
    (js ''settings.runtime.revision'', Plain ([37197, 32622, 29256, 26412] @ js '' {revision}'')),
    (js ''settings.runtime.noPermission'', Plain ([27809, 26377, 26435, 38480, 31649, 29702, 38142, 25509, 19982, 36816, 34892, 35268, 21017, 12290])),
    (js ''error.network'', Plain ([26080, 27861, 36830, 25509, 21040] @ js '' API '' @ [26381, 21153, 65292, 35831, 26816, 26597, 21518, 31471, 22320, 22336, 12290])),
    (js ''error.session_expired'', Plain ([30331, 24405, 24050, 36807, 26399, 65292, 35831, 37325, 26032, 30331, 24405, 12290])),
    (js ''error.http_error'', Plain ([35831, 27714, 22833, 36133, 65288] @ js ''{status}'' @ [65289])),
    (js ''error.invalid_request'', Plain ([35831, 27714, 26080, 27861, 35835, 21462, 12290])),
    (js ''error.unauthorized'', Plain ([26410, 30331, 24405, 25110, 30331, 24405, 24050, 36807, 26399, 12290])),
    (js ''error.insufficient_scope'', Plain ([27809, 26377, 26435, 38480, 25191, 34892, 35813, 25805, 20316, 12290])),
    (js ''error.csrf_required'', Plain ([23433, 20840, 20196, 29260, 32570, 22833, 65292, 35831, 21047, 26032, 39029, 38754, 12290])),
    (js ''error.csrf_invalid'', Plain ([23433, 20840, 20196, 29260, 26080, 25928, 65292, 35831, 21047, 26032, 39029, 38754, 12290])),
    (js ''error.csrf_unavailable'', Plain ([26080, 27861, 33719, 21462, 23433, 20840, 20196, 29260, 65292, 35831, 21047, 26032, 39029, 38754, 12290])),
    (js ''error.not_found'', Plain ([35813, 35760, 24405, 19981, 23384, 22312, 25110, 24050, 34987, 21024, 38500, 12290])),
    (js ''error.conflict'', Plain ([35813, 35760, 24405, 24050, 23384, 22312, 12290])),
    (js ''error.rate_limited'', Plain ([25805, 20316, 36807, 20110, 39057, 32321, 65292, 35831, 31245, 21518, 20877, 35797, 12290])),
    (js ''error.internal_error'', Plain ([20986, 38169, 20102, 65292, 35831, 37325, 35797, 12290])),
    (js ''error.database_unavailable'', Plain ([25968, 25454, 24211, 26242, 26102, 19981, 21487, 29992, 12290])),
    (js ''error.registration_disabled'', Plain ([35813, 37096, 32626, 26410, 24320, 25918, 27880, 20876, 12290])),
    (js ''error.invalid_credentials'', Plain ([29992, 25143, 21517, 25110, 23494, 30721, 19981, 27491, 30830, 12290])),
    (js ''error.invalid_second_factor'', Plain ([39564, 35777, 30721, 19981, 27491, 30830, 25110, 24050, 36807, 26399, 12290])),
    (js ''error.two_factor_unavailable'', Plain ([35813, 37096, 32626, 26410, 21551, 29992, 20004, 27493, 39564, 35777, 12290])),
    (js ''error.no_enrolment'', Plain ([27809, 26377, 36827, 34892, 20013, 30340, 32465, 23450, 12290])),
    (js ''error.quota_exceeded'', Plain ([24050, 36798, 21040, 38142, 25509, 25968, 37327, 19978, 38480, 12290])),
    (js ''error.last_capability_holder'', Plain ([33267, 23569, 38656, 35201, 20445, 30041, 19968, 20010, 25317, 26377, 35813, 26435, 38480, 30340, 21551, 29992, 36134, 21495, 12290])),
    (js ''error.secrets_unavailable'', Plain ([35813, 37096, 32626, 26080, 27861, 20445, 23384, 21152, 23494, 23494, 38053, 65292, 35831, 35774, 32622] @ js '' SECRET_ENCRYPTION_KEY'' @ [12290])),
    (js ''error.oidc_slug_immutable'', Plain ([26631, 35782, 21019, 24314, 21518, 19981, 21487, 20462, 25913, 65292, 35831, 26032, 22686, 19968, 20010, 30331, 24405, 26041, 24335, 12290])),
    (js ''error.captcha_unavailable'', Plain ([27880, 20876, 20445, 25252, 26242, 26102, 19981, 21487, 29992, 12290])),
    (js ''error.captcha_invalid'', Plain ([39564, 35777, 26410, 36890, 36807, 65292, 35831, 37325, 35797, 12290])),
    (js ''error.captcha_invalid_settings'', Plain ([27880, 20876, 20445, 25252, 37197, 32622, 26080, 25928, 12290])),
    (js ''error.captcha_secrets_unavailable'', Plain ([35813, 37096, 32626, 26080, 27861, 20445, 23384, 21152, 23494, 23494, 38053, 65292, 35831, 35774, 32622] @ js '' SECRET_ENCRYPTION_KEY'' @ [12290])),
    (js ''error.analytics_invalid'', Plain ([22475, 28857, 37197, 32622, 26080, 25928, 12290])),
    (js ''error.load'', Plain ([21152, 36733, 22833, 36133])),
    (js ''error.save'', Plain ([20445, 23384, 22833, 36133])),
    (js ''error.create'', Plain ([21019, 24314, 22833, 36133])),
    (js ''error.update'', Plain ([26356, 26032, 22833, 36133])),
    (js ''error.delete'', Plain ([21024, 38500, 22833, 36133])),
    (js ''error.revoke'', Plain ([25764, 38144, 22833, 36133])),
    (js ''error.reset'', Plain ([37325, 32622, 22833, 36133])),
    (js ''error.operation'', Plain ([25805, 20316, 22833, 36133])),
    (js ''error.bulk'', Plain ([25209, 37327, 25805, 20316, 22833, 36133])),
    (js ''error.export'', Plain ([23548, 20986, 22833, 36133])),
    (js ''error.import'', Plain ([23548, 20837, 22833, 36133])),
    (js ''error.check'', Plain ([26816, 27979, 22833, 36133]))]"

definition zh_messages :: dictionary where
  "zh_messages = zh_messages_1 @ zh_messages_2 @ zh_messages_3 @ zh_messages_4 @ zh_messages_5 @ zh_messages_6"

end
