(* ===== verification/I18n.thy ===== *)
theory I18n
  imports Messages_Zh
begin

text \<open>
  \<open>web/src/lib/i18n/index.ts\<close>: the locales, the translate function with its plural choice and
  its placeholders, labels for values the API sends, and the text an error is shown as.

  \<open>createT\<close> indexes its dictionary; a key that is not there makes the source throw, which is
  the \<open>None\<close> of \<open>translate\<close>. The keys pages pass are checked by the type \<open>MessageKey\<close>.
  Parameters are an association list, so a placeholder named like a member of
  \<open>Object.prototype\<close> is outside the model.
\<close>

section \<open>Locales and dictionaries\<close>

definition locales :: "jstr list" where
  "locales = [js ''en'', js ''zh-CN'']"

definition default_locale :: jstr where
  "default_locale = js ''en''"

definition locale_cookie :: jstr where
  "locale_cookie = js ''purels_locale''"

definition is_locale :: "jstr option \<Rightarrow> bool" where
  \<comment> \<open>\<open>None\<close> is a value that is no string\<close>
  "is_locale v = (case v of None \<Rightarrow> False | Some s \<Rightarrow> s \<in> set locales)"

definition dictionary_of :: "jstr \<Rightarrow> dictionary" where
  "dictionary_of l = (if l = js ''zh-CN'' then zh_messages else en_messages)"

definition has_message :: "jstr \<Rightarrow> bool" where
  "has_message key \<longleftrightarrow> map_of en_messages key \<noteq> None"

section \<open>Translating\<close>

datatype pval = PText jstr | PInt int

type_synonym params = "(jstr \<times> pval) list"

type_synonym translator = "jstr \<Rightarrow> params option \<Rightarrow> jstr"

fun pval_text :: "pval \<Rightarrow> jstr" where
  "pval_text (PText s) = s"
| "pval_text (PInt n) = js_of_int n"

fun pval_number :: "pval \<Rightarrow> jnum" where
  "pval_number (PText s) = js_number s"
| "pval_number (PInt n) = JFin (of_int n)"

definition is_one :: "params option \<Rightarrow> bool" where
  \<comment> \<open>\<open>Number(params?.count) === 1\<close>\<close>
  "is_one ps =
     (case ps of
        None \<Rightarrow> False
      | Some xs \<Rightarrow> (case map_of xs (js ''count'') of None \<Rightarrow> False | Some v \<Rightarrow> pval_number v = JFin 1))"

fun message_text :: "message \<Rightarrow> params option \<Rightarrow> jstr" where
  "message_text (Plain s) ps = s"
| "message_text (Counted one other) ps = (if is_one ps then one else other)"

function interpolate :: "(jstr \<Rightarrow> jstr option) \<Rightarrow> jstr \<Rightarrow> jstr" where
  \<comment> \<open>\<open>text.replace(/\{(\w+)\}/g, \<dots>)\<close>, a name with no value left as it stands\<close>
  "interpolate f [] = []"
| "interpolate f (c # s) =
     (let name = takeWhile is_word s; rest = dropWhile is_word s in
      if c = 123 \<and> name \<noteq> [] \<and> rest \<noteq> [] \<and> hd rest = 125
      then (case f name of Some v \<Rightarrow> v | None \<Rightarrow> 123 # name @ [125]) @ interpolate f (tl rest)
      else c # interpolate f s)"
  by pat_completeness auto
termination
proof (relation "measure (\<lambda>(f, s). length s)")
  fix f :: "jstr \<Rightarrow> jstr option" and c :: u16 and s x xa
  assume "xa = dropWhile is_word s"
  then have "length (tl xa) \<le> length s"
    using length_dropWhile_le [of is_word s] by simp
  then show "((f, tl xa), (f, c # s)) \<in> measure (\<lambda>(f, s). length s)" by simp
qed simp_all

definition translate :: "dictionary \<Rightarrow> jstr \<Rightarrow> params option \<Rightarrow> jstr option" where
  "translate d key ps =
     (case map_of d key of
        None \<Rightarrow> None
      | Some m \<Rightarrow>
          (let text = message_text m ps in
           case ps of
             None \<Rightarrow> Some text
           | Some xs \<Rightarrow> Some (interpolate (\<lambda>name. map_option pval_text (map_of xs name)) text)))"

definition create_t :: "dictionary \<Rightarrow> translator" where
  "create_t d = (\<lambda>key ps. the (translate d key ps))"

definition t_for :: "jstr \<Rightarrow> translator" where
  "t_for l = create_t (dictionary_of l)"

abbreviation tr :: "translator \<Rightarrow> string \<Rightarrow> jstr" where
  "tr t key \<equiv> t (js key) None"

abbreviation trp :: "translator \<Rightarrow> string \<Rightarrow> (string \<times> pval) list \<Rightarrow> jstr" where
  "trp t key ps \<equiv> t (js key) (Some (map (\<lambda>(k, v). (js k, v)) ps))"

definition enum_label :: "translator \<Rightarrow> string \<Rightarrow> jstr \<Rightarrow> jstr" where
  "enum_label t pre v =
     (let key = js pre @ [46] @ v in if has_message key then t key None else v)"

definition error_text :: "translator \<Rightarrow> exn \<Rightarrow> string \<Rightarrow> (int \<times> string) list \<Rightarrow> jstr" where
  "error_text t e fallback overrides =
     (case e of
        ApiError m st c d \<Rightarrow>
          (case map_of overrides st of
             Some k \<Rightarrow> tr t k
           | None \<Rightarrow>
               (let key = js ''error.'' @ c in
                if c \<noteq> [] \<and> has_message key then t key (Some [(js ''status'', PText (js_of_int st))])
                else if m \<noteq> [] then m else tr t fallback))
      | PlainError m \<Rightarrow> if m \<noteq> [] then m else tr t fallback
      | Thrown \<Rightarrow> tr t fallback)"

section \<open>Interpolation\<close>

lemma interpolate_none: "interpolate (\<lambda>_. None) s = s"
proof (induction "\<lambda>_ :: jstr. None :: jstr option" s rule: interpolate.induct)
  case (2 c s)
  show ?case
  proof (cases "c = 123 \<and> takeWhile is_word s \<noteq> [] \<and> dropWhile is_word s \<noteq> [] \<and> hd (dropWhile is_word s) = 125")
    case True
    then have "s = takeWhile is_word s @ 125 # tl (dropWhile is_word s)"
      by (metis list.collapse takeWhile_dropWhile_id)
    with True 2(1) show ?thesis by simp
  next
    case False
    with 2(2) show ?thesis by (auto simp: Let_def)
  qed
qed simp

lemma interpolate_ne:
  assumes "s \<noteq> []" "\<And>n. f n \<noteq> Some []"
  shows "interpolate f s \<noteq> []"
  using assms by (cases s) (auto simp: Let_def split: option.splits)

lemma interpolate_no_brace: "123 \<notin> set s \<Longrightarrow> interpolate f s = s"
  by (induction s) (auto simp: Let_def)

section \<open>The two dictionaries\<close>

lemma has_message_in:
  assumes "key \<in> set (map fst en_messages_1) \<or> key \<in> set (map fst en_messages_2) \<or> key \<in> set (map fst en_messages_3) \<or>
    key \<in> set (map fst en_messages_4) \<or> key \<in> set (map fst en_messages_5) \<or> key \<in> set (map fst en_messages_6)"
  shows "has_message key"
  using assms unfolding has_message_def map_of_eq_None_iff en_messages_def by (simp add: image_Un)

lemma error_messages: "has_message (js ''error.load'')" "has_message (js ''error.save'')"
proof -
  have "js ''error.load'' \<in> set (map fst en_messages_6)" "js ''error.save'' \<in> set (map fst en_messages_6)"
    unfolding en_messages_6_def list.map fst_conv by simp_all
  then show "has_message (js ''error.load'')" "has_message (js ''error.save'')" using has_message_in by blast+
qed

lemmas dictionary_chunks =
  en_messages_1_def en_messages_2_def en_messages_3_def en_messages_4_def en_messages_5_def en_messages_6_def
  zh_messages_1_def zh_messages_2_def zh_messages_3_def zh_messages_4_def zh_messages_5_def zh_messages_6_def

lemma same_keys_chunks:
  "map fst en_messages_1 = map fst zh_messages_1" "map fst en_messages_2 = map fst zh_messages_2"
  "map fst en_messages_3 = map fst zh_messages_3" "map fst en_messages_4 = map fst zh_messages_4"
  "map fst en_messages_5 = map fst zh_messages_5" "map fst en_messages_6 = map fst zh_messages_6"
  by (simp_all only: dictionary_chunks list.map fst_conv)

lemma same_keys: "map fst en_messages = map fst zh_messages"
  by (simp add: en_messages_def zh_messages_def same_keys_chunks)

fun worded :: "message \<Rightarrow> bool" where
  \<comment> \<open>no form of the message is empty\<close>
  "worded (Plain s) \<longleftrightarrow> s \<noteq> []"
| "worded (Counted one other) \<longleftrightarrow> one \<noteq> [] \<and> other \<noteq> []"

lemma worded_chunks:
  "list_all (\<lambda>e. worded (snd e)) en_messages_1" "list_all (\<lambda>e. worded (snd e)) en_messages_2"
  "list_all (\<lambda>e. worded (snd e)) en_messages_3" "list_all (\<lambda>e. worded (snd e)) en_messages_4"
  "list_all (\<lambda>e. worded (snd e)) en_messages_5" "list_all (\<lambda>e. worded (snd e)) en_messages_6"
  "list_all (\<lambda>e. worded (snd e)) zh_messages_1" "list_all (\<lambda>e. worded (snd e)) zh_messages_2"
  "list_all (\<lambda>e. worded (snd e)) zh_messages_3" "list_all (\<lambda>e. worded (snd e)) zh_messages_4"
  "list_all (\<lambda>e. worded (snd e)) zh_messages_5" "list_all (\<lambda>e. worded (snd e)) zh_messages_6"
  by (simp_all add: dictionary_chunks)

lemma all_worded: "list_all (\<lambda>e. worded (snd e)) (dictionary_of l)"
  by (simp add: dictionary_of_def en_messages_def zh_messages_def worded_chunks)

lemma map_of_same_keys:
  assumes "map fst xs = map fst ys"
  shows "map_of xs k = None \<longleftrightarrow> map_of ys k = None"
  by (metis assms map_of_eq_None_iff set_map)

lemma dictionary_complete: "has_message key \<Longrightarrow> \<exists>m. map_of (dictionary_of l) key = Some m \<and> worded m"
proof -
  assume "has_message key"
  then obtain m where m: "map_of (dictionary_of l) key = Some m"
    using map_of_same_keys [OF same_keys, of key]
    by (cases "map_of (dictionary_of l) key") (auto simp: has_message_def dictionary_of_def split: if_splits)
  moreover have "worded m"
    using all_worded [of l] map_of_SomeD [OF m] by (auto simp: list_all_iff)
  ultimately show ?thesis by blast
qed

lemma message_text_ne: "worded m \<Longrightarrow> message_text m ps \<noteq> []"
  by (cases m) auto

lemma translate_known:
  assumes "has_message key"
  shows "\<exists>s. translate (dictionary_of l) key None = Some s \<and> s \<noteq> []"
    and "(\<And>v. v \<in> snd ` set xs \<Longrightarrow> pval_text v \<noteq> []) \<Longrightarrow>
           \<exists>s. translate (dictionary_of l) key (Some xs) = Some s \<and> s \<noteq> []"
proof -
  obtain m where m: "map_of (dictionary_of l) key = Some m" "worded m"
    using dictionary_complete [OF assms] by blast
  show "\<exists>s. translate (dictionary_of l) key None = Some s \<and> s \<noteq> []"
    using m by (simp add: translate_def message_text_ne)
  assume v: "\<And>v. v \<in> snd ` set xs \<Longrightarrow> pval_text v \<noteq> []"
  have "map_option pval_text (map_of xs n) \<noteq> Some []" for n
    using v by (force dest: map_of_SomeD)
  with m show "\<exists>s. translate (dictionary_of l) key (Some xs) = Some s \<and> s \<noteq> []"
    by (simp add: translate_def message_text_ne interpolate_ne Let_def)
qed

section \<open>What a page relies on: the translator interface\<close>

locale worded_translator =
  fixes t :: translator
  assumes plain_worded: "has_message key \<Longrightarrow> t key None \<noteq> []"
    and params_worded: "\<lbrakk>has_message key; \<And>v. v \<in> snd ` set xs \<Longrightarrow> pval_text v \<noteq> []\<rbrakk>
                          \<Longrightarrow> t key (Some xs) \<noteq> []"
begin

lemma enum_label_worded: "v \<noteq> [] \<Longrightarrow> enum_label t pre v \<noteq> []"
  by (simp add: enum_label_def Let_def plain_worded)

lemma error_text_worded:
  assumes "has_message (js fallback)" and "\<And>st k. map_of overrides st = Some k \<Longrightarrow> has_message (js k)"
  shows "error_text t e fallback overrides \<noteq> []"
proof -
  have "t key (Some [(js ''status'', PText (js_of_int st))]) \<noteq> []" if "has_message key" for key st
    by (rule params_worded [OF that]) (auto simp: js_of_int_ne)
  with assms plain_worded show ?thesis
    by (auto simp: error_text_def Let_def split: exn.splits option.splits)
qed

end

interpretation site_translator: worded_translator "t_for l" for l
proof
  fix key assume "has_message key"
  then show "t_for l key None \<noteq> []"
    using translate_known(1) [of key l] by (auto simp: t_for_def create_t_def)
next
  fix key and xs :: params
  assume "has_message key" "\<And>v. v \<in> snd ` set xs \<Longrightarrow> pval_text v \<noteq> []"
  then show "t_for l key (Some xs) \<noteq> []"
    using translate_known(2) [of key xs l] by (auto simp: t_for_def create_t_def)
qed

section \<open>Properties\<close>

text \<open>The two dictionaries define the same keys in the same order, and for every key of the
  source dictionary each locale has a non-empty text to show.\<close>
lemma dictionaries_complete:
  "map fst en_messages = map fst zh_messages \<and>
   (has_message key \<longrightarrow> (\<exists>s. translate (dictionary_of l) key None = Some s \<and> s \<noteq> []))"
  using same_keys translate_known(1) [of key l] by blast

lemma dictionaries_complete_witness:
  "\<exists>s. translate (dictionary_of (js ''zh-CN'')) (js ''error.save'') None = Some s \<and> s \<noteq> []"
proof -
  have "has_message (js ''error.save'')" by (rule error_messages)
  with dictionaries_complete [of "js ''error.save''" "js ''zh-CN''"] show ?thesis by blast
qed

text \<open>C34 Whatever a request threw, the text it is shown as is never empty, in either language, as
  long as the caller's fallback and overrides are keys of the dictionary.\<close>
theorem error_text_never_blank:
  assumes "has_message (js fallback)" and "\<And>st k. map_of overrides st = Some k \<Longrightarrow> has_message (js k)"
  shows "error_text (t_for l) e fallback overrides \<noteq> []"
  using assms by (rule site_translator.error_text_worded)

theorem error_text_never_blank_witness:
  "error_text (t_for (js ''en'')) Thrown ''error.save'' [] \<noteq> []"
proof -
  have "has_message (js ''error.save'')" by (rule error_messages)
  then show ?thesis by (intro error_text_never_blank) simp_all
qed

end
