(* ===== verification/Request_Context.thy ===== *)
theory Request_Context
  imports I18n Api_Client
begin

text \<open>
  What the server render decides from one incoming request: the locale
  (\<open>lib/i18n/negotiate.ts\<close>, \<open>server.ts\<close>, \<open>actions.ts\<close>, \<open>proxy.ts\<close>), the origin
  (\<open>lib/request-origin.ts\<close>, \<open>app/robots.ts\<close>, \<open>app/sitemap.ts\<close>), and the two reads of the API made
  before anybody has signed in (\<open>session.server.ts\<close>, \<open>public-config.server.ts\<close>), with the
  rewrites of \<open>next.config.ts\<close>. Headers are an association list under lower-case names.
\<close>

type_synonym headers = "(jstr \<times> jstr) list"

definition header_get :: "headers \<Rightarrow> string \<Rightarrow> jstr option" where
  "header_get hs name = map_of hs (js name)"

section \<open>Negotiating a language\<close>

definition primary :: "jstr \<Rightarrow> jstr" where
  \<comment> \<open>\<open>tag.split("-")[0].toLowerCase()\<close>\<close>
  "primary tag = to_lower (hd (split_on 45 tag))"

definition match_tag :: "jstr \<Rightarrow> jstr option" where
  \<comment> \<open>the empty string of the source is \<open>None\<close>\<close>
  "match_tag tag = find (\<lambda>l. primary l = primary tag) locales"

fun tag_quality :: "jstr list \<Rightarrow> rat \<Rightarrow> rat option" where
  \<comment> \<open>the loop over the parameters; \<open>None\<close> is the early return on an unparsable quality\<close>
  "tag_quality [] q = Some q"
| "tag_quality (p # ps) q =
     (case index_of (js ''='') p of
        None \<Rightarrow> tag_quality ps q
      | Some i \<Rightarrow>
          if to_lower (trim (take i p)) \<noteq> js ''q'' then tag_quality ps q
          else (case js_number (trim (drop (Suc i) p)) of
                  JFin r \<Rightarrow> tag_quality ps r
                | _ \<Rightarrow> None))"

definition parse_tag :: "jstr \<Rightarrow> jstr \<times> rat" where
  "parse_tag part =
     (let s = trim part in
      if s = [] then ([], 0)
      else (let fields = split_on 59 s in
            case tag_quality (tl fields) 1 of
              None \<Rightarrow> ([], 0)
            | Some q \<Rightarrow> (trim (hd fields), q)))"

fun best_locale :: "jstr list \<Rightarrow> jstr \<Rightarrow> rat \<Rightarrow> jstr" where
  "best_locale [] best q0 = best"
| "best_locale (part # ps) best q0 =
     (let (tag, q) = parse_tag part in
      if tag = [] \<or> q \<le> 0 then best_locale ps best q0
      else (case match_tag tag of
              None \<Rightarrow> best_locale ps best q0
            | Some l \<Rightarrow> if q \<le> q0 then best_locale ps best q0 else best_locale ps l q))"

definition preferred_locale :: "jstr option \<Rightarrow> jstr" where
  "preferred_locale accept = best_locale (split_on 44 (text_or_empty accept)) default_locale (-1)"

section \<open>The locale of a request\<close>

definition landing_header :: string where
  "landing_header = ''x-purels-landing-locale''"

definition proxy_matches :: "jstr \<Rightarrow> bool" where
  \<comment> \<open>\<open>matcher: ["/", "/i18n/:path*"]\<close>\<close>
  "proxy_matches path \<longleftrightarrow> path = js ''/'' \<or> path = js ''/i18n'' \<or> prefix (js ''/i18n/'') path"

definition proxy_headers :: "jstr \<Rightarrow> headers \<Rightarrow> headers" where
  "proxy_headers path hs =
     (let h0 = AList.delete (js landing_header) hs;
          h1 = (if path = js ''/i18n/en'' then AList.update (js landing_header) (js ''en'') h0 else h0)
      in if path = js ''/i18n/zh-CN'' then AList.update (js landing_header) (js ''zh-CN'') h1 else h1)"

definition get_locale :: "headers \<Rightarrow> jstr option \<Rightarrow> jstr" where
  \<comment> \<open>the headers the render sees and the value of the locale cookie\<close>
  "get_locale hs cookie =
     (if is_locale (header_get hs landing_header) then the (header_get hs landing_header)
      else if is_locale cookie then the cookie
      else preferred_locale (header_get hs ''accept-language''))"

definition request_locale :: "jstr \<Rightarrow> headers \<Rightarrow> jstr option \<Rightarrow> jstr" where
  \<comment> \<open>a request through the proxy, where its matcher applies, to the render\<close>
  "request_locale path hs cookie =
     get_locale (if proxy_matches path then proxy_headers path hs else hs) cookie"

definition provider_locale :: "jstr \<Rightarrow> jstr" where
  \<comment> \<open>\<open>I18nProvider\<close>: the locale resolved from its prop\<close>
  "provider_locale l = (if is_locale (Some l) then l else default_locale)"

record cookie_write =
  cw_name :: jstr
  cw_value :: jstr
  cw_path :: jstr
  cw_same_site :: jstr
  cw_http_only :: bool
  cw_max_age :: int

definition set_locale :: "jstr \<Rightarrow> cookie_write option" where
  "set_locale l =
     (if \<not> is_locale (Some l) then None
      else Some \<lparr>cw_name = locale_cookie, cw_value = l, cw_path = js ''/'', cw_same_site = js ''lax'',
                 cw_http_only = True, cw_max_age = 60 * 60 * 24 * 365\<rparr>)"

section \<open>The origin of a request\<close>

definition host_unit :: "u16 \<Rightarrow> bool" where
  "host_unit c \<longleftrightarrow> is_alnum c \<or> c = 46 \<or> c = 45"

definition host_ok :: "jstr \<Rightarrow> bool" where
  \<comment> \<open>\<open>/^[A-Za-z0-9.-]+(?::\d{1,5})?$/\<close>\<close>
  "host_ok h \<longleftrightarrow>
     (let name = takeWhile host_unit h; rest = dropWhile host_unit h in
      name \<noteq> [] \<and>
      (rest = [] \<or> hd rest = 58 \<and> 1 \<le> length (tl rest) \<and> length (tl rest) \<le> 5 \<and> list_all is_digit (tl rest)))"

definition fallback_origin :: jstr where
  "fallback_origin = js ''http://localhost''"

definition first_item :: "jstr \<Rightarrow> jstr" where
  "first_item s = trim (hd (split_on 44 s))"

definition coalesce :: "'a option \<Rightarrow> 'a option \<Rightarrow> 'a option" where
  \<comment> \<open>\<open>a ?? b\<close>\<close>
  "coalesce a b = (case a of None \<Rightarrow> b | Some x \<Rightarrow> Some x)"

definition request_origin :: "headers \<Rightarrow> jstr" where
  "request_origin hs =
     (let host = first_item (text_or_empty (coalesce (header_get hs ''x-forwarded-host'') (header_get hs ''host'')));
          proto = first_item (case header_get hs ''x-forwarded-proto'' of None \<Rightarrow> js ''http'' | Some p \<Rightarrow> p)
      in if \<not> host_ok host then fallback_origin
         else (if proto = js ''https'' then js ''https'' else js ''http'') @ js ''://'' @ host)"

record robots_doc =
  rd_agent :: jstr
  rd_allow :: jstr
  rd_disallow :: "jstr list"
  rd_sitemap :: jstr

definition robots :: "headers \<Rightarrow> robots_doc" where
  "robots hs = \<lparr>rd_agent = js ''*'', rd_allow = js ''/'', rd_disallow = [js ''/api/''],
                rd_sitemap = request_origin hs @ js ''/sitemap.xml''\<rparr>"

record sitemap_entry =
  se_url :: jstr
  se_languages :: "(jstr \<times> jstr) list"

definition sitemap :: "headers \<Rightarrow> sitemap_entry list" where
  "sitemap hs =
     (let origin = request_origin hs;
          languages = [(js ''en'', origin @ js ''/i18n/en''), (js ''zh-CN'', origin @ js ''/i18n/zh-CN''),
                       (js ''x-default'', origin @ js ''/'')]
      in map (\<lambda>path. \<lparr>se_url = origin @ path, se_languages = languages\<rparr>)
             [js ''/'', js ''/i18n/en'', js ''/i18n/zh-CN''])"

section \<open>Reads of the API by the server\<close>

definition server_api_base :: "jstr option \<Rightarrow> jstr" where
  \<comment> \<open>\<open>(process.env.API_PROXY_TARGET || "http://localhost:8080").replace(/\/$/, "")\<close>\<close>
  "server_api_base v = strip_one 47 (or_else (text_or_empty v) (js ''http://localhost:8080''))"

definition session_request :: "jstr \<Rightarrow> jstr option \<Rightarrow> jstr option" where
  \<comment> \<open>the URL \<open>hasSession\<close> fetches, when the cookie makes it fetch at all\<close>
  "session_request base cookie =
     (if text_or_empty cookie = [] then None else Some (base @ js ''/api/v1/auth/me''))"

definition has_session :: "jstr option \<Rightarrow> http_response promise \<Rightarrow> bool" where
  "has_session cookie answer =
     (if text_or_empty cookie = [] then False
      else (case answer of Inl _ \<Rightarrow> False | Inr r \<Rightarrow> response_ok r))"

definition registration_enabled :: "http_response promise \<Rightarrow> bool" where
  "registration_enabled answer =
     (case answer of
        Inl _ \<Rightarrow> True
      | Inr r \<Rightarrow>
          if \<not> response_ok r then True
          else (case hr_json r of
                  None \<Rightarrow> True
                | Some v \<Rightarrow> prop_of v ''registration_enabled'' \<noteq> Some (JBool False)))"

definition under :: "string \<Rightarrow> jstr \<Rightarrow> bool" where
  \<comment> \<open>a path matching \<open>/root/:path*\<close>\<close>
  "under dir path \<longleftrightarrow> path = js dir \<or> prefix (js (dir @ ''/'')) path"

definition rewrite_of :: "jstr \<Rightarrow> jstr \<Rightarrow> jstr option" where
  "rewrite_of target path =
     (if under ''/api'' path \<or> path = js ''/readyz'' then Some (target @ path) else None)"

definition redirect_of :: "jstr \<Rightarrow> jstr option" where
  "redirect_of path =
     (if under ''/admin'' path then Some (js ''/home'' @ drop 6 path) else None)"

section \<open>Lemmas\<close>

lemma is_locale_Some [simp]: "is_locale (Some s) \<longleftrightarrow> s \<in> set locales"
  by (simp add: is_locale_def)

lemma is_locale_None [simp]: "\<not> is_locale None"
  by (simp add: is_locale_def)

lemma is_locale_D: "is_locale v \<Longrightarrow> the v \<in> set locales"
  by (cases v) (simp_all add: is_locale_def)

lemma match_tag_locale: "match_tag tag = Some l \<Longrightarrow> l \<in> set locales"
  by (auto simp: match_tag_def find_Some_iff)

definition accepted :: "jstr \<Rightarrow> (jstr \<times> rat) option" where
  \<comment> \<open>the locale and quality an entry of the header is a vote for\<close>
  "accepted part =
     (let (tag, q) = parse_tag part in
      if tag = [] \<or> q \<le> 0 then None else map_option (\<lambda>l. (l, q)) (match_tag tag))"

lemma best_locale_step:
  "best_locale (part # ps) best q0 =
     (case accepted part of
        Some (l, q) \<Rightarrow> if q0 < q then best_locale ps l q else best_locale ps best q0
      | None \<Rightarrow> best_locale ps best q0)"
  by (auto simp: accepted_def not_le split: prod.splits option.splits)

declare best_locale.simps(2) [simp del]

definition wins :: "jstr \<Rightarrow> rat \<Rightarrow> jstr list \<Rightarrow> bool" where
  \<comment> \<open>some entry votes for \<open>l\<close> with \<open>q\<close>, no entry votes higher and none before it as high\<close>
  "wins l q parts \<longleftrightarrow>
     (\<exists>xs p ys. parts = xs @ p # ys \<and> accepted p = Some (l, q) \<and>
        (\<forall>x \<in> set xs. \<forall>l' q'. accepted x = Some (l', q') \<longrightarrow> q' < q) \<and>
        (\<forall>y \<in> set ys. \<forall>l' q'. accepted y = Some (l', q') \<longrightarrow> q' \<le> q))"

lemma wins_Cons: "wins l q ps \<Longrightarrow> (\<And>l' q'. accepted p = Some (l', q') \<Longrightarrow> q' < q) \<Longrightarrow> wins l q (p # ps)"
  unfolding wins_def by (metis append_Cons set_ConsD)

lemma wins_hd: "accepted p = Some (l, q) \<Longrightarrow> (\<And>y l' q'. y \<in> set ps \<Longrightarrow> accepted y = Some (l', q') \<Longrightarrow> q' \<le> q)
  \<Longrightarrow> wins l q (p # ps)"
  unfolding wins_def by (intro exI [of _ "[]"] exI [of _ p] exI [of _ ps]) auto

lemma acceptedD: "accepted p = Some (l, q) \<Longrightarrow> l \<in> set locales \<and> 0 < q"
  by (auto simp: accepted_def match_tag_locale split: prod.splits if_splits)

lemma best_locale_spec:
  "(\<forall>p \<in> set parts. \<forall>l q. accepted p = Some (l, q) \<longrightarrow> q \<le> q0) \<and> best_locale parts best q0 = best \<or>
   (\<exists>q > q0. wins (best_locale parts best q0) q parts)"
proof (induction parts arbitrary: best q0)
  case (Cons p ps)
  show ?case
  proof (cases "\<exists>l q. accepted p = Some (l, q) \<and> q0 < q")
    case True
    then obtain l q where a: "accepted p = Some (l, q)" "q0 < q" by blast
    then have r: "best_locale (p # ps) best q0 = best_locale ps l q" by (simp add: best_locale_step)
    from Cons [of q l] show ?thesis
    proof
      assume "(\<forall>p \<in> set ps. \<forall>l q'. accepted p = Some (l, q') \<longrightarrow> q' \<le> q) \<and> best_locale ps l q = l"
      then have "wins (best_locale ps l q) q (p # ps)" using a(1) by (auto intro: wins_hd)
      with a(2) r show ?thesis by auto
    next
      assume "\<exists>q' > q. wins (best_locale ps l q) q' ps"
      then obtain q' where q': "q < q'" "wins (best_locale ps l q) q' ps" by blast
      then have "wins (best_locale ps l q) q' (p # ps)" using a(1) by (auto intro: wins_Cons)
      with a(2) q'(1) r show ?thesis using less_trans by auto
    qed
  next
    case False
    then have r: "best_locale (p # ps) best q0 = best_locale ps best q0"
      by (auto simp: best_locale_step split: option.splits)
    have le: "accepted p = Some (l', q') \<Longrightarrow> q' \<le> q0" for l' q'
      using False by force
    from Cons [of q0 best] show ?thesis
    proof
      assume "\<exists>q > q0. wins (best_locale ps best q0) q ps"
      then obtain q where q: "q0 < q" "wins (best_locale ps best q0) q ps" by blast
      then have "wins (best_locale ps best q0) q (p # ps)"
        using le by (intro wins_Cons) (auto dest: le_less_trans)
      with q(1) r show ?thesis by auto
    qed (use le r in auto)
  qed
qed simp

lemma wins_locale: "wins l q ps \<Longrightarrow> l \<in> set locales \<and> 0 < q"
  using acceptedD unfolding wins_def by blast

lemma preferred_locale_in: "preferred_locale a \<in> set locales"
  using best_locale_spec [of "split_on 44 (text_or_empty a)" "-1" default_locale] wins_locale
  by (auto simp: preferred_locale_def default_locale_def locales_def)

lemma get_locale_in: "get_locale hs c \<in> set locales"
  using is_locale_D preferred_locale_in by (auto simp: get_locale_def)

lemma map_of_delete_other: "k \<noteq> k' \<Longrightarrow> map_of (AList.delete k' hs) k = map_of hs k"
  by (simp add: delete_conv')

lemma proxy_landing:
  "header_get (proxy_headers path hs) landing_header =
     (if path = js ''/i18n/en'' then Some (js ''en'')
      else if path = js ''/i18n/zh-CN'' then Some (js ''zh-CN'') else None)"
  by (simp add: proxy_headers_def header_get_def Let_def update_conv' delete_conv')

lemma proxy_accept:
  "header_get (proxy_headers path hs) ''accept-language'' = header_get hs ''accept-language''"
  by (simp add: proxy_headers_def header_get_def Let_def update_conv' delete_conv' landing_header_def)

lemma proxy_get_locale:
  "get_locale (proxy_headers path hs) cookie =
     (if path = js ''/i18n/en'' then js ''en''
      else if path = js ''/i18n/zh-CN'' then js ''zh-CN''
      else get_locale (AList.delete (js landing_header) hs) cookie)"
proof (cases "path = js ''/i18n/en'' \<or> path = js ''/i18n/zh-CN''")
  case True
  then show ?thesis by (auto simp: get_locale_def proxy_landing locales_def)
qed (simp add: proxy_headers_def Let_def)

lemma host_ok_units: "host_ok h \<Longrightarrow> c \<in> set h \<Longrightarrow> host_unit c \<or> c = 58"
proof -
  assume h: "host_ok h" and c: "c \<in> set h"
  have "c \<in> set (takeWhile host_unit h) \<or> c \<in> set (dropWhile host_unit h)"
    using c by (metis Un_iff set_append takeWhile_dropWhile_id)
  then show ?thesis
  proof
    assume "c \<in> set (dropWhile host_unit h)"
    with h have "c = 58 \<or> is_digit c"
      by (cases "dropWhile host_unit h") (auto simp: host_ok_def Let_def list_all_iff)
    then show ?thesis by (auto simp: host_unit_def is_alnum_def)
  qed (use set_takeWhileD in force)
qed

section \<open>Properties\<close>

text \<open>C35 The negotiated language is the best the browser asked for: either no entry of the header
  names a shipped language with a positive quality, and the default is used, or the result is
  the language of an entry with the highest such quality, the first one among equals. A
  refusal (quality zero) never selects a language.\<close>
theorem preferred_locale_best:
  "list_all (\<lambda>p. accepted p = None) (split_on 44 (text_or_empty a)) \<and> preferred_locale a = default_locale \<or>
   (\<exists>q > 0. wins (preferred_locale a) q (split_on 44 (text_or_empty a)))"
proof -
  have "q \<le> - 1 \<Longrightarrow> accepted p \<noteq> Some (l, q)" for p l q
    using acceptedD [of p l q] by auto
  then show ?thesis
    using best_locale_spec [of "split_on 44 (text_or_empty a)" "-1" default_locale] wins_locale
    unfolding preferred_locale_def list_all_iff by (metis not_None_eq surj_pair)
qed

text \<open>The locale a page is rendered in is always one the console ships, whatever the headers,
  the cookie and the path are. On the routes the proxy covers, a landing header sent by the
  client has no influence: the landing routes fix the language, and elsewhere the result is
  that of the same request without the header.\<close>
lemma request_locale_trusted:
  "request_locale path hs cookie \<in> set locales \<and>
   (proxy_matches path \<longrightarrow>
      request_locale path hs cookie =
        (if path = js ''/i18n/en'' then js ''en''
         else if path = js ''/i18n/zh-CN'' then js ''zh-CN''
         else get_locale (AList.delete (js landing_header) hs) cookie))"
  using get_locale_in by (simp add: request_locale_def proxy_get_locale)

lemma request_locale_trusted_witness:
  "request_locale (js ''/i18n/en'') [(js landing_header, js ''zh-CN'')] None = js ''en''"
  using request_locale_trusted [of "js ''/i18n/en''" "[(js landing_header, js ''zh-CN'')]" None]
  by (simp add: proxy_matches_def)

definition origin_safe :: "u16 \<Rightarrow> bool" where
  \<comment> \<open>a character that needs no escaping in XML text or a URL\<close>
  "origin_safe c \<longleftrightarrow> is_alnum c \<or> c \<in> {45, 46, 47, 58}"

text \<open>The origin derived from the headers is safe to interpolate: it consists of letters,
  digits, dots, hyphens, colons and slashes only, starts with a web scheme, and is the fallback
  whenever the host is not a host name with an optional port. Every URL of the sitemap starts
  with it.\<close>
lemma request_origin_safe:
  "list_all origin_safe (request_origin hs) \<and>
   (prefix (js ''http://'') (request_origin hs) \<or> prefix (js ''https://'') (request_origin hs)) \<and>
   list_all (\<lambda>e. prefix (request_origin hs) (se_url e) \<and>
      list_all (\<lambda>l. prefix (request_origin hs) (snd l)) (se_languages e)) (sitemap hs)"
proof -
  have codes: "origin_safe 104" "origin_safe 116" "origin_safe 112" "origin_safe 115" "origin_safe 58"
    "origin_safe 47" "origin_safe 108" "origin_safe 111" "origin_safe 99" "origin_safe 97"
    by (simp_all add: origin_safe_def unit_simps)
  have h: "list_all origin_safe h" if "host_ok h" for h
    using host_ok_units [OF that] by (auto simp: list_all_iff origin_safe_def host_unit_def)
  show ?thesis
    using h by (auto simp: request_origin_def fallback_origin_def Let_def sitemap_def text_eval codes)
qed

text \<open>The landing page shows the console entry only on the API's word: a session is assumed
  exactly when a session cookie is present and the API answered with success, and the API is
  asked only when the cookie is present. Registration is taken to be closed exactly when a
  successful answer says so explicitly.\<close>
lemma landing_reads:
  "(has_session cookie answer \<longleftrightarrow>
      session_request base cookie \<noteq> None \<and> (\<exists>r. answer = Inr r \<and> response_ok r)) \<and>
   (\<not> registration_enabled answer \<longleftrightarrow>
      (\<exists>r v. answer = Inr r \<and> response_ok r \<and> hr_json r = Some v \<and>
         prop_of v ''registration_enabled'' = Some (JBool False)))"
  by (auto simp: has_session_def session_request_def registration_enabled_def split: sum.splits option.splits)

end
