(* ===== verification/Text_Tools.thy ===== *)
theory Text_Tools
  imports I18n
begin

text \<open>
  The small text routines the pages share: tag lists (\<open>lib/tags.ts\<close>), CSV files (\<open>lib/csv.ts\<close>),
  the OIDC callback (\<open>lib/oidc-callback.ts\<close>), class names (\<open>lib/utils.ts\<close>) and the formatting of
  dates and counts (\<open>lib/format.ts\<close>), whose rendering by the platform is an argument.
\<close>

section \<open>Tags and scopes\<close>

definition tag_sep :: "u16 \<Rightarrow> bool" where
  \<comment> \<open>\<open>[,\<dots>\s]\<close> with the full-width comma\<close>
  "tag_sep c \<longleftrightarrow> c = 44 \<or> c = 65292 \<or> is_ws c"

definition set_add :: "'a list \<Rightarrow> 'a \<Rightarrow> 'a list" where
  \<comment> \<open>\<open>Set.prototype.add\<close> on the insertion-ordered contents\<close>
  "set_add xs x = (if x \<in> set xs then xs else xs @ [x])"

definition parse_tags :: "jstr \<Rightarrow> jstr list" where
  "parse_tags raw =
     foldl (\<lambda>seen part. let name = trim part in if name = [] then seen else set_add seen name) []
       (split_runs tag_sep raw)"

definition parse_scopes :: "jstr \<Rightarrow> jstr list" where
  \<comment> \<open>\<open>value.split(/[\s,]+/).filter(Boolean)\<close> of the sign-in methods page\<close>
  "parse_scopes raw = filter (\<lambda>w. w \<noteq> []) (split_runs (\<lambda>c. is_ws c \<or> c = 44) raw)"

section \<open>CSV\<close>

fun double_quotes :: "jstr \<Rightarrow> jstr" where
  "double_quotes [] = []"
| "double_quotes (c # s) = (if c = 34 then 34 # 34 # double_quotes s else c # double_quotes s)"

definition csv_cell :: "pval \<Rightarrow> jstr" where
  "csv_cell v = 34 # double_quotes (pval_text v) @ [34]"

definition csv_row :: "pval list \<Rightarrow> jstr" where
  "csv_row r = join [44] (map csv_cell r)"

definition csv_body :: "pval list list \<Rightarrow> jstr" where
  "csv_body rows = join [13, 10] (map csv_row rows)"

definition csv_content :: "pval list list \<Rightarrow> jstr" where
  "csv_content rows = 65279 # csv_body rows"

section \<open>The OIDC callback\<close>

definition build_callback_url :: "jstr \<Rightarrow> jstr \<Rightarrow> jstr promise" where
  "build_callback_url redirect_base slug =
     (let base = strip_trailing 47 (trim redirect_base);
          normalized = to_lower (trim slug)
      in if base = [] \<or> normalized = [] then Inr []
         else (case encode_component normalized of
                 Inl e \<Rightarrow> Inl e
               | Inr s \<Rightarrow> Inr (base @ js ''/api/v1/auth/oidc/'' @ s @ js ''/callback'')))"

section \<open>Class names and formats\<close>

datatype class_value = ClassText jstr | ClassOff | ClassMap "(jstr \<times> bool) list"

fun class_names :: "class_value \<Rightarrow> jstr list" where
  "class_names (ClassText s) = (if s = [] then [] else [s])"
| "class_names ClassOff = []"
| "class_names (ClassMap es) = map fst (filter snd es)"

definition cn :: "class_value list \<Rightarrow> jstr" where
  "cn vs = join [32] (concat (map class_names vs))"

record formats =
  \<comment> \<open>what the platform prints for a date it can parse, long and short, and for a number\<close>
  fm_date_time :: "jstr \<Rightarrow> jstr \<Rightarrow> jstr option"
  fm_short :: "jstr \<Rightarrow> jstr \<Rightarrow> jstr option"
  fm_number :: "int \<Rightarrow> jstr \<Rightarrow> jstr"

definition format_date_time :: "formats \<Rightarrow> jstr \<Rightarrow> jstr \<Rightarrow> jstr" where
  "format_date_time f v l = (case fm_date_time f v l of None \<Rightarrow> v | Some s \<Rightarrow> s)"

definition format_short_date_time :: "formats \<Rightarrow> jstr \<Rightarrow> jstr \<Rightarrow> jstr" where
  "format_short_date_time f v l = (case fm_short f v l of None \<Rightarrow> v | Some s \<Rightarrow> s)"

definition format_number :: "formats \<Rightarrow> int \<Rightarrow> jstr \<Rightarrow> jstr" where
  "format_number f n l = fm_number f n l"

section \<open>Lemmas\<close>

lemma parse_tags_foldl:
  "distinct acc \<Longrightarrow> (\<forall>p \<in> set parts. trim p = p) \<Longrightarrow>
   (let r = foldl (\<lambda>seen part. let name = trim part in if name = [] then seen else set_add seen name) acc parts
    in distinct r \<and> set r = set acc \<union> {p \<in> set parts. p \<noteq> []})"
  by (induction parts arbitrary: acc) (auto simp: set_add_def Let_def)

lemma tag_piece_trim: "p \<in> set (split_runs tag_sep raw) \<Longrightarrow> trim p = p"
  using split_runs_pieces [of p tag_sep raw] by (intro trim_no_ws) (auto simp: tag_sep_def)

lemma parse_tags_set: "set (parse_tags raw) = {p \<in> set (split_by tag_sep raw). p \<noteq> []}"
proof -
  have "set (parse_tags raw) = {p \<in> set (split_runs tag_sep raw). p \<noteq> []}"
    using parse_tags_foldl [of "[]" "split_runs tag_sep raw"] tag_piece_trim
    by (simp add: parse_tags_def Let_def)
  also have "\<dots> = set (filter (\<lambda>w. w \<noteq> []) (split_runs tag_sep raw))" by auto
  finally show ?thesis by (simp add: split_runs_nonempty)
qed

lemma parse_tags_distinct: "distinct (parse_tags raw)"
  using parse_tags_foldl [of "[]" "split_runs tag_sep raw"] tag_piece_trim
  by (simp add: parse_tags_def Let_def)

lemma foldl_all_new:
  "distinct (acc @ parts) \<Longrightarrow> (\<forall>p \<in> set parts. trim p = p \<and> p \<noteq> []) \<Longrightarrow>
   foldl (\<lambda>seen part. let name = trim part in if name = [] then seen else set_add seen name) acc parts = acc @ parts"
  by (induction parts arbitrary: acc) (auto simp: set_add_def Let_def)

lemma split_runs_join_tags:
  assumes "xs \<noteq> []" "\<And>x c. x \<in> set xs \<Longrightarrow> c \<in> set x \<Longrightarrow> \<not> tag_sep c" "\<And>x. x \<in> set xs \<Longrightarrow> x \<noteq> []"
  shows "split_runs tag_sep (join [44, 32] xs) = xs"
  using assms
proof (induction xs rule: induct_list012)
  case (2 x)
  then show ?case by (simp add: split_runs_no_sep)
next
  case (3 x y zs)
  have sep: "tag_sep 44" "tag_sep 32" by (simp_all add: tag_sep_def unit_simps)
  obtain c w where y: "y = c # w" using 3(5) [of y] by (cases y) auto
  then have "\<not> tag_sep c" using 3(4) [of y c] by simp
  then have "dropWhile tag_sep (32 # join [44, 32] (y # zs)) = join [44, 32] (y # zs)"
    using sep y by (cases zs) simp_all
  then have "split_runs tag_sep (join [44, 32] (x # y # zs)) = x # split_runs tag_sep (join [44, 32] (y # zs))"
    using split_runs_append_sep [of x tag_sep 44 "32 # join [44, 32] (y # zs)"] 3(4) [of x] sep(1) by simp
  moreover have "split_runs tag_sep (join [44, 32] (y # zs)) = y # zs"
    by (rule 3(2)) (use 3(4,5) in auto)
  ultimately show ?case by simp
qed simp

section \<open>Reading a CSV file back\<close>

fun read_cell :: "jstr \<Rightarrow> jstr \<times> jstr" where
  \<comment> \<open>the contents of a quoted cell, after its opening quote, and what follows its closing quote\<close>
  "read_cell [] = ([], [])"
| "read_cell [c] = (if c = 34 then [] else [c], [])"
| "read_cell (c # d # s) =
     (if c = 34
      then (if d = 34 then (let (v, r) = read_cell s in (34 # v, r)) else ([], d # s))
      else (let (v, r) = read_cell (d # s) in (c # v, r)))"

lemma read_cell_length: "length (snd (read_cell s)) \<le> length s"
  by (induction s rule: read_cell.induct) (auto split: prod.splits)

function csv_read :: "jstr \<Rightarrow> jstr list list" where
  \<comment> \<open>the rows of a file all of whose cells are quoted (RFC 4180)\<close>
  "csv_read [] = []"
| "csv_read (q # s) =
     (let (v, r) = read_cell s in
      if r = [] then [[v]]
      else if hd r = 44 then (case csv_read (tl r) of [] \<Rightarrow> [[v]] | row # rows \<Rightarrow> (v # row) # rows)
      else [v] # csv_read (tl (tl r)))"
  by pat_completeness auto
termination
proof (relation "measure length")
  fix q :: u16 and s x xa y
  assume "x = read_cell s" "(xa, y) = x" "y \<noteq> []"
  then have "length y \<le> length s" using read_cell_length [of s] by (metis snd_conv)
  then show "(tl y, q # s) \<in> measure length" "(tl (tl y), q # s) \<in> measure length" by simp_all
qed simp_all

lemma read_cell_quotes: "r = [] \<or> hd r \<noteq> 34 \<Longrightarrow> read_cell (double_quotes v @ 34 # r) = (v, r)"
proof (induction v)
  case Nil
  then show ?case by (cases r) auto
next
  case (Cons c v)
  then show ?case by (cases v; cases r) auto
qed

lemma csv_row_ne: "r \<noteq> [] \<Longrightarrow> csv_row r \<noteq> []"
  by (cases r rule: list.exhaust; cases "tl r") (auto simp: csv_row_def csv_cell_def)

lemma csv_read_row:
  "row \<noteq> [] \<Longrightarrow> rest = [] \<or> hd rest = 13 \<Longrightarrow>
   csv_read (csv_row row @ rest) =
     map pval_text row # (if rest = [] then [] else csv_read (tl (tl rest)))"
proof (induction row rule: induct_list012)
  case (2 v)
  then show ?case by (auto simp: csv_row_def csv_cell_def read_cell_quotes)
next
  case (3 v w row)
  have "csv_row (v # w # row) @ rest = 34 # double_quotes (pval_text v) @ 34 # 44 # csv_row (w # row) @ rest"
    by (simp add: csv_row_def csv_cell_def)
  with 3 show ?case by (simp add: read_cell_quotes)
qed simp

lemma csv_read_body:
  "list_all (\<lambda>r. r \<noteq> []) rows \<Longrightarrow> csv_read (csv_body rows) = map (map pval_text) rows"
proof (induction rows rule: induct_list012)
  case (2 r)
  then show ?case using csv_read_row [of r "[]"] by (simp add: csv_body_def)
next
  case (3 r q rows)
  then show ?case using csv_read_row [of r "13 # 10 # csv_body (q # rows)"] by (simp add: csv_body_def)
qed (simp add: csv_body_def)

section \<open>Properties\<close>

text \<open>A tag list read from a form holds each tag once, none of them empty or containing a
  comma or white space, and exactly the pieces of the text between separators; and printing a
  parsed list the way the edit form does (joined by a comma and a space) and parsing it again
  gives the same list.\<close>
lemma parse_tags_normal:
  "distinct (parse_tags raw) \<and>
   set (parse_tags raw) = {p \<in> set (split_by tag_sep raw). p \<noteq> []} \<and>
   list_all (\<lambda>tag. tag \<noteq> [] \<and> list_all (\<lambda>c. \<not> tag_sep c) tag) (parse_tags raw) \<and>
   parse_tags (join [44, 32] (parse_tags raw)) = parse_tags raw"
proof -
  have clean: "\<And>x c. x \<in> set (parse_tags raw) \<Longrightarrow> c \<in> set x \<Longrightarrow> \<not> tag_sep c"
    and ne: "\<And>x. x \<in> set (parse_tags raw) \<Longrightarrow> x \<noteq> []"
    using split_by_pieces by (auto simp: parse_tags_set)
  have "parse_tags (join [44, 32] (parse_tags raw)) = parse_tags raw"
  proof (cases "parse_tags raw = []")
    case True
    then show ?thesis by (simp add: parse_tags_def)
  next
    case False
    have "trim x = x" if "x \<in> set (parse_tags raw)" for x
      using clean [OF that] by (intro trim_no_ws) (auto simp: tag_sep_def)
    with split_runs_join_tags [OF False clean ne] foldl_all_new [of "[]" "parse_tags raw"]
    show ?thesis using parse_tags_distinct ne by (simp add: parse_tags_def [of "join _ _"])
  qed
  moreover have "list_all (\<lambda>tag. tag \<noteq> [] \<and> list_all (\<lambda>c. \<not> tag_sep c) tag) (parse_tags raw)"
    using clean ne by (simp add: list_all_iff)
  ultimately show ?thesis using parse_tags_distinct parse_tags_set by blast
qed

text \<open>C40 A CSV download can be read back: parsing the written body as quoted CSV gives exactly the
  rows and cells that were written, whatever quotes, commas and line breaks they contain.\<close>
theorem csv_round_trip:
  assumes "list_all (\<lambda>r. r \<noteq> []) rows"
  shows "csv_read (tl (csv_content rows)) = map (map pval_text) rows"
  using csv_read_body [OF assms] by (simp add: csv_content_def)

theorem csv_round_trip_witness:
  "csv_read (tl (csv_content [[PText (js ''a,b''), PInt 3], [PText [34, 13, 10]]])) = [[js ''a,b'', js ''3''], [[34, 13, 10]]]"
proof -
  have "js_of_int 3 = js ''3''" by code_simp
  then show ?thesis
    using csv_round_trip [of "[[PText (js ''a,b''), PInt 3], [PText [34, 13, 10]]]"] by simp
qed

text \<open>The callback URL shown for a sign-in method: for a base and an identifier that are not
  blank it is the base without trailing slashes, the fixed route, and the identifier, trimmed,
  in lower case and encoded so that it is one path segment; otherwise it is empty. Spacing and
  case of what was typed do not change it.\<close>
lemma callback_url_form:
  "(build_callback_url base slug = Inr u \<longrightarrow>
      (if strip_trailing 47 (trim base) = [] \<or> to_lower (trim slug) = [] then u = []
       else (\<exists>e. encode_component (to_lower (trim slug)) = Inr e \<and> 47 \<notin> set e \<and> 63 \<notin> set e \<and> 35 \<notin> set e \<and>
               u = strip_trailing 47 (trim base) @ js ''/api/v1/auth/oidc/'' @ e @ js ''/callback''))) \<and>
   build_callback_url (trim base) (trim slug) = build_callback_url base slug"
proof -
  have "47 \<notin> set e \<and> 63 \<notin> set e \<and> 35 \<notin> set e" if "encode_component w = Inr e" for w e
    using encode_component_chars [OF that, of 47] encode_component_chars [OF that, of 63]
      encode_component_chars [OF that, of 35] by (auto simp: uri_unreserved_def unit_simps)
  then show ?thesis by (auto simp: build_callback_url_def Let_def split: sum.splits)
qed

lemma callback_url_form_witness:
  "\<exists>e. encode_component (js ''git'') = Inr e \<and> 47 \<notin> set e \<and>
     js ''https://s.example/api/v1/auth/oidc/git/callback'' = js ''https://s.example/api/v1/auth/oidc/'' @ e @ js ''/callback''"
proof -
  have v: "build_callback_url (js ''https://s.example/'') (js '' Git '') =
      Inr (js ''https://s.example/api/v1/auth/oidc/git/callback'')"
    and b: "strip_trailing 47 (trim (js ''https://s.example/'')) = js ''https://s.example''"
    and n: "to_lower (trim (js '' Git '')) = js ''git''" by code_simp+
  show ?thesis
    using callback_url_form [of "js ''https://s.example/''" "js '' Git ''"
        "js ''https://s.example/api/v1/auth/oidc/git/callback''"] v b n by auto
qed

end
