(* ===== verification/Analytics_Config.thy ===== *)
theory Analytics_Config
  imports Api_Client
begin

text \<open>
  The tracking configuration: its validation at the render boundary and in the form, the
  encoding of a value for an inline script (\<open>web/src/lib/analytics-config.ts\<close>), and the server's
  read of it (\<open>analytics-config.server.ts\<close>). The regular expressions are written as the matchers
  they are: their parts use disjoint characters, so a maximal prefix is the only way to match.
\<close>

section \<open>The patterns\<close>

definition upper_alnum :: "u16 \<Rightarrow> bool" where
  "upper_alnum c \<longleftrightarrow> is_upper c \<or> is_digit c"

definition tagged :: "string \<Rightarrow> (u16 \<Rightarrow> bool) \<Rightarrow> nat \<Rightarrow> nat \<Rightarrow> jstr \<Rightarrow> bool" where
  \<comment> \<open>\<open>/^pre[cls]{lo,hi}$/\<close>\<close>
  "tagged pre cls lo hi v \<longleftrightarrow>
     prefix (js pre) v \<and> lo \<le> length (drop (length pre) v) \<and> length (drop (length pre) v) \<le> hi \<and>
     list_all cls (drop (length pre) v)"

definition ga4_pattern :: "jstr \<Rightarrow> bool" where "ga4_pattern = tagged ''G-'' upper_alnum 4 20"
definition gtm_pattern :: "jstr \<Rightarrow> bool" where "gtm_pattern = tagged ''GTM-'' upper_alnum 4 12"
definition google_tag_pattern :: "jstr \<Rightarrow> bool" where "google_tag_pattern = tagged ''GT-'' upper_alnum 4 20"

definition matomo_site_pattern :: "jstr \<Rightarrow> bool" where
  "matomo_site_pattern v \<longleftrightarrow>
     v \<noteq> [] \<and> is_digit (hd v) \<and> hd v \<noteq> 48 \<and> list_all is_digit (tl v) \<and> length (tl v) \<le> 9"

definition clarity_pattern :: "jstr \<Rightarrow> bool" where
  "clarity_pattern = tagged '''' (\<lambda>c. is_lower c \<or> is_digit c) 6 20"

definition matomo_host_unit :: "u16 \<Rightarrow> bool" where
  "matomo_host_unit c \<longleftrightarrow> is_alnum c \<or> c = 46 \<or> c = 45"

definition matomo_path_unit :: "u16 \<Rightarrow> bool" where
  \<comment> \<open>letters, digits and \<open>. _ ~ ! $ & ( ) * + , ; = : @ % / -\<close>\<close>
  "matomo_path_unit c \<longleftrightarrow>
     is_alnum c \<or> c \<in> {46, 95, 126, 33, 36, 38, 40, 41, 42, 43, 44, 59, 61, 58, 64, 37, 47, 45}"

definition matomo_path :: "jstr \<Rightarrow> bool" where
  \<comment> \<open>\<open>(?:\/[\<dots>]*)?$\<close>\<close>
  "matomo_path s \<longleftrightarrow> s = [] \<or> hd s = 47 \<and> list_all matomo_path_unit (tl s)"

definition matomo_port_path :: "jstr \<Rightarrow> bool" where
  "matomo_port_path s \<longleftrightarrow>
     (if s \<noteq> [] \<and> hd s = 58
      then (let ds = takeWhile is_digit (tl s) in
            1 \<le> length ds \<and> length ds \<le> 5 \<and> matomo_path (dropWhile is_digit (tl s)))
      else matomo_path s)"

definition matomo_url_pattern :: "jstr \<Rightarrow> bool" where
  "matomo_url_pattern v \<longleftrightarrow>
     (let rest = (if prefix (js ''https://'') v then Some (drop 8 v)
                  else if prefix (js ''http://'') v then Some (drop 7 v) else None)
      in case rest of
           None \<Rightarrow> False
         | Some r \<Rightarrow>
             (let host = takeWhile matomo_host_unit r in
              host \<noteq> [] \<and> is_alnum (hd host) \<and> is_alnum (last host) \<and>
              matomo_port_path (dropWhile matomo_host_unit r)))"

definition max_id_length :: nat where "max_id_length = 64"
definition max_url_length :: nat where "max_url_length = 2048"

definition fold_scheme :: "jstr \<Rightarrow> jstr" where
  "fold_scheme v =
     (case index_of (js ''://'') v of
        None \<Rightarrow> v
      | Some i \<Rightarrow> if i = 0 then v else to_lower (take i v) @ drop i v)"

definition trimmed_value :: "json option \<Rightarrow> jstr" where
  "trimmed_value v = (case v of Some (JText s) \<Rightarrow> trim s | _ \<Rightarrow> [])"

definition acceptable :: "jstr \<Rightarrow> (jstr \<Rightarrow> bool) \<Rightarrow> nat \<Rightarrow> bool" where
  "acceptable v pattern max_length \<longleftrightarrow> v = [] \<or> length v \<le> max_length \<and> pattern v"

section \<open>Validation\<close>

record analytics_config =
  cg_ga4 :: jstr
  cg_gtm :: jstr
  cg_google_tag :: jstr
  cg_matomo_url :: jstr
  cg_matomo_site :: jstr
  cg_clarity :: jstr

definition parse_analytics_config :: "json \<Rightarrow> analytics_config option" where
  "parse_analytics_config payload =
     (if \<not> is_object payload then None
      else
        (let ga4 = trimmed_value (prop_of payload ''ga4_measurement_id'');
             gtm = trimmed_value (prop_of payload ''gtm_container_id'');
             google_tag = trimmed_value (prop_of payload ''google_tag_id'');
             matomo_url = strip_trailing 47 (trimmed_value (prop_of payload ''matomo_url''));
             matomo_site = trimmed_value (prop_of payload ''matomo_site_id'');
             clarity = trimmed_value (prop_of payload ''clarity_project_id'')
         in if \<not> acceptable ga4 ga4_pattern max_id_length then None
            else if \<not> acceptable gtm gtm_pattern max_id_length then None
            else if \<not> acceptable google_tag google_tag_pattern max_id_length then None
            else if \<not> acceptable matomo_url matomo_url_pattern max_url_length then None
            else if \<not> acceptable matomo_site matomo_site_pattern max_id_length then None
            else if \<not> acceptable clarity clarity_pattern max_id_length then None
            else if (matomo_url = []) \<noteq> (matomo_site = []) then None
            else if ga4 = [] \<and> gtm = [] \<and> google_tag = [] \<and> matomo_url = [] \<and> clarity = [] then None
            else Some \<lparr>cg_ga4 = ga4, cg_gtm = gtm, cg_google_tag = google_tag, cg_matomo_url = matomo_url,
                       cg_matomo_site = matomo_site, cg_clarity = clarity\<rparr>))"

definition validate_analytics_input :: "analytics_input \<Rightarrow> string option" where
  "validate_analytics_input i =
     (let ga4 = to_upper (trim (an_ga4 i));
          gtm = to_upper (trim (an_gtm i));
          google_tag = to_upper (trim (an_google_tag i));
          matomo_url = strip_trailing 47 (fold_scheme (trim (an_matomo_url i)));
          matomo_site = trim (an_matomo_site i);
          clarity = to_lower (trim (an_clarity i))
      in if \<not> acceptable ga4 ga4_pattern max_id_length then Some ''settings.analytics.invalidGa4''
         else if \<not> acceptable gtm gtm_pattern max_id_length then Some ''settings.analytics.invalidGtm''
         else if \<not> acceptable google_tag google_tag_pattern max_id_length then Some ''settings.analytics.invalidGoogleTag''
         else if \<not> acceptable matomo_url matomo_url_pattern max_url_length then Some ''settings.analytics.invalidMatomoUrl''
         else if matomo_url \<noteq> [] \<and> matomo_site = [] then Some ''settings.analytics.missingMatomoSiteId''
         else if matomo_site \<noteq> [] \<and> \<not> acceptable matomo_site matomo_site_pattern max_id_length
              then Some ''settings.analytics.invalidMatomoSiteId''
         else if \<not> acceptable clarity clarity_pattern max_id_length then Some ''settings.analytics.invalidClarity''
         else None)"

definition public_analytics_config :: "http_response promise \<Rightarrow> analytics_config option" where
  "public_analytics_config answer =
     (case answer of
        Inl _ \<Rightarrow> None
      | Inr r \<Rightarrow>
          if \<not> response_ok r then None
          else (case hr_json r of None \<Rightarrow> None | Some v \<Rightarrow> parse_analytics_config v))"

section \<open>A value in an inline script\<close>

definition hex_unit :: "int \<Rightarrow> u16" where
  "hex_unit d = (if d < 10 then of_int (48 + d) else of_int (87 + d))"

definition unicode_escape :: "u16 \<Rightarrow> jstr" where
  "unicode_escape c =
     (let n = uint c in
      [92, 117, hex_unit (n div 4096 mod 16), hex_unit (n div 256 mod 16),
       hex_unit (n div 16 mod 16), hex_unit (n mod 16)])"

definition quote_unit :: "u16 \<Rightarrow> jstr" where
  "quote_unit c =
     (if c = 34 then [92, 34] else if c = 92 then [92, 92]
      else if c = 8 then [92, 98] else if c = 9 then [92, 116] else if c = 10 then [92, 110]
      else if c = 12 then [92, 102] else if c = 13 then [92, 114]
      else if c < 32 then unicode_escape c else [c])"

fun json_body :: "jstr \<Rightarrow> jstr" where
  \<comment> \<open>the characters \<open>JSON.stringify\<close> writes for a string; a lone surrogate is escaped\<close>
  "json_body [] = []"
| "json_body [c] = (if is_high c \<or> is_low c then unicode_escape c else quote_unit c)"
| "json_body (h # l # s) =
     (if is_high h \<and> is_low l then h # l # json_body s
      else (if is_high h \<or> is_low h then unicode_escape h else quote_unit h) @ json_body (l # s))"

definition json_quote :: "jstr \<Rightarrow> jstr" where
  "json_quote s = 34 # json_body s @ [34]"

definition script_unit :: "u16 \<Rightarrow> jstr" where
  \<comment> \<open>the five replacements, whose results contain none of the five characters\<close>
  "script_unit c =
     (if c \<in> {60, 62, 38, 0x2028, 0x2029} then unicode_escape c else [c])"

definition json_for_script :: "jstr \<Rightarrow> jstr" where
  "json_for_script s = concat (map script_unit (json_quote s))"

section \<open>Reading a string literal back\<close>

fun unhex :: "u16 \<Rightarrow> int option" where
  "unhex c = (if 48 \<le> c \<and> c \<le> 57 then Some (uint c - 48)
              else if 97 \<le> c \<and> c \<le> 102 then Some (uint c - 87) else None)"

fun simple_escape :: "u16 \<Rightarrow> u16 option" where
  "simple_escape c = map_of [(34, 34), (92, 92), (98, 8), (116, 9), (110, 10), (102, 12), (114, 13)] c"

fun literal_value :: "jstr \<Rightarrow> jstr option" where
  \<comment> \<open>the string a double-quoted JavaScript literal denotes, from after its opening quote; the
      closing quote must end the text\<close>
  "literal_value [] = None"
| "literal_value (c # s) =
     (if c = 34 then (if s = [] then Some [] else None)
      else if c = 92
      then (case s of
              [] \<Rightarrow> None
            | e # r \<Rightarrow>
                if e = 117
                then (case r of
                        i # j # k # l # t \<Rightarrow>
                          (case (unhex i, unhex j, unhex k, unhex l) of
                             (Some a, Some b, Some c', Some d) \<Rightarrow>
                               map_option ((#) (of_int (a * 4096 + b * 256 + c' * 16 + d))) (literal_value t)
                           | _ \<Rightarrow> None)
                      | _ \<Rightarrow> None)
                else (case simple_escape e of
                        None \<Rightarrow> None
                      | Some v \<Rightarrow> map_option ((#) v) (literal_value r)))
      else if c < 32 then None
      else map_option ((#) c) (literal_value s))"

lemma unhex_hex: "0 \<le> d \<Longrightarrow> d < 16 \<Longrightarrow> unhex (hex_unit d) = Some d"
proof -
  assume "0 \<le> d" "d < 16"
  then have "d = 0 \<or> d = 1 \<or> d = 2 \<or> d = 3 \<or> d = 4 \<or> d = 5 \<or> d = 6 \<or> d = 7 \<or> d = 8 \<or> d = 9 \<or> d = 10 \<or> d = 11 \<or> d = 12 \<or> d = 13 \<or> d = 14 \<or> d = 15"
    by presburger
  then show ?thesis by (auto simp: hex_unit_def)
qed

lemma positional: "16 * a + r = x \<Longrightarrow> 16 * b + p = a \<Longrightarrow> 16 * c + q = b \<Longrightarrow> c * 4096 + q * 256 + p * 16 + r = (x :: int)"
  by simp

lemma nibbles:
  fixes x :: int
  assumes "0 \<le> x" "x < 65536"
  shows "x div 4096 mod 16 * 4096 + x div 256 mod 16 * 256 + x div 16 mod 16 * 16 + x mod 16 = x"
proof -
  have d: "x div 256 = x div 16 div 16" "x div 4096 = x div 16 div 16 div 16"
    by (simp_all add: zdiv_zmult2_eq [symmetric])
  have "x div 4096 < 16" "0 \<le> x div 4096" using assms by (simp_all add: div_less_iff_less_mult)
  then have m: "x div 4096 mod 16 = x div 4096" by (rule mod_pos_pos_trivial [rotated])
  have "x div 16 div 16 div 16 * 4096 + x div 16 div 16 mod 16 * 256 + x div 16 mod 16 * 16 + x mod 16 = x"
    by (rule positional; rule mult_div_mod_eq)
  then show ?thesis unfolding m unfolding d .
qed

lemma literal_hex:
  assumes "0 \<le> i" "i < 16" "0 \<le> j" "j < 16" "0 \<le> k" "k < 16" "0 \<le> l" "l < 16"
  shows "literal_value (92 # 117 # hex_unit i # hex_unit j # hex_unit k # hex_unit l # s) =
    map_option ((#) (of_int (i * 4096 + j * 256 + k * 16 + l))) (literal_value s)"
  using assms by (simp add: unhex_hex del: unhex.simps)

lemma literal_unicode: "literal_value (unicode_escape c @ s) = map_option ((#) c) (literal_value s)"
proof -
  have r: "0 \<le> uint c" "uint c < 65536" using uint_lt2p [of c] by simp_all
  have b: "0 \<le> x mod 16" "x mod 16 < 16" for x :: int by simp_all
  show ?thesis
    unfolding unicode_escape_def Let_def append_Cons append_Nil literal_hex [OF b b b b] nibbles [OF r]
    by simp
qed

lemma literal_plain: "c \<noteq> 34 \<Longrightarrow> c \<noteq> 92 \<Longrightarrow> \<not> c < 32 \<Longrightarrow>
  literal_value (c # s) = map_option ((#) c) (literal_value s)"
  by simp

lemma literal_quote_unit: "literal_value (quote_unit c @ s) = map_option ((#) c) (literal_value s)"
  by (simp add: quote_unit_def literal_unicode del: unhex.simps)

definition script_text :: "jstr \<Rightarrow> jstr" where
  "script_text s = concat (map script_unit s)"

lemma script_text_simps [simp]:
  "script_text [] = []" "script_text (c # s) = script_unit c @ script_text s"
  "script_text (s @ r) = script_text s @ script_text r"
  by (simp_all add: script_text_def)

lemma hex_unit_safe: "script_unit (hex_unit (x mod 16)) = [hex_unit (x mod 16)]"
proof -
  have "0 \<le> x mod 16" "x mod 16 < 16" by simp_all
  then have "x mod 16 = 0 \<or> x mod 16 = 1 \<or> x mod 16 = 2 \<or> x mod 16 = 3 \<or> x mod 16 = 4 \<or> x mod 16 = 5 \<or> x mod 16 = 6 \<or> x mod 16 = 7 \<or> x mod 16 = 8 \<or> x mod 16 = 9 \<or> x mod 16 = 10 \<or> x mod 16 = 11 \<or> x mod 16 = 12 \<or> x mod 16 = 13 \<or> x mod 16 = 14 \<or> x mod 16 = 15"
    by presburger
  then show ?thesis by (auto simp: hex_unit_def script_unit_def)
qed

lemma script_unicode: "script_text (unicode_escape c) = unicode_escape c"
  by (simp add: unicode_escape_def Let_def hex_unit_safe) (simp add: script_unit_def)

lemma script_unit_fixed: "script_unit c = [c] \<Longrightarrow> c \<notin> {60, 62, 38, 0x2028, 0x2029}"
  by (auto simp: script_unit_def unicode_escape_def Let_def)

lemma unicode_escape_chars: "c \<in> set (unicode_escape d) \<Longrightarrow> script_unit c = [c]"
  using hex_unit_safe by (auto simp: unicode_escape_def Let_def) (simp_all add: script_unit_def)

lemma script_unit_chars: "c \<in> set (script_unit d) \<Longrightarrow> script_unit c = [c]"
proof (cases "d \<in> {60, 62, 38, 0x2028, 0x2029}")
  case True
  then have "script_unit d = unicode_escape d" by (simp add: script_unit_def)
  then show "c \<in> set (script_unit d) \<Longrightarrow> script_unit c = [c]" using unicode_escape_chars by simp
next
  case False
  then have "script_unit d = [d]" by (auto simp: script_unit_def)
  then show "c \<in> set (script_unit d) \<Longrightarrow> script_unit c = [c]" by auto
qed

lemma script_text_clean: "c \<in> set (script_text s) \<Longrightarrow> c \<notin> {60, 62, 38, 0x2028, 0x2029}"
  using script_unit_chars script_unit_fixed by (auto simp: script_text_def)

lemma literal_script_unit:
  "c \<noteq> 34 \<Longrightarrow> c \<noteq> 92 \<Longrightarrow> \<not> c < 32 \<Longrightarrow>
   literal_value (script_unit c @ s) = map_option ((#) c) (literal_value s)"
  by (simp add: script_unit_def literal_unicode)

lemma script_quote_unit: "literal_value (script_text (quote_unit c) @ s) = map_option ((#) c) (literal_value s)"
proof (cases "c = 34 \<or> c = 92 \<or> c < 32")
  case True
  then have "script_text (quote_unit c) = quote_unit c"
    by (auto simp: quote_unit_def script_unicode) (simp_all add: script_unit_def)
  then show ?thesis by (simp add: literal_quote_unit)
next
  case False
  then have "quote_unit c = [c]" by (auto simp: quote_unit_def)
  with False show ?thesis by (simp add: literal_script_unit)
qed

lemma surrogate_plain: "is_high c \<or> is_low c \<Longrightarrow> c \<noteq> 34 \<and> c \<noteq> 92 \<and> \<not> c < 32"
  by (auto simp: unit_simps dest: le_less_trans)

lemma literal_json_body:
  "literal_value (script_text (json_body s) @ r) = map_option ((@) s) (literal_value r)"
proof (induction s rule: json_body.induct)
  case 1
  then show ?case by (cases "literal_value r") simp_all
next
  case (2 c)
  then show ?case
    by (cases "literal_value r") (simp_all add: script_unicode literal_unicode script_quote_unit)
next
  case (3 h l s)
  show ?case
  proof (cases "is_high h \<and> is_low l")
    case True
    with 3(1) show ?thesis
      by (cases "literal_value r")
        (simp_all add: literal_script_unit surrogate_plain del: literal_value.simps)
  next
    case False
    then have "json_body (h # l # s) =
        (if is_high h \<or> is_low h then unicode_escape h else quote_unit h) @ json_body (l # s)" by auto
    with 3(2) [OF False] show ?thesis
      by (cases "literal_value r")
        (simp_all add: script_unicode literal_unicode script_quote_unit del: literal_value.simps json_body.simps)
  qed
qed

section \<open>What a valid value consists of\<close>

lemma alnum_path: "is_alnum c \<Longrightarrow> matomo_path_unit c"
  by (simp add: matomo_path_unit_def)

lemma list_all_takeWhile_split: "list_all P (takeWhile Q s) \<Longrightarrow> list_all P (dropWhile Q s) \<Longrightarrow> list_all P s"
  by (metis list_all_append takeWhile_dropWhile_id)

lemma tagged_chars:
  assumes "tagged pre cls lo hi v" "list_all matomo_path_unit (js pre)" "\<And>c. cls c \<Longrightarrow> matomo_path_unit c"
  shows "list_all matomo_path_unit v"
proof -
  obtain r where v: "v = js pre @ r" using assms(1) by (auto simp: tagged_def prefix_def)
  with assms(1) have "list_all cls r" by (simp add: tagged_def)
  with assms(2,3) v show ?thesis by (auto simp: list_all_iff)
qed

lemma prefix_codes: "list_all matomo_path_unit (js ''G-'')" "list_all matomo_path_unit (js ''GTM-'')"
  "list_all matomo_path_unit (js ''GT-'')" "list_all matomo_path_unit (js ''http://'')"
  "list_all matomo_path_unit (js ''https://'')"
  by (simp_all add: text_eval matomo_path_unit_def unit_simps)

lemma class_path:
  "upper_alnum c \<Longrightarrow> matomo_path_unit c" "is_lower c \<or> is_digit c \<Longrightarrow> matomo_path_unit c"
  "matomo_host_unit c \<Longrightarrow> matomo_path_unit c" "is_digit c \<Longrightarrow> matomo_path_unit c"
  by (auto simp: upper_alnum_def matomo_host_unit_def matomo_path_unit_def is_alnum_def)

lemma matomo_path_chars: "matomo_path s \<Longrightarrow> list_all matomo_path_unit s"
  by (cases s) (auto simp: matomo_path_def matomo_path_unit_def)

lemma takeWhile_class: "(\<And>c. Q c \<Longrightarrow> P c) \<Longrightarrow> list_all P (takeWhile Q s)"
  by (auto simp: list_all_iff dest: set_takeWhileD)

lemma matomo_port_path_chars: "matomo_port_path s \<Longrightarrow> list_all matomo_path_unit s"
proof (cases "s \<noteq> [] \<and> hd s = 58")
  case True
  then obtain r where s: "s = 58 # r" by (cases s) auto
  assume "matomo_port_path s"
  then have "list_all matomo_path_unit (dropWhile is_digit r)"
    using s matomo_path_chars by (auto simp: matomo_port_path_def Let_def)
  then have "list_all matomo_path_unit r"
    using list_all_takeWhile_split takeWhile_class [of is_digit matomo_path_unit] class_path(4) by blast
  then show ?thesis using s by (simp add: matomo_path_unit_def)
next
  case False
  assume "matomo_port_path s"
  with False show ?thesis using matomo_path_chars by (auto simp: matomo_port_path_def split: if_splits)
qed

lemma matomo_url_chars: "matomo_url_pattern v \<Longrightarrow> list_all matomo_path_unit v"
proof -
  assume v: "matomo_url_pattern v"
  then obtain pre r where r: "v = js pre @ r" "pre = ''https://'' \<or> pre = ''http://''"
      "matomo_port_path (dropWhile matomo_host_unit r)"
    by (auto simp: matomo_url_pattern_def Let_def prefix_def split: if_splits)
  then have "list_all matomo_path_unit r"
    using list_all_takeWhile_split takeWhile_class [of matomo_host_unit matomo_path_unit] class_path(3)
      matomo_port_path_chars by blast
  with r prefix_codes show ?thesis by auto
qed

lemma acceptable_chars:
  "acceptable v ga4_pattern n \<Longrightarrow> list_all matomo_path_unit v"
  "acceptable v gtm_pattern n \<Longrightarrow> list_all matomo_path_unit v"
  "acceptable v google_tag_pattern n \<Longrightarrow> list_all matomo_path_unit v"
  "acceptable v clarity_pattern n \<Longrightarrow> list_all matomo_path_unit v"
  "acceptable v matomo_url_pattern n \<Longrightarrow> list_all matomo_path_unit v"
  "acceptable v matomo_site_pattern n \<Longrightarrow> list_all matomo_path_unit v"
proof -
  show "acceptable v ga4_pattern n \<Longrightarrow> list_all matomo_path_unit v"
    "acceptable v gtm_pattern n \<Longrightarrow> list_all matomo_path_unit v"
    "acceptable v google_tag_pattern n \<Longrightarrow> list_all matomo_path_unit v"
    "acceptable v clarity_pattern n \<Longrightarrow> list_all matomo_path_unit v"
    using tagged_chars prefix_codes class_path
    by (auto simp: acceptable_def ga4_pattern_def gtm_pattern_def google_tag_pattern_def clarity_pattern_def)
  show "acceptable v matomo_url_pattern n \<Longrightarrow> list_all matomo_path_unit v"
    using matomo_url_chars by (auto simp: acceptable_def)
  show "acceptable v matomo_site_pattern n \<Longrightarrow> list_all matomo_path_unit v"
    using class_path(4) by (cases v) (auto simp: acceptable_def matomo_site_pattern_def list_all_iff)
qed

lemma alnum_no_ws: "is_alnum c \<Longrightarrow> \<not> is_ws c"
  by (auto simp: unit_simps word_le_nat_alt)

lemma path_unit_no_ws: "matomo_path_unit c \<Longrightarrow> \<not> is_ws c"
proof -
  have "\<not> is_ws 46 \<and> \<not> is_ws 95 \<and> \<not> is_ws 126 \<and> \<not> is_ws 33 \<and> \<not> is_ws 36 \<and> \<not> is_ws 38 \<and> \<not> is_ws 40 \<and>
      \<not> is_ws 41 \<and> \<not> is_ws 42 \<and> \<not> is_ws 43 \<and> \<not> is_ws 44 \<and> \<not> is_ws 59 \<and> \<not> is_ws 61 \<and> \<not> is_ws 58 \<and>
      \<not> is_ws 64 \<and> \<not> is_ws 37 \<and> \<not> is_ws 47 \<and> \<not> is_ws 45"
    by (simp add: is_ws_def)
  then show "matomo_path_unit c \<Longrightarrow> \<not> is_ws c"
    using alnum_no_ws [of c] unfolding matomo_path_unit_def by auto
qed

lemma path_text_trim: "list_all matomo_path_unit v \<Longrightarrow> trim v = v"
  using path_unit_no_ws by (auto simp: list_all_iff intro: trim_no_ws)

section \<open>Properties\<close>

definition valid_config :: "analytics_config \<Rightarrow> bool" where
  \<comment> \<open>every field is off or matches its pattern, Matomo is whole or absent, something is on\<close>
  "valid_config c \<longleftrightarrow>
     acceptable (cg_ga4 c) ga4_pattern max_id_length \<and> acceptable (cg_gtm c) gtm_pattern max_id_length \<and>
     acceptable (cg_google_tag c) google_tag_pattern max_id_length \<and>
     acceptable (cg_matomo_url c) matomo_url_pattern max_url_length \<and>
     acceptable (cg_matomo_site c) matomo_site_pattern max_id_length \<and>
     acceptable (cg_clarity c) clarity_pattern max_id_length \<and>
     (cg_matomo_url c = [] \<longleftrightarrow> cg_matomo_site c = []) \<and>
     (cg_ga4 c \<noteq> [] \<or> cg_gtm c \<noteq> [] \<or> cg_google_tag c \<noteq> [] \<or> cg_matomo_url c \<noteq> [] \<or> cg_clarity c \<noteq> [])"

definition config_values :: "analytics_config \<Rightarrow> jstr list" where
  "config_values c = [cg_ga4 c, cg_gtm c, cg_google_tag c, cg_matomo_url c, cg_matomo_site c, cg_clarity c]"

lemma parse_valid: "parse_analytics_config p = Some c \<Longrightarrow> valid_config c"
  unfolding parse_analytics_config_def Let_def
  by (simp split: if_split_asm) (clarsimp simp: valid_config_def)

lemma valid_config_chars: "valid_config c \<Longrightarrow> list_all (list_all matomo_path_unit) (config_values c)"
  by (auto simp: valid_config_def config_values_def intro: acceptable_chars)

definition harmless :: "u16 \<Rightarrow> bool" where
  \<comment> \<open>no quote, angle bracket, backslash, backtick, line break or space\<close>
  "harmless c \<longleftrightarrow> c \<notin> {34, 39, 60, 62, 92, 96, 10, 13, 32, 0x2028, 0x2029}"

lemma path_unit_harmless: "matomo_path_unit c \<Longrightarrow> harmless c"
  by (auto simp: matomo_path_unit_def harmless_def unit_simps)

text \<open>C2 The render boundary fails closed: whatever the API answers, a configuration is used only
  when the answer is a success and every value in it is absent or matches its provider's pattern,
  with Matomo's two values both present or both absent; so no value contains a quote, an angle
  bracket, a backslash, a backtick or a space.\<close>
theorem public_config_fails_closed:
  assumes "public_analytics_config answer = Some c"
  shows "valid_config c \<and> list_all (list_all harmless) (config_values c) \<and>
         (\<exists>r v. answer = Inr r \<and> response_ok r \<and> hr_json r = Some v \<and> parse_analytics_config v = Some c)"
proof -
  obtain r v where a: "answer = Inr r" "response_ok r" "hr_json r = Some v" "parse_analytics_config v = Some c"
    using assms by (auto simp: public_analytics_config_def split: sum.splits if_splits option.splits)
  then have "valid_config c" using parse_valid by blast
  with a show ?thesis
    using valid_config_chars [of c] path_unit_harmless by (auto simp: list_all_iff)
qed

theorem public_config_fails_closed_witness:
  "valid_config \<lparr>cg_ga4 = js ''G-ABCD1'', cg_gtm = [], cg_google_tag = [], cg_matomo_url = js ''https://m.example/p'',
     cg_matomo_site = js ''7'', cg_clarity = []\<rparr>"
proof -
  let ?r = "\<lparr>hr_status = 200, hr_ctype = None, hr_json = Some (JObj [(js ''ga4_measurement_id'', JText (js '' G-ABCD1'')),
      (js ''matomo_url'', JText (js ''https://m.example/p//'')), (js ''matomo_site_id'', JText (js ''7''))]), hr_text = None\<rparr>"
  have "public_analytics_config (Inr ?r) = Some \<lparr>cg_ga4 = js ''G-ABCD1'', cg_gtm = [], cg_google_tag = [],
      cg_matomo_url = js ''https://m.example/p'', cg_matomo_site = js ''7'', cg_clarity = []\<rparr>"
    by code_simp
  from public_config_fails_closed [OF this] show ?thesis by blast
qed

text \<open>C1 A value interpolated into an inline script reads back as exactly that value when the
  script is parsed, and what is written contains none of the characters that could end the
  element or the line: no angle bracket, no ampersand, no line separator.\<close>
theorem json_for_script_inert:
  "\<exists>body. json_for_script s = 34 # body \<and> literal_value body = Some s \<and>
     60 \<notin> set body \<and> 62 \<notin> set body \<and> 38 \<notin> set body \<and> 0x2028 \<notin> set body \<and> 0x2029 \<notin> set body"
proof -
  have b: "json_for_script s = 34 # script_text (json_body s) @ [34]"
    by (simp add: json_for_script_def json_quote_def script_text_def script_unit_def)
  have "literal_value [34] = Some []" by simp
  then have l: "literal_value (script_text (json_body s) @ [34]) = Some s"
    using literal_json_body [of s "[34]"] by simp
  with b show ?thesis using script_text_clean [of _ "json_body s"] by auto
qed

definition folded :: "analytics_input \<Rightarrow> analytics_config" where
  \<comment> \<open>the values the form's checks are made on\<close>
  "folded i =
     \<lparr>cg_ga4 = to_upper (trim (an_ga4 i)), cg_gtm = to_upper (trim (an_gtm i)),
      cg_google_tag = to_upper (trim (an_google_tag i)),
      cg_matomo_url = strip_trailing 47 (fold_scheme (trim (an_matomo_url i))),
      cg_matomo_site = trim (an_matomo_site i), cg_clarity = to_lower (trim (an_clarity i))\<rparr>"

definition config_payload :: "analytics_config \<Rightarrow> json" where
  \<comment> \<open>the answer of the public route when it holds these values\<close>
  "config_payload c = JObj [
     (js ''ga4_measurement_id'', JText (cg_ga4 c)), (js ''gtm_container_id'', JText (cg_gtm c)),
     (js ''google_tag_id'', JText (cg_google_tag c)), (js ''matomo_url'', JText (cg_matomo_url c)),
     (js ''matomo_site_id'', JText (cg_matomo_site c)), (js ''clarity_project_id'', JText (cg_clarity c))]"

lemma strip_trailing_idem: "strip_trailing c (strip_trailing c s) = strip_trailing c s"
  using strip_trailing_last [of c s] strip_trailing_id by blast

lemma config_payload_values:
  "trimmed_value (prop_of (config_payload c) ''ga4_measurement_id'') = trim (cg_ga4 c)"
  "trimmed_value (prop_of (config_payload c) ''gtm_container_id'') = trim (cg_gtm c)"
  "trimmed_value (prop_of (config_payload c) ''google_tag_id'') = trim (cg_google_tag c)"
  "trimmed_value (prop_of (config_payload c) ''matomo_url'') = trim (cg_matomo_url c)"
  "trimmed_value (prop_of (config_payload c) ''matomo_site_id'') = trim (cg_matomo_site c)"
  "trimmed_value (prop_of (config_payload c) ''clarity_project_id'') = trim (cg_clarity c)"
  "is_object (config_payload c)"
  by (simp_all add: config_payload_def trimmed_value_def)

lemma parse_of_payload:
  assumes "list_all (list_all matomo_path_unit) (config_values c)" "strip_trailing 47 (cg_matomo_url c) = cg_matomo_url c"
  shows "parse_analytics_config (config_payload c) = (if valid_config c then Some c else None)"
  using assms
  by (auto simp: parse_analytics_config_def config_payload_values Let_def config_values_def path_text_trim
      valid_config_def)

lemma validate_fields:
  "validate_analytics_input i = None \<Longrightarrow> c = folded i \<Longrightarrow>
     acceptable (cg_ga4 c) ga4_pattern max_id_length \<and> acceptable (cg_gtm c) gtm_pattern max_id_length \<and>
     acceptable (cg_google_tag c) google_tag_pattern max_id_length \<and>
     acceptable (cg_matomo_url c) matomo_url_pattern max_url_length \<and>
     acceptable (cg_matomo_site c) matomo_site_pattern max_id_length \<and>
     acceptable (cg_clarity c) clarity_pattern max_id_length \<and>
     (cg_matomo_url c \<noteq> [] \<longrightarrow> cg_matomo_site c \<noteq> [])"
  by (auto simp: validate_analytics_input_def folded_def Let_def acceptable_def split: if_splits)



end
