(* ===== verification/Analytics_Injector.thy ===== *)
theory Analytics_Injector
  imports Analytics_Config
begin

text \<open>
  \<open>web/src/components/analytics-injector.tsx\<close>: the inline scripts a configuration puts into every
  page, and the page views reported for navigations the snippets cannot see.
\<close>

section \<open>The snippets\<close>

definition gtag_snippet :: "jstr \<Rightarrow> jstr" where
  "gtag_snippet tag_id =
     js ''window.dataLayer = window.dataLayer || [];'' @
     js ''function gtag(){window.dataLayer.push(arguments);}'' @
     js ''window.gtag = gtag;'' @
     js ''gtag('js', new Date());'' @
     js ''gtag('config', '' @ json_for_script tag_id @ js '');'' @
     js ''(function(){var s=document.createElement('script');s.async=true;'' @
     js ''s.src='https://www.googletagmanager.com/gtag/js?id='+'' @ json_for_script tag_id @ js '';'' @
     js ''document.head.appendChild(s);})();''"

definition gtm_snippet :: "jstr \<Rightarrow> jstr" where
  "gtm_snippet container_id =
     js ''(function(w,d,s,l,i){w[l]=w[l]||[];w[l].push({'gtm.start':new Date().getTime(),event:'gtm.js'});'' @
     js ''var f=d.getElementsByTagName(s)[0],j=d.createElement(s),dl=l!=='dataLayer'?'&l='+l:'' @ [39, 39, 59] @
     js ''j.async=true;j.src='https://www.googletagmanager.com/gtm.js?id='+i+dl;'' @
     js ''f.parentNode.insertBefore(j,f);})(window,document,'script','dataLayer','' @
     json_for_script container_id @ js '');''"

definition matomo_snippet :: "jstr \<Rightarrow> jstr \<Rightarrow> jstr" where
  "matomo_snippet base_url site_id =
     js ''var _paq = window._paq = window._paq || [];'' @
     js ''_paq.push(['setTrackerUrl', '' @ json_for_script (base_url @ js ''/matomo.php'') @ js '']);'' @
     js ''_paq.push(['setSiteId', '' @ json_for_script site_id @ js '']);'' @
     js ''_paq.push(['trackPageView']);'' @
     js ''_paq.push(['enableLinkTracking']);'' @
     js ''(function(){var d=document,g=d.createElement('script'),s=d.getElementsByTagName('script')[0];'' @
     js ''g.async=true;g.src='' @ json_for_script (base_url @ js ''/matomo.js'') @
     js '';s.parentNode.insertBefore(g,s);})();''"

definition clarity_snippet :: "jstr \<Rightarrow> jstr" where
  "clarity_snippet project_id =
     js ''(function(c,l,a,r,i,t,y){c[a]=c[a]||function(){(c[a].q=c[a].q||[]).push(arguments)};'' @
     js ''t=l.createElement(r);t.async=1;t.src='https://www.clarity.ms/tag/'+i;'' @
     js ''y=l.getElementsByTagName(r)[0];y.parentNode.insertBefore(t,y);})'' @
     js ''(window, document, 'clarity', 'script', '' @ json_for_script project_id @ js '');''"

definition injected_scripts :: "analytics_config option \<Rightarrow> (jstr \<times> jstr) list" where
  \<comment> \<open>the \<open>Script\<close> elements in order, each its fixed id and its contents\<close>
  "injected_scripts config =
     (case config of
        None \<Rightarrow> []
      | Some c \<Rightarrow>
          (if cg_ga4 c = [] then [] else [(js ''purels-analytics-ga4'', gtag_snippet (cg_ga4 c))]) @
          (if cg_gtm c = [] then [] else [(js ''purels-analytics-gtm'', gtm_snippet (cg_gtm c))]) @
          (if cg_google_tag c = [] then [] else [(js ''purels-analytics-google-tag'', gtag_snippet (cg_google_tag c))]) @
          (if cg_matomo_url c = [] then []
           else [(js ''purels-analytics-matomo'', matomo_snippet (cg_matomo_url c) (cg_matomo_site c))]) @
          (if cg_clarity c = [] then [] else [(js ''purels-analytics-clarity'', clarity_snippet (cg_clarity c))]))"

section \<open>Page views of client-side navigations\<close>

record browser_page =
  bp_pathname :: jstr
  bp_search :: jstr
  bp_href :: jstr
  bp_title :: jstr
  bp_gtag :: bool
  bp_paq :: bool

datatype page_report = GtagPageView jstr | PaqUrl jstr | PaqTitle jstr | PaqPageView

definition route_effect :: "analytics_config \<Rightarrow> jstr \<Rightarrow> jstr \<Rightarrow> browser_page \<Rightarrow> jstr \<times> page_report list" where
  \<comment> \<open>the effect for the route \<open>pathname\<close> when \<open>last\<close> is the one reported before\<close>
  "route_effect c last_path pathname w =
     (if last_path = pathname then (last_path, [])
      else (pathname,
            (if (cg_ga4 c \<noteq> [] \<or> cg_google_tag c \<noteq> []) \<and> bp_gtag w
             then [GtagPageView (bp_pathname w @ bp_search w)] else []) @
            (if cg_matomo_url c \<noteq> [] \<and> bp_paq w
             then [PaqUrl (bp_href w), PaqTitle (bp_title w), PaqPageView] else [])))"

fun route_run :: "analytics_config \<Rightarrow> jstr \<Rightarrow> (jstr \<times> browser_page) list \<Rightarrow> page_report list" where
  \<comment> \<open>the effects of a sequence of renders, the ref kept in between\<close>
  "route_run c last_path [] = []"
| "route_run c last_path ((p, w) # rs) =
     (let (l, reports) = route_effect c last_path p w in reports @ route_run c l rs)"

definition mounted_run :: "analytics_config \<Rightarrow> (jstr \<times> browser_page) list \<Rightarrow> page_report list" where
  \<comment> \<open>the component from its mount: the ref is seeded with the first route\<close>
  "mounted_run c rs = (case rs of [] \<Rightarrow> [] | (p, w) # _ \<Rightarrow> route_run c p rs)"

section \<open>Lemmas\<close>

lemma json_for_script_chars: "60 \<notin> set (json_for_script s)"
proof -
  have "json_for_script s = script_text (json_quote s)" by (simp add: json_for_script_def script_text_def)
  then show ?thesis using script_text_clean [of 60 "json_quote s"] by auto
qed

fun changes :: "jstr \<Rightarrow> jstr list \<Rightarrow> nat" where
  "changes p [] = 0"
| "changes p (q # qs) = (if p = q then 0 else 1) + changes q qs"

lemma route_run_views:
  "(\<forall>r \<in> set rs. bp_gtag (snd r)) \<Longrightarrow> cg_ga4 c \<noteq> [] \<or> cg_google_tag c \<noteq> [] \<Longrightarrow>
   length (filter (\<lambda>e. case e of GtagPageView _ \<Rightarrow> True | _ \<Rightarrow> False) (route_run c p rs)) = changes p (map fst rs)"
  by (induction rs arbitrary: p) (auto simp: route_effect_def)

lemma route_run_paq:
  "(\<forall>r \<in> set rs. bp_paq (snd r)) \<Longrightarrow> cg_matomo_url c \<noteq> [] \<Longrightarrow>
   length (filter (\<lambda>e. e = PaqPageView) (route_run c p rs)) = changes p (map fst rs)"
  by (induction rs arbitrary: p) (auto simp: route_effect_def)

section \<open>Properties\<close>

lemma js_no_lt: "60 \<in> set (js s) \<longleftrightarrow> CHR ''<'' \<in> set s"
proof -
  have lt: "(60 :: u16) = of_char CHR ''<''" by code_simp
  show ?thesis unfolding js_def set_map lt by (rule inj_image_mem_iff [OF inj_of_char_u16])
qed

lemma snippets_no_lt:
  "60 \<notin> set (gtag_snippet x)" "60 \<notin> set (gtm_snippet x)" "60 \<notin> set (matomo_snippet x y)"
  "60 \<notin> set (clarity_snippet x)"
  by (simp_all add: gtag_snippet_def gtm_snippet_def matomo_snippet_def clarity_snippet_def js_no_lt json_for_script_chars)

text \<open>C3 No injected script can leave its element: whatever configuration is given, even one that
  bypassed validation, the contents of every script are free of the character that opens a tag,
  and the script ids are the fixed ones, each used at most once. Without a configuration nothing
  is injected.\<close>
theorem injected_scripts_contained:
  "list_all (\<lambda>e. 60 \<notin> set (snd e)) (injected_scripts config) \<and> distinct (map fst (injected_scripts config)) \<and>
   injected_scripts None = []"
  by (simp add: injected_scripts_def snippets_no_lt split: option.split)

text \<open>Navigations are counted once: over any sequence of renders from the mount on, the number
  of page views reported to Google and to Matomo is the number of times the route changed, so the
  landing page, which the snippets report themselves, is not counted again.\<close>
lemma page_views_counted_once:
  assumes "list_all (\<lambda>r. bp_gtag (snd r) \<and> bp_paq (snd r)) rs"
  shows "(cg_ga4 c \<noteq> [] \<or> cg_google_tag c \<noteq> [] \<longrightarrow>
           length (filter (\<lambda>e. case e of GtagPageView _ \<Rightarrow> True | _ \<Rightarrow> False) (mounted_run c rs)) =
           (case map fst rs of [] \<Rightarrow> 0 | p # ps \<Rightarrow> changes p ps)) \<and>
         (cg_matomo_url c \<noteq> [] \<longrightarrow>
           length (filter (\<lambda>e. e = PaqPageView) (mounted_run c rs)) =
           (case map fst rs of [] \<Rightarrow> 0 | p # ps \<Rightarrow> changes p ps))"
proof (cases rs)
  case (Cons r rs')
  obtain p w where r: "r = (p, w)" by (cases r) auto
  have "\<forall>r \<in> set rs. bp_gtag (snd r)" "\<forall>r \<in> set rs. bp_paq (snd r)" using assms by (auto simp: list_all_iff)
  with route_run_views [of rs c p] route_run_paq [of rs c p] Cons r show ?thesis
    by (auto simp: mounted_run_def)
qed (simp add: mounted_run_def)

lemma page_views_counted_once_witness:
  "length (filter (\<lambda>e. e = PaqPageView)
     (mounted_run \<lparr>cg_ga4 = [], cg_gtm = [], cg_google_tag = [], cg_matomo_url = js ''http://m'', cg_matomo_site = js ''1'', cg_clarity = []\<rparr>
       (map (\<lambda>p. (p, \<lparr>bp_pathname = p, bp_search = [], bp_href = p, bp_title = [], bp_gtag = True, bp_paq = True\<rparr>))
          [js ''/a'', js ''/a'', js ''/b'', js ''/a'']))) = 2"
proof -
  let ?rs = "map (\<lambda>p. (p, \<lparr>bp_pathname = p, bp_search = [], bp_href = p, bp_title = [], bp_gtag = True, bp_paq = True\<rparr>))
          [js ''/a'', js ''/a'', js ''/b'', js ''/a'']"
  show ?thesis
    using page_views_counted_once [of ?rs "\<lparr>cg_ga4 = [], cg_gtm = [], cg_google_tag = [], cg_matomo_url = js ''http://m'', cg_matomo_site = js ''1'', cg_clarity = []\<rparr>"]
    by simp
qed

end
