(* ===== verification/Navigation.thy ===== *)
theory Navigation
  imports I18n
begin

text \<open>
  \<open>web/src/components/admin-navigation.ts\<close>: the console's navigation, what of it an account sees,
  which entry a page belongs to, and the settings search; and the tabs of
  \<open>settings/settings-tabs.tsx\<close>.
\<close>

section \<open>The navigation\<close>

record nav_item =
  ni_href :: jstr
  ni_label :: jstr
  ni_description :: "jstr option"
  ni_icon :: jstr
  ni_scope :: "jstr option"
  ni_any_scopes :: "jstr list option"

record nav_group =
  ng_id :: jstr
  ng_items :: "nav_item list"

record nav_section =
  ns_id :: jstr
  ns_label :: "jstr option"
  ns_icon :: "jstr option"
  ns_href :: "jstr option"
  ns_groups :: "nav_group list"

definition nav_entry :: "string \<Rightarrow> string \<Rightarrow> string option \<Rightarrow> string \<Rightarrow> string option \<Rightarrow> string list option \<Rightarrow> nav_item" where
  "nav_entry href label desc icon sc any =
     \<lparr>ni_href = js href, ni_label = js label, ni_description = map_option js desc, ni_icon = js icon,
      ni_scope = map_option js sc, ni_any_scopes = map_option (map js) any\<rparr>"

definition admin_nav_sections :: "nav_section list" where
  "admin_nav_sections =
     [\<lparr>ns_id = js ''primary'', ns_label = None, ns_icon = None, ns_href = None,
       ns_groups = [\<lparr>ng_id = js ''workspace'', ng_items =
         [nav_entry ''/home'' ''nav.overview'' None ''grid'' None None,
          nav_entry ''/home/links'' ''nav.links'' None ''link'' None None,
          nav_entry ''/home/stats'' ''nav.stats'' None ''chart'' None None,
          nav_entry ''/home/audit'' ''nav.audit'' None ''list'' (Some ''audit:read'') None]\<rparr>]\<rparr>,
      \<lparr>ns_id = js ''settings'', ns_label = Some (js ''shell.settings''), ns_icon = Some (js ''settings''),
       ns_href = Some (js ''/home/settings''),
       ns_groups = [\<lparr>ng_id = js ''site'', ng_items =
         [nav_entry ''/home/settings/links'' ''settings.nav.links'' (Some ''settings.nav.linksDescription'') ''link''
            (Some ''settings:manage'') None,
          nav_entry ''/home/settings/registration'' ''settings.nav.registration'' (Some ''settings.nav.registrationDescription'')
            ''lock'' None (Some [''settings:manage'', ''captcha:manage'', ''oidc:manage'']),
          nav_entry ''/home/users'' ''settings.nav.access'' (Some ''settings.nav.accessDescription'') ''user'' None
            (Some [''users:manage'', ''roles:manage'']),
          nav_entry ''/home/settings/traffic'' ''settings.nav.traffic'' (Some ''settings.nav.trafficDescription'') ''shield''
            (Some ''settings:manage'') None,
          nav_entry ''/home/settings/analytics'' ''settings.nav.analytics'' (Some ''settings.nav.analyticsDescription'')
            ''pulse'' None (Some [''settings:manage'', ''analytics:manage''])]\<rparr>]\<rparr>]"

definition item_allowed :: "jstr list \<Rightarrow> nav_item \<Rightarrow> bool" where
  "item_allowed scopes item \<longleftrightarrow>
     (case ni_scope item of None \<Rightarrow> True | Some s \<Rightarrow> s = [] \<or> s \<in> set scopes) \<and>
     (case ni_any_scopes item of None \<Rightarrow> True | Some ss \<Rightarrow> list_ex (\<lambda>s. s \<in> set scopes) ss)"

definition redirect_users :: "jstr list \<Rightarrow> nav_item \<Rightarrow> nav_item" where
  "redirect_users scopes item =
     (if ni_href item = js ''/home/users'' \<and> js ''users:manage'' \<notin> set scopes
      then item\<lparr>ni_href := js ''/home/settings/roles''\<rparr> else item)"

definition visible_group :: "jstr list \<Rightarrow> nav_group \<Rightarrow> nav_group" where
  "visible_group scopes g =
     g\<lparr>ng_items := map (redirect_users scopes) (filter (item_allowed scopes) (ng_items g))\<rparr>"

definition visible_navigation :: "jstr list \<Rightarrow> nav_section list" where
  "visible_navigation scopes =
     map (\<lambda>sec. sec\<lparr>ns_groups :=
            filter (\<lambda>g. ng_items g \<noteq> []) (map (visible_group scopes) (ns_groups sec))\<rparr>)
       admin_nav_sections"

definition nav_items :: "nav_section list \<Rightarrow> nav_item list" where
  "nav_items sections = concat (map (\<lambda>sc. concat (map ng_items (ns_groups sc))) sections)"

section \<open>The active entry\<close>

definition route_aliases :: "(string \<times> string) list" where
  "route_aliases =
     [(''/home/settings/runtime'', ''/home/settings/links''),
      (''/home/settings/captcha'', ''/home/settings/registration''),
      (''/home/settings/oidc'', ''/home/settings/registration''),
      (''/home/settings/roles'', ''/home/users'')]"

definition beneath :: "jstr \<Rightarrow> jstr \<Rightarrow> bool" where
  \<comment> \<open>\<open>pathname === route || pathname.startsWith(`${route}/`)\<close>\<close>
  "beneath path route \<longleftrightarrow> path = route \<or> prefix (route @ [47]) path"

fun alias_path :: "(string \<times> string) list \<Rightarrow> jstr \<Rightarrow> jstr" where
  "alias_path [] path = path"
| "alias_path ((route, parent) # rs) path =
     (if beneath path (js route) then js parent @ drop (length route) path else alias_path rs path)"

definition navigation_path :: "jstr \<Rightarrow> jstr" where
  "navigation_path = alias_path route_aliases"

definition is_nav_item_active :: "jstr \<Rightarrow> jstr \<Rightarrow> bool" where
  "is_nav_item_active path href \<longleftrightarrow>
     (let current = navigation_path path; target = navigation_path href in
      if target = js ''/home'' then current = target else beneath current target)"

section \<open>The settings search\<close>

record search_entry =
  sx_href :: jstr
  sx_label :: jstr
  sx_category :: jstr
  sx_context :: "jstr option"
  sx_scope :: jstr
  sx_keywords :: "jstr option"

definition link_search :: "string \<Rightarrow> string \<Rightarrow> string \<Rightarrow> search_entry" where
  "link_search fld label page =
     \<lparr>sx_href = js (''/home/settings/links'' @ page @ ''#'' @ fld), sx_label = js label,
      sx_category = js ''settings.nav.links'',
      sx_context = Some (if page = ''/maintenance'' then js ''settings.nav.maintenance''
                         else if page = ''/redirects'' then js ''settings.nav.redirects''
                         else js ''settings.nav.creation''),
      sx_scope = js ''settings:manage'', sx_keywords = Some (js fld)\<rparr>"

definition traffic_search :: "string \<Rightarrow> string \<Rightarrow> search_entry" where
  "traffic_search fld label =
     \<lparr>sx_href = js (''/home/settings/traffic#'' @ fld), sx_label = js label, sx_category = js ''settings.nav.traffic'',
      sx_context = Some (js ''settings.runtime.rateTitle''), sx_scope = js ''settings:manage'',
      sx_keywords = Some (js fld)\<rparr>"

definition plain_search :: "string \<Rightarrow> string \<Rightarrow> string \<Rightarrow> string \<Rightarrow> string option \<Rightarrow> search_entry" where
  "plain_search href label category sc keywords =
     \<lparr>sx_href = js href, sx_label = js label, sx_category = js category, sx_context = None, sx_scope = js sc,
      sx_keywords = map_option js keywords\<rparr>"

definition settings_search_entries :: "search_entry list" where
  "settings_search_entries =
     [link_search ''alias_mode'' ''settings.runtime.aliasMode'' '''',
      link_search ''unique_urls'' ''settings.runtime.uniqueUrls'' '''',
      link_search ''max_links_per_user'' ''settings.runtime.maxLinks'' '''',
      link_search ''short_domains'' ''settings.runtime.shortDomains'' '''',
      link_search ''forward_query'' ''settings.runtime.forwardQuery'' ''/redirects'',
      link_search ''fallback_url'' ''settings.runtime.fallbackUrl'' ''/redirects'',
      link_search ''destination_denylist'' ''settings.runtime.denylist'' ''/redirects'',
      link_search ''health_check_enabled'' ''settings.runtime.healthCheck'' ''/maintenance'',
      link_search ''health_check_interval_seconds'' ''settings.runtime.healthInterval'' ''/maintenance'',
      link_search ''auto_prune_expired'' ''settings.runtime.autoPrune'' ''/maintenance'',
      link_search ''prune_grace_seconds'' ''settings.runtime.pruneGrace'' ''/maintenance'',
      plain_search ''/home/settings/registration#registration_enabled'' ''settings.runtime.registration''
        ''settings.nav.registration'' ''settings:manage'' (Some ''registration_enabled''),
      plain_search ''/home/settings/registration#totp_enabled'' ''settings.runtime.totpEnabled''
        ''settings.nav.registration'' ''settings:manage'' (Some ''totp_enabled TOTP 2FA two-factor'')] @
     map (\<lambda>f. plain_search ''/home/settings/registration#captcha'' (''settings.captcha.'' @ f)
              ''settings.nav.registration'' ''captcha:manage'' (Some ''Turnstile CAPTCHA''))
       [''title'', ''siteKey'', ''secretKey'', ''expectedHostname'', ''expectedAction''] @
     [plain_search ''/home/settings/oidc'' ''settings.nav.thirdParty'' ''settings.nav.registration'' ''oidc:manage'' (Some ''OIDC SSO''),
      plain_search ''/home/settings/oidc'' ''settings.oidc.callback'' ''settings.nav.registration'' ''oidc:manage'' (Some ''OIDC''),
      plain_search ''/home/settings/oidc'' ''settings.oidc.autoProvision'' ''settings.nav.registration'' ''oidc:manage'' (Some ''OIDC''),
      plain_search ''/home/users'' ''users.title'' ''settings.nav.access'' ''users:manage'' None,
      plain_search ''/home/settings/roles'' ''settings.roles.title'' ''settings.nav.access'' ''roles:manage'' None,
      traffic_search ''rate_limit_enabled'' ''settings.runtime.rateEnabled'',
      traffic_search ''rate_limit_login'' ''settings.runtime.rateLogin'',
      traffic_search ''rate_limit_register'' ''settings.runtime.rateRegister'',
      traffic_search ''rate_limit_2fa'' ''settings.runtime.rate2fa'',
      traffic_search ''rate_limit_oidc'' ''settings.runtime.rateOidc'',
      traffic_search ''rate_limit_api'' ''settings.runtime.rateApi'',
      traffic_search ''rate_limit_redirect'' ''settings.runtime.rateRedirect'',
      plain_search ''/home/settings/analytics#count_bots'' ''settings.runtime.countBots'' ''settings.nav.analytics''
        ''settings:manage'' (Some ''count_bots'')] @
     map (\<lambda>f. plain_search ''/home/settings/analytics#integrations'' (''settings.analytics.'' @ f)
              ''settings.nav.analytics'' ''analytics:manage'' None)
       [''ga4'', ''gtm'', ''googleTag'', ''matomoUrl'', ''matomoSiteId'', ''clarity'']"

definition visible_search_entries :: "jstr list \<Rightarrow> search_entry list" where
  "visible_search_entries scopes = filter (\<lambda>e. sx_scope e \<in> set scopes) settings_search_entries"

section \<open>Tabs of a settings page\<close>

record settings_tab =
  st_href :: jstr
  st_label :: jstr
  st_any_scopes :: "jstr list"

datatype tab_group = TabLinks | TabRegistration | TabAccess

definition tab_entry :: "string \<Rightarrow> string \<Rightarrow> string list \<Rightarrow> settings_tab" where
  "tab_entry href label scopes = \<lparr>st_href = js href, st_label = js label, st_any_scopes = map js scopes\<rparr>"

fun settings_tabs :: "tab_group \<Rightarrow> settings_tab list" where
  "settings_tabs TabLinks =
     [tab_entry ''/home/settings/links'' ''settings.nav.creation'' [''settings:manage''],
      tab_entry ''/home/settings/links/redirects'' ''settings.nav.redirects'' [''settings:manage''],
      tab_entry ''/home/settings/links/maintenance'' ''settings.nav.maintenance'' [''settings:manage'']]"
| "settings_tabs TabRegistration =
     [tab_entry ''/home/settings/registration'' ''settings.nav.publicRegistration'' [''settings:manage'', ''captcha:manage''],
      tab_entry ''/home/settings/oidc'' ''settings.nav.thirdParty'' [''oidc:manage'']]"
| "settings_tabs TabAccess =
     [tab_entry ''/home/users'' ''nav.users'' [''users:manage''],
      tab_entry ''/home/settings/roles'' ''settings.roles.title'' [''roles:manage'']]"

definition visible_tabs :: "tab_group \<Rightarrow> jstr list \<Rightarrow> settings_tab list" where
  "visible_tabs g scopes = filter (\<lambda>tab. list_ex (\<lambda>s. s \<in> set scopes) (st_any_scopes tab)) (settings_tabs g)"

definition tab_active :: "jstr \<Rightarrow> settings_tab \<Rightarrow> bool" where
  "tab_active path tab \<longleftrightarrow>
     path = st_href tab \<or> st_href tab \<noteq> js ''/home/settings/links'' \<and> prefix (st_href tab @ [47]) path"

section \<open>Lemmas\<close>

lemmas nav_defs = admin_nav_sections_def nav_entry_def nav_items_def

definition visible_hrefs :: "jstr list \<Rightarrow> jstr list" where
  "visible_hrefs scopes = map ni_href (nav_items (visible_navigation scopes))"

lemma visible_items:
  "nav_items (visible_navigation scopes) =
     map (redirect_users scopes) (filter (item_allowed scopes) (nav_items admin_nav_sections))"
proof -
  have "concat (map ng_items (filter (\<lambda>g. ng_items g \<noteq> []) gs)) = concat (map ng_items gs)" for gs :: "nav_group list"
    by (induction gs) auto
  then show ?thesis
    by (simp add: nav_items_def visible_navigation_def visible_group_def map_concat filter_concat comp_def)
qed

definition shown :: "bool \<Rightarrow> string \<Rightarrow> jstr list" where
  "shown b href = (if b then [js href] else [])"

abbreviation holds :: "jstr list \<Rightarrow> string \<Rightarrow> bool" where
  "holds scopes s \<equiv> js s \<in> set scopes"

lemma visible_hrefs_eq:
  "visible_hrefs scopes =
     [js ''/home'', js ''/home/links'', js ''/home/stats''] @
     shown (holds scopes ''audit:read'') ''/home/audit'' @
     shown (holds scopes ''settings:manage'') ''/home/settings/links'' @
     shown (holds scopes ''settings:manage'' \<or> holds scopes ''captcha:manage'' \<or> holds scopes ''oidc:manage'')
       ''/home/settings/registration'' @
     shown (holds scopes ''users:manage'') ''/home/users'' @
     shown (\<not> holds scopes ''users:manage'' \<and> holds scopes ''roles:manage'') ''/home/settings/roles'' @
     shown (holds scopes ''settings:manage'') ''/home/settings/traffic'' @
     shown (holds scopes ''settings:manage'' \<or> holds scopes ''analytics:manage'') ''/home/settings/analytics''"
  by (simp add: visible_hrefs_def visible_items)
    (simp add: nav_defs item_allowed_def redirect_users_def shown_def)

lemma beneath_js [simp]: "beneath (js p) (js r) \<longleftrightarrow> p = r \<or> prefix (r @ ''/'') p"
proof -
  have "[47] = js ''/''" by (simp add: text_eval)
  then show ?thesis by (simp add: beneath_def)
qed

lemma drop_js: "drop n (js w) = js (drop n w)"
  by (simp add: js_def drop_map)

lemma navigation_path_targets:
  "navigation_path (js ''/home'') = js ''/home''" "navigation_path (js ''/home/links'') = js ''/home/links''"
  "navigation_path (js ''/home/stats'') = js ''/home/stats''" "navigation_path (js ''/home/audit'') = js ''/home/audit''"
  "navigation_path (js ''/home/settings/links'') = js ''/home/settings/links''"
  "navigation_path (js ''/home/settings/registration'') = js ''/home/settings/registration''"
  "navigation_path (js ''/home/users'') = js ''/home/users''"
  "navigation_path (js ''/home/settings/roles'') = js ''/home/users''"
  "navigation_path (js ''/home/settings/traffic'') = js ''/home/settings/traffic''"
  "navigation_path (js ''/home/settings/analytics'') = js ''/home/settings/analytics''"
  "navigation_path (js ''/home/settings/oidc'') = js ''/home/settings/registration''"
  by (simp_all add: navigation_path_def route_aliases_def drop_js)

definition target_active :: "jstr \<Rightarrow> jstr \<Rightarrow> bool" where
  "target_active current target \<longleftrightarrow> (if target = js ''/home'' then current = target else beneath current target)"

lemma is_nav_item_active_target:
  "is_nav_item_active path href = target_active (navigation_path path) (navigation_path href)"
  by (simp add: is_nav_item_active_def target_active_def Let_def)

lemma beneath_prefix: "beneath c t \<longleftrightarrow> prefix (t @ [47]) (c @ [47])"
  by (auto simp: beneath_def)

lemma beneath_comparable:
  "beneath c a \<Longrightarrow> beneath c b \<Longrightarrow> a = b \<or> prefix (a @ [47]) b \<or> prefix (b @ [47]) a"
  unfolding beneath_prefix by (drule (1) prefix_same_cases) (auto simp: prefix_snoc)

lemma targets_exclusive:
  assumes "target_active c (js a)" "target_active c (js b)"
    and "a \<noteq> b" "a = ''/home'' \<or> \<not> prefix (a @ ''/'') b" "b = ''/home'' \<or> \<not> prefix (b @ ''/'') a"
    and "prefix ''/home'' a" "prefix ''/home'' b"
  shows False
proof (cases "a = ''/home'' \<or> b = ''/home''")
  case True
  then have c: "c = js ''/home''" using assms(1,2) by (auto simp: target_active_def)
  have "\<not> target_active c (js x)" if "prefix ''/home'' x" "x \<noteq> ''/home''" for x
    using that prefix_length_le [of "x @ ''/''" "''/home''"] prefix_length_le [of "''/home''" x]
    by (auto simp: target_active_def c)
  then have "b = ''/home''" "a = ''/home''" using assms(1,2,6,7) by blast+
  with assms(3) show False by blast
next
  case False
  have s: "[47] = js ''/''" by (simp add: text_eval)
  show False
    using False assms beneath_comparable [of c "js a" "js b"] unfolding s
    by (auto simp: target_active_def)
qed

lemma exclusive_filter:
  "sorted_wrt (\<lambda>a b. \<not> (P a \<and> P b)) xs \<Longrightarrow> length (filter P xs) \<le> 1"
  by (induction xs) (auto simp: filter_empty_conv)

definition nav_targets :: "string list" where
  "nav_targets = [''/home'', ''/home/links'', ''/home/stats'', ''/home/audit'', ''/home/settings/links'',
     ''/home/settings/registration'', ''/home/users'', ''/home/settings/traffic'', ''/home/settings/analytics'']"

lemma one_target: "length (filter (\<lambda>t. target_active c (js t)) nav_targets) \<le> 1"
proof (rule exclusive_filter)
  have "sorted_wrt (\<lambda>a b. a \<noteq> b \<and> (a = ''/home'' \<or> \<not> prefix (a @ ''/'') b) \<and> (b = ''/home'' \<or> \<not> prefix (b @ ''/'') a) \<and>
      prefix ''/home'' a \<and> prefix ''/home'' b) nav_targets"
    by (simp add: nav_targets_def)
  then show "sorted_wrt (\<lambda>a b. \<not> (target_active c (js a) \<and> target_active c (js b))) nav_targets"
    by (rule sorted_wrt_mono_rel [rotated]) (use targets_exclusive in blast)
qed

lemma page_js: "takeWhile (\<lambda>c. c \<noteq> 35) (js w) = js (takeWhile (\<lambda>c. c \<noteq> CHR ''#'') w)"
proof (induction w)
  case (Cons d w)
  have "of_char d = (35 :: u16) \<longleftrightarrow> d = CHR ''#''"
    using of_char_u16_inj [of d "CHR ''#''"] by simp
  with Cons show ?case by (simp add: js_Cons)
qed simp

lemma navigation_path_subpages:
  "navigation_path (js ''/home/settings/links/redirects'') = js ''/home/settings/links/redirects''"
  "navigation_path (js ''/home/settings/links/maintenance'') = js ''/home/settings/links/maintenance''"
  by (simp_all add: navigation_path_def route_aliases_def)

definition nav_reaches :: "jstr list \<Rightarrow> jstr \<Rightarrow> bool" where
  \<comment> \<open>some entry the account sees is the current one on that page\<close>
  "nav_reaches scopes page \<longleftrightarrow> list_ex (is_nav_item_active page) (visible_hrefs scopes)"

definition page_of :: "search_entry \<Rightarrow> jstr" where
  "page_of e = takeWhile (\<lambda>c. c \<noteq> 35) (sx_href e)"

lemma nav_reachesI: "js h \<in> set (visible_hrefs scopes) \<Longrightarrow> is_nav_item_active page (js h) \<Longrightarrow> nav_reaches scopes page"
  by (auto simp: nav_reaches_def list_ex_iff)

lemma in_visible_hrefs:
  "holds scopes ''settings:manage'' \<Longrightarrow> js ''/home/settings/links'' \<in> set (visible_hrefs scopes)"
  "holds scopes ''settings:manage'' \<or> holds scopes ''captcha:manage'' \<or> holds scopes ''oidc:manage'' \<Longrightarrow>
     js ''/home/settings/registration'' \<in> set (visible_hrefs scopes)"
  "holds scopes ''settings:manage'' \<Longrightarrow> js ''/home/settings/traffic'' \<in> set (visible_hrefs scopes)"
  "holds scopes ''settings:manage'' \<or> holds scopes ''analytics:manage'' \<Longrightarrow>
     js ''/home/settings/analytics'' \<in> set (visible_hrefs scopes)"
  "holds scopes ''users:manage'' \<Longrightarrow> js ''/home/users'' \<in> set (visible_hrefs scopes)"
  "\<not> holds scopes ''users:manage'' \<Longrightarrow> holds scopes ''roles:manage'' \<Longrightarrow>
     js ''/home/settings/roles'' \<in> set (visible_hrefs scopes)"
  by (simp_all add: visible_hrefs_eq shown_def)

lemma pages_active:
  "is_nav_item_active (js ''/home/settings/links'') (js ''/home/settings/links'')"
  "is_nav_item_active (js ''/home/settings/links/redirects'') (js ''/home/settings/links'')"
  "is_nav_item_active (js ''/home/settings/links/maintenance'') (js ''/home/settings/links'')"
  "is_nav_item_active (js ''/home/settings/registration'') (js ''/home/settings/registration'')"
  "is_nav_item_active (js ''/home/settings/oidc'') (js ''/home/settings/registration'')"
  "is_nav_item_active (js ''/home/settings/traffic'') (js ''/home/settings/traffic'')"
  "is_nav_item_active (js ''/home/settings/analytics'') (js ''/home/settings/analytics'')"
  "is_nav_item_active (js ''/home/users'') (js ''/home/users'')"
  "is_nav_item_active (js ''/home/settings/roles'') (js ''/home/users'')"
  "is_nav_item_active (js ''/home/settings/roles'') (js ''/home/settings/roles'')"
  by (simp_all add: is_nav_item_active_target navigation_path_targets navigation_path_subpages target_active_def)

lemma nav_reaches_pages:
  "holds scopes ''settings:manage'' \<Longrightarrow> nav_reaches scopes (js ''/home/settings/links'')"
  "holds scopes ''settings:manage'' \<Longrightarrow> nav_reaches scopes (js ''/home/settings/links/redirects'')"
  "holds scopes ''settings:manage'' \<Longrightarrow> nav_reaches scopes (js ''/home/settings/links/maintenance'')"
  "holds scopes ''settings:manage'' \<or> holds scopes ''captcha:manage'' \<or> holds scopes ''oidc:manage'' \<Longrightarrow>
     nav_reaches scopes (js ''/home/settings/registration'')"
  "holds scopes ''oidc:manage'' \<Longrightarrow> nav_reaches scopes (js ''/home/settings/oidc'')"
  "holds scopes ''settings:manage'' \<Longrightarrow> nav_reaches scopes (js ''/home/settings/traffic'')"
  "holds scopes ''settings:manage'' \<or> holds scopes ''analytics:manage'' \<Longrightarrow>
     nav_reaches scopes (js ''/home/settings/analytics'')"
  "holds scopes ''users:manage'' \<Longrightarrow> nav_reaches scopes (js ''/home/users'')"
  "holds scopes ''roles:manage'' \<Longrightarrow> nav_reaches scopes (js ''/home/settings/roles'')"
  using pages_active in_visible_hrefs nav_reachesI by blast+

section \<open>Properties\<close>

text \<open>What an account sees of the navigation is exactly what its scopes allow: the overview,
  links and statistics always; the audit log, each settings page, and the users page exactly with
  a scope that opens it; the roles page in place of the users page for an account that may manage
  roles but not users; and no group is shown empty.\<close>
lemma navigation_authorised:
  "(js ''/home/audit'' \<in> set (visible_hrefs scopes) \<longleftrightarrow> holds scopes ''audit:read'') \<and>
   (js ''/home/settings/links'' \<in> set (visible_hrefs scopes) \<longleftrightarrow> holds scopes ''settings:manage'') \<and>
   (js ''/home/settings/traffic'' \<in> set (visible_hrefs scopes) \<longleftrightarrow> holds scopes ''settings:manage'') \<and>
   (js ''/home/settings/registration'' \<in> set (visible_hrefs scopes) \<longleftrightarrow>
      holds scopes ''settings:manage'' \<or> holds scopes ''captcha:manage'' \<or> holds scopes ''oidc:manage'') \<and>
   (js ''/home/settings/analytics'' \<in> set (visible_hrefs scopes) \<longleftrightarrow>
      holds scopes ''settings:manage'' \<or> holds scopes ''analytics:manage'') \<and>
   (js ''/home/users'' \<in> set (visible_hrefs scopes) \<longleftrightarrow> holds scopes ''users:manage'') \<and>
   (js ''/home/settings/roles'' \<in> set (visible_hrefs scopes) \<longleftrightarrow>
      holds scopes ''roles:manage'' \<and> \<not> holds scopes ''users:manage'') \<and>
   {js ''/home'', js ''/home/links'', js ''/home/stats''} \<subseteq> set (visible_hrefs scopes) \<and>
   list_all (\<lambda>sc. list_all (\<lambda>g. ng_items g \<noteq> []) (ns_groups sc)) (visible_navigation scopes)"
  by (simp add: visible_hrefs_eq shown_def) (auto simp: visible_navigation_def list_all_iff)

text \<open>The pages the entries stand for are the targets in their order, some left out: the entries of
  the users and of the roles, which open one page, are never both shown.\<close>

lemma subseq_shown:
  "subseq xs ys \<Longrightarrow> navigation_path (js h) = t \<Longrightarrow> subseq (map navigation_path (shown b h) @ xs) (t # ys)"
  "navigation_path (js h) = t \<Longrightarrow> subseq (map navigation_path (shown b h)) [t]"
  "subseq xs ys \<Longrightarrow> navigation_path (js h) = t \<Longrightarrow> navigation_path (js k) = t \<Longrightarrow>
   subseq (map navigation_path (shown b h) @ map navigation_path (shown (\<not> b \<and> c) k) @ xs) (t # ys)"
  by (auto simp: shown_def)

lemma visible_targets: "subseq (map navigation_path (visible_hrefs scopes)) (map js nav_targets)"
  unfolding visible_hrefs_eq nav_targets_def map_append list.map
  by (simp add: navigation_path_targets subseq_shown)

text \<open>At most one entry of the navigation is marked as the current one, on every route and for
  every account.\<close>
lemma one_active_entry:
  "length (filter (is_nav_item_active path) (visible_hrefs scopes)) \<le> 1"
proof -
  let ?A = "target_active (navigation_path path)"
  have "length (filter (is_nav_item_active path) (visible_hrefs scopes)) =
      length (filter ?A (map navigation_path (visible_hrefs scopes)))"
    unfolding filter_map comp_def is_nav_item_active_target [abs_def] by simp
  also have "\<dots> \<le> length (filter ?A (map js nav_targets))"
    by (rule list_emb_length) (rule subseq_filter [OF visible_targets])
  also have "\<dots> = length (filter (\<lambda>t. ?A (js t)) nav_targets)" by (simp add: filter_map comp_def)
  also note one_target
  finally show ?thesis .
qed

text \<open>The settings search discloses only what the account may manage, and leads nowhere the
  navigation does not: every entry it shows is for a scope the account holds, and the page it
  opens belongs to an entry of that account's navigation.\<close>
lemma search_within_navigation:
  "list_all (\<lambda>e. sx_scope e \<in> set scopes \<and>
      list_ex (is_nav_item_active (takeWhile (\<lambda>c. c \<noteq> 35) (sx_href e))) (visible_hrefs scopes))
    (visible_search_entries scopes)"
proof -
  have "list_all (\<lambda>e. sx_scope e \<in> set scopes \<longrightarrow> nav_reaches scopes (page_of e)) settings_search_entries"
    by (simp add: settings_search_entries_def link_search_def traffic_search_def plain_search_def page_of_def
        page_js nav_reaches_pages)
  then show ?thesis
    by (auto simp: visible_search_entries_def list_all_iff nav_reaches_def page_of_def)
qed

end
