(* ===== verification/Runtime_Settings.thy ===== *)
theory Runtime_Settings
  imports Api_Contract
begin

text \<open>
  \<open>web/src/lib/runtime-settings-form.ts\<close>: the groups of site policies that are saved together, the
  editable draft of a group, and the changes a save sends. A settings object is the record
  \<open>runtime_input\<close>; the code indexes it by key, which is \<open>setting\<close> here.
\<close>

section \<open>Keys and values\<close>

datatype (plugins only: code size) runtime_key =
    AliasMode | UniqueUrls | RegistrationEnabled | TotpEnabled | CountBots | ForwardQuery | FallbackUrl
  | AutoPrune | PruneGrace | MaxLinks | Denylist | ShortDomains | HealthEnabled | HealthInterval
  | RateEnabled | RateLogin | RateApi | RateRedirect | RateRegister | Rate2fa | RateOidc

fun key_text :: "runtime_key \<Rightarrow> string" where
  "key_text AliasMode = ''alias_mode''"
| "key_text UniqueUrls = ''unique_urls''"
| "key_text RegistrationEnabled = ''registration_enabled''"
| "key_text TotpEnabled = ''totp_enabled''"
| "key_text CountBots = ''count_bots''"
| "key_text ForwardQuery = ''forward_query''"
| "key_text FallbackUrl = ''fallback_url''"
| "key_text AutoPrune = ''auto_prune_expired''"
| "key_text PruneGrace = ''prune_grace_seconds''"
| "key_text MaxLinks = ''max_links_per_user''"
| "key_text Denylist = ''destination_denylist''"
| "key_text ShortDomains = ''short_domains''"
| "key_text HealthEnabled = ''health_check_enabled''"
| "key_text HealthInterval = ''health_check_interval_seconds''"
| "key_text RateEnabled = ''rate_limit_enabled''"
| "key_text RateLogin = ''rate_limit_login''"
| "key_text RateApi = ''rate_limit_api''"
| "key_text RateRedirect = ''rate_limit_redirect''"
| "key_text RateRegister = ''rate_limit_register''"
| "key_text Rate2fa = ''rate_limit_2fa''"
| "key_text RateOidc = ''rate_limit_oidc''"

datatype setting_value = SBool bool | SNum int | SText jstr | SList "jstr list"

fun setting :: "'a runtime_input_scheme \<Rightarrow> runtime_key \<Rightarrow> setting_value" where
  "setting s AliasMode = SText (rt_alias_mode s)"
| "setting s UniqueUrls = SBool (rt_unique_urls s)"
| "setting s RegistrationEnabled = SBool (rt_registration_enabled s)"
| "setting s TotpEnabled = SBool (rt_totp_enabled s)"
| "setting s CountBots = SBool (rt_count_bots s)"
| "setting s ForwardQuery = SBool (rt_forward_query s)"
| "setting s FallbackUrl = SText (rt_fallback_url s)"
| "setting s AutoPrune = SBool (rt_auto_prune s)"
| "setting s PruneGrace = SNum (rt_prune_grace s)"
| "setting s MaxLinks = SNum (rt_max_links s)"
| "setting s Denylist = SList (rt_denylist s)"
| "setting s ShortDomains = SList (rt_short_domains s)"
| "setting s HealthEnabled = SBool (rt_health_enabled s)"
| "setting s HealthInterval = SNum (rt_health_interval s)"
| "setting s RateEnabled = SBool (rt_rate_enabled s)"
| "setting s RateLogin = SNum (rt_rate_login s)"
| "setting s RateApi = SNum (rt_rate_api s)"
| "setting s RateRedirect = SNum (rt_rate_redirect s)"
| "setting s RateRegister = SNum (rt_rate_register s)"
| "setting s Rate2fa = SNum (rt_rate_2fa s)"
| "setting s RateOidc = SNum (rt_rate_oidc s)"

fun setting_json :: "setting_value \<Rightarrow> json" where
  "setting_json (SBool b) = JBool b"
| "setting_json (SNum n) = jint n"
| "setting_json (SText s) = JText s"
| "setting_json (SList xs) = JArr (map JText xs)"

section \<open>Groups and drafts\<close>

datatype runtime_group = GCreation | GRedirects | GMaintenance | GRegistration | GTraffic | GStatistics

fun runtime_groups :: "runtime_group \<Rightarrow> runtime_key list" where
  "runtime_groups GCreation = [AliasMode, UniqueUrls, MaxLinks, ShortDomains]"
| "runtime_groups GRedirects = [ForwardQuery, FallbackUrl, Denylist]"
| "runtime_groups GMaintenance = [HealthEnabled, HealthInterval, AutoPrune, PruneGrace]"
| "runtime_groups GRegistration = [RegistrationEnabled, TotpEnabled]"
| "runtime_groups GTraffic = [RateEnabled, RateLogin, RateRegister, Rate2fa, RateOidc, RateApi, RateRedirect]"
| "runtime_groups GStatistics = [CountBots]"

datatype draft_value = DText jstr | DBool bool

type_synonym runtime_draft_map = "(runtime_key \<times> draft_value) list"

fun draft_of_value :: "setting_value \<Rightarrow> draft_value" where
  "draft_of_value (SBool b) = DBool b"
| "draft_of_value (SList xs) = DText (join [10] xs)"
| "draft_of_value (SNum n) = DText (js_of_int n)"
| "draft_of_value (SText s) = DText s"

definition runtime_draft :: "'a runtime_input_scheme \<Rightarrow> runtime_group \<Rightarrow> runtime_draft_map" where
  "runtime_draft s g = map (\<lambda>k. (k, draft_of_value (setting s k))) (runtime_groups g)"

section \<open>Changes\<close>

fun draft_text :: "draft_value \<Rightarrow> jstr" where
  \<comment> \<open>\<open>String(raw)\<close>\<close>
  "draft_text (DText s) = s"
| "draft_text (DBool b) = (if b then js ''true'' else js ''false'')"

fun draft_number :: "draft_value \<Rightarrow> jnum" where
  \<comment> \<open>\<open>Number(raw)\<close>\<close>
  "draft_number (DText s) = js_number s"
| "draft_number (DBool b) = JFin (if b then 1 else 0)"

definition list_of_text :: "jstr \<Rightarrow> jstr list" where
  \<comment> \<open>\<open>.split(/[\n,]/).map(trim).filter(Boolean)\<close>\<close>
  "list_of_text s = filter (\<lambda>w. w \<noteq> []) (map trim (split_by (\<lambda>c. c = 10 \<or> c = 44) s))"

fun parse_value :: "setting_value \<Rightarrow> draft_value \<Rightarrow> setting_value option" where
  \<comment> \<open>the value read from a draft entry, by the type of the saved one; \<open>None\<close> throws\<close>
  "parse_value (SList _) raw = Some (SList (list_of_text (draft_text raw)))"
| "parse_value (SNum _) raw =
     (if raw = DText [] then None else map_option SNum (safe_integer (draft_number raw)))"
| "parse_value _ (DText s) = Some (SText s)"
| "parse_value _ (DBool b) = Some (SBool b)"

definition is_rate_dependent :: "runtime_key \<Rightarrow> bool" where
  "is_rate_dependent k \<longleftrightarrow> prefix ''rate_limit_'' (key_text k) \<and> k \<noteq> RateEnabled"

definition retained :: "runtime_draft_map \<Rightarrow> runtime_key \<Rightarrow> bool" where
  \<comment> \<open>the three \<open>continue\<close>s for dependent controls that are switched off\<close>
  "retained draft k \<longleftrightarrow>
     k = HealthInterval \<and> map_of draft HealthEnabled = Some (DBool False) \<or>
     k = PruneGrace \<and> map_of draft AutoPrune = Some (DBool False) \<or>
     is_rate_dependent k \<and> map_of draft RateEnabled = Some (DBool False)"

fun changes_loop ::
  "'a runtime_input_scheme \<Rightarrow> runtime_draft_map \<Rightarrow> runtime_key list \<Rightarrow> (runtime_key \<times> setting_value) list promise" where
  "changes_loop saved draft [] = Inr []"
| "changes_loop saved draft (k # ks) =
     (if retained draft k then changes_loop saved draft ks
      else (case map_of draft k of
              None \<Rightarrow> changes_loop saved draft ks
            | Some raw \<Rightarrow>
                (case parse_value (setting saved k) raw of
                   None \<Rightarrow> Inl (PlainError (js (key_text k)))
                 | Some v \<Rightarrow>
                     (case changes_loop saved draft ks of
                        Inl e \<Rightarrow> Inl e
                      | Inr rest \<Rightarrow> Inr (if v = setting saved k then rest else (k, v) # rest)))))"

definition runtime_changes ::
  "'a runtime_input_scheme \<Rightarrow> runtime_draft_map \<Rightarrow> runtime_group \<Rightarrow> (runtime_key \<times> setting_value) list promise" where
  "runtime_changes saved draft g = changes_loop saved draft (runtime_groups g)"

definition changes_json :: "(runtime_key \<times> setting_value) list \<Rightarrow> (jstr \<times> json) list" where
  "changes_json cs = map (\<lambda>(k, v). (js (key_text k), setting_json v)) cs"

section \<open>Lemmas\<close>

lemma key_text_inj: "key_text a = key_text b \<longleftrightarrow> a = b"
  by (cases a; cases b) simp_all

lemma runtime_groups_distinct: "distinct (runtime_groups g)"
  by (cases g) simp_all

lemma runtime_groups_cover: "k \<in> set (runtime_groups g) \<longleftrightarrow>
  g = (case k of AliasMode \<Rightarrow> GCreation | UniqueUrls \<Rightarrow> GCreation | MaxLinks \<Rightarrow> GCreation | ShortDomains \<Rightarrow> GCreation
       | ForwardQuery \<Rightarrow> GRedirects | FallbackUrl \<Rightarrow> GRedirects | Denylist \<Rightarrow> GRedirects
       | HealthEnabled \<Rightarrow> GMaintenance | HealthInterval \<Rightarrow> GMaintenance | AutoPrune \<Rightarrow> GMaintenance | PruneGrace \<Rightarrow> GMaintenance
       | RegistrationEnabled \<Rightarrow> GRegistration | TotpEnabled \<Rightarrow> GRegistration | CountBots \<Rightarrow> GStatistics
       | _ \<Rightarrow> GTraffic)"
  by (cases k; cases g) simp_all


lemma map_of_runtime_draft:
  "map_of (runtime_draft s g) k = (if k \<in> set (runtime_groups g) then Some (draft_of_value (setting s k)) else None)"
  by (simp add: runtime_draft_def map_of_map_restrict restrict_map_def)

lemma runtime_draft_keys [simp]: "map fst (runtime_draft s g) = runtime_groups g"
  by (simp add: runtime_draft_def comp_def)

definition entered :: "'a runtime_input_scheme \<Rightarrow> runtime_draft_map \<Rightarrow> runtime_key \<Rightarrow> draft_value \<Rightarrow> bool" where
  \<comment> \<open>the entry of a control that is not switched off\<close>
  "entered saved draft k raw \<longleftrightarrow> \<not> retained draft k \<and> map_of draft k = Some raw"

lemma changes_loop_Inr:
  "changes_loop saved draft ks = Inr cs \<Longrightarrow> distinct ks \<Longrightarrow>
     distinct (map fst cs) \<and>
     set cs = {(k, v). k \<in> set ks \<and> v \<noteq> setting saved k \<and>
                (\<exists>raw. entered saved draft k raw \<and> parse_value (setting saved k) raw = Some v)} \<and>
     (\<forall>k \<in> set ks. \<forall>raw. entered saved draft k raw \<longrightarrow> parse_value (setting saved k) raw \<noteq> None)"
proof (induction ks arbitrary: cs)
  case (Cons k ks)
  show ?case
  proof (cases "\<exists>raw. entered saved draft k raw")
    case False
    then have "changes_loop saved draft ks = Inr cs"
      using Cons.prems(1) by (auto simp: entered_def split: if_splits option.splits)
    from Cons.IH [OF this] Cons.prems(2) False show ?thesis by auto
  next
    case True
    then obtain raw where raw: "entered saved draft k raw" by blast
    then have uniq: "entered saved draft k r \<longleftrightarrow> r = raw" for r by (auto simp: entered_def)
    from raw Cons.prems(1) obtain v rest where v: "parse_value (setting saved k) raw = Some v"
      and rest: "changes_loop saved draft ks = Inr rest"
      and cs: "cs = (if v = setting saved k then rest else (k, v) # rest)"
      by (auto simp: entered_def split: option.splits sum.splits)
    from Cons.IH [OF rest] Cons.prems(2) v uniq cs show ?thesis by auto
  qed
qed simp

lemma changes_loop_Inl:
  "(\<exists>e. changes_loop saved draft ks = Inl e) \<longleftrightarrow>
     (\<exists>k \<in> set ks. \<exists>raw. entered saved draft k raw \<and> parse_value (setting saved k) raw = None)"
proof (induction ks)
  case (Cons k ks)
  then show ?case by (auto simp: entered_def split: option.splits sum.splits)
qed simp

lemma parse_value_None:
  "parse_value old raw = None \<longleftrightarrow>
     (\<exists>n. old = SNum n) \<and> (raw = DText [] \<or> safe_integer (draft_number raw) = None)"
  by (cases "(old, raw)" rule: parse_value.cases) auto

definition clean_item :: "jstr \<Rightarrow> bool" where
  "clean_item w \<longleftrightarrow> w \<noteq> [] \<and> trim w = w \<and> list_all (\<lambda>c. c \<noteq> 10 \<and> c \<noteq> 44) w"

fun printable :: "setting_value \<Rightarrow> bool" where
  \<comment> \<open>a value that survives being shown in a control: a safe integer, items without separators\<close>
  "printable (SNum n) \<longleftrightarrow> \<bar>n\<bar> \<le> 2 ^ 53 - 1"
| "printable (SList xs) \<longleftrightarrow> list_all clean_item xs"
| "printable _ \<longleftrightarrow> True"

lemma split_join_lines:
  assumes "list_all clean_item xs" "xs \<noteq> []"
  shows "split_by (\<lambda>c. c = 10 \<or> c = 44) (join [10] xs) = xs"
  using assms
proof (induction xs rule: induct_list012)
  case (2 x)
  then show ?case by (simp add: split_by_no_sep clean_item_def list_all_iff)
next
  case (3 x y zs)
  then have "split_by (\<lambda>c. c = 10 \<or> c = 44) (x @ 10 # join [10] (y # zs)) = x # split_by (\<lambda>c. c = 10 \<or> c = 44) (join [10] (y # zs))"
    by (intro split_by_append_sep) (auto simp: clean_item_def list_all_iff)
  with 3 show ?case by simp
qed simp

lemma list_of_text_join: "list_all clean_item xs \<Longrightarrow> list_of_text (join [10] xs) = xs"
proof (cases "xs = []")
  case False
  assume c: "list_all clean_item xs"
  then have "map trim xs = xs" "filter (\<lambda>w. w \<noteq> []) xs = xs"
    by (auto simp: list_all_iff clean_item_def map_idI)
  with split_join_lines [OF c False] show ?thesis by (simp add: list_of_text_def)
qed (simp add: list_of_text_def)

lemma parse_draft_of_value: "printable v \<Longrightarrow> parse_value v (draft_of_value v) = Some v"
  by (cases v) (simp_all add: list_of_text_join js_number_of_int safe_integer_of_int)

section \<open>Properties\<close>

text \<open>The groups partition the policies: every key belongs to exactly one group, listed once,
  and under its own wire name, so two forms can never save the same field.\<close>
lemma runtime_groups_partition:
  "(\<exists>!g. k \<in> set (runtime_groups g)) \<and> distinct (runtime_groups g) \<and> (key_text k = key_text k' \<longleftrightarrow> k = k')"
  using runtime_groups_distinct by (simp add: runtime_groups_cover key_text_inj)

text \<open>C5 An untouched form changes nothing: for a settings object whose numbers are safe integers
  and whose list items are clean, reading a group into a draft and computing the changes of that
  draft gives none.\<close>
theorem untouched_draft_no_changes:
  assumes "\<And>k. k \<in> set (runtime_groups g) \<Longrightarrow> printable (setting s k)"
  shows "runtime_changes s (runtime_draft s g) g = Inr []"
proof -
  have "changes_loop s (runtime_draft s g) ks = Inr []" if "set ks \<subseteq> set (runtime_groups g)" for ks
    using that by (induction ks) (auto simp: map_of_runtime_draft parse_draft_of_value assms)
  then show ?thesis by (simp add: runtime_changes_def)
qed

definition sample_runtime :: runtime_input where
  "sample_runtime =
     \<lparr>rt_alias_mode = js ''random'', rt_unique_urls = True, rt_registration_enabled = False, rt_totp_enabled = True,
      rt_count_bots = False, rt_forward_query = True, rt_fallback_url = js ''https://x.example'', rt_auto_prune = False,
      rt_prune_grace = 86400, rt_max_links = 0, rt_denylist = [js ''a.example'', js ''b.example''],
      rt_short_domains = [], rt_health_enabled = True, rt_health_interval = 3600, rt_rate_enabled = True,
      rt_rate_login = 5, rt_rate_api = 100, rt_rate_redirect = 1000, rt_rate_register = 3, rt_rate_2fa = 5, rt_rate_oidc = 60\<rparr>"

theorem untouched_draft_no_changes_witness:
  "runtime_changes sample_runtime (runtime_draft sample_runtime GRedirects) GRedirects = Inr []"
proof (rule untouched_draft_no_changes)
  fix k assume "k \<in> set (runtime_groups GRedirects)"
  then have "k = ForwardQuery \<or> k = FallbackUrl \<or> k = Denylist" by simp
  moreover have "clean_item (js ''a.example'')" "clean_item (js ''b.example'')" by code_simp+
  ultimately show "printable (setting sample_runtime k)" by (auto simp: sample_runtime_def)
qed





end
