(* ===== verification/Page_Model.thy ===== *)
theory Page_Model
  imports I18n Api_Contract
begin

text \<open>
  How a client component is modelled. Its \<open>useState\<close> and \<open>useRef\<close> cells are a record. What can
  happen to it is a datatype of events: what the user does with a control, and the settling of
  each request in flight. \<open>offered\<close> says which events can happen in a state: a control that is
  rendered and not disabled, a request that is pending. \<open>step\<close> is the handler, run to its next
  \<open>await\<close>; what follows an \<open>await\<close> is the step of the settling event. What a handler causes
  outside its state (requests, toasts, navigation) is appended to a log in the state.

  React applies the state updates of a handler together before the next event, so a handler is
  one atomic step.
\<close>

datatype toast_kind = ToastSuccess | ToastError | ToastInfo

datatype effect =
    Call api_call
  | Toast toast_kind jstr jstr
  | Push jstr
  | ReplaceRoute jstr
  | Back
  | Assign jstr
  | Download jstr jstr

inductive reachable :: "'s \<Rightarrow> ('s \<Rightarrow> 'e \<Rightarrow> bool) \<Rightarrow> ('s \<Rightarrow> 'e \<Rightarrow> 's) \<Rightarrow> 's \<Rightarrow> bool"
  for start :: 's and offered :: "'s \<Rightarrow> 'e \<Rightarrow> bool" and move :: "'s \<Rightarrow> 'e \<Rightarrow> 's" where
  mounted: "reachable start offered move start"
| moved: "reachable start offered move s \<Longrightarrow> offered s e \<Longrightarrow> reachable start offered move (move s e)"

inductive_cases reachable_cases: "reachable start offered move s"

fun runs :: "('s \<Rightarrow> 'e \<Rightarrow> bool) \<Rightarrow> ('s \<Rightarrow> 'e \<Rightarrow> 's) \<Rightarrow> 's \<Rightarrow> 'e list \<Rightarrow> 's option" where
  \<comment> \<open>a sequence of events, \<open>None\<close> when one of them cannot happen\<close>
  "runs offered move s [] = Some s"
| "runs offered move s (e # es) = (if offered s e then runs offered move (move s e) es else None)"

lemma runs_append:
  "runs offered move s (es @ es') = (case runs offered move s es of None \<Rightarrow> None | Some s' \<Rightarrow> runs offered move s' es')"
  by (induction es arbitrary: s) auto

lemma runs_reachable:
  "runs offered move s es = Some s' \<Longrightarrow> reachable start offered move s \<Longrightarrow> reachable start offered move s'"
  by (induction es arbitrary: s) (auto split: if_splits intro: reachable.moved)

lemma runs_from_start: "runs offered move start es = Some s \<Longrightarrow> reachable start offered move s"
  using runs_reachable reachable.mounted by metis

section \<open>Invariants of a page\<close>

locale react_page =
  fixes start :: 's and offered :: "'s \<Rightarrow> 'e \<Rightarrow> bool" and move :: "'s \<Rightarrow> 'e \<Rightarrow> 's" and inv :: "'s \<Rightarrow> bool"
  assumes inv_start: "inv start"
    and inv_move: "inv s \<Longrightarrow> offered s e \<Longrightarrow> inv (move s e)"
begin

lemma reachable_inv: "reachable start offered move s \<Longrightarrow> inv s"
  by (induction rule: reachable.induct) (auto intro: inv_start inv_move)

lemma runs_inv: "inv s \<Longrightarrow> runs offered move s es = Some s' \<Longrightarrow> inv s'"
  by (induction es arbitrary: s) (auto split: if_splits intro: inv_move)

end

text \<open>A page that also logs what it causes: every logged effect satisfies a rule when every step
  only adds effects that do.\<close>

locale logging_page = react_page start offered move inv
  for start :: 's and offered :: "'s \<Rightarrow> 'e \<Rightarrow> bool" and move and inv +
  fixes log :: "'s \<Rightarrow> effect list" and rule :: "effect \<Rightarrow> bool"
  assumes log_start: "list_all rule (log start)"
    and log_move: "inv s \<Longrightarrow> offered s e \<Longrightarrow> list_all rule (log s) \<Longrightarrow> list_all rule (log (move s e))"
begin

lemma reachable_log: "reachable start offered move s \<Longrightarrow> list_all rule (log s)"
  by (induction rule: reachable.induct) (auto intro: log_start log_move reachable_inv)

end

section \<open>Forms with a saved state and a draft\<close>

text \<open>
  What the settings forms have in common and what the guard against losing a draft relies on: the
  form is clean after it has loaded, after a successful save, and after the draft is discarded; a
  failed save leaves the draft as it is.
\<close>

locale draft_form =
  fixes dirty :: "'s \<Rightarrow> bool" and draft :: "'s \<Rightarrow> 'd"
    and loaded :: "'v \<Rightarrow> 's \<Rightarrow> 's" and stored :: "'v \<Rightarrow> 's \<Rightarrow> 's"
    and failed :: "exn \<Rightarrow> 's \<Rightarrow> 's" and discarded :: "'s \<Rightarrow> 's" and valid :: "'s \<Rightarrow> bool"
  assumes loaded_clean: "valid s \<Longrightarrow> \<not> dirty (loaded v s)"
    and stored_clean: "valid s \<Longrightarrow> \<not> dirty (stored v s)"
    and discarded_clean: "valid s \<Longrightarrow> \<not> dirty (discarded s)"
    and failed_keeps: "draft (failed e s) = draft s \<and> dirty (failed e s) = dirty s"
begin

lemma only_editing_dirties:
  assumes "valid s"
  shows "\<not> dirty (loaded v s)" "\<not> dirty (stored v s)" "\<not> dirty (discarded s)"
    and "dirty (failed e s) \<longleftrightarrow> dirty s"
  using assms loaded_clean stored_clean discarded_clean failed_keeps by auto

lemma retry_after_failure:
  "draft (failed e2 (failed e1 s)) = draft s \<and> (valid (failed e1 s) \<longrightarrow> \<not> dirty (stored v (failed e1 s)))"
  using failed_keeps stored_clean by auto

end

end
