(* ===== verification/Runtime_Form.thy ===== *)
theory Runtime_Form
  imports Runtime_Settings Page_Model
begin

text \<open>
  \<open>web/src/components/settings/runtime-form.tsx\<close>: the form that loads, edits and saves one group of
  site policies. Its group is fixed; what it renders is given by which controls are offered.
\<close>

section \<open>State\<close>

datatype pending_call = PLoad | PSave

record runtime_form =
  rf_group :: runtime_group
  rf_saved :: "runtime_settings option"
  rf_draft :: runtime_draft_map
  rf_error :: jstr
  rf_notice :: jstr
  rf_loading :: bool
  rf_busy :: bool
  rf_conflict :: bool
  rf_pending :: "pending_call list"
  rf_log :: "effect list"

definition form_dirty :: "runtime_form \<Rightarrow> bool" where
  "form_dirty s =
     (case rf_saved s of None \<Rightarrow> False | Some saved \<Rightarrow> rf_draft s \<noteq> runtime_draft saved (rf_group s))"

section \<open>Handlers\<close>

definition form_load :: "runtime_form \<Rightarrow> runtime_form" where
  \<comment> \<open>\<open>load\<close> up to its \<open>await\<close>\<close>
  "form_load s =
     s\<lparr>rf_loading := True, rf_saved := None, rf_error := [], rf_notice := [], rf_conflict := False,
       rf_pending := rf_pending s @ [PLoad], rf_log := rf_log s @ [Call GetRuntime]\<rparr>"

definition form_loaded :: "runtime_settings \<Rightarrow> runtime_form \<Rightarrow> runtime_form" where
  "form_loaded fresh s =
     s\<lparr>rf_saved := Some fresh, rf_draft := runtime_draft fresh (rf_group s), rf_loading := False,
       rf_pending := remove1 PLoad (rf_pending s)\<rparr>"

definition form_load_failed :: "translator \<Rightarrow> exn \<Rightarrow> runtime_form \<Rightarrow> runtime_form" where
  "form_load_failed t e s =
     s\<lparr>rf_error := error_text t e ''error.load'' [(403, ''settings.form.forbidden'')], rf_loading := False,
       rf_pending := remove1 PLoad (rf_pending s)\<rparr>"

definition form_save :: "translator \<Rightarrow> runtime_form \<Rightarrow> runtime_form" where
  \<comment> \<open>\<open>save\<close> up to its \<open>await\<close>, with each early return\<close>
  "form_save t s =
     (case rf_saved s of
        None \<Rightarrow> s
      | Some saved \<Rightarrow>
          if rf_busy s then s
          else
            (let s1 = s\<lparr>rf_error := [], rf_notice := []\<rparr> in
             case runtime_changes saved (rf_draft s) (rf_group s) of
               Inl _ \<Rightarrow> s1\<lparr>rf_error := tr t ''settings.form.invalidNumber''\<rparr>
             | Inr changes \<Rightarrow>
                 if changes = [] then s1\<lparr>rf_draft := runtime_draft saved (rf_group s)\<rparr>
                 else s1\<lparr>rf_busy := True, rf_pending := rf_pending s @ [PSave],
                         rf_log := rf_log s @ [Call (PatchRuntime (rt_revision saved) (changes_json changes))]\<rparr>))"

definition form_saved :: "translator \<Rightarrow> runtime_settings \<Rightarrow> runtime_form \<Rightarrow> runtime_form" where
  "form_saved t fresh s =
     s\<lparr>rf_saved := Some fresh, rf_draft := runtime_draft fresh (rf_group s), rf_conflict := False,
       rf_notice := tr t ''settings.saved'', rf_busy := False, rf_pending := remove1 PSave (rf_pending s),
       rf_log := rf_log s @ [Toast ToastSuccess (tr t ''settings.saved'') []]\<rparr>"

definition form_save_failed :: "translator \<Rightarrow> exn \<Rightarrow> runtime_form \<Rightarrow> runtime_form" where
  "form_save_failed t e s =
     s\<lparr>rf_conflict := (case e of ApiError _ st _ _ \<Rightarrow> st = 409 | _ \<Rightarrow> False),
       rf_error := error_text t e ''error.save'' [(403, ''settings.form.forbidden''), (409, ''settings.form.conflict'')],
       rf_busy := False, rf_pending := remove1 PSave (rf_pending s)\<rparr>"

definition form_edit :: "runtime_key \<Rightarrow> draft_value \<Rightarrow> runtime_form \<Rightarrow> runtime_form" where
  "form_edit k v s = s\<lparr>rf_notice := [], rf_draft := AList.update k v (rf_draft s)\<rparr>"

definition form_discard :: "runtime_form \<Rightarrow> runtime_form" where
  "form_discard s =
     (case rf_saved s of
        None \<Rightarrow> s
      | Some saved \<Rightarrow> s\<lparr>rf_draft := runtime_draft saved (rf_group s), rf_error := [], rf_notice := []\<rparr>)"

section \<open>Controls\<close>

definition draft_off :: "runtime_draft_map \<Rightarrow> runtime_key \<Rightarrow> bool" where
  \<comment> \<open>\<open>!draft[k]\<close>\<close>
  "draft_off d k = (case map_of d k of None \<Rightarrow> True | Some (DBool b) \<Rightarrow> \<not> b | Some (DText s) \<Rightarrow> s = [])"

definition control_disabled :: "runtime_draft_map \<Rightarrow> runtime_key \<Rightarrow> bool" where
  "control_disabled d k \<longleftrightarrow>
     (if k = HealthInterval then draft_off d HealthEnabled
      else if k = PruneGrace then draft_off d AutoPrune
      else if is_rate_dependent k then draft_off d RateEnabled
      else False)"

fun control_gives :: "runtime_key \<Rightarrow> setting_value \<Rightarrow> draft_value \<Rightarrow> bool" where
  \<comment> \<open>what the control of a field hands to \<open>edit\<close>: a switch a boolean, the mode one of its options,
      every other control text\<close>
  "control_gives _ (SBool _) (DBool _) = True"
| "control_gives _ (SBool _) (DText _) = False"
| "control_gives k _ (DText s) = (k = AliasMode \<longrightarrow> s \<in> {js ''random'', js ''sequential''})"
| "control_gives _ _ (DBool _) = False"

datatype runtime_event =
    EditField runtime_key draft_value
  | DiscardDraft
  | ReloadForm
  | RetryLoad
  | SubmitForm
  | LoadSettles "runtime_settings promise"
  | SaveSettles "runtime_settings promise"

definition form_shown :: "runtime_form \<Rightarrow> bool" where
  "form_shown s \<longleftrightarrow> rf_saved s \<noteq> None \<and> \<not> rf_loading s"

fun form_offered :: "runtime_form \<Rightarrow> runtime_event \<Rightarrow> bool" where
  "form_offered s (EditField k v) \<longleftrightarrow>
     form_shown s \<and> \<not> rf_busy s \<and> k \<in> set (runtime_groups (rf_group s)) \<and> \<not> control_disabled (rf_draft s) k \<and>
     control_gives k (setting (the (rf_saved s)) k) v"
| "form_offered s DiscardDraft \<longleftrightarrow> form_shown s \<and> \<not> rf_busy s \<and> \<not> rf_conflict s \<and> form_dirty s"
| "form_offered s ReloadForm \<longleftrightarrow> form_shown s \<and> \<not> rf_busy s \<and> rf_conflict s"
| "form_offered s RetryLoad \<longleftrightarrow> \<not> rf_loading s \<and> rf_saved s = None"
| "form_offered s SubmitForm \<longleftrightarrow> form_shown s \<and> \<not> rf_busy s \<and> form_dirty s \<and> \<not> rf_conflict s"
| "form_offered s (LoadSettles _) \<longleftrightarrow> PLoad \<in> set (rf_pending s)"
| "form_offered s (SaveSettles _) \<longleftrightarrow> PSave \<in> set (rf_pending s)"

fun form_move :: "translator \<Rightarrow> runtime_form \<Rightarrow> runtime_event \<Rightarrow> runtime_form" where
  "form_move t s (EditField k v) = form_edit k v s"
| "form_move t s DiscardDraft = form_discard s"
| "form_move t s ReloadForm = form_load s"
| "form_move t s RetryLoad = form_load s"
| "form_move t s SubmitForm = form_save t s"
| "form_move t s (LoadSettles (Inr v)) = form_loaded v s"
| "form_move t s (LoadSettles (Inl e)) = form_load_failed t e s"
| "form_move t s (SaveSettles (Inr v)) = form_saved t v s"
| "form_move t s (SaveSettles (Inl e)) = form_save_failed t e s"

definition form_start :: "runtime_group \<Rightarrow> runtime_form" where
  \<comment> \<open>the state after the mount effect, which starts the first load\<close>
  "form_start g =
     form_load \<lparr>rf_group = g, rf_saved = None, rf_draft = [], rf_error = [], rf_notice = [], rf_loading = True,
                rf_busy = False, rf_conflict = False, rf_pending = [], rf_log = []\<rparr>"

section \<open>Invariant\<close>

fun fits :: "setting_value \<Rightarrow> draft_value \<Rightarrow> bool" where
  "fits (SBool _) (DBool _) = True"
| "fits (SBool _) (DText _) = False"
| "fits _ (DText _) = True"
| "fits _ (DBool _) = False"

definition draft_fits :: "runtime_form \<Rightarrow> bool" where
  "draft_fits s \<longleftrightarrow>
     (case rf_saved s of
        None \<Rightarrow> True
      | Some saved \<Rightarrow>
          map fst (rf_draft s) = runtime_groups (rf_group s) \<and>
          (\<forall>(k, v) \<in> set (rf_draft s). fits (setting saved k) v))"

definition form_inv :: "runtime_group \<Rightarrow> runtime_form \<Rightarrow> bool" where
  "form_inv g s \<longleftrightarrow>
     rf_group s = g \<and> draft_fits s \<and>
     rf_pending s = (if rf_loading s then [PLoad] else if rf_busy s then [PSave] else []) \<and>
     (rf_loading s \<longrightarrow> rf_saved s = None \<and> \<not> rf_busy s) \<and> (rf_busy s \<longrightarrow> rf_saved s \<noteq> None)"

definition group_patch :: "runtime_group \<Rightarrow> effect \<Rightarrow> bool" where
  \<comment> \<open>the requests the form may make: a read, or a non-empty patch of its own group's fields\<close>
  "group_patch g e \<longleftrightarrow>
     (case e of
        Call GetRuntime \<Rightarrow> True
      | Call (PatchRuntime _ changes) \<Rightarrow>
          changes \<noteq> [] \<and> distinct (map fst changes) \<and>
          set (map fst changes) \<subseteq> (\<lambda>k. js (key_text k)) ` set (runtime_groups g)
      | Toast _ _ _ \<Rightarrow> True
      | _ \<Rightarrow> False)"

lemma fits_draft_of_value: "fits v (draft_of_value v)"
  by (cases v) simp_all

lemma draft_fits_fresh: "rf_saved s = Some v \<Longrightarrow> rf_draft s = runtime_draft v (rf_group s) \<Longrightarrow> draft_fits s"
  by (auto simp: draft_fits_def runtime_draft_def fits_draft_of_value comp_def)

lemma update_existing_keys: "k \<in> set (map fst xs) \<Longrightarrow> map fst (AList.update k v xs) = map fst xs"
  by (simp add: update_keys)

lemma set_update_subset: "set (AList.update k v xs) \<subseteq> insert (k, v) (set xs)"
  by (induction xs) auto

lemma runtime_draft_fits: "(k, v) \<in> set (runtime_draft saved g) \<Longrightarrow> fits (setting saved k) v"
  by (auto simp: runtime_draft_def fits_draft_of_value)

lemma control_gives_fits: "control_gives k old v \<Longrightarrow> fits old v"
  by (cases "(k, old, v)" rule: control_gives.cases) simp_all

lemma form_start_inv: "form_inv g (form_start g)"
  by (simp add: form_inv_def form_start_def form_load_def draft_fits_def)

lemma form_load_inv:
  assumes "form_inv g s" "\<not> rf_loading s" "\<not> rf_busy s"
  shows "form_inv g (form_load s)"
  using assms by (simp add: form_inv_def form_load_def draft_fits_def)

lemma form_edit_inv:
  assumes inv: "form_inv g s" and off: "form_offered s (EditField k v)"
  shows "form_inv g (form_edit k v s)"
proof -
  obtain saved where saved: "rf_saved s = Some saved" using off by (auto simp: form_shown_def)
  have keys: "map fst (rf_draft s) = runtime_groups g" and all: "\<forall>(k, v) \<in> set (rf_draft s). fits (setting saved k) v"
    using inv saved by (auto simp: form_inv_def draft_fits_def)
  have k: "k \<in> set (map fst (rf_draft s))" using off keys inv by (simp add: form_inv_def)
  have fv: "fits (setting saved k) v" using off saved control_gives_fits by auto
  have "\<forall>(k, v) \<in> set (AList.update k v (rf_draft s)). fits (setting saved k) v"
    using all fv set_update_subset [of k v "rf_draft s"] by auto
  moreover have "map fst (AList.update k v (rf_draft s)) = runtime_groups (rf_group s)"
    unfolding update_existing_keys [OF k] keys using inv by (simp add: form_inv_def)
  ultimately have "draft_fits (form_edit k v s)"
    using saved by (simp add: draft_fits_def form_edit_def)
  with inv show ?thesis by (simp add: form_inv_def form_edit_def)
qed

lemma form_save_inv:
  assumes "form_inv g s" "form_shown s" "\<not> rf_busy s"
  shows "form_inv g (form_save t s)"
  using assms
  by (auto simp: form_save_def Let_def form_inv_def form_shown_def draft_fits_def dest: runtime_draft_fits
      split: sum.splits if_splits)

lemma form_settled_inv:
  assumes "form_inv g s"
  shows "PLoad \<in> set (rf_pending s) \<Longrightarrow> form_inv g (form_loaded v s)"
    and "PLoad \<in> set (rf_pending s) \<Longrightarrow> form_inv g (form_load_failed t e s)"
    and "PSave \<in> set (rf_pending s) \<Longrightarrow> form_inv g (form_saved t v s)"
    and "PSave \<in> set (rf_pending s) \<Longrightarrow> form_inv g (form_save_failed t e s)"
  using assms
  by (auto simp: form_inv_def form_loaded_def form_load_failed_def form_saved_def form_save_failed_def draft_fits_def
      dest: runtime_draft_fits split: if_splits option.splits)

lemma form_discard_inv: "form_inv g s \<Longrightarrow> form_inv g (form_discard s)"
  by (auto simp: form_inv_def form_discard_def draft_fits_def dest: runtime_draft_fits split: option.splits)

lemma form_move_inv:
  assumes "form_inv g s" "form_offered s e"
  shows "form_inv g (form_move t s e)"
  using assms form_edit_inv form_load_inv form_save_inv form_settled_inv form_discard_inv
  by (cases "(t, s, e)" rule: form_move.cases) (auto simp: form_shown_def form_inv_def)

lemma changes_patch:
  assumes "runtime_changes saved draft g = Inr cs" "cs \<noteq> []"
  shows "group_patch g (Call (PatchRuntime r (changes_json cs)))"
proof -
  note c = changes_loop_Inr [OF assms(1) [unfolded runtime_changes_def] runtime_groups_distinct]
  have keys: "map fst (changes_json cs) = map (\<lambda>k. js (key_text k)) (map fst cs)"
    by (simp add: changes_json_def comp_def case_prod_unfold)
  have "inj (\<lambda>k. js (key_text k))" by (simp add: inj_def key_text_inj)
  then have "distinct (map fst (changes_json cs))"
    unfolding keys by (subst distinct_map) (use c in \<open>auto intro: inj_on_subset\<close>)
  moreover have "set (map fst (changes_json cs)) \<subseteq> (\<lambda>k. js (key_text k)) ` set (runtime_groups g)"
    unfolding keys set_map using c by auto
  moreover have "changes_json cs \<noteq> []" using assms(2) by (simp add: changes_json_def)
  ultimately show ?thesis unfolding group_patch_def effect.case api_call.case by (intro conjI)
qed

lemma form_save_log:
  "list_all (group_patch g) (rf_log s) \<Longrightarrow> rf_group s = g \<Longrightarrow> list_all (group_patch g) (rf_log (form_save t s))"
  using changes_patch
  by (auto simp: form_save_def Let_def split: option.splits sum.splits if_splits)

interpretation runtime_page: logging_page "form_start g" form_offered "form_move t" "form_inv g" rf_log "group_patch g"
  for g t
proof
  show "form_inv g (form_start g)" by (rule form_start_inv)
  show "form_inv g (form_move t s e)" if "form_inv g s" "form_offered s e" for s e
    using that by (rule form_move_inv)
  show "list_all (group_patch g) (rf_log (form_start g))"
    by (simp add: form_start_def form_load_def group_patch_def)
  show "list_all (group_patch g) (rf_log (form_move t s e))"
    if "form_inv g s" "form_offered s e" "list_all (group_patch g) (rf_log s)" for s e
    using that form_save_log [of g s t]
    by (cases "(t, s, e)" rule: form_move.cases)
      (auto simp: form_inv_def form_edit_def form_discard_def form_load_def form_loaded_def form_load_failed_def
        form_saved_def form_save_failed_def group_patch_def split: option.splits)
qed

text \<open>The form keeps the contract the guard of the page relies on.\<close>

interpretation runtime_draft_contract: draft_form form_dirty rf_draft form_loaded "form_saved t"
  "form_save_failed t" form_discard "\<lambda>_. True" for t
  by unfold_locales
    (auto simp: form_dirty_def form_loaded_def form_saved_def form_save_failed_def form_discard_def split: option.splits)

section \<open>Properties\<close>

text \<open>C7 A policies form never has two requests in flight and never loses an edit to one: in every
  reachable state at most one request is pending, a draft can be edited, discarded or saved only
  while none is, the draft holds exactly the fields of its group with values of their types, and
  a pending load leaves no settings on display.\<close>
theorem runtime_form_one_request:
  assumes "reachable (form_start g) form_offered (form_move t) s"
  shows "length (rf_pending s) \<le> 1 \<and>
    (form_offered s (EditField k v) \<or> form_offered s SubmitForm \<or> form_offered s DiscardDraft \<longrightarrow> rf_pending s = []) \<and>
    (PLoad \<in> set (rf_pending s) \<longrightarrow> rf_saved s = None) \<and>
    (rf_saved s \<noteq> None \<longrightarrow> map fst (rf_draft s) = runtime_groups g) \<and> draft_fits s"
  using runtime_page.reachable_inv [OF assms]
  by (auto simp: form_inv_def draft_fits_def form_shown_def split: if_splits)

definition sample_settings :: runtime_settings where
  "sample_settings = runtime_input.extend sample_runtime \<lparr>rt_revision = 7, rt_updated_at = []\<rparr>"

definition sample_run :: "runtime_event list" where
  "sample_run = [LoadSettles (Inr sample_settings), EditField TotpEnabled (DBool False), SubmitForm]"

lemma sample_run_reachable:
  "\<exists>s. runs form_offered (form_move t) (form_start GRegistration) sample_run = Some s \<and>
     reachable (form_start GRegistration) form_offered (form_move t) s \<and> rf_pending s = [PSave]"
proof -
  have "\<exists>s. runs form_offered (form_move t) (form_start GRegistration) sample_run = Some s \<and> rf_pending s = [PSave]"
    by (simp add: sample_run_def form_start_def form_load_def form_loaded_def form_shown_def control_disabled_def
        is_rate_dependent_def sample_settings_def sample_runtime_def runtime_input.defs form_edit_def form_dirty_def
        runtime_draft_def form_save_def Let_def runtime_changes_def retained_def)
  then show ?thesis using runs_from_start by metis
qed

theorem runtime_form_one_request_witness:
  "\<exists>s. reachable (form_start GRegistration) form_offered (form_move (t_for (js ''en''))) s \<and>
     rf_pending s = [PSave] \<and> length (rf_pending s) \<le> 1"
  using sample_run_reachable [of "t_for (js ''en'')"] runtime_form_one_request by metis

text \<open>The form asks the API for nothing but its own group: every request it makes in any run is
  the read of the settings, or a patch that is not empty, names each field once and names only
  fields of its group.\<close>
lemma runtime_form_patches_own_group:
  assumes "reachable (form_start g) form_offered (form_move t) s"
  shows "list_all (group_patch g) (rf_log s)"
  using assms by (rule runtime_page.reachable_log)

lemma runtime_form_patches_own_group_witness:
  "\<exists>s. reachable (form_start GRegistration) form_offered (form_move (t_for (js ''en''))) s \<and>
     rf_pending s = [PSave] \<and> list_all (group_patch GRegistration) (rf_log s)"
  using sample_run_reachable [of "t_for (js ''en'')"] runtime_form_patches_own_group by metis

text \<open>A save is based on what was loaded: submitting in any reachable state either sends a patch
  under the revision of the settings on display, or sends nothing and leaves the form clean or
  with a message; and a failed save keeps the draft and can be told from success, which leaves
  the form clean.\<close>
lemma runtime_form_save_outcome:
  assumes "reachable (form_start g) form_offered (form_move t) s" and "form_offered s SubmitForm"
  shows "((\<exists>saved cs. rf_saved s = Some saved \<and>
            rf_log (form_move t s SubmitForm) = rf_log s @ [Call (PatchRuntime (rt_revision saved) cs)]) \<or>
          rf_log (form_move t s SubmitForm) = rf_log s \<and>
          (\<not> form_dirty (form_move t s SubmitForm) \<or> rf_error (form_move t s SubmitForm) = tr t ''settings.form.invalidNumber'')) \<and>
         rf_draft (form_move t s (SaveSettles (Inl e))) = rf_draft s \<and>
         \<not> form_dirty (form_move t s (SaveSettles (Inr v)))"
proof -
  have "(\<exists>saved cs. rf_saved s = Some saved \<and>
          rf_log (form_move t s SubmitForm) = rf_log s @ [Call (PatchRuntime (rt_revision saved) cs)]) \<or>
        rf_log (form_move t s SubmitForm) = rf_log s \<and>
        (\<not> form_dirty (form_move t s SubmitForm) \<or> rf_error (form_move t s SubmitForm) = tr t ''settings.form.invalidNumber'')"
    using assms(2)
    by (auto simp: form_save_def Let_def form_shown_def form_dirty_def split: sum.splits if_splits)
  then show ?thesis
    using runtime_draft_contract.failed_keeps runtime_draft_contract.stored_clean by auto
qed

lemma runtime_form_save_outcome_witness:
  "\<exists>s. reachable (form_start GRegistration) form_offered (form_move (t_for (js ''en''))) s \<and> form_dirty s \<and>
     \<not> form_dirty (form_move (t_for (js ''en'')) s (SaveSettles (Inr sample_settings)))"
proof -
  let ?t = "t_for (js ''en'')"
  have "\<exists>s. runs form_offered (form_move ?t) (form_start GRegistration) (butlast sample_run) = Some s \<and>
      form_offered s SubmitForm \<and> form_dirty s"
    by (simp add: sample_run_def form_start_def form_load_def form_loaded_def form_shown_def control_disabled_def
        is_rate_dependent_def sample_settings_def sample_runtime_def runtime_input.defs form_edit_def form_dirty_def
        runtime_draft_def)
  then obtain s where r: "reachable (form_start GRegistration) form_offered (form_move ?t) s"
    and o: "form_offered s SubmitForm" "form_dirty s" using runs_from_start by metis
  from runtime_form_save_outcome [OF r o(1)] r o(2) show ?thesis by blast
qed

end
