(* ===== verification/Draft_Guard.thy ===== *)
theory Draft_Guard
  imports Page_Model
begin

text \<open>
  \<open>web/src/components/settings/settings-draft-guard.tsx\<close>: one guard over all the forms of a
  settings page. Forms register whether they are dirty; while one is, a click on a link that
  would leave the page is held back and confirmed. A click is given by what the listener looks at;
  the parsed URL of its link is the platform's.
\<close>

record parsed_url =
  pu_protocol :: jstr
  pu_origin :: jstr
  pu_pathname :: jstr
  pu_search :: jstr
  pu_href :: jstr

record clicked_anchor =
  ca_download :: bool
  ca_target :: jstr
  ca_url :: "parsed_url option"

record mouse_click =
  mc_prevented :: bool
  mc_button :: int
  mc_modifier :: bool
  mc_anchor :: "clicked_anchor option"

record guard_state =
  gd_here :: parsed_url
  gd_dirty :: "jstr list"
  gd_has_dirty :: bool
  gd_pending :: "jstr option"
  gd_log :: "effect list"

definition register_dirty :: "jstr \<Rightarrow> bool \<Rightarrow> guard_state \<Rightarrow> guard_state" where
  "register_dirty i dirty s =
     (let forms = (if dirty then List.insert i (gd_dirty s) else removeAll i (gd_dirty s))
      in s\<lparr>gd_dirty := forms, gd_has_dirty := forms \<noteq> []\<rparr>)"

definition keep_editing :: "guard_state \<Rightarrow> guard_state" where
  "keep_editing s = s\<lparr>gd_pending := None\<rparr>"

definition unload_prevented :: "guard_state \<Rightarrow> bool" where
  \<comment> \<open>the listener is attached while \<open>hasDirty\<close>\<close>
  "unload_prevented s \<longleftrightarrow> gd_has_dirty s \<and> gd_dirty s \<noteq> []"

definition leaving :: "guard_state \<Rightarrow> mouse_click \<Rightarrow> jstr option" where
  \<comment> \<open>the destination \<open>followLink\<close> holds back; \<open>None\<close> is each of its early returns\<close>
  "leaving s c =
     (if gd_dirty s = [] \<or> mc_prevented c \<or> mc_button c \<noteq> 0 \<or> mc_modifier c then None
      else (case mc_anchor c of
              None \<Rightarrow> None
            | Some a \<Rightarrow>
                if ca_download a \<or> (ca_target a \<noteq> [] \<and> to_lower (ca_target a) \<noteq> js ''_self'') then None
                else (case ca_url a of
                        None \<Rightarrow> None
                      | Some u \<Rightarrow>
                          if pu_protocol u \<notin> {js ''http:'', js ''https:''} \<or> pu_origin u \<noteq> pu_origin (gd_here s) then None
                          else if pu_pathname u = pu_pathname (gd_here s) \<and> pu_search u = pu_search (gd_here s) then None
                          else Some (pu_href u))))"

definition follow_link :: "guard_state \<Rightarrow> mouse_click \<Rightarrow> guard_state \<times> bool" where
  \<comment> \<open>the state after the listener, and whether it stopped the click\<close>
  "follow_link s c =
     (if \<not> gd_has_dirty s then (s, False)
      else (case leaving s c of
              None \<Rightarrow> (s, False)
            | Some href \<Rightarrow>
                (s\<lparr>gd_pending := Some (case gd_pending s of None \<Rightarrow> href | Some current \<Rightarrow> current)\<rparr>, True)))"

definition discard_and_leave :: "guard_state \<Rightarrow> guard_state" where
  "discard_and_leave s =
     (case gd_pending s of
        None \<Rightarrow> s
      | Some [] \<Rightarrow> s
      | Some destination \<Rightarrow> s\<lparr>gd_pending := None, gd_log := gd_log s @ [Push destination]\<rparr>)"

datatype guard_event = RegisterDirty jstr bool | ClickLink mouse_click | KeepEditing | DiscardAndLeave

definition guard_start :: "parsed_url \<Rightarrow> guard_state" where
  "guard_start here = \<lparr>gd_here = here, gd_dirty = [], gd_has_dirty = False, gd_pending = None, gd_log = []\<rparr>"

fun guard_offered :: "guard_state \<Rightarrow> guard_event \<Rightarrow> bool" where
  "guard_offered s (RegisterDirty _ _) = True"
| "guard_offered s (ClickLink _) = True"
| "guard_offered s KeepEditing = (gd_pending s \<noteq> None)"
| "guard_offered s DiscardAndLeave = (gd_pending s \<noteq> None)"

fun guard_move :: "guard_state \<Rightarrow> guard_event \<Rightarrow> guard_state" where
  "guard_move s (RegisterDirty i d) = register_dirty i d s"
| "guard_move s (ClickLink c) = fst (follow_link s c)"
| "guard_move s KeepEditing = keep_editing s"
| "guard_move s DiscardAndLeave = discard_and_leave s"

section \<open>Invariant\<close>

fun only_pushes :: "effect \<Rightarrow> bool" where
  "only_pushes (Push _) = True"
| "only_pushes _ = False"

definition guard_inv :: "parsed_url \<Rightarrow> guard_state \<Rightarrow> bool" where
  "guard_inv here s \<longleftrightarrow>
     gd_here s = here \<and> distinct (gd_dirty s) \<and> (gd_has_dirty s \<longleftrightarrow> gd_dirty s \<noteq> [])"

lemma register_dirty_inv: "guard_inv here s \<Longrightarrow> guard_inv here (register_dirty i d s)"
  by (simp add: guard_inv_def register_dirty_def Let_def distinct_removeAll)

lemma follow_link_fields:
  "gd_here (fst (follow_link s c)) = gd_here s" "gd_dirty (fst (follow_link s c)) = gd_dirty s"
  "gd_has_dirty (fst (follow_link s c)) = gd_has_dirty s" "gd_log (fst (follow_link s c)) = gd_log s"
  by (simp_all add: follow_link_def split: option.splits)

lemma discard_fields:
  "gd_here (discard_and_leave s) = gd_here s" "gd_dirty (discard_and_leave s) = gd_dirty s"
  "gd_has_dirty (discard_and_leave s) = gd_has_dirty s"
  by (simp_all add: discard_and_leave_def split: option.splits list.splits)

interpretation guard: logging_page "guard_start here" guard_offered guard_move "guard_inv here" gd_log only_pushes for here
proof
  show "guard_inv here (guard_start here)" by (simp add: guard_inv_def guard_start_def)
  show "guard_inv here (guard_move s e)" if "guard_inv here s" for s e
    using that register_dirty_inv
    by (cases e) (simp_all add: guard_inv_def follow_link_fields discard_fields keep_editing_def)
  show "list_all only_pushes (gd_log (guard_start here))" by (simp add: guard_start_def)
  show "list_all only_pushes (gd_log (guard_move s e))" if "list_all only_pushes (gd_log s)" for s e
    using that
    by (cases e) (auto simp: follow_link_fields register_dirty_def Let_def keep_editing_def discard_and_leave_def
        split: option.splits list.splits)
qed

section \<open>Properties\<close>

definition leaves_page :: "parsed_url \<Rightarrow> mouse_click \<Rightarrow> jstr \<Rightarrow> bool" where
  \<comment> \<open>a plain click that would take the browser from \<open>here\<close> to another page of the console\<close>
  "leaves_page here c href \<longleftrightarrow>
     \<not> mc_prevented c \<and> mc_button c = 0 \<and> \<not> mc_modifier c \<and>
     (\<exists>a u. mc_anchor c = Some a \<and> \<not> ca_download a \<and> ca_target a \<in> {[], js ''_self''} \<and> ca_url a = Some u \<and>
        pu_protocol u \<in> {js ''http:'', js ''https:''} \<and> pu_origin u = pu_origin here \<and>
        (pu_pathname u \<noteq> pu_pathname here \<or> pu_search u \<noteq> pu_search here) \<and> href = pu_href u)"

definition sample_url :: "string \<Rightarrow> parsed_url" where
  "sample_url path = \<lparr>pu_protocol = js ''https:'', pu_origin = js ''https://a.example'', pu_pathname = js path,
     pu_search = [], pu_href = js (''https://a.example'' @ path)\<rparr>"

text \<open>The guard navigates only on confirmation, and forms are independent: a step pushes a
  route only when it is the confirmation of an open dialog, to the destination that was held
  back; and declaring one form clean leaves the page guarded while another is dirty.\<close>
lemma guard_pushes_only_confirmed:
  assumes "reachable (guard_start here) guard_offered guard_move s"
  shows "(gd_log (guard_move s e) = gd_log s \<or>
           (\<exists>d. e = DiscardAndLeave \<and> gd_pending s = Some d \<and> gd_log (guard_move s e) = gd_log s @ [Push d] \<and>
              gd_pending (guard_move s e) = None)) \<and>
         (j \<in> set (gd_dirty s) \<and> i \<noteq> j \<longrightarrow> unload_prevented (guard_move s (RegisterDirty i False)))"
proof
  show "gd_log (guard_move s e) = gd_log s \<or>
           (\<exists>d. e = DiscardAndLeave \<and> gd_pending s = Some d \<and> gd_log (guard_move s e) = gd_log s @ [Push d] \<and>
              gd_pending (guard_move s e) = None)"
    by (cases e) (auto simp: follow_link_fields register_dirty_def Let_def keep_editing_def discard_and_leave_def
        split: option.splits list.splits)
  show "j \<in> set (gd_dirty s) \<and> i \<noteq> j \<longrightarrow> unload_prevented (guard_move s (RegisterDirty i False))"
    using guard.reachable_inv [OF assms]
    by (auto simp: guard_inv_def unload_prevented_def register_dirty_def Let_def removeAll_filter_not_eq filter_empty_conv)
qed

lemma guard_pushes_only_confirmed_witness:
  "unload_prevented (guard_move (the (runs guard_offered guard_move (guard_start (sample_url ''/home/settings''))
     [RegisterDirty (js ''f'') True, RegisterDirty (js ''g'') True])) (RegisterDirty (js ''f'') False))"
proof -
  let ?es = "[RegisterDirty (js ''f'') True, RegisterDirty (js ''g'') True]"
  obtain s where s: "runs guard_offered guard_move (guard_start (sample_url ''/home/settings'')) ?es = Some s"
    and d: "js ''g'' \<in> set (gd_dirty s)"
    by (simp add: register_dirty_def Let_def guard_start_def)
  from guard_pushes_only_confirmed [OF runs_from_start [OF s], of undefined "js ''g''" "js ''f''"] d s
  show ?thesis by simp
qed

end
