(* ===== verification/Feedback.thy ===== *)
theory Feedback
  imports Page_Model
begin

text \<open>
  Toasts: the bounded queue (\<open>web/src/lib/feedback-queue.ts\<close>) and the provider that numbers them
  and takes them away when their time is up (\<open>components/toast-provider.tsx\<close>).
\<close>

section \<open>The queue\<close>

record feedback_toast =
  ft_id :: jstr
  ft_kind :: toast_kind
  ft_title :: jstr
  ft_description :: "jstr option"

definition add_toast :: "int \<Rightarrow> feedback_toast list \<Rightarrow> feedback_toast \<Rightarrow> feedback_toast list" where
  "add_toast limit state toast =
     take (nat (max 1 limit)) (toast # filter (\<lambda>item. ft_id item \<noteq> ft_id toast) state)"

definition remove_toast :: "feedback_toast list \<Rightarrow> jstr \<Rightarrow> feedback_toast list" where
  "remove_toast state i = filter (\<lambda>item. ft_id item \<noteq> i) state"

section \<open>The provider\<close>

record toast_options =
  to_kind :: toast_kind
  to_title :: jstr
  to_description :: "jstr option"
  to_duration :: "int option"

record toast_provider =
  tv_toasts :: "feedback_toast list"
  tv_timers :: "(jstr \<times> int) list"
  tv_sequence :: nat

definition default_duration :: int where "default_duration = 4200"

definition toast_id :: "nat \<Rightarrow> jstr" where
  "toast_id n = js ''toast-'' @ js_of_int (int n)"

definition dismiss :: "jstr \<Rightarrow> toast_provider \<Rightarrow> toast_provider" where
  "dismiss i s =
     s\<lparr>tv_toasts := remove_toast (tv_toasts s) i, tv_timers := AList.delete i (tv_timers s)\<rparr>"

definition show_toast :: "toast_options \<Rightarrow> toast_provider \<Rightarrow> toast_provider \<times> jstr" where
  "show_toast x s =
     (let i = toast_id (tv_sequence s);
          next_toast = \<lparr>ft_id = i, ft_kind = to_kind x, ft_title = to_title x, ft_description = to_description x\<rparr>
      in (s\<lparr>tv_sequence := Suc (tv_sequence s),
            tv_toasts := add_toast 3 (tv_toasts s) next_toast,
            tv_timers := (if to_duration x \<noteq> Some 0
                          then AList.update i (case to_duration x of None \<Rightarrow> default_duration | Some d \<Rightarrow> d) (tv_timers s)
                          else tv_timers s)\<rparr>, i))"

datatype toast_event = ShowToast toast_options | DismissToast jstr | TimerFires jstr

definition provider_start :: toast_provider where
  "provider_start = \<lparr>tv_toasts = [], tv_timers = [], tv_sequence = 0\<rparr>"

fun provider_offered :: "toast_provider \<Rightarrow> toast_event \<Rightarrow> bool" where
  "provider_offered s (ShowToast _) = True"
| "provider_offered s (DismissToast i) = (i \<in> ft_id ` set (tv_toasts s))"
| "provider_offered s (TimerFires i) = (i \<in> fst ` set (tv_timers s))"

fun provider_move :: "toast_provider \<Rightarrow> toast_event \<Rightarrow> toast_provider" where
  "provider_move s (ShowToast x) = fst (show_toast x s)"
| "provider_move s (DismissToast i) = dismiss i s"
| "provider_move s (TimerFires i) = dismiss i s"

section \<open>The contract of the queue\<close>

locale toast_queue =
  fixes add :: "'q \<Rightarrow> 't \<Rightarrow> 'q" and remove :: "'q \<Rightarrow> jstr \<Rightarrow> 'q" and items :: "'q \<Rightarrow> 't list"
    and ident :: "'t \<Rightarrow> jstr" and bound :: nat
  assumes add_newest: "items (add q x) \<noteq> [] \<and> hd (items (add q x)) = x"
    and add_others: "set (tl (items (add q x))) \<subseteq> {y \<in> set (items q). ident y \<noteq> ident x}"
    and add_distinct: "distinct (map ident (items q)) \<Longrightarrow> distinct (map ident (items (add q x)))"
    and add_bound: "length (items (add q x)) \<le> bound"
    and remove_items: "items (remove q i) = filter (\<lambda>y. ident y \<noteq> i) (items q)"
begin

definition well_kept :: "'q \<Rightarrow> bool" where
  "well_kept q \<longleftrightarrow> distinct (map ident (items q)) \<and> length (items q) \<le> bound"

lemma add_well_kept: "well_kept q \<Longrightarrow> well_kept (add q x)"
  using add_distinct add_bound by (auto simp: well_kept_def)

lemma remove_well_kept: "well_kept q \<Longrightarrow> well_kept (remove q i)"
  using order_trans [OF length_filter_le] by (auto simp: well_kept_def remove_items distinct_map_filter)

lemma added_then_removed: "ident x \<notin> ident ` set (items (remove (add q x) (ident x)))"
  by (auto simp: remove_items)

lemma ids_of_add: "ident ` set (items (add q x)) \<subseteq> insert (ident x) (ident ` set (items q))"
proof -
  have "items (add q x) = x # tl (items (add q x))"
    using add_newest [of q x] by (cases "items (add q x)") auto
  then have "set (items (add q x)) = insert x (set (tl (items (add q x))))" by (metis list.simps(15))
  then show ?thesis using add_others [of q x] by auto
qed

lemma ids_of_remove: "ident ` set (items (remove q i)) = ident ` set (items q) - {i}"
  by (auto simp: remove_items)

end

interpretation feedback: toast_queue "add_toast 3" remove_toast "\<lambda>q. q" ft_id 3
proof
  fix q x
  have three: "nat (max 1 3) = Suc 2" by simp
  show "add_toast 3 q x \<noteq> [] \<and> hd (add_toast 3 q x) = x" by (simp add: add_toast_def three)
  show "set (tl (add_toast 3 q x)) \<subseteq> {y \<in> set q. ft_id y \<noteq> ft_id x}"
    by (auto simp: add_toast_def three dest: in_set_takeD)
  show "distinct (map ft_id q) \<Longrightarrow> distinct (map ft_id (add_toast 3 q x))"
  proof -
    assume "distinct (map ft_id q)"
    then have "distinct (map ft_id (x # filter (\<lambda>item. ft_id item \<noteq> ft_id x) q))"
      by (auto simp: distinct_map_filter)
    then show ?thesis unfolding add_toast_def take_map [symmetric] by (rule distinct_take)
  qed
  show "length (add_toast 3 q x) \<le> 3" by (simp add: add_toast_def three)
  show "remove_toast q i = filter (\<lambda>y. ft_id y \<noteq> i) q" for i by (simp add: remove_toast_def)
qed

section \<open>The provider keeps the queue\<close>

lemma toast_id_inj: "toast_id m = toast_id n \<longleftrightarrow> m = n"
  by (auto simp: toast_id_def dest: js_of_int_inj)

lemma keys_update: "fst ` set (AList.update k v xs) = insert k (fst ` set xs)"
  by (simp add: dom_map_of_conv_image_fst [symmetric] update_conv')

lemma keys_delete: "fst ` set (AList.delete k xs) = fst ` set xs - {k}"
  by (auto simp: dom_map_of_conv_image_fst [symmetric] delete_conv' split: if_splits)

lemma distinct_delete_keys: "distinct (map fst xs) \<Longrightarrow> distinct (map fst (AList.delete k xs))"
  by (simp add: delete_keys distinct_removeAll)

definition provider_inv :: "toast_provider \<Rightarrow> bool" where
  "provider_inv s \<longleftrightarrow>
     feedback.well_kept (tv_toasts s) \<and> distinct (map fst (tv_timers s)) \<and>
     ft_id ` set (tv_toasts s) \<union> fst ` set (tv_timers s) \<subseteq> toast_id ` {..<tv_sequence s}"

lemma dismiss_inv: "provider_inv s \<Longrightarrow> provider_inv (dismiss i s)"
  using feedback.remove_well_kept [of "tv_toasts s" i] feedback.ids_of_remove [of "tv_toasts s" i]
    keys_delete [of i "tv_timers s"] distinct_delete_keys [of "tv_timers s" i]
  by (auto simp: provider_inv_def dismiss_def)

lemma show_toast_inv: "provider_inv s \<Longrightarrow> provider_inv (fst (show_toast x s))"
proof -
  assume inv: "provider_inv s"
  let ?t = "\<lparr>ft_id = toast_id (tv_sequence s), ft_kind = to_kind x, ft_title = to_title x, ft_description = to_description x\<rparr>"
  have "ft_id ` set (add_toast 3 (tv_toasts s) ?t) \<subseteq> toast_id ` {..<Suc (tv_sequence s)}"
    using feedback.ids_of_add [of "tv_toasts s" ?t] inv
    by (auto simp: provider_inv_def lessThan_Suc dest: subsetD)
  moreover have "feedback.well_kept (add_toast 3 (tv_toasts s) ?t)"
    using inv feedback.add_well_kept by (auto simp: provider_inv_def)
  moreover have "toast_id ` {..<tv_sequence s} \<subseteq> toast_id ` {..<Suc (tv_sequence s)}"
    "toast_id (tv_sequence s) \<in> toast_id ` {..<Suc (tv_sequence s)}" by auto
  ultimately show ?thesis
    using inv unfolding provider_inv_def show_toast_def Let_def
    by (auto simp del: image_insert lessThan_Suc simp: keys_update distinct_update)
qed

interpretation provider: react_page provider_start provider_offered provider_move provider_inv
proof
  show "provider_inv provider_start"
    by (simp add: provider_inv_def provider_start_def feedback.well_kept_def)
  show "provider_inv (provider_move s e)" if "provider_inv s" for s e
    using that dismiss_inv show_toast_inv by (cases e) simp_all
qed

section \<open>Properties\<close>

text \<open>However toasts are shown, dismissed and time out, at most three are visible, no two
  share an id, the next one gets an id that no visible toast and no running timer has, and it is
  shown first, with the most recent ones before it kept behind it.\<close>
lemma toasts_bounded_and_fresh:
  assumes "reachable provider_start provider_offered provider_move s"
  shows "length (tv_toasts s) \<le> 3 \<and> distinct (map ft_id (tv_toasts s)) \<and>
    snd (show_toast x s) \<notin> ft_id ` set (tv_toasts s) \<union> fst ` set (tv_timers s) \<and>
    map ft_id (tv_toasts (fst (show_toast x s))) = snd (show_toast x s) # map ft_id (take 2 (tv_toasts s))"
proof -
  have inv: "provider_inv s" using provider.reachable_inv [OF assms] .
  then have fresh: "toast_id (tv_sequence s) \<notin> ft_id ` set (tv_toasts s) \<union> fst ` set (tv_timers s)"
    by (auto simp: provider_inv_def toast_id_inj dest!: subsetD)
  then have "filter (\<lambda>item. ft_id item \<noteq> toast_id (tv_sequence s)) (tv_toasts s) = tv_toasts s"
    unfolding filter_id_conv by (metis UnI1 imageI)
  then have "map ft_id (tv_toasts (fst (show_toast x s))) = snd (show_toast x s) # map ft_id (take 2 (tv_toasts s))"
    by (simp add: show_toast_def Let_def add_toast_def numeral_3_eq_3 numeral_2_eq_2)
  with inv fresh show ?thesis
    by (simp add: provider_inv_def feedback.well_kept_def show_toast_def Let_def)
qed

lemma toasts_bounded_and_fresh_witness:
  "let x = \<lparr>to_kind = ToastInfo, to_title = js ''t'', to_description = None, to_duration = None\<rparr> in
   length (tv_toasts (the (runs provider_offered provider_move provider_start
     [ShowToast x, ShowToast x, ShowToast x, ShowToast x, TimerFires (toast_id 2)]))) \<le> 3"
proof -
  let ?x = "\<lparr>to_kind = ToastInfo, to_title = js ''t'', to_description = None, to_duration = None\<rparr>"
  let ?es = "[ShowToast ?x, ShowToast ?x, ShowToast ?x, ShowToast ?x, TimerFires (toast_id 2)]"
  have "\<exists>s. runs provider_offered provider_move provider_start ?es = Some s"
    by (simp add: show_toast_def provider_start_def toast_id_inj Let_def numeral_2_eq_2)
  then obtain s where s: "runs provider_offered provider_move provider_start ?es = Some s" by blast
  from toasts_bounded_and_fresh [OF runs_from_start [OF s]] s show ?thesis by simp
qed

end
