(* ===== verification/Pager.thy ===== *)
theory Pager
  imports Page_Model
begin

text \<open>
  What the paged tables of the console share (the link list, the audit log, the click log): the
  arithmetic of pages and ranges, and the rule that an empty answer beyond the first page steps
  back by one and asks again.
\<close>

datatype rare_tone = ToneNeutral | ToneSuccess | ToneWarning | ToneDanger

lemma list_all_remove1: "list_all P xs \<Longrightarrow> list_all P (remove1 x xs)"
  by (auto simp: list_all_iff dest: notin_set_remove1)

section \<open>Pages and ranges\<close>

definition ceil_div :: "int \<Rightarrow> int \<Rightarrow> int" where
  "ceil_div n k = - ((- n) div k)"

definition page_count :: "int \<Rightarrow> int \<Rightarrow> int" where
  \<comment> \<open>\<open>Math.max(1, Math.ceil(tot / PAGE_SIZE))\<close>\<close>
  "page_count page_size tot = max 1 (ceil_div tot page_size)"

definition range_start :: "int \<Rightarrow> int \<Rightarrow> int \<Rightarrow> int" where
  "range_start page_size tot page = (if tot = 0 then 0 else page * page_size + 1)"

definition range_end :: "int \<Rightarrow> int \<Rightarrow> int \<Rightarrow> nat \<Rightarrow> int" where
  "range_end page_size tot page shown = min tot (page * page_size + int shown)"

definition previous_offered :: "int \<Rightarrow> bool \<Rightarrow> bool" where
  "previous_offered page loading \<longleftrightarrow> \<not> (page = 0 \<or> loading)"

definition next_offered :: "int \<Rightarrow> int \<Rightarrow> int \<Rightarrow> bool \<Rightarrow> bool" where
  "next_offered page_size tot page loading \<longleftrightarrow> \<not> (page + 1 \<ge> page_count page_size tot \<or> loading)"

definition previous_page :: "int \<Rightarrow> int" where
  "previous_page page = max 0 (page - 1)"

lemma ceil_div_less:
  assumes "(0::int) < k"
  shows "m < ceil_div n k \<longleftrightarrow> m * k < n"
proof -
  define q where "q = (- n) div k"
  have r: "- n = q * k + (- n) mod k" "0 \<le> (- n) mod k" "(- n) mod k < k"
    using assms by (simp_all add: q_def)
  have "q * k + k \<le> (- m) * k" if "q < - m"
    using that assms mult_right_mono [of "q + 1" "- m" k] by (simp add: distrib_right)
  moreover have "(- m) * k \<le> q * k" if "\<not> q < - m"
    using that assms mult_right_mono [of "- m" q k] by simp
  ultimately have "q < - m \<longleftrightarrow> m * k < n" using r by (cases "q < - m") auto
  then show ?thesis by (auto simp: ceil_div_def q_def)
qed

lemma next_offered_more:
  assumes "0 < k" "0 \<le> page" "next_offered k tot page loading"
  shows "(page + 1) * k < tot"
proof -
  have "\<not> max 1 (ceil_div tot k) \<le> page + 1" using assms(3) by (simp add: next_offered_def page_count_def)
  with assms(2) have "page + 1 < ceil_div tot k" by (cases "ceil_div tot k \<le> 1") auto
  then show ?thesis using ceil_div_less [OF assms(1)] by blast
qed

text \<open>Whatever can be paged to exists: the range shown for a page lies within the total.\<close>

lemma range_bounds:
  assumes "0 < k" "0 \<le> page" "page * k < tot" "int shown \<le> k" "0 < shown"
  shows "1 \<le> range_start k tot page" "range_start k tot page \<le> range_end k tot page shown"
    "range_end k tot page shown \<le> tot"
proof -
  have "0 \<le> page * k" using assms(1,2) by (simp add: zero_le_mult_iff)
  moreover from this have "tot \<noteq> 0" using assms(3) by linarith
  ultimately show "1 \<le> range_start k tot page" "range_start k tot page \<le> range_end k tot page shown"
    "range_end k tot page shown \<le> tot"
    using assms(3-5) unfolding range_start_def range_end_def min_def by (simp_all split: if_split)
qed

section \<open>Stepping back\<close>

locale stepping_back =
  fixes page :: "'s \<Rightarrow> int" and waiting :: "'s \<Rightarrow> bool" and empty_answer :: "'s \<Rightarrow> 's" and settled :: "'s \<Rightarrow> bool"
  assumes page_range: "settled s \<Longrightarrow> waiting s \<Longrightarrow> 0 \<le> page s"
    and step_back: "\<lbrakk>settled s; waiting s; 0 < page s\<rbrakk> \<Longrightarrow>
        settled (empty_answer s) \<and> waiting (empty_answer s) \<and> page (empty_answer s) = page s - 1"
    and first_page: "\<lbrakk>settled s; waiting s; page s = 0\<rbrakk> \<Longrightarrow>
        settled (empty_answer s) \<and> \<not> waiting (empty_answer s) \<and> page (empty_answer s) = 0"
begin

lemma comes_to_rest:
  assumes "settled s" "waiting s"
  shows "\<not> waiting ((empty_answer ^^ (nat (page s) + 1)) s) \<and> page ((empty_answer ^^ (nat (page s) + 1)) s) = 0"
  using assms
proof (induction "nat (page s)" arbitrary: s)
  case 0
  then have "page s = 0" using page_range by fastforce
  with first_page [OF 0(2,3)] show ?case by simp
next
  case (Suc n)
  then have p: "0 < page s" by simp
  note b = step_back [OF Suc(3,4) p]
  then have n: "n = nat (page (empty_answer s))" using Suc(2) by simp
  from Suc(1) [OF n] b have "\<not> waiting ((empty_answer ^^ (n + 1)) (empty_answer s)) \<and>
      page ((empty_answer ^^ (n + 1)) (empty_answer s)) = 0" using n by simp
  then show ?case using Suc(2) [symmetric] by (simp add: funpow_swap1)
qed

lemma waits_until_first:
  assumes "settled s" "waiting s" "int k \<le> page s"
  shows "waiting ((empty_answer ^^ k) s) \<and> page ((empty_answer ^^ k) s) = page s - int k \<and> settled ((empty_answer ^^ k) s)"
  using assms
proof (induction k)
  case (Suc k)
  then have "waiting ((empty_answer ^^ k) s)" "page ((empty_answer ^^ k) s) = page s - int k" "settled ((empty_answer ^^ k) s)"
    "0 < page s - int k" by auto
  with step_back [of "(empty_answer ^^ k) s"] show ?case by simp
qed simp

end

end
