(* ===== verification/Audit_Page.thy ===== *)
theory Audit_Page
  imports Pager Text_Tools
begin

text \<open>
  \<open>web/src/app/home/audit/page.tsx\<close>: the audit log. Its list is loaded whenever the page or the
  filter changes; the loads in flight are kept in the state with the query each was made for.
\<close>

section \<open>What a row shows\<close>

definition audit_page_size :: int where "audit_page_size = 20"

definition action_labels :: "string list" where
  "action_labels =
     [''link.create'', ''link.update'', ''link.delete'', ''link.import'', ''link.bulk'', ''token.create'', ''token.revoke'',
      ''session.login'', ''session.2fa'', ''session.logout'', ''user.register'', ''user.update'', ''user.2fa_enroll'',
      ''user.2fa_disable'', ''user.2fa_reset'', ''role.update'', ''oidc.create'', ''oidc.update'', ''oidc.delete'',
      ''analytics.update'', ''captcha.update'', ''runtime_settings.update'']"

definition action_label :: "translator \<Rightarrow> jstr \<Rightarrow> jstr" where
  "action_label t action =
     (let key = js ''audit.action.'' @ action in if has_message key then t key None else action)"

definition ends_with :: "jstr \<Rightarrow> string \<Rightarrow> bool" where
  "ends_with s w \<longleftrightarrow> suffix (js w) s"

definition action_tone :: "jstr \<Rightarrow> rare_tone" where
  "action_tone action =
     (if ends_with action ''.delete'' \<or> ends_with action ''.revoke'' \<or> action = js ''session.logout'' then ToneDanger
      else if ends_with action ''.create'' \<or> action = js ''session.login'' then ToneSuccess
      else ToneNeutral)"

definition describe_entry :: "(json \<Rightarrow> jstr) \<Rightarrow> audit_entry \<Rightarrow> jstr" where
  \<comment> \<open>the argument is \<open>String(value)\<close>\<close>
  "describe_entry show_value entry =
     (let metadata = (case ae_metadata entry of None \<Rightarrow> [] | Some m \<Rightarrow> m) in
      join [32, 183, 32]
        (map (\<lambda>(k, v). k @ js '': '' @ show_value v)
           (filter (\<lambda>(k, v). v \<noteq> JText [] \<and> v \<noteq> JNull) metadata)))"

section \<open>State and handlers\<close>

record audit_state =
  at_entries :: "audit_entry list"
  at_total :: int
  at_page :: int
  at_action :: jstr
  at_error :: jstr
  at_loading :: bool
  at_inflight :: "(jstr \<times> int) list"
  at_log :: "effect list"

definition audit_load :: "audit_state \<Rightarrow> audit_state" where
  "audit_load s =
     s\<lparr>at_loading := True, at_inflight := at_inflight s @ [(at_action s, at_page s)],
       at_log := at_log s @
         [Call (ListAudit (if at_action s = [] then None else Some (at_action s)) (Some audit_page_size)
                  (Some (at_page s * audit_page_size)))]\<rparr>"

definition audit_reload :: "audit_state \<Rightarrow> audit_state \<Rightarrow> audit_state" where
  \<comment> \<open>the effect on \<open>load\<close>, which changes with the page and the filter\<close>
  "audit_reload old s =
     (if (at_action s, at_page s) \<noteq> (at_action old, at_page old) then audit_load s else s)"

definition audit_loaded :: "jstr \<times> int \<Rightarrow> audit_page \<Rightarrow> audit_state \<Rightarrow> audit_state" where
  \<comment> \<open>after the \<open>await\<close> of a load made for the query \<open>q\<close>\<close>
  "audit_loaded q result s =
     (let records = (case ap_entries result of None \<Rightarrow> [] | Some es \<Rightarrow> es);
          s1 = s\<lparr>at_loading := False, at_inflight := remove1 q (at_inflight s)\<rparr>
      in if records = [] \<and> 0 < snd q then s1\<lparr>at_page := previous_page (at_page s)\<rparr>
         else s1\<lparr>at_entries := records, at_total := (case ap_total result of None \<Rightarrow> 0 | Some n \<Rightarrow> n), at_error := []\<rparr>)"

definition audit_failed :: "translator \<Rightarrow> jstr \<times> int \<Rightarrow> exn \<Rightarrow> audit_state \<Rightarrow> audit_state" where
  "audit_failed t q e s =
     s\<lparr>at_error := error_text t e ''audit.loadFailed'' [], at_loading := False, at_inflight := remove1 q (at_inflight s)\<rparr>"

datatype audit_event =
    PickAction jstr | AuditRetry | AuditPrevious | AuditNext
  | AuditSettles "jstr \<times> int" "audit_page promise"

fun audit_offered :: "audit_state \<Rightarrow> audit_event \<Rightarrow> bool" where
  "audit_offered s (PickAction a) \<longleftrightarrow> a = [] \<or> a \<in> set (map js action_labels)"
| "audit_offered s AuditRetry \<longleftrightarrow> at_error s \<noteq> []"
| "audit_offered s AuditPrevious \<longleftrightarrow> previous_offered (at_page s) (at_loading s)"
| "audit_offered s AuditNext \<longleftrightarrow> next_offered audit_page_size (at_total s) (at_page s) (at_loading s)"
| "audit_offered s (AuditSettles q _) \<longleftrightarrow> q \<in> set (at_inflight s)"

fun audit_handle :: "translator \<Rightarrow> audit_state \<Rightarrow> audit_event \<Rightarrow> audit_state" where
  "audit_handle t s (PickAction a) = s\<lparr>at_action := a, at_page := 0\<rparr>"
| "audit_handle t s AuditRetry = audit_load s"
| "audit_handle t s AuditPrevious = s\<lparr>at_page := previous_page (at_page s)\<rparr>"
| "audit_handle t s AuditNext = s\<lparr>at_page := at_page s + 1\<rparr>"
| "audit_handle t s (AuditSettles q (Inr r)) = audit_loaded q r s"
| "audit_handle t s (AuditSettles q (Inl e)) = audit_failed t q e s"

definition audit_move :: "translator \<Rightarrow> audit_state \<Rightarrow> audit_event \<Rightarrow> audit_state" where
  \<comment> \<open>a handler and the effect its updates cause\<close>
  "audit_move t s e = audit_reload s (audit_handle t s e)"

definition audit_start :: audit_state where
  "audit_start =
     audit_load \<lparr>at_entries = [], at_total = 0, at_page = 0, at_action = [], at_error = [], at_loading = True,
                 at_inflight = [], at_log = []\<rparr>"

section \<open>Invariant\<close>

definition audit_query_ok :: "jstr \<times> int \<Rightarrow> bool" where
  "audit_query_ok q \<longleftrightarrow> 0 \<le> snd q \<and> (fst q = [] \<or> fst q \<in> set (map js action_labels))"

definition audit_inv :: "audit_state \<Rightarrow> bool" where
  "audit_inv s \<longleftrightarrow> audit_query_ok (at_action s, at_page s) \<and> list_all audit_query_ok (at_inflight s)"

fun audit_request :: "effect \<Rightarrow> bool" where
  \<comment> \<open>one page of the log, aligned, for a known action or all\<close>
  "audit_request (Call (ListAudit a (Some n) (Some offset))) \<longleftrightarrow>
     n = audit_page_size \<and> 0 \<le> offset \<and> offset mod audit_page_size = 0 \<and>
     (case a of None \<Rightarrow> True | Some a \<Rightarrow> a \<in> set (map js action_labels))"
| "audit_request _ \<longleftrightarrow> False"

lemma audit_load_inv: "audit_inv s \<Longrightarrow> audit_inv (audit_load s)"
  by (simp add: audit_inv_def audit_load_def)

lemma audit_load_log:
  "audit_inv s \<Longrightarrow> list_all audit_request (at_log s) \<Longrightarrow> list_all audit_request (at_log (audit_load s))"
  by (auto simp: audit_inv_def audit_query_ok_def audit_load_def audit_page_size_def)

lemma audit_handle_inv:
  assumes "audit_inv s" "audit_offered s e"
  shows "audit_inv (audit_handle t s e)"
  using assms
  by (cases "(t, s, e)" rule: audit_handle.cases)
    (auto simp: audit_inv_def audit_query_ok_def audit_load_def audit_loaded_def audit_failed_def Let_def
      previous_page_def list_all_remove1)

lemma audit_handle_log:
  assumes "audit_inv s" "list_all audit_request (at_log s)"
  shows "list_all audit_request (at_log (audit_handle t s e))"
  using assms audit_load_log
  by (cases "(t, s, e)" rule: audit_handle.cases) (auto simp: audit_loaded_def audit_failed_def Let_def)

interpretation audit: logging_page audit_start audit_offered "audit_move t" audit_inv at_log audit_request for t
proof
  show "audit_inv audit_start"
    by (simp add: audit_start_def audit_inv_def audit_query_ok_def audit_load_def)
  show "audit_inv (audit_move t s e)" if "audit_inv s" "audit_offered s e" for s e
    using audit_handle_inv [OF that] audit_load_inv by (simp add: audit_move_def audit_reload_def)
  show "list_all audit_request (at_log audit_start)"
    by (simp add: audit_start_def audit_load_def audit_page_size_def)
  show "list_all audit_request (at_log (audit_move t s e))"
    if "audit_inv s" "audit_offered s e" "list_all audit_request (at_log s)" for s e
    using audit_handle_inv [OF that(1,2)] audit_handle_log [OF that(1,3)] audit_load_log
    by (simp add: audit_move_def audit_reload_def)
qed

section \<open>Stepping back\<close>

definition no_entries :: audit_page where
  "no_entries = \<lparr>ap_entries = None, ap_total = Some 0, ap_limit = 20, ap_offset = 0\<rparr>"

definition audit_empty_answer :: "translator \<Rightarrow> audit_state \<Rightarrow> audit_state" where
  \<comment> \<open>the load in flight answers that there is nothing at its offset\<close>
  "audit_empty_answer t s = audit_move t s (AuditSettles (hd (at_inflight s)) (Inr no_entries))"

definition audit_single :: "audit_state \<Rightarrow> bool" where
  "audit_single s \<longleftrightarrow> audit_inv s \<and> (at_inflight s = [] \<or> at_inflight s = [(at_action s, at_page s)])"

interpretation audit_back: stepping_back at_page "\<lambda>s. at_inflight s \<noteq> []" "audit_empty_answer t" audit_single for t
  by unfold_locales
    (auto simp: audit_single_def audit_inv_def audit_query_ok_def audit_empty_answer_def audit_move_def audit_reload_def
      audit_loaded_def no_entries_def audit_load_def previous_page_def Let_def)

section \<open>Properties\<close>

text \<open>The audit page asks only for whole pages: in any run every request is for one page of
  twenty entries at an aligned, non-negative offset, for a known action or for all; and paging
  forward is offered only when there is a further entry to show.\<close>
lemma audit_requests_aligned:
  assumes "reachable audit_start audit_offered (audit_move t) s"
  shows "list_all audit_request (at_log s) \<and>
    (audit_offered s AuditNext \<longrightarrow> (at_page s + 1) * audit_page_size < at_total s)"
proof -
  have "0 \<le> at_page s" using audit.reachable_inv [OF assms] by (simp add: audit_inv_def audit_query_ok_def)
  then show ?thesis
    using audit.reachable_log [OF assms] next_offered_more [of audit_page_size "at_page s"]
    by (auto simp: audit_page_size_def)
qed

lemma audit_requests_aligned_witness:
  "\<exists>s. runs audit_offered (audit_move (t_for (js ''en''))) audit_start [PickAction (js ''link.create'')] = Some s \<and>
     list_all audit_request (at_log s)"
proof -
  have "\<exists>s. runs audit_offered (audit_move (t_for (js ''en''))) audit_start [PickAction (js ''link.create'')] = Some s"
    by (simp add: action_labels_def)
  then obtain s where s: "runs audit_offered (audit_move (t_for (js ''en''))) audit_start [PickAction (js ''link.create'')] = Some s"
    by blast
  with audit_requests_aligned [OF runs_from_start [OF s]] show ?thesis by blast
qed

text \<open>C37 Stepping back ends: from page \<open>p\<close> with one load in flight, answers that find nothing are
  asked again for the page before, once for each page, and after exactly \<open>p + 1\<close> of them the
  first page is shown and nothing is in flight.\<close>
theorem audit_step_back_terminates:
  assumes "audit_single s" and "at_inflight s \<noteq> []"
  shows "at_inflight ((audit_empty_answer t ^^ (nat (at_page s) + 1)) s) = [] \<and>
    at_page ((audit_empty_answer t ^^ (nat (at_page s) + 1)) s) = 0 \<and>
    (k \<le> nat (at_page s) \<longrightarrow> at_inflight ((audit_empty_answer t ^^ k) s) \<noteq> [])"
proof -
  have "0 \<le> at_page s" using assms audit_back.page_range by blast
  then show ?thesis
    using audit_back.comes_to_rest [OF assms] audit_back.waits_until_first [OF assms, of k] by auto
qed

theorem audit_step_back_terminates_witness:
  "at_inflight ((audit_empty_answer (t_for (js ''en'')) ^^ 3) (audit_load
     \<lparr>at_entries = [], at_total = 41, at_page = 2, at_action = [], at_error = [], at_loading = True,
      at_inflight = [], at_log = []\<rparr>)) = []"
proof -
  let ?s = "audit_load \<lparr>at_entries = [], at_total = 41, at_page = 2, at_action = [], at_error = [], at_loading = True,
      at_inflight = [], at_log = []\<rparr>"
  have "audit_single ?s" "at_inflight ?s \<noteq> []" "at_page ?s = 2"
    by (simp_all add: audit_single_def audit_inv_def audit_query_ok_def audit_load_def)
  with audit_step_back_terminates [of ?s "t_for (js ''en'')"] show ?thesis by (simp add: numeral_3_eq_3 numeral_2_eq_2)
qed

end
