(* ===== verification/Buttons.thy ===== *)
theory Buttons
  imports Page_Model
begin

text \<open>
  The two buttons of the link table that keep a state of their own:
  \<open>web/src/components/ui/rare/delete-button.tsx\<close>, which asks before it runs its action, and
  \<open>web/src/components/copy-link-button.tsx\<close>, which shows for a moment whether copying worked.
  Focus handling and animation are left out.
\<close>

section \<open>The delete button\<close>

record delete_button =
  db_open :: bool
  db_busy :: bool
  db_failed :: bool
  db_running :: nat \<comment> \<open>calls of \<open>onConfirm\<close> not settled yet\<close>

datatype delete_event =
    PressTrigger | PressConfirm | PressCancel | PressEscape
  | ActionSettles "unit promise"

definition delete_close :: "delete_button \<Rightarrow> delete_button" where
  "delete_close s = s\<lparr>db_open := False, db_failed := False\<rparr>"

definition delete_confirm :: "delete_button \<Rightarrow> delete_button" where
  \<comment> \<open>\<open>confirm\<close> up to its \<open>await\<close>\<close>
  "delete_confirm s = s\<lparr>db_busy := True, db_failed := False, db_running := db_running s + 1\<rparr>"

definition delete_settled :: "unit promise \<Rightarrow> delete_button \<Rightarrow> delete_button" where
  "delete_settled r s =
     (case r of Inr _ \<Rightarrow> s\<lparr>db_open := False, db_busy := False, db_running := db_running s - 1\<rparr>
              | Inl _ \<Rightarrow> s\<lparr>db_failed := True, db_busy := False, db_running := db_running s - 1\<rparr>)"

fun delete_offered :: "bool \<Rightarrow> delete_button \<Rightarrow> delete_event \<Rightarrow> bool" where
  \<comment> \<open>\<open>disabled\<close> closes the trigger only\<close>
  "delete_offered disabled s PressTrigger \<longleftrightarrow> \<not> db_open s \<and> \<not> disabled"
| "delete_offered disabled s PressConfirm \<longleftrightarrow> db_open s \<and> \<not> db_busy s"
| "delete_offered disabled s PressCancel \<longleftrightarrow> db_open s \<and> \<not> db_busy s"
| "delete_offered disabled s PressEscape \<longleftrightarrow> db_open s"
| "delete_offered disabled s (ActionSettles _) \<longleftrightarrow> 0 < db_running s"

fun delete_move :: "delete_button \<Rightarrow> delete_event \<Rightarrow> delete_button" where
  "delete_move s PressTrigger = s\<lparr>db_open := True\<rparr>"
| "delete_move s PressConfirm = delete_confirm s"
| "delete_move s PressCancel = delete_close s"
| "delete_move s PressEscape = delete_close s"
| "delete_move s (ActionSettles r) = delete_settled r s"

definition delete_start :: delete_button where
  "delete_start = \<lparr>db_open = False, db_busy = False, db_failed = False, db_running = 0\<rparr>"

definition delete_inv :: "delete_button \<Rightarrow> bool" where
  "delete_inv s \<longleftrightarrow> db_running s = (if db_busy s then 1 else 0)"

lemmas delete_handlers = delete_close_def delete_confirm_def delete_settled_def

interpretation delete: react_page delete_start "delete_offered disabled" delete_move delete_inv for disabled
proof
  show "delete_inv delete_start" by (simp add: delete_start_def delete_inv_def)
  show "delete_inv (delete_move s e)" if "delete_inv s" "delete_offered disabled s e" for s e
    using that by (cases e) (auto simp: delete_inv_def delete_handlers split: sum.splits if_splits)
qed

section \<open>The copy button\<close>

datatype copy_status = CopyIdle | CopyDone | CopyError

record copy_button =
  cb_value :: jstr
  cb_status :: copy_status
  cb_timer :: bool
  cb_pending :: nat
  cb_log :: "effect list"

definition copy_finished :: "translator \<Rightarrow> bool \<Rightarrow> copy_button \<Rightarrow> copy_button" where
  \<comment> \<open>after the write to the clipboard, or its fallback, succeeded or threw\<close>
  "copy_finished t ok s =
     s\<lparr>cb_status := (if ok then CopyDone else CopyError), cb_timer := True,
       cb_log := cb_log s @ [if ok then Toast ToastSuccess (tr t ''links.copied'') []
                             else Toast ToastError (tr t ''links.copyFailed'') []]\<rparr>"

datatype copy_event =
    PressCopy "bool option" \<comment> \<open>\<open>None\<close>: the clipboard takes writes; else what \<open>execCommand\<close> answers\<close>
  | CopySettles bool
  | CopyTimer

fun copy_offered :: "copy_button \<Rightarrow> copy_event \<Rightarrow> bool" where
  "copy_offered s (PressCopy _) \<longleftrightarrow> True"
| "copy_offered s (CopySettles _) \<longleftrightarrow> 0 < cb_pending s"
| "copy_offered s CopyTimer \<longleftrightarrow> cb_timer s"

fun copy_move :: "translator \<Rightarrow> copy_button \<Rightarrow> copy_event \<Rightarrow> copy_button" where
  "copy_move t s (PressCopy None) = s\<lparr>cb_pending := cb_pending s + 1\<rparr>"
| "copy_move t s (PressCopy (Some ok)) = copy_finished t ok s"
| "copy_move t s (CopySettles ok) = copy_finished t ok (s\<lparr>cb_pending := cb_pending s - 1\<rparr>)"
| "copy_move t s CopyTimer = s\<lparr>cb_status := CopyIdle, cb_timer := False\<rparr>"

definition copy_label :: "translator \<Rightarrow> copy_button \<Rightarrow> jstr" where
  "copy_label t s =
     (case cb_status s of
        CopyDone \<Rightarrow> tr t ''links.copied'' | CopyError \<Rightarrow> tr t ''links.copyFailed'' | CopyIdle \<Rightarrow> tr t ''links.copy'')"

definition copy_start :: "jstr \<Rightarrow> copy_button" where
  "copy_start v = \<lparr>cb_value = v, cb_status = CopyIdle, cb_timer = False, cb_pending = 0, cb_log = []\<rparr>"

definition copy_inv :: "copy_button \<Rightarrow> bool" where
  \<comment> \<open>a shown outcome is about to be reset\<close>
  "copy_inv s \<longleftrightarrow> (cb_status s \<noteq> CopyIdle \<longrightarrow> cb_timer s)"

interpretation copy: react_page "copy_start v" copy_offered "copy_move t" copy_inv for v t
proof
  show "copy_inv (copy_start v)" by (simp add: copy_start_def copy_inv_def)
  show "copy_inv (copy_move t s e)" if "copy_inv s" "copy_offered s e" for s e
    using that by (cases "(t, s, e)" rule: copy_move.cases) (auto simp: copy_inv_def copy_finished_def)
qed

lemma copy_label_resets:
  "reachable (copy_start v) copy_offered (copy_move t) s \<Longrightarrow>
   copy_label t s = tr t ''links.copy'' \<or> copy_offered s CopyTimer \<and> copy_label t (copy_move t s CopyTimer) = tr t ''links.copy''"
  using copy.reachable_inv [of v t s] by (auto simp: copy_label_def copy_inv_def)

section \<open>Property\<close>

text \<open>C23 A delete button runs its action only from an open confirmation and never twice at once: in
  any run it is busy exactly while one call of the action is unsettled, and confirming is offered
  only when none is. A failed action leaves an open confirmation open, with the alert, and offers
  the retry; a successful one closes it; dismissing it clears the alert.\<close>
theorem delete_button_one_action:
  assumes "reachable delete_start (delete_offered disabled) delete_move s"
  shows "db_running s \<le> 1 \<and> (db_busy s \<longleftrightarrow> db_running s = 1) \<and>
    (delete_offered disabled s PressConfirm \<longrightarrow> db_open s \<and> db_running s = 0) \<and>
    (db_open s \<and> 0 < db_running s \<longrightarrow>
       (let f = delete_move s (ActionSettles (Inl e)) in
        db_open f \<and> db_failed f \<and> delete_offered disabled f PressConfirm) \<and>
       \<not> db_open (delete_move s (ActionSettles (Inr ())))) \<and>
    \<not> db_failed (delete_move s PressEscape)"
  using delete.reachable_inv [OF assms] by (auto simp: delete_inv_def delete_handlers Let_def)

theorem delete_button_one_action_witness:
  "db_failed (foldl delete_move delete_start [PressTrigger, PressConfirm, ActionSettles (Inl Thrown)]) \<and>
   delete_offered False (foldl delete_move delete_start [PressTrigger, PressConfirm, ActionSettles (Inl Thrown)]) PressConfirm"
proof -
  have "reachable delete_start (delete_offered False) delete_move (foldl delete_move delete_start [PressTrigger, PressConfirm])"
    by (rule runs_from_start [of _ _ _ "[PressTrigger, PressConfirm]"]) (simp add: delete_start_def delete_handlers)
  from delete_button_one_action [OF this, of Thrown] show ?thesis
    by (simp add: delete_start_def delete_handlers Let_def)
qed

end
