(* ===== verification/Settling.thy ===== *)
theory Settling
  imports Page_Model
begin

text \<open>
  When a page comes to rest. Some events settle work in flight; each of them uses up some of the
  work the page has left, so without further input a page handles only so many of them.
\<close>

locale settling_page =
  fixes offered :: "'s \<Rightarrow> 'e \<Rightarrow> bool" and move :: "'s \<Rightarrow> 'e \<Rightarrow> 's" and inv :: "'s \<Rightarrow> bool"
    and settles :: "'e \<Rightarrow> bool" and work :: "'s \<Rightarrow> nat" and quiet :: "'s \<Rightarrow> bool"
  assumes inv_kept: "inv s \<Longrightarrow> offered s e \<Longrightarrow> inv (move s e)"
    and work_used: "inv s \<Longrightarrow> offered s e \<Longrightarrow> settles e \<Longrightarrow> work (move s e) < work s"
    and work_left: "inv s \<Longrightarrow> \<not> quiet s \<Longrightarrow> \<exists>e. settles e \<and> offered s e"
begin

lemma settling_ends:
  "inv s \<Longrightarrow> list_all settles es \<Longrightarrow> runs offered move s es = Some s' \<Longrightarrow> length es + work s' \<le> work s \<and> inv s'"
proof (induction es arbitrary: s)
  case (Cons e es)
  then have o: "offered s e" and r: "runs offered move (move s e) es = Some s'" by (auto split: if_splits)
  have "length es + work s' \<le> work (move s e) \<and> inv s'"
    using Cons(1) [OF inv_kept [OF Cons(2) o]] Cons(3) r by simp
  then show ?case using work_used [OF Cons(2) o] Cons(3) by simp
qed simp

lemma comes_to_quiet: "inv s \<Longrightarrow> \<exists>es s'. list_all settles es \<and> runs offered move s es = Some s' \<and> quiet s'"
proof (induction "work s" arbitrary: s rule: less_induct)
  case less
  show ?case
  proof (cases "quiet s")
    case True
    then have "list_all settles [] \<and> runs offered move s [] = Some s \<and> quiet s" by simp
    then show ?thesis by blast
  next
    case False
    then obtain e where e: "settles e" "offered s e" using work_left less(2) by blast
    then obtain es s' where "list_all settles es" "runs offered move (move s e) es = Some s'" "quiet s'"
      using less(1) [OF work_used inv_kept] less(2) by blast
    with e have "list_all settles (e # es) \<and> runs offered move s (e # es) = Some s' \<and> quiet s'" by simp
    then show ?thesis by blast
  qed
qed

end

end
