(* ===== verification/Js_Date.thy ===== *)
theory Js_Date
  imports Js_Number
begin

text \<open>
  What the console uses of calendar dates: the valid strings of a date field, the day so many days
  before another (\<open>setDate(getDate() - n)\<close>) and the \<open>YYYY-MM-DD\<close> form of a day. A day is its
  year, month and day of the month.
\<close>

type_synonym civil = "int \<times> int \<times> int"

definition days_in_month :: "int \<Rightarrow> int \<Rightarrow> int" where
  "days_in_month y mo =
     (if mo = 2 then (if y mod 4 = 0 \<and> (y mod 100 \<noteq> 0 \<or> y mod 400 = 0) then 29 else 28)
      else if mo = 4 \<or> mo = 6 \<or> mo = 9 \<or> mo = 11 then 30 else 31)"

fun valid_day :: "civil \<Rightarrow> bool" where
  "valid_day (y, mo, d) \<longleftrightarrow> 1 \<le> mo \<and> mo \<le> 12 \<and> 1 \<le> d \<and> d \<le> days_in_month y mo"

fun prev_day :: "civil \<Rightarrow> civil" where
  "prev_day (y, mo, d) =
     (if 1 < d then (y, mo, d - 1) else if 1 < mo then (y, mo - 1, days_in_month y (mo - 1)) else (y - 1, 12, 31))"

fun next_day :: "civil \<Rightarrow> civil" where
  "next_day (y, mo, d) =
     (if d < days_in_month y mo then (y, mo, d + 1) else if mo < 12 then (y, mo + 1, 1) else (y + 1, 1, 1))"

definition days_before :: "nat \<Rightarrow> civil \<Rightarrow> civil" where
  "days_before n day = (prev_day ^^ n) day"

lemma days_in_month_pos: "1 \<le> days_in_month y mo"
  by (simp add: days_in_month_def)

lemma prev_day_valid: "valid_day c \<Longrightarrow> valid_day (prev_day c)"
  by (cases c rule: prev_day.cases) (auto simp: days_in_month_def)

lemma next_prev_day: "valid_day c \<Longrightarrow> next_day (prev_day c) = c"
  by (cases c rule: prev_day.cases) (auto simp: days_in_month_def)

lemma days_before_valid: "valid_day c \<Longrightarrow> valid_day (days_before n c)"
  by (induction n) (simp_all add: days_before_def prev_day_valid)

lemma days_before_steps: "valid_day c \<Longrightarrow> (next_day ^^ n) (days_before n c) = c"
proof (induction n)
  case (Suc n)
  have "(next_day ^^ Suc n) (days_before (Suc n) c) = (next_day ^^ n) (next_day (prev_day (days_before n c)))"
    by (simp add: days_before_def funpow_swap1)
  with Suc show ?case using days_before_valid [of c n] by (simp only: next_prev_day)
qed (simp add: days_before_def)

section \<open>Text\<close>

definition pad_start :: "nat \<Rightarrow> u16 \<Rightarrow> jstr \<Rightarrow> jstr" where
  "pad_start n c s = replicate (n - length s) c @ s"

fun digits_value :: "jstr \<Rightarrow> int" where
  "digits_value s = foldl (\<lambda>n c. 10 * n + int (unat c - 48)) 0 s"

definition date_value :: "jstr \<Rightarrow> bool" where
  \<comment> \<open>a valid date string: the value of a date field that is not empty\<close>
  "date_value v \<longleftrightarrow>
     (case split_on 45 v of
        [y, mo, d] \<Rightarrow>
          list_all is_digit (y @ mo @ d) \<and> 4 \<le> length y \<and> length mo = 2 \<and> length d = 2 \<and> 0 < digits_value y \<and>
          valid_day (digits_value y, digits_value mo, digits_value d)
      | _ \<Rightarrow> False)"

definition midnight_iso :: "jstr \<Rightarrow> jstr option" where
  \<comment> \<open>\<open>new Date(`${v}T00:00:00Z`).toISOString()\<close> for a valid date string; a year of more than four
      digits does not parse, and \<open>toISOString\<close> throws\<close>
  "midnight_iso v = (if length (hd (split_on 45 v)) = 4 then Some (v @ js ''T00:00:00.000Z'') else None)"

lemma midnight_iso_form:
  assumes "date_value v" "midnight_iso v = Some moment"
  shows "length moment = 24 \<and> date_value (take 10 moment) \<and> drop 10 moment = js ''T00:00:00.000Z''"
proof -
  obtain y mo d where v: "split_on 45 v = [y, mo, d]" "length mo = 2" "length d = 2"
    using assms(1) by (auto simp: date_value_def split: list.splits)
  moreover have "length y = 4" "moment = v @ js ''T00:00:00.000Z''"
    using assms(2) v by (auto simp: midnight_iso_def split: if_splits)
  moreover have "join [45] (split_on 45 v) = v" by (rule join_split_on)
  ultimately have "length v = 10" by auto
  then show ?thesis using assms(1) \<open>moment = _\<close> by simp
qed

end
