(* ===== verification/Links_Page.thy ===== *)
theory Links_Page
  imports Pager Settling Js_Date Text_Tools
begin

text \<open>
  \<open>web/src/app/home/links/page.tsx\<close>: the link list with its filters, its selection and the bulk,
  export, import and delete operations. An operation in flight is kept in the state with what its
  closure captured: the query \<open>load\<close> was built for, and what follows its \<open>await\<close>.
\<close>

section \<open>The vocabularies of the page\<close>

definition links_page_size :: int where "links_page_size = 20"

definition sort_options :: "(link_sort \<times> string) list" where
  "sort_options =
     [(CreatedDesc, ''sort.createdAtDesc''), (CreatedAsc, ''sort.createdAtAsc''), (ClicksDesc, ''sort.clicksDesc''),
      (ClicksAsc, ''sort.clicksAsc''), (AliasAsc, ''sort.aliasAsc''), (AliasDesc, ''sort.aliasDesc'')]"

definition status_options :: "(status_filter \<times> string) list" where
  "status_options =
     [(FAll, ''statusFilter.all''), (FActive, ''statusFilter.active''), (FDisabled, ''statusFilter.disabled''),
      (FExpired, ''statusFilter.expired'')]"

datatype needs_value_kind = NeedsNone | NeedsTag | NeedsDate

definition bulk_actions :: "(bulk_action \<times> string \<times> needs_value_kind) list" where
  "bulk_actions =
     [(BDisable, ''bulk.disable'', NeedsNone), (BEnable, ''bulk.enable'', NeedsNone), (BDelete, ''bulk.delete'', NeedsNone),
      (BTag, ''bulk.tag'', NeedsTag), (BUntag, ''bulk.untag'', NeedsTag), (BSetExpiry, ''bulk.setExpiry'', NeedsDate)]"

definition needs_value :: "bulk_action \<Rightarrow> needs_value_kind option" where
  "needs_value a = map_option snd (map_of bulk_actions a)"

definition link_status_tone :: "jstr \<Rightarrow> rare_tone" where
  "link_status_tone status =
     (if status = js ''active'' then ToneSuccess
      else if status = js ''disabled'' then ToneWarning
      else if status = js ''expired'' then ToneDanger
      else ToneNeutral)"

definition check_label :: "translator \<Rightarrow> 'a link_record_scheme \<Rightarrow> jstr" where
  "check_label t link =
     (if lk_checked_at link = None \<or> lk_checked_at link = Some [] then []
      else case lk_status_code link of
             None \<Rightarrow> tr t ''links.checkFailed''
           | Some c \<Rightarrow> if c = 0 then tr t ''links.checkFailed'' else trp t ''links.checkOk'' [(''code'', PInt c)])"

section \<open>State\<close>

record links_query =
  lq_page :: int
  lq_sort :: link_sort
  lq_status :: status_filter
  lq_tag :: jstr
  lq_search :: jstr

datatype after_load = AfterNone | AfterRemove | AfterBulk "jstr list" int | AfterImport import_report

datatype links_op =
    OpList links_query after_load
  | OpTags after_load
  | OpRemove jstr links_query
  | OpBulk "jstr list" links_query
  | OpExport
  | OpRead links_query
  | OpImport links_query

record links_state =
  lg_links :: "link_list_record list"
  lg_total :: int
  lg_page :: int
  lg_search :: jstr
  lg_debounced :: jstr
  lg_sort :: link_sort
  lg_status :: status_filter
  lg_tag :: jstr
  lg_tags :: "tag_stat list"
  lg_error :: jstr
  lg_loading :: bool
  lg_qr :: "link_list_record option"
  lg_report :: "import_report option"
  lg_busy :: bool
  lg_selected :: "jstr list" \<comment> \<open>the set, in insertion order\<close>
  lg_bulk_action :: bulk_action
  lg_bulk_value :: jstr
  lg_timer :: "jstr option" \<comment> \<open>the search the pending timer will apply\<close>
  lg_inflight :: "links_op list"
  lg_log :: "effect list"

definition query_of :: "links_state \<Rightarrow> links_query" where
  "query_of s =
     \<lparr>lq_page = lg_page s, lq_sort = lg_sort s, lq_status = lg_status s, lq_tag = lg_tag s, lq_search = lg_debounced s\<rparr>"

definition list_request :: "links_query \<Rightarrow> list_params" where
  "list_request q =
     \<lparr>pa_limit = Some links_page_size, pa_offset = Some (lq_page q * links_page_size), pa_sort = Some (lq_sort q),
      pa_status = Some (lq_status q), pa_search = Some (lq_search q),
      pa_tag = (if lq_tag q = [] then None else Some (lq_tag q))\<rparr>"

definition export_request :: "links_query \<Rightarrow> list_params" where
  "export_request q =
     \<lparr>pa_limit = None, pa_offset = None, pa_sort = Some (lq_sort q), pa_status = Some (lq_status q),
      pa_search = Some (lq_search q), pa_tag = (if lq_tag q = [] then None else Some (lq_tag q))\<rparr>"

definition link_ids :: "links_state \<Rightarrow> jstr list" where
  "link_ids s = map lk_id (lg_links s)"

definition begin_op :: "links_op \<Rightarrow> api_call \<Rightarrow> links_state \<Rightarrow> links_state" where
  "begin_op op call s = s\<lparr>lg_inflight := lg_inflight s @ [op], lg_log := lg_log s @ [Call call]\<rparr>"

definition end_op :: "links_op \<Rightarrow> links_state \<Rightarrow> links_state" where
  "end_op op s = s\<lparr>lg_inflight := remove1 op (lg_inflight s)\<rparr>"

section \<open>Loading\<close>

definition links_load :: "links_query \<Rightarrow> after_load \<Rightarrow> links_state \<Rightarrow> links_state" where
  \<comment> \<open>the \<open>load\<close> of the render whose query is \<open>q\<close>, up to its \<open>await\<close>\<close>
  "links_load q after s = begin_op (OpList q after) (ListLinks (list_request q)) (s\<lparr>lg_loading := True\<rparr>)"

definition load_tags :: "after_load \<Rightarrow> links_state \<Rightarrow> links_state" where
  "load_tags after s = begin_op (OpTags after) ListTags s"

definition links_answered :: "links_query \<Rightarrow> link_page \<Rightarrow> links_state \<Rightarrow> links_state" where
  "links_answered q result s =
     (let records = (case lp_links result of None \<Rightarrow> [] | Some ls \<Rightarrow> ls);
          s1 = s\<lparr>lg_loading := False\<rparr>
      in if records = [] \<and> 0 < lq_page q then s1\<lparr>lg_page := previous_page (lg_page s)\<rparr>
         else s1\<lparr>lg_links := records, lg_total := (case lp_total result of None \<Rightarrow> 0 | Some n \<Rightarrow> n), lg_error := [],
                 lg_selected := []\<rparr>)"

definition links_load_failed :: "translator \<Rightarrow> exn \<Rightarrow> links_state \<Rightarrow> links_state" where
  "links_load_failed t e s = s\<lparr>lg_error := error_text t e ''error.load'' [], lg_loading := False\<rparr>"

fun then_tags :: "after_load \<Rightarrow> links_state \<Rightarrow> links_state" where
  \<comment> \<open>what follows \<open>await load()\<close>\<close>
  "then_tags AfterNone s = s"
| "then_tags after s = load_tags after s"

fun then_finish :: "translator \<Rightarrow> after_load \<Rightarrow> links_state \<Rightarrow> links_state" where
  \<comment> \<open>what follows \<open>await loadTags()\<close>\<close>
  "then_finish t AfterNone s = s"
| "then_finish t AfterRemove s = s\<lparr>lg_log := lg_log s @ [Toast ToastSuccess (tr t ''links.deleted'') []]\<rparr>"
| "then_finish t (AfterBulk ids affected) s =
     (if affected < int (length ids)
      then s\<lparr>lg_error := trp t ''links.bulkSkipped'' [(''count'', PInt (int (length ids) - affected))], lg_busy := False\<rparr>
      else s\<lparr>lg_log := lg_log s @ [Toast ToastSuccess (trp t ''links.bulkComplete'' [(''count'', PInt affected)]) []],
             lg_busy := False\<rparr>)"
| "then_finish t (AfterImport r) s =
     s\<lparr>lg_log := lg_log s @
         [Toast (if 0 < ir_failed r then ToastInfo else ToastSuccess)
            (trp t ''links.imported'' [(''count'', PInt (ir_created r))])
            (if 0 < ir_failed r then trp t ''links.importFailed'' [(''count'', PInt (ir_failed r))] else [])],
       lg_busy := False\<rparr>"

section \<open>The selection\<close>

definition toggle_one :: "jstr \<Rightarrow> jstr list \<Rightarrow> jstr list" where
  "toggle_one i sel = (if i \<in> set sel then removeAll i sel else set_add sel i)"

definition toggle_all :: "jstr list \<Rightarrow> jstr list \<Rightarrow> jstr list" where
  "toggle_all shown sel =
     (let every = shown \<noteq> [] \<and> list_all (\<lambda>i. i \<in> set sel) shown in
      foldl (\<lambda>next i. if every then removeAll i next else set_add next i) sel shown)"

section \<open>Bulk, export, import, delete\<close>

definition bulk_prepared :: "translator \<Rightarrow> links_state \<Rightarrow> jstr + bulk_input option" where
  \<comment> \<open>the part of \<open>runBulk\<close> before anything is sent: a message to show, or the input; \<open>None\<close> when the
      handler ends without either\<close>
  "bulk_prepared t s =
     (let needs = needs_value (lg_bulk_action s);
          input = \<lparr>bi_action = lg_bulk_action s, bi_ids = lg_selected s, bi_tags = None, bi_expires_at = None\<rparr>
      in if lg_selected s = [] then Inr None
         else if needs = Some NeedsDate \<and> lg_bulk_value s = [] then Inl (tr t ''links.bulkNeedDate'')
         else if needs = Some NeedsTag then
           (let tags = parse_tags (lg_bulk_value s) in
            if tags = [] then Inl (tr t ''links.bulkNeedTag'') else Inr (Some (input\<lparr>bi_tags := Some tags\<rparr>)))
         else if needs = Some NeedsDate then
           (case midnight_iso (lg_bulk_value s) of
              None \<Rightarrow> Inr None
            | Some moment \<Rightarrow> Inr (Some (input\<lparr>bi_expires_at := Some moment\<rparr>)))
         else Inr (Some input))"

definition run_bulk :: "translator \<Rightarrow> links_state \<Rightarrow> links_state" where
  "run_bulk t s =
     (case bulk_prepared t s of
        Inl m \<Rightarrow> s\<lparr>lg_error := m\<rparr>
      | Inr None \<Rightarrow> s
      | Inr (Some input) \<Rightarrow>
          begin_op (OpBulk (bi_ids input) (query_of s)) (BulkLinks input) (s\<lparr>lg_busy := True, lg_error := []\<rparr>))"

definition export_csv :: "links_state \<Rightarrow> links_state" where
  "export_csv s = begin_op OpExport (ExportLinks (export_request (query_of s))) (s\<lparr>lg_busy := True, lg_error := []\<rparr>)"

definition import_csv :: "links_state \<Rightarrow> links_state" where
  \<comment> \<open>up to \<open>await file.text()\<close>\<close>
  "import_csv s =
     s\<lparr>lg_busy := True, lg_error := [], lg_report := None, lg_inflight := lg_inflight s @ [OpRead (query_of s)]\<rparr>"

definition remove_link :: "jstr \<Rightarrow> links_state \<Rightarrow> links_state" where
  "remove_link i s = begin_op (OpRemove i (query_of s)) (RemoveLink i) s"

definition op_failed :: "translator \<Rightarrow> string \<Rightarrow> exn \<Rightarrow> links_state \<Rightarrow> links_state" where
  \<comment> \<open>the \<open>catch\<close> and \<open>finally\<close> of the bulk, export and import handlers\<close>
  "op_failed t key e s = s\<lparr>lg_error := error_text t e key [], lg_busy := False\<rparr>"

section \<open>Events\<close>

datatype links_event =
    TypeSearch jstr | SearchTimer
  | PickStatus status_filter | PickTag jstr | PressTag jstr | PickSort link_sort
  | LinksPrevious | LinksNext | LinksRetry
  | ToggleOne jstr | ToggleAll | ClearSelection
  | PickBulk bulk_action | EditBulk jstr | RunBulk
  | PressExport | PickFile | ConfirmRemove jstr
  | ShowQr link_list_record | CloseQr
  | ListSettles links_query after_load "link_page promise"
  | TagsSettle after_load "tag_stat list promise"
  | RemoveSettles jstr links_query "unit promise"
  | BulkSettles "jstr list" links_query "int promise"
  | ExportSettles jstr "jstr promise" \<comment> \<open>the day on the clock, and the file\<close>
  | ReadSettles links_query "jstr promise"
  | ImportSettles links_query "import_report promise"

fun links_offered :: "links_state \<Rightarrow> links_event \<Rightarrow> bool" where
  "links_offered s (TypeSearch v) \<longleftrightarrow> True"
| "links_offered s SearchTimer \<longleftrightarrow> lg_timer s \<noteq> None"
| "links_offered s (PickStatus f) \<longleftrightarrow> f \<in> set (map fst status_options)"
| "links_offered s (PickTag v) \<longleftrightarrow> lg_tags s \<noteq> [] \<and> (v = [] \<or> v \<in> set (map ts_name (lg_tags s)))"
| "links_offered s (PressTag v) \<longleftrightarrow> v \<in> set (concat (map lk_tags (lg_links s)))"
| "links_offered s (PickSort o1) \<longleftrightarrow> o1 \<in> set (map fst sort_options)"
| "links_offered s LinksPrevious \<longleftrightarrow> previous_offered (lg_page s) (lg_loading s)"
| "links_offered s LinksNext \<longleftrightarrow> next_offered links_page_size (lg_total s) (lg_page s) (lg_loading s)"
| "links_offered s LinksRetry \<longleftrightarrow> lg_error s \<noteq> []"
| "links_offered s (ToggleOne i) \<longleftrightarrow> i \<in> set (link_ids s)"
| "links_offered s ToggleAll \<longleftrightarrow> True"
| "links_offered s ClearSelection \<longleftrightarrow> lg_selected s \<noteq> [] \<and> \<not> lg_busy s"
| "links_offered s (PickBulk a) \<longleftrightarrow> lg_selected s \<noteq> [] \<and> a \<in> set (map fst bulk_actions)"
| "links_offered s (EditBulk v) \<longleftrightarrow>
     lg_selected s \<noteq> [] \<and>
     (needs_value (lg_bulk_action s) = Some NeedsTag \<or>
      needs_value (lg_bulk_action s) = Some NeedsDate \<and> (v = [] \<or> date_value v))"
| "links_offered s RunBulk \<longleftrightarrow> lg_selected s \<noteq> [] \<and> (lg_bulk_action s = BDelete \<or> \<not> lg_busy s)"
| "links_offered s PressExport \<longleftrightarrow> \<not> lg_busy s"
| "links_offered s PickFile \<longleftrightarrow> True"
| "links_offered s (ConfirmRemove i) \<longleftrightarrow> i \<in> set (link_ids s)"
| "links_offered s (ShowQr l) \<longleftrightarrow> l \<in> set (lg_links s)"
| "links_offered s CloseQr \<longleftrightarrow> lg_qr s \<noteq> None"
| "links_offered s (ListSettles q after _) \<longleftrightarrow> OpList q after \<in> set (lg_inflight s)"
| "links_offered s (TagsSettle after _) \<longleftrightarrow> OpTags after \<in> set (lg_inflight s)"
| "links_offered s (RemoveSettles i q _) \<longleftrightarrow> OpRemove i q \<in> set (lg_inflight s)"
| "links_offered s (BulkSettles ids q _) \<longleftrightarrow> OpBulk ids q \<in> set (lg_inflight s)"
| "links_offered s (ExportSettles _ _) \<longleftrightarrow> OpExport \<in> set (lg_inflight s)"
| "links_offered s (ReadSettles q _) \<longleftrightarrow> OpRead q \<in> set (lg_inflight s)"
| "links_offered s (ImportSettles q _) \<longleftrightarrow> OpImport q \<in> set (lg_inflight s)"

fun links_handle :: "translator \<Rightarrow> links_state \<Rightarrow> links_event \<Rightarrow> links_state" where
  \<comment> \<open>the effect on \<open>search\<close> replaces the timer; it runs only when the text changed\<close>
  "links_handle t s (TypeSearch v) = (if v = lg_search s then s else s\<lparr>lg_search := v, lg_timer := Some v\<rparr>)"
| "links_handle t s SearchTimer =
     (case lg_timer s of None \<Rightarrow> s | Some v \<Rightarrow> s\<lparr>lg_timer := None, lg_debounced := v, lg_page := 0\<rparr>)"
| "links_handle t s (PickStatus f) = s\<lparr>lg_status := f, lg_page := 0\<rparr>"
| "links_handle t s (PickTag v) = s\<lparr>lg_tag := v, lg_page := 0\<rparr>"
| "links_handle t s (PressTag v) = s\<lparr>lg_tag := v, lg_page := 0\<rparr>"
| "links_handle t s (PickSort o1) = s\<lparr>lg_sort := o1, lg_page := 0\<rparr>"
| "links_handle t s LinksPrevious = s\<lparr>lg_page := previous_page (lg_page s)\<rparr>"
| "links_handle t s LinksNext = s\<lparr>lg_page := lg_page s + 1\<rparr>"
| "links_handle t s LinksRetry = links_load (query_of s) AfterNone s"
| "links_handle t s (ToggleOne i) = s\<lparr>lg_selected := toggle_one i (lg_selected s)\<rparr>"
| "links_handle t s ToggleAll = s\<lparr>lg_selected := toggle_all (link_ids s) (lg_selected s)\<rparr>"
| "links_handle t s ClearSelection = s\<lparr>lg_selected := []\<rparr>"
| "links_handle t s (PickBulk a) = s\<lparr>lg_bulk_action := a, lg_bulk_value := []\<rparr>"
| "links_handle t s (EditBulk v) = s\<lparr>lg_bulk_value := v\<rparr>"
| "links_handle t s RunBulk = run_bulk t s"
| "links_handle t s PressExport = export_csv s"
| "links_handle t s PickFile = import_csv s"
| "links_handle t s (ConfirmRemove i) = remove_link i s"
| "links_handle t s (ShowQr l) = s\<lparr>lg_qr := Some l\<rparr>"
| "links_handle t s CloseQr = s\<lparr>lg_qr := None\<rparr>"
| "links_handle t s (ListSettles q after r) =
     then_tags after
       (case r of Inr result \<Rightarrow> links_answered q result (end_op (OpList q after) s)
                | Inl e \<Rightarrow> links_load_failed t e (end_op (OpList q after) s))"
| "links_handle t s (TagsSettle after r) =
     then_finish t after
       (case r of Inr tags \<Rightarrow> (end_op (OpTags after) s)\<lparr>lg_tags := tags\<rparr> | Inl _ \<Rightarrow> end_op (OpTags after) s)"
| "links_handle t s (RemoveSettles i q r) =
     (case r of Inr _ \<Rightarrow> links_load q AfterRemove (end_op (OpRemove i q) s)
              | Inl e \<Rightarrow> (end_op (OpRemove i q) s)\<lparr>lg_error := error_text t e ''error.delete'' []\<rparr>)"
| "links_handle t s (BulkSettles ids q r) =
     (case r of Inr affected \<Rightarrow> links_load q (AfterBulk ids affected) ((end_op (OpBulk ids q) s)\<lparr>lg_bulk_value := []\<rparr>)
              | Inl e \<Rightarrow> op_failed t ''error.bulk'' e (end_op (OpBulk ids q) s))"
| "links_handle t s (ExportSettles today r) =
     (case r of Inr content \<Rightarrow>
                  (end_op OpExport s)\<lparr>lg_busy := False,
                    lg_log := lg_log s @ [Download (js ''purels-links-'' @ today @ js ''.csv'') content,
                                          Toast ToastSuccess (tr t ''links.exported'') []]\<rparr>
              | Inl e \<Rightarrow> op_failed t ''error.export'' e (end_op OpExport s))"
| "links_handle t s (ReadSettles q r) =
     (case r of Inr csv \<Rightarrow> begin_op (OpImport q) (ImportLinks csv) (end_op (OpRead q) s)
              | Inl e \<Rightarrow> op_failed t ''error.import'' e (end_op (OpRead q) s))"
| "links_handle t s (ImportSettles q r) =
     (case r of Inr report \<Rightarrow>
                  links_load q (AfterImport report) ((end_op (OpImport q) s)\<lparr>lg_report := Some report, lg_page := 0\<rparr>)
              | Inl e \<Rightarrow> op_failed t ''error.import'' e (end_op (OpImport q) s))"

definition links_reload :: "links_state \<Rightarrow> links_state \<Rightarrow> links_state" where
  \<comment> \<open>the effect on \<open>load\<close>, which changes with what it sends\<close>
  "links_reload old s = (if query_of s \<noteq> query_of old then links_load (query_of s) AfterNone s else s)"

definition links_move :: "translator \<Rightarrow> links_state \<Rightarrow> links_event \<Rightarrow> links_state" where
  "links_move t s e = links_reload s (links_handle t s e)"

definition links_blank :: links_state where
  "links_blank =
     \<lparr>lg_links = [], lg_total = 0, lg_page = 0, lg_search = [], lg_debounced = [], lg_sort = CreatedDesc, lg_status = FAll,
      lg_tag = [], lg_tags = [], lg_error = [], lg_loading = True, lg_qr = None, lg_report = None, lg_busy = False,
      lg_selected = [], lg_bulk_action = BDisable, lg_bulk_value = [], lg_timer = None, lg_inflight = [], lg_log = []\<rparr>"

definition links_start :: links_state where
  \<comment> \<open>after the three effects of the first render\<close>
  "links_start = load_tags AfterNone (links_load (query_of links_blank) AfterNone (links_blank\<lparr>lg_timer := Some []\<rparr>))"

section \<open>Invariants\<close>

lemmas links_simps = links_load_def load_tags_def begin_op_def end_op_def links_answered_def links_load_failed_def
  export_csv_def import_csv_def remove_link_def op_failed_def query_of_def link_ids_def

lemma set_toggle_one: "set (toggle_one i sel) \<subseteq> insert i (set sel)"
  by (auto simp: toggle_one_def set_add_def)

lemma distinct_set_add: "distinct xs \<Longrightarrow> distinct (set_add xs x)"
  by (simp add: set_add_def)

lemma distinct_removeAll: "distinct xs \<Longrightarrow> distinct (removeAll x xs)"
  by (simp add: distinct_removeAll)

lemma distinct_toggle_one: "distinct sel \<Longrightarrow> distinct (toggle_one i sel)"
  by (simp add: toggle_one_def distinct_set_add distinct_removeAll)

lemma toggle_all_fold:
  "set (foldl (\<lambda>next i. if every then removeAll i next else set_add next i) sel shown) =
     (if every then set sel - set shown else set sel \<union> set shown)"
  "distinct sel \<Longrightarrow> distinct (foldl (\<lambda>next i. if every then removeAll i next else set_add next i) sel shown)"
  by (induction shown arbitrary: sel) (auto simp: set_add_def distinct_removeAll)

lemma set_toggle_all: "set (toggle_all shown sel) \<subseteq> set shown \<union> set sel"
  by (auto simp: toggle_all_def Let_def toggle_all_fold split: if_splits)

lemma distinct_toggle_all: "distinct sel \<Longrightarrow> distinct (toggle_all shown sel)"
  by (simp add: toggle_all_def Let_def toggle_all_fold)

definition selection_ok :: "links_state \<Rightarrow> bool" where
  "selection_ok s \<longleftrightarrow> distinct (lg_selected s) \<and> set (lg_selected s) \<subseteq> set (link_ids s)"

definition bulk_value_ok :: "links_state \<Rightarrow> bool" where
  "bulk_value_ok s \<longleftrightarrow>
     (needs_value (lg_bulk_action s) = Some NeedsDate \<longrightarrow> lg_bulk_value s = [] \<or> date_value (lg_bulk_value s))"

fun op_page_ok :: "links_op \<Rightarrow> bool" where
  "op_page_ok (OpList q _) \<longleftrightarrow> 0 \<le> lq_page q"
| "op_page_ok (OpRemove _ q) \<longleftrightarrow> 0 \<le> lq_page q"
| "op_page_ok (OpBulk _ q) \<longleftrightarrow> 0 \<le> lq_page q"
| "op_page_ok (OpRead q) \<longleftrightarrow> 0 \<le> lq_page q"
| "op_page_ok (OpImport q) \<longleftrightarrow> 0 \<le> lq_page q"
| "op_page_ok (OpTags _) \<longleftrightarrow> True"
| "op_page_ok OpExport \<longleftrightarrow> True"

definition pages_ok :: "links_state \<Rightarrow> bool" where
  "pages_ok s \<longleftrightarrow> 0 \<le> lg_page s \<and> list_all op_page_ok (lg_inflight s)"

fun ends_busy :: "after_load \<Rightarrow> bool" where
  "ends_busy (AfterBulk _ _) = True"
| "ends_busy (AfterImport _) = True"
| "ends_busy _ = False"

fun holds_busy :: "links_op \<Rightarrow> bool" where
  \<comment> \<open>operations at whose end the page stops being busy\<close>
  "holds_busy (OpList _ after) = ends_busy after"
| "holds_busy (OpTags after) = ends_busy after"
| "holds_busy (OpRemove _ _) = False"
| "holds_busy _ = True"

fun is_list :: "links_op \<Rightarrow> bool" where
  "is_list (OpList _ _) = True"
| "is_list _ = False"

definition idle_ok :: "links_state \<Rightarrow> bool" where
  "idle_ok s \<longleftrightarrow>
     (lg_busy s \<longrightarrow> list_ex holds_busy (lg_inflight s)) \<and> (lg_loading s \<longrightarrow> list_ex is_list (lg_inflight s))"

lemma selection_load [simp]: "selection_ok (links_load q after s) = selection_ok s"
  by (simp add: selection_ok_def links_simps)

lemma run_bulk_frame:
  "lg_selected (run_bulk t s) = lg_selected s" "lg_links (run_bulk t s) = lg_links s"
  "lg_bulk_action (run_bulk t s) = lg_bulk_action s" "lg_bulk_value (run_bulk t s) = lg_bulk_value s"
  "lg_page (run_bulk t s) = lg_page s" "lg_loading (run_bulk t s) = lg_loading s"
  by (simp_all add: run_bulk_def links_simps split: sum.splits option.splits)

lemma then_frame:
  "lg_selected (then_tags after s) = lg_selected s" "lg_links (then_tags after s) = lg_links s"
  "lg_bulk_action (then_tags after s) = lg_bulk_action s" "lg_bulk_value (then_tags after s) = lg_bulk_value s"
  "lg_page (then_tags after s) = lg_page s" "lg_loading (then_tags after s) = lg_loading s"
  "lg_busy (then_tags after s) = lg_busy s"
  "lg_selected (then_finish t after s) = lg_selected s" "lg_links (then_finish t after s) = lg_links s"
  "lg_bulk_action (then_finish t after s) = lg_bulk_action s" "lg_bulk_value (then_finish t after s) = lg_bulk_value s"
  "lg_page (then_finish t after s) = lg_page s" "lg_loading (then_finish t after s) = lg_loading s"
  "lg_inflight (then_finish t after s) = lg_inflight s"
  by (cases after; simp add: links_simps)+

lemma selection_toggles:
  "selection_ok s \<Longrightarrow> i \<in> set (link_ids s) \<Longrightarrow> selection_ok (s\<lparr>lg_selected := toggle_one i (lg_selected s)\<rparr>)"
  "selection_ok s \<Longrightarrow> selection_ok (s\<lparr>lg_selected := toggle_all (link_ids s) (lg_selected s)\<rparr>)"
  using set_toggle_one [of i "lg_selected s"] set_toggle_all [of "link_ids s" "lg_selected s"]
  by (auto simp: selection_ok_def link_ids_def distinct_toggle_one distinct_toggle_all)

lemma selection_same:
  "selection_ok s \<Longrightarrow> lg_selected s' = lg_selected s \<or> lg_selected s' = [] \<Longrightarrow>
   lg_links s' = lg_links s \<or> lg_selected s' = [] \<Longrightarrow> selection_ok s'"
  by (auto simp: selection_ok_def link_ids_def)

lemma selection_handle:
  assumes "selection_ok s" "links_offered s e"
  shows "selection_ok (links_handle t s e)"
proof (cases "(\<exists>i. e = ToggleOne i) \<or> e = ToggleAll")
  case True
  then show ?thesis using assms selection_toggles by auto
next
  case False
  show ?thesis
    by (rule selection_same [OF assms(1)]; use False in \<open>cases e\<close>)
      (simp_all add: links_simps then_frame run_bulk_frame Let_def split: sum.splits option.splits)
qed

lemma bulk_value_handle:
  "bulk_value_ok s \<Longrightarrow> links_offered s e \<Longrightarrow> bulk_value_ok (links_handle t s e)"
  by (cases e)
    (auto simp: bulk_value_ok_def links_simps then_frame run_bulk_frame Let_def split: sum.splits option.splits)

lemma then_tags_inflight:
  "lg_inflight (then_tags after s) = lg_inflight s @ (if after = AfterNone then [] else [OpTags after])"
  by (cases after) (simp_all add: links_simps)

lemma run_bulk_inflight:
  "lg_inflight (run_bulk t s) = lg_inflight s \<and> lg_busy (run_bulk t s) = lg_busy s \<or>
   (\<exists>ids. lg_inflight (run_bulk t s) = lg_inflight s @ [OpBulk ids (query_of s)] \<and> lg_busy (run_bulk t s))"
  by (auto simp: run_bulk_def begin_op_def query_of_def split: sum.splits option.splits)

lemma pages_handle:
  assumes "pages_ok s" "links_offered s e"
  shows "pages_ok (links_handle t s e)"
proof (cases "e = RunBulk")
  case True
  then show ?thesis using assms run_bulk_inflight [of t s] by (auto simp: pages_ok_def run_bulk_frame query_of_def)
next
  case False
  then show ?thesis using assms
    by (cases e)
      (auto simp: pages_ok_def links_simps then_frame then_tags_inflight previous_page_def list_all_remove1 Let_def list_all_iff
        split: sum.splits option.splits dest: notin_set_remove1)
qed

lemma list_ex_remove1: "list_ex P xs \<Longrightarrow> \<not> P x \<Longrightarrow> list_ex P (remove1 x xs)"
  by (induction xs) auto

lemma list_ended:
  "list_ex holds_busy xs \<Longrightarrow> list_ex holds_busy (remove1 (OpList q after) xs) \<or> ends_busy after"
  using list_ex_remove1 [of holds_busy xs "OpList q after"] by auto

lemma then_finish_busy: "lg_busy (then_finish t after s) = (lg_busy s \<and> \<not> ends_busy after)"
  by (cases after) auto

lemma idle_handle:
  assumes "idle_ok s" "links_offered s e"
  shows "idle_ok (links_handle t s e)"
proof (cases "e = RunBulk")
  case True
  then show ?thesis using assms run_bulk_inflight [of t s] by (auto simp: idle_ok_def run_bulk_frame)
next
  case False
  then show ?thesis using assms
    by (cases e; cases "lg_busy s"; cases "lg_loading s")
      (simp_all add: idle_ok_def links_simps then_frame then_tags_inflight then_finish_busy list_ex_remove1 list_ended Let_def
        split: sum.splits option.splits)
qed

section \<open>What the page sends\<close>

definition links_filter_ok :: "list_params \<Rightarrow> bool" where
  "links_filter_ok p \<longleftrightarrow> pa_sort p \<noteq> None \<and> pa_status p \<noteq> None \<and> pa_search p \<noteq> None \<and> pa_tag p \<noteq> Some []"

definition bulk_ok :: "bulk_input \<Rightarrow> bool" where
  \<comment> \<open>some links, each once; tags exactly for the tag actions, an expiry exactly for setting one\<close>
  "bulk_ok b \<longleftrightarrow>
     bi_ids b \<noteq> [] \<and> distinct (bi_ids b) \<and>
     (case bi_tags b of
        None \<Rightarrow> bi_action b \<notin> {BTag, BUntag}
      | Some ts \<Rightarrow> bi_action b \<in> {BTag, BUntag} \<and> ts \<noteq> [] \<and> distinct ts \<and> [] \<notin> set ts) \<and>
     (case bi_expires_at b of
        None \<Rightarrow> bi_action b \<noteq> BSetExpiry
      | Some moment \<Rightarrow> bi_action b = BSetExpiry \<and> length moment = 24 \<and> date_value (take 10 moment) \<and>
          drop 10 moment = js ''T00:00:00.000Z'')"

fun links_request :: "effect \<Rightarrow> bool" where
  "links_request (Call (ListLinks p)) \<longleftrightarrow>
     links_filter_ok p \<and> pa_limit p = Some links_page_size \<and>
     (case pa_offset p of None \<Rightarrow> False | Some n \<Rightarrow> 0 \<le> n \<and> n mod links_page_size = 0)"
| "links_request (Call (ExportLinks p)) \<longleftrightarrow> links_filter_ok p \<and> pa_limit p = None \<and> pa_offset p = None"
| "links_request (Call (BulkLinks b)) \<longleftrightarrow> bulk_ok b"
| "links_request (Call (RemoveLink _)) \<longleftrightarrow> True"
| "links_request (Call (ImportLinks _)) \<longleftrightarrow> True"
| "links_request (Call ListTags) \<longleftrightarrow> True"
| "links_request (Call _) \<longleftrightarrow> False"
| "links_request (Toast _ _ _) \<longleftrightarrow> True"
| "links_request (Download _ _) \<longleftrightarrow> True"
| "links_request _ \<longleftrightarrow> False"

lemma list_request_ok: "0 \<le> lq_page q \<Longrightarrow> links_request (Call (ListLinks (list_request q)))"
  by (simp add: list_request_def links_filter_ok_def links_page_size_def)

lemma export_request_ok: "links_request (Call (ExportLinks (export_request q)))"
  by (simp add: export_request_def links_filter_ok_def)

lemma needs_value_simps [simp]:
  "needs_value BDisable = Some NeedsNone" "needs_value BEnable = Some NeedsNone" "needs_value BDelete = Some NeedsNone"
  "needs_value BTag = Some NeedsTag" "needs_value BUntag = Some NeedsTag" "needs_value BSetExpiry = Some NeedsDate"
  by (simp_all add: needs_value_def bulk_actions_def)

lemma parse_tags_no_empty: "[] \<notin> set (parse_tags raw)"
  by (simp add: parse_tags_set)

lemma bulk_prepared_ok:
  assumes "bulk_prepared t s = Inr (Some b)" "selection_ok s" "bulk_value_ok s"
  shows "bulk_ok b \<and> bi_ids b = lg_selected s \<and> bi_action b = lg_bulk_action s"
  using assms midnight_iso_form [of "lg_bulk_value s"] unfolding bulk_prepared_def Let_def
  by (cases "lg_bulk_action s")
    (simp_all split: if_split_asm option.split_asm,
     auto simp: bulk_ok_def selection_ok_def bulk_value_ok_def parse_tags_distinct parse_tags_no_empty)

lemma run_bulk_log:
  assumes "selection_ok s" "bulk_value_ok s"
  shows "lg_log (run_bulk t s) = lg_log s \<or>
    (\<exists>b. bulk_ok b \<and> bi_ids b = lg_selected s \<and> bi_action b = lg_bulk_action s \<and>
       lg_log (run_bulk t s) = lg_log s @ [Call (BulkLinks b)])"
  using bulk_prepared_ok [OF _ assms, of t]
  by (auto simp: run_bulk_def begin_op_def split: sum.splits option.splits)

definition links_inv :: "links_state \<Rightarrow> bool" where
  "links_inv s \<longleftrightarrow> selection_ok s \<and> bulk_value_ok s \<and> pages_ok s \<and> idle_ok s"

lemma then_tags_log: "lg_log (then_tags after s) = lg_log s @ (if after = AfterNone then [] else [Call ListTags])"
  by (cases after) (simp_all add: links_simps)

lemma then_finish_log:
  "list_all links_request (lg_log s) \<Longrightarrow> list_all links_request (lg_log (then_finish t after s))"
  by (cases after) auto

lemma load_log:
  "0 \<le> lq_page q \<Longrightarrow> list_all links_request (lg_log s) \<Longrightarrow> list_all links_request (lg_log (links_load q after s))"
  using list_request_ok by (simp add: links_load_def begin_op_def)

lemma offered_page:
  assumes "pages_ok s"
  shows "OpList q after \<in> set (lg_inflight s) \<Longrightarrow> 0 \<le> lq_page q" "OpRemove i q \<in> set (lg_inflight s) \<Longrightarrow> 0 \<le> lq_page q"
    "OpBulk ids q \<in> set (lg_inflight s) \<Longrightarrow> 0 \<le> lq_page q" "OpImport q \<in> set (lg_inflight s) \<Longrightarrow> 0 \<le> lq_page q"
  using assms by (auto simp: pages_ok_def list_all_iff)

lemma links_handle_log:
  assumes "links_inv s" "links_offered s e" "list_all links_request (lg_log s)"
  shows "list_all links_request (lg_log (links_handle t s e))"
proof (cases "e = RunBulk")
  case True
  then show ?thesis using assms run_bulk_log [of s t] by (auto simp: links_inv_def)
next
  case False
  have "pages_ok s" "0 \<le> lq_page (query_of s)" using assms(1) by (auto simp: links_inv_def pages_ok_def query_of_def)
  then show ?thesis using False assms(2,3) offered_page [of s]
    by (cases e)
      (auto simp: begin_op_def end_op_def links_answered_def links_load_failed_def export_csv_def import_csv_def remove_link_def
        op_failed_def then_tags_log export_request_def links_filter_ok_def Let_def intro!: then_finish_log load_log split: sum.splits option.splits)
qed

lemma links_load_inv: "links_inv s \<Longrightarrow> 0 \<le> lq_page q \<Longrightarrow> links_inv (links_load q after s)"
  by (auto simp: links_inv_def bulk_value_ok_def pages_ok_def idle_ok_def links_load_def begin_op_def selection_ok_def link_ids_def)

lemma links_handle_inv: "links_inv s \<Longrightarrow> links_offered s e \<Longrightarrow> links_inv (links_handle t s e)"
  using selection_handle bulk_value_handle pages_handle idle_handle by (auto simp: links_inv_def)

lemma links_inv_query: "links_inv s \<Longrightarrow> 0 \<le> lq_page (query_of s)"
  by (simp add: links_inv_def pages_ok_def query_of_def)

interpretation links: logging_page links_start links_offered "links_move t" links_inv lg_log links_request for t
proof
  show "links_inv links_start"
    by (simp add: links_start_def links_blank_def links_inv_def selection_ok_def bulk_value_ok_def pages_ok_def idle_ok_def
        links_simps)
  show "links_inv (links_move t s e)" if "links_inv s" "links_offered s e" for s e
    using links_handle_inv [OF that, of t] links_load_inv links_inv_query
    by (simp add: links_move_def links_reload_def)
  show "list_all links_request (lg_log links_start)"
    using list_request_ok [of "query_of links_blank"]
    by (simp add: links_start_def links_load_def load_tags_def begin_op_def) (simp add: query_of_def links_blank_def)
  show "list_all links_request (lg_log (links_move t s e))"
    if "links_inv s" "links_offered s e" "list_all links_request (lg_log s)" for s e
    using links_handle_inv [OF that(1,2), of t] links_handle_log [OF that, of t] load_log links_inv_query
    by (simp add: links_move_def links_reload_def)
qed

section \<open>Coming to rest\<close>

fun after_work :: "after_load \<Rightarrow> nat" where
  "after_work AfterNone = 0"
| "after_work _ = 1"

fun op_work :: "links_op \<Rightarrow> nat" where
  \<comment> \<open>how many requests an operation still takes\<close>
  "op_work (OpList _ after) = 1 + after_work after"
| "op_work (OpTags _) = 1"
| "op_work (OpRemove _ _) = 3"
| "op_work (OpBulk _ _) = 3"
| "op_work OpExport = 1"
| "op_work (OpRead _) = 4"
| "op_work (OpImport _) = 3"

definition links_work :: "links_state \<Rightarrow> nat" where
  \<comment> \<open>a page further on can cost another list request\<close>
  "links_work s = sum_list (map op_work (lg_inflight s)) + 2 * nat (lg_page s)"

fun links_settles :: "links_event \<Rightarrow> bool" where
  "links_settles (ListSettles _ _ _) = True"
| "links_settles (TagsSettle _ _) = True"
| "links_settles (RemoveSettles _ _ _) = True"
| "links_settles (BulkSettles _ _ _) = True"
| "links_settles (ExportSettles _ _) = True"
| "links_settles (ReadSettles _ _) = True"
| "links_settles (ImportSettles _ _) = True"
| "links_settles _ = False"

definition links_quiet :: "links_state \<Rightarrow> bool" where
  "links_quiet s \<longleftrightarrow> lg_inflight s = [] \<and> \<not> lg_busy s \<and> \<not> lg_loading s"

lemma end_work: "op \<in> set (lg_inflight s) \<Longrightarrow> links_work s = links_work (end_op op s) + op_work op"
  by (simp add: links_work_def end_op_def sum_list_map_remove1)

lemma step_work [simp]:
  "links_work (begin_op op c s) = links_work s + op_work op"
  "links_work (links_load q after s) = links_work s + 1 + after_work after"
  "links_work (links_load_failed t e s) = links_work s"
  "links_work (op_failed t key e s) = links_work s"
  "links_work (then_tags after s) = links_work s + after_work after"
  "links_work (then_finish t after s) = links_work s"
  by (cases after; simp add: links_work_def links_simps)+

lemma step_query [simp]:
  "query_of (begin_op op c s) = query_of s" "query_of (end_op op s) = query_of s"
  "query_of (links_load q after s) = query_of s"
  "query_of (links_load_failed t e s) = query_of s" "query_of (op_failed t key e s) = query_of s"
  "query_of (then_tags after s) = query_of s" "query_of (then_finish t after s) = query_of s"
  by (cases after; simp add: links_simps)+

lemma field_work [simp]:
  "links_work (s\<lparr>lg_tags := ts\<rparr>) = links_work s" "query_of (s\<lparr>lg_tags := ts\<rparr>) = query_of s"
  "links_work (s\<lparr>lg_error := m\<rparr>) = links_work s" "query_of (s\<lparr>lg_error := m\<rparr>) = query_of s"
  "links_work (s\<lparr>lg_bulk_value := v\<rparr>) = links_work s" "query_of (s\<lparr>lg_bulk_value := v\<rparr>) = query_of s"
  "links_work (s\<lparr>lg_busy := b, lg_log := es\<rparr>) = links_work s" "query_of (s\<lparr>lg_busy := b, lg_log := es\<rparr>) = query_of s"
  by (simp_all add: links_work_def query_of_def)

lemma page_work:
  assumes "0 \<le> lg_page s"
  shows "links_work (links_answered q r s) + (if query_of (links_answered q r s) = query_of s then 0 else 2) \<le> links_work s"
    and "links_work (s\<lparr>lg_report := rep, lg_page := 0\<rparr>) +
      (if query_of (s\<lparr>lg_report := rep, lg_page := 0\<rparr>) = query_of s then 0 else 2) \<le> links_work s"
  using assms by (auto simp: links_work_def links_answered_def query_of_def previous_page_def Let_def)

lemma reload_work: "links_work (links_reload old s) \<le> links_work s + (if query_of s = query_of old then 0 else 1)"
  by (auto simp: links_reload_def)

lemma settle_uses_work:
  assumes "0 \<le> lg_page s" "links_offered s e" "links_settles e"
  shows "links_work (links_handle t s e) + (if query_of (links_handle t s e) = query_of s then 0 else 2) < links_work s"
proof -
  have p: "0 \<le> lg_page (end_op op s)" for op using assms(1) by (simp add: end_op_def)
  show ?thesis
  proof (cases e)
    case (ListSettles q after r)
    then show ?thesis using assms(2) end_work [of "OpList q after" s] page_work(1) [OF p [of "OpList q after"], of q "projr r"]
      by (cases r) (auto split: if_splits)
  next
    case (ImportSettles q r)
    then show ?thesis using assms(2) end_work [of "OpImport q" s] page_work(2) [OF p [of "OpImport q"], of "Some (projr r)"]
      by (cases r) (auto split: if_splits)
  next
    case (ExportSettles day r)
    then show ?thesis using assms(2) end_work [of OpExport s] by (cases r) auto
  qed (use assms(2,3) in \<open>auto dest: end_work split: sum.splits\<close>)
qed

lemma quiet_or_offered: "links_inv s \<Longrightarrow> \<not> links_quiet s \<Longrightarrow> \<exists>e. links_settles e \<and> links_offered s e"
proof -
  assume i: "links_inv s" and n: "\<not> links_quiet s"
  then have "lg_inflight s \<noteq> []" by (auto simp: links_quiet_def links_inv_def idle_ok_def)
  then obtain op where op: "op \<in> set (lg_inflight s)" using list.set_sel(1) by blast
  define e where "e = (case op of
      OpList q after \<Rightarrow> ListSettles q after (Inl Thrown) | OpTags after \<Rightarrow> TagsSettle after (Inl Thrown)
    | OpRemove i q \<Rightarrow> RemoveSettles i q (Inl Thrown) | OpBulk ids q \<Rightarrow> BulkSettles ids q (Inl Thrown)
    | OpExport \<Rightarrow> ExportSettles [] (Inl Thrown) | OpRead q \<Rightarrow> ReadSettles q (Inl Thrown)
    | OpImport q \<Rightarrow> ImportSettles q (Inl Thrown))"
  have "links_settles e \<and> links_offered s e" by (insert op, cases op) (simp_all add: e_def)
  then show ?thesis by blast
qed

interpretation links_rest: settling_page links_offered "links_move t" links_inv links_settles links_work links_quiet for t
proof
  show "links_inv (links_move t s e)" if "links_inv s" "links_offered s e" for s e
    by (rule links.inv_move [OF that])
  show "links_work (links_move t s e) < links_work s" if "links_inv s" "links_offered s e" "links_settles e" for s e
    using settle_uses_work [OF _ that(2,3), of t] reload_work [of s "links_handle t s e"] that(1)
    by (auto simp: links_move_def links_inv_def pages_ok_def split: if_splits)
  show "\<exists>e. links_settles e \<and> links_offered s e" if "links_inv s" "\<not> links_quiet s" for s
    by (rule quiet_or_offered [OF that])
qed

section \<open>Stepping back\<close>

definition no_links :: link_page where
  "no_links = \<lparr>lp_links = None, lp_total = Some 0, lp_limit = 20, lp_offset = 0\<rparr>"

definition links_empty_answer :: "translator \<Rightarrow> links_state \<Rightarrow> links_state" where
  "links_empty_answer t s = links_move t s (ListSettles (query_of s) AfterNone (Inr no_links))"

definition links_single :: "links_state \<Rightarrow> bool" where
  \<comment> \<open>nothing but the load of the current query is in flight\<close>
  "links_single s \<longleftrightarrow> 0 \<le> lg_page s \<and> (lg_inflight s = [] \<or> lg_inflight s = [OpList (query_of s) AfterNone])"

interpretation links_back: stepping_back lg_page "\<lambda>s. lg_inflight s \<noteq> []" "links_empty_answer t" links_single for t
  by unfold_locales
    (auto simp: links_single_def links_empty_answer_def links_move_def links_reload_def no_links_def links_simps
      previous_page_def Let_def)

section \<open>An answer that comes late\<close>

definition clicks_first :: links_query where
  "clicks_first = \<lparr>lq_page = 0, lq_sort = ClicksDesc, lq_status = FAll, lq_tag = [], lq_search = []\<rparr>"

text \<open>Loads are not cancelled: when the answer to the first load arrives after the answer to the one
  made for a newly picked order, the page rests with the rows of the old order under the new one.\<close>

lemma links_stale_answer:
  assumes "lp_links old = Some rows"
  shows "\<exists>s. runs links_offered (links_move t) links_start
      [PickSort ClicksDesc, ListSettles clicks_first AfterNone (Inr new),
       ListSettles (query_of links_blank) AfterNone (Inr old)] = Some s \<and>
    query_of s = clicks_first \<and> lg_links s = rows \<and> \<not> lg_loading s \<and> lg_error s = [] \<and> \<not> list_ex is_list (lg_inflight s)"
  using assms
  by (simp add: links_start_def links_blank_def clicks_first_def links_move_def links_reload_def links_simps sort_options_def Let_def)

section \<open>Properties\<close>

text \<open>C12 What the link list sends is well formed: in any run every list request is for one aligned
  page with a sort, a status and a search and no empty tag, an export carries the same filter
  without a page, and every bulk request names at least one link, each once, with tags exactly for
  the tag actions and an expiry at a day's midnight exactly for setting one; and the selection
  always consists of rows on the screen.\<close>
theorem links_requests_well_formed:
  assumes "reachable links_start links_offered (links_move t) s"
  shows "list_all links_request (lg_log s) \<and> distinct (lg_selected s) \<and> set (lg_selected s) \<subseteq> set (link_ids s)"
  using links.reachable_log [OF assms] links.reachable_inv [OF assms] by (simp add: links_inv_def selection_ok_def)

theorem links_requests_well_formed_witness:
  "\<exists>s. runs links_offered (links_move (t_for (js ''en''))) links_start [PickStatus FActive] = Some s \<and>
     list_all links_request (lg_log s) \<and> 0 < length (lg_log s)"
proof -
  have "\<exists>s. runs links_offered (links_move (t_for (js ''en''))) links_start [PickStatus FActive] = Some s \<and> 0 < length (lg_log s)"
    by (simp add: status_options_def links_move_def links_reload_def links_simps links_start_def links_blank_def)
  then obtain s where s: "runs links_offered (links_move (t_for (js ''en''))) links_start [PickStatus FActive] = Some s"
    "0 < length (lg_log s)" by blast
  with links_requests_well_formed [OF runs_from_start [OF s(1)]] show ?thesis by blast
qed

text \<open>C21 Running a bulk action sends at most one request, which names exactly the selected links and
  the chosen action; an action that needs no value is always sent. While it runs the page is busy
  and shows no error.\<close>
theorem links_bulk_exact:
  assumes "reachable links_start links_offered (links_move t) s" and "links_offered s RunBulk"
  shows "(lg_log (links_move t s RunBulk) = lg_log s \<and> needs_value (lg_bulk_action s) \<noteq> Some NeedsNone) \<or>
    (\<exists>b. lg_log (links_move t s RunBulk) = lg_log s @ [Call (BulkLinks b)] \<and> bulk_ok b \<and>
       bi_ids b = lg_selected s \<and> bi_action b = lg_bulk_action s \<and>
       lg_busy (links_move t s RunBulk) \<and> lg_error (links_move t s RunBulk) = [])"
proof -
  have i: "selection_ok s" "bulk_value_ok s" using links.reachable_inv [OF assms(1)] by (simp_all add: links_inv_def)
  have "query_of (run_bulk t s) = query_of s" by (simp add: run_bulk_def links_simps split: sum.splits option.splits)
  then have m: "links_move t s RunBulk = run_bulk t s" by (simp add: links_move_def links_reload_def)
  show ?thesis
  proof (cases "\<exists>b. bulk_prepared t s = Inr (Some b)")
    case True
    then obtain b where b: "bulk_prepared t s = Inr (Some b)" by blast
    then show ?thesis using bulk_prepared_ok [OF b i] by (simp add: m run_bulk_def begin_op_def)
  next
    case False
    then have "needs_value (lg_bulk_action s) \<noteq> Some NeedsNone" using assms(2) by (auto simp: bulk_prepared_def Let_def)
    then show ?thesis using False by (auto simp: m run_bulk_def split: sum.splits option.splits)
  qed
qed

definition one_row :: link_page where
  \<comment> \<open>an answer with one link, for the witnesses\<close>
  "one_row = \<lparr>lp_links = Some
     [\<lparr>lk_id = js ''7'', lk_alias = js ''a'', lk_destination = js ''https://a'', lk_title = [], lk_tags = [], lk_redirect_code = 302,
       lk_status = js ''active'', lk_version = 1, lk_expires_at = None, lk_created_at = [], lk_updated_at = [], lk_clicks = None,
       lk_checked_at = None, lk_status_code = None, lk_rules = None, lk_domain = None, lk_interstitial = 0,
       lk_short_url = js ''https://s/a''\<rparr>],
     lp_total = Some 1, lp_limit = 20, lp_offset = 0\<rparr>"

definition one_selected :: "translator \<Rightarrow> links_state" where
  "one_selected t = foldl (links_move t) links_start
     [ListSettles (query_of links_blank) AfterNone (Inr one_row), ToggleOne (js ''7'')]"

lemma one_selected_run:
  "runs links_offered (links_move t) links_start
     [ListSettles (query_of links_blank) AfterNone (Inr one_row), ToggleOne (js ''7'')] = Some (one_selected t)"
  by (simp add: one_selected_def one_row_def links_start_def links_blank_def links_move_def links_reload_def links_simps
      toggle_one_def set_add_def Let_def)

lemma one_selected_state:
  "lg_selected (one_selected t) = [js ''7'']" "lg_bulk_action (one_selected t) = BDisable" "lg_busy (one_selected t) = False"
  by (simp_all add: one_selected_def one_row_def links_start_def links_blank_def links_move_def links_reload_def links_simps
      toggle_one_def set_add_def Let_def)

theorem links_bulk_exact_witness:
  "\<exists>b. bi_ids b = [js ''7''] \<and> bi_action b = BDisable \<and>
     lg_log (links_move (t_for (js ''en'')) (one_selected (t_for (js ''en''))) RunBulk) =
       lg_log (one_selected (t_for (js ''en''))) @ [Call (BulkLinks b)]"
  using links_bulk_exact [OF runs_from_start [OF one_selected_run [of "t_for (js ''en'')"]]]
  by (auto simp: one_selected_state)

text \<open>C17 The link list comes to rest: without further input, from any reachable state, at most as
  many answers are handled as the work in flight and the pages to step back over call for, however
  they settle, and settling can go on until nothing is in flight. Then the page is neither loading
  nor busy; in no state is it loading or busy without a request that will end it.\<close>
theorem links_come_to_rest:
  assumes "reachable links_start links_offered (links_move t) s"
  shows "(list_all links_settles es \<and> runs links_offered (links_move t) s es = Some s' \<longrightarrow> length es \<le> links_work s) \<and>
    (\<exists>es s'. list_all links_settles es \<and> runs links_offered (links_move t) s es = Some s' \<and> links_quiet s') \<and>
    (lg_busy s \<longrightarrow> list_ex holds_busy (lg_inflight s)) \<and> (lg_loading s \<longrightarrow> list_ex is_list (lg_inflight s))"
proof -
  have i: "links_inv s" by (rule links.reachable_inv [OF assms])
  then show ?thesis
    using links_rest.settling_ends [OF i, of es t s'] links_rest.comes_to_quiet [OF i, of t]
    by (auto simp: links_inv_def idle_ok_def)
qed

theorem links_come_to_rest_witness:
  "(\<exists>es s'. list_all links_settles es \<and>
      runs links_offered (links_move (t_for (js ''en''))) (one_selected (t_for (js ''en''))) es = Some s' \<and> links_quiet s')"
  using links_come_to_rest [OF runs_from_start [OF one_selected_run [of "t_for (js ''en'')"]]] by blast

end
