(* ===== verification/Stats_Page.thy ===== *)
theory Stats_Page
  imports Pager Js_Date Text_Tools
begin

text \<open>
  \<open>web/src/app/home/stats/page.tsx\<close>: the statistics page. Its requests are made by effects, each of
  which cancels its previous request when it runs again; a request in flight carries a flag that
  says whether it is still wanted. After a handler the effects run commit by commit until nothing
  they depend on changes.
\<close>

section \<open>Ranges\<close>

definition click_page_size :: int where "click_page_size = 20"

datatype preset = RToday | R7 | R30 | R90 | R365

definition range_presets :: "(preset \<times> string \<times> nat) list" where
  "range_presets =
     [(RToday, ''stats.range.today'', 0), (R7, ''stats.range.7d'', 6), (R30, ''stats.range.30d'', 29),
      (R90, ''stats.range.90d'', 89), (R365, ''stats.range.365d'', 364)]"

fun to_iso_date :: "civil \<Rightarrow> jstr" where
  "to_iso_date (y, mo, d) =
     js_of_int y @ [45] @ pad_start 2 48 (js_of_int mo) @ [45] @ pad_start 2 48 (js_of_int d)"

definition preset_days :: "preset \<Rightarrow> nat" where
  "preset_days p = (case map_of range_presets p of None \<Rightarrow> 29 | Some (_, n) \<Rightarrow> n)"

definition range_for_preset :: "civil \<Rightarrow> preset \<Rightarrow> date_range" where
  \<comment> \<open>the first argument is the day on the clock\<close>
  "range_for_preset today p = \<lparr>dr_from = to_iso_date (days_before (preset_days p) today), dr_to = to_iso_date today\<rparr>"

section \<open>Charts and tables\<close>

definition device_label :: "translator \<Rightarrow> jstr \<Rightarrow> jstr" where
  "device_label t device =
     (let key = js ''deviceStat.'' @ device in if has_message key then t key None else device)"

definition peak :: "('a \<Rightarrow> int) \<Rightarrow> 'a list \<Rightarrow> int" where
  \<comment> \<open>\<open>reduce((peak, item) => Math.max(peak, item.clicks), 0)\<close>\<close>
  "peak clicks xs = foldl (\<lambda>high x. max high (clicks x)) 0 xs"

definition bar_percent :: "int \<Rightarrow> int \<Rightarrow> int \<Rightarrow> rat" where
  \<comment> \<open>the size of a bar, given the least one\<close>
  "bar_percent least high clicks =
     (if high = 0 then of_int least else max (of_int least) (of_int clicks / of_int high * 100))"

definition trend_bars :: "trend_point list \<Rightarrow> rat list" where
  "trend_bars points = map (\<lambda>p. bar_percent 2 (peak tp_clicks points) (tp_clicks p)) points"

definition bar_list :: "('k \<times> jstr \<times> int) list \<Rightarrow> rat list" where
  "bar_list rows = map (\<lambda>r. bar_percent 3 (peak (snd \<circ> snd) rows) (snd (snd r))) rows"

definition daily_bars :: "daily_stat list \<Rightarrow> rat list" where
  "daily_bars items = map (\<lambda>i. bar_percent 4 (peak ds_clicks items) (ds_clicks i)) items"

definition referrer_rows :: "translator \<Rightarrow> referrer_stat list \<Rightarrow> (jstr \<times> jstr \<times> int) list" where
  "referrer_rows t items =
     map (\<lambda>i. (if rs_referrer i = [] then js ''__direct__'' else rs_referrer i,
               if rs_referrer i = [] then tr t ''stats.direct'' else rs_referrer i, rs_clicks i)) items"

definition device_rows :: "translator \<Rightarrow> device_stat list \<Rightarrow> (jstr \<times> jstr \<times> int) list" where
  "device_rows t items = map (\<lambda>i. (dv_device i, device_label t (dv_device i), dv_clicks i)) items"

lemma peak_fold:
  fixes f :: "'a \<Rightarrow> int"
  shows "high \<le> foldl (\<lambda>high x. max high (f x)) high xs" "x \<in> set xs \<Longrightarrow> f x \<le> foldl (\<lambda>high x. max high (f x)) high xs"
proof (induction xs arbitrary: high)
  case (Cons y ys)
  { case 1 then show ?case using Cons(1) [of "max high (f y)"] max.cobounded1 [of high "f y"] by (simp only: foldl.simps order.trans)
  next
    case 2 then show ?case using Cons(1) [of "max high (f y)"] Cons(2) [of "max high (f y)"] by fastforce }
qed simp_all

lemma peak_ge: "x \<in> set xs \<Longrightarrow> f x \<le> peak f xs" and peak_nonneg: "0 \<le> peak f xs"
  using peak_fold by (auto simp: peak_def)

lemma bar_percent_bounds:
  assumes "0 \<le> least" "least \<le> 100" "clicks \<le> high"
  shows "of_int least \<le> bar_percent least high clicks" "0 \<le> high \<Longrightarrow> bar_percent least high clicks \<le> 100"
proof -
  show "of_int least \<le> bar_percent least high clicks" by (simp add: bar_percent_def)
  show "bar_percent least high clicks \<le> 100" if "0 \<le> high"
  proof (cases "high = 0")
    case False
    then have "(of_int clicks :: rat) / of_int high \<le> 1" using that assms(3) by (simp add: divide_le_eq)
    then have "(of_int clicks :: rat) / of_int high * 100 \<le> 100" using mult_right_mono [of _ 1 "100 :: rat"] by fastforce
    then show ?thesis using False assms(2) by (simp add: bar_percent_def)
  qed (use assms(2) in \<open>simp add: bar_percent_def\<close>)
qed

section \<open>State\<close>

datatype ranking_order = Top | Bottom

fun order_text :: "ranking_order \<Rightarrow> jstr" where
  "order_text Top = js ''top''"
| "order_text Bottom = js ''bottom''"

datatype stats_effect = EOverview | ERanking | EAll | EDetail | EClicks

datatype stats_op =
    OverviewOp date_range
  | RankingOp ranking_order date_range
  | AllOp
  | DetailOp jstr date_range
  | ClicksOp jstr date_range int

fun effect_of :: "stats_op \<Rightarrow> stats_effect" where
  "effect_of (OverviewOp _) = EOverview"
| "effect_of (RankingOp _ _) = ERanking"
| "effect_of AllOp = EAll"
| "effect_of (DetailOp _ _) = EDetail"
| "effect_of (ClicksOp _ _ _) = EClicks"

record stats_state =
  st_preset :: preset
  st_range :: date_range \<comment> \<open>kept by \<open>useMemo\<close> while the preset stays\<close>
  st_overview :: "stats_overview option"
  st_ranking :: "link_record list"
  st_ranking_set :: nat \<comment> \<open>which array the ranking is: how often it was set\<close>
  st_order :: ranking_order
  st_all :: "link_record list"
  st_selected :: jstr
  st_detail :: "link_stats option"
  st_detail_loading :: bool
  st_click_log :: "click_page option"
  st_click_page :: int
  st_click_loading :: bool
  st_error :: jstr
  st_inflight :: "(stats_op \<times> bool) list" \<comment> \<open>the flag is \<open>!cancelled\<close>\<close>
  st_log :: "effect list"

section \<open>Effects\<close>

definition cancel_effect :: "stats_effect \<Rightarrow> stats_state \<Rightarrow> stats_state" where
  \<comment> \<open>the cleanup of an effect\<close>
  "cancel_effect k s = s\<lparr>st_inflight := map (\<lambda>(op, wanted). (op, wanted \<and> effect_of op \<noteq> k)) (st_inflight s)\<rparr>"

definition start_op :: "stats_op \<Rightarrow> api_call \<Rightarrow> stats_state \<Rightarrow> stats_state" where
  "start_op op call s = s\<lparr>st_inflight := st_inflight s @ [(op, True)], st_log := st_log s @ [Call call]\<rparr>"

definition effect_overview :: "stats_state \<Rightarrow> stats_state \<Rightarrow> stats_state" where
  "effect_overview r s = start_op (OverviewOp (st_range r)) (Overview (st_range r)) (cancel_effect EOverview s)"

definition effect_ranking :: "stats_state \<Rightarrow> stats_state \<Rightarrow> stats_state" where
  "effect_ranking r s =
     start_op (RankingOp (st_order r) (st_range r)) (TopLinks (order_text (st_order r)) 10 (Some (st_range r)))
       (cancel_effect ERanking s)"

definition effect_select :: "stats_state \<Rightarrow> stats_state \<Rightarrow> stats_state" where
  "effect_select r s =
     s\<lparr>st_selected :=
         (if st_selected s \<in> set (map lk_id (st_ranking r)) then st_selected s
          else case st_ranking r of [] \<Rightarrow> [] | link # _ \<Rightarrow> lk_id link)\<rparr>"

definition effect_detail :: "stats_state \<Rightarrow> stats_state \<Rightarrow> stats_state" where
  "effect_detail r s =
     (if st_selected r = [] then (cancel_effect EDetail s)\<lparr>st_detail := None\<rparr>
      else start_op (DetailOp (st_selected r) (st_range r)) (StatsOfLink (st_selected r) (Some (st_range r)))
             ((cancel_effect EDetail s)\<lparr>st_detail_loading := True\<rparr>))"

definition effect_first_page :: "stats_state \<Rightarrow> stats_state" where
  "effect_first_page s = s\<lparr>st_click_page := 0\<rparr>"

definition effect_clicks :: "stats_state \<Rightarrow> stats_state \<Rightarrow> stats_state" where
  "effect_clicks r s =
     (if st_selected r = [] then (cancel_effect EClicks s)\<lparr>st_click_log := None\<rparr>
      else start_op (ClicksOp (st_selected r) (st_range r) (st_click_page r))
             (ClicksOfLink (st_selected r) (st_range r) (Some click_page_size) (Some (st_click_page r * click_page_size)))
             ((cancel_effect EClicks s)\<lparr>st_click_loading := True\<rparr>))"

definition stats_commit :: "stats_state \<Rightarrow> stats_state \<Rightarrow> stats_state" where
  \<comment> \<open>the effects after the render of \<open>r\<close>, those whose dependencies changed since the render of
      \<open>old\<close>, in the order they are declared\<close>
  "stats_commit old r =
     (let moved = st_preset r \<noteq> st_preset old;
          selection = moved \<or> st_selected r \<noteq> st_selected old;
          s1 = (if moved then effect_overview r r else r);
          s2 = (if moved \<or> st_order r \<noteq> st_order old then effect_ranking r s1 else s1);
          s3 = (if st_ranking_set r \<noteq> st_ranking_set old then effect_select r s2 else s2);
          s4 = (if selection then effect_detail r s3 else s3);
          s5 = (if selection then effect_first_page s4 else s4)
      in if selection \<or> st_click_page r \<noteq> st_click_page old then effect_clicks r s5 else s5)"

definition same_deps :: "stats_state \<Rightarrow> stats_state \<Rightarrow> bool" where
  "same_deps a b \<longleftrightarrow>
     st_preset a = st_preset b \<and> st_order a = st_order b \<and> st_ranking_set a = st_ranking_set b \<and>
     st_selected a = st_selected b \<and> st_click_page a = st_click_page b"

fun stats_flush :: "nat \<Rightarrow> stats_state \<Rightarrow> stats_state \<Rightarrow> stats_state" where
  \<comment> \<open>commits until no dependency changes; \<open>flush_settled\<close> shows that three are enough\<close>
  "stats_flush 0 old r = r"
| "stats_flush (Suc n) old r = (if same_deps old r then r else stats_flush n r (stats_commit old r))"

section \<open>Handlers\<close>

datatype stats_answer =
    OverviewAnswer stats_overview | RankingAnswer "link_record list" | AllAnswer "link_record list option"
  | DetailAnswer link_stats | ClicksAnswer click_page

fun answers :: "stats_answer \<Rightarrow> stats_op \<Rightarrow> bool" where
  "answers (OverviewAnswer _) op \<longleftrightarrow> effect_of op = EOverview"
| "answers (RankingAnswer _) op \<longleftrightarrow> effect_of op = ERanking"
| "answers (AllAnswer _) op \<longleftrightarrow> effect_of op = EAll"
| "answers (DetailAnswer _) op \<longleftrightarrow> effect_of op = EDetail"
| "answers (ClicksAnswer _) op \<longleftrightarrow> effect_of op = EClicks"

datatype stats_event =
    PickPreset preset civil
  | PickOrder ranking_order
  | PickLink jstr
  | ClicksPrevious
  | ClicksNext
  | ExportRanking
  | ExportTrend
  | StatsSettles stats_op bool "stats_answer promise"

fun stats_apply :: "stats_answer \<Rightarrow> stats_state \<Rightarrow> stats_state" where
  "stats_apply (OverviewAnswer o1) s = s\<lparr>st_overview := Some o1, st_error := []\<rparr>"
| "stats_apply (RankingAnswer links) s = s\<lparr>st_ranking := links, st_ranking_set := st_ranking_set s + 1\<rparr>"
| "stats_apply (AllAnswer links) s = s\<lparr>st_all := (case links of None \<Rightarrow> [] | Some ls \<Rightarrow> ls)\<rparr>"
| "stats_apply (DetailAnswer d) s = s\<lparr>st_detail := Some d, st_detail_loading := False\<rparr>"
| "stats_apply (ClicksAnswer c) s = s\<lparr>st_click_log := Some c, st_click_loading := False\<rparr>"

fun stats_fail :: "translator \<Rightarrow> stats_op \<Rightarrow> exn \<Rightarrow> stats_state \<Rightarrow> stats_state" where
  "stats_fail t (OverviewOp _) e s = s\<lparr>st_error := error_text t e ''stats.loadFailed'' []\<rparr>"
| "stats_fail t (RankingOp _ _) e s = s\<lparr>st_error := error_text t e ''stats.loadRankingFailed'' []\<rparr>"
| "stats_fail t AllOp e s = s"
| "stats_fail t (DetailOp _ _) e s = s\<lparr>st_error := error_text t e ''stats.loadDetailFailed'' [], st_detail_loading := False\<rparr>"
| "stats_fail t (ClicksOp _ _ _) e s =
     s\<lparr>st_error := error_text t e ''stats.loadClicksFailed'' [], st_click_loading := False\<rparr>"

definition ranking_csv :: "translator \<Rightarrow> link_record list \<Rightarrow> pval list list" where
  "ranking_csv t links =
     [PText (tr t ''stats.csv.rank''), PText (tr t ''stats.table.short''), PText (tr t ''stats.csv.destination''),
      PText (tr t ''stats.table.clicks'')] #
     map (\<lambda>(i, l). [PInt (int i + 1), PText (47 # lk_alias l), PText (lk_destination l),
                    PInt (case lk_clicks l of None \<Rightarrow> 0 | Some n \<Rightarrow> n)]) (enumerate 0 links)"

definition trend_csv :: "translator \<Rightarrow> stats_overview option \<Rightarrow> pval list list" where
  "trend_csv t overview =
     [PText (tr t ''stats.csv.date''), PText (tr t ''stats.table.clicks'')] #
     map (\<lambda>p. [PText (take 10 (tp_day p)), PInt (tp_clicks p)]) (case overview of None \<Rightarrow> [] | Some o1 \<Rightarrow> so_trend o1)"

definition range_file :: "string \<Rightarrow> date_range \<Rightarrow> jstr" where
  "range_file name window = js name @ dr_from window @ [95] @ dr_to window @ js ''.csv''"

definition click_total :: "stats_state \<Rightarrow> int" where
  "click_total s = (case st_click_log s of None \<Rightarrow> 0 | Some l \<Rightarrow> cp_total l)"

definition detail_shown :: "stats_state \<Rightarrow> bool" where
  "detail_shown s \<longleftrightarrow> st_selected s \<noteq> [] \<and> st_detail s \<noteq> None \<and> \<not> st_detail_loading s"

definition detail_alias :: "stats_state \<Rightarrow> jstr" where
  "detail_alias s =
     (case find (\<lambda>l. lk_id l = st_selected s) (st_all s) of
        Some l \<Rightarrow> lk_alias l
      | None \<Rightarrow> (case find (\<lambda>l. lk_id l = st_selected s) (st_ranking s) of Some l \<Rightarrow> lk_alias l | None \<Rightarrow> []))"

definition show_visitors :: "stats_state \<Rightarrow> bool" where
  "show_visitors s \<longleftrightarrow> (case st_overview s of None \<Rightarrow> True | Some o1 \<Rightarrow> so_ip_mode o1 \<noteq> js ''none'')"

fun stats_offered :: "stats_state \<Rightarrow> stats_event \<Rightarrow> bool" where
  "stats_offered s (PickPreset p today) \<longleftrightarrow> p \<in> set (map fst range_presets) \<and> valid_day today"
| "stats_offered s (PickOrder o1) \<longleftrightarrow> True"
| "stats_offered s (PickLink i) \<longleftrightarrow> i = [] \<or> i \<in> set (map lk_id (st_all s)) \<or> i \<in> set (map lk_id (st_ranking s))"
| "stats_offered s ClicksPrevious \<longleftrightarrow>
     detail_shown s \<and> 0 < click_total s \<and> \<not> (st_click_page s = 0 \<or> st_click_loading s)"
| "stats_offered s ClicksNext \<longleftrightarrow>
     detail_shown s \<and> 0 < click_total s \<and>
     \<not> ((st_click_page s + 1) * click_page_size \<ge> click_total s \<or> st_click_loading s)"
| "stats_offered s ExportRanking \<longleftrightarrow> st_ranking s \<noteq> []"
| "stats_offered s ExportTrend \<longleftrightarrow> True"
| "stats_offered s (StatsSettles op wanted r) \<longleftrightarrow>
     (op, wanted) \<in> set (st_inflight s) \<and> (case r of Inl _ \<Rightarrow> True | Inr a \<Rightarrow> answers a op)"

fun stats_handle :: "translator \<Rightarrow> stats_state \<Rightarrow> stats_event \<Rightarrow> stats_state" where
  "stats_handle t s (PickPreset p today) =
     (if p = st_preset s then s else s\<lparr>st_preset := p, st_range := range_for_preset today p\<rparr>)"
| "stats_handle t s (PickOrder o1) = s\<lparr>st_order := o1\<rparr>"
| "stats_handle t s (PickLink i) = s\<lparr>st_selected := i\<rparr>"
| "stats_handle t s ClicksPrevious = s\<lparr>st_click_page := previous_page (st_click_page s)\<rparr>"
| "stats_handle t s ClicksNext = s\<lparr>st_click_page := st_click_page s + 1\<rparr>"
| "stats_handle t s ExportRanking =
     s\<lparr>st_log := st_log s @ [Download (range_file ''purels-ranking-'' (st_range s)) (csv_content (ranking_csv t (st_ranking s)))]\<rparr>"
| "stats_handle t s ExportTrend =
     s\<lparr>st_log := st_log s @ [Download (range_file ''purels-trend-'' (st_range s)) (csv_content (trend_csv t (st_overview s)))]\<rparr>"
| "stats_handle t s (StatsSettles op wanted r) =
     (let s1 = s\<lparr>st_inflight := remove1 (op, wanted) (st_inflight s)\<rparr> in
      if \<not> wanted then s1 else case r of Inr a \<Rightarrow> stats_apply a s1 | Inl e \<Rightarrow> stats_fail t op e s1)"

definition stats_move :: "translator \<Rightarrow> stats_state \<Rightarrow> stats_event \<Rightarrow> stats_state" where
  "stats_move t s e = stats_flush 4 s (stats_handle t s e)"

definition stats_blank :: "civil \<Rightarrow> stats_state" where
  "stats_blank today =
     \<lparr>st_preset = R30, st_range = range_for_preset today R30, st_overview = None, st_ranking = [], st_ranking_set = 0,
      st_order = Top, st_all = [], st_selected = [], st_detail = None, st_detail_loading = False, st_click_log = None,
      st_click_page = 0, st_click_loading = False, st_error = [], st_inflight = [], st_log = []\<rparr>"

definition stats_start :: "civil \<Rightarrow> stats_state" where
  \<comment> \<open>after the effects of the first render\<close>
  "stats_start today =
     (let r = stats_blank today in
      effect_clicks r (effect_first_page (effect_detail r (effect_select r
        (start_op AllOp (ListLinks \<lparr>pa_limit = Some 100, pa_offset = None, pa_sort = Some CreatedDesc, pa_status = None,
                                   pa_search = None, pa_tag = None\<rparr>)
          (effect_ranking r (effect_overview r r)))))))"

section \<open>Effects settle\<close>

lemmas effect_defs = effect_overview_def effect_ranking_def effect_select_def effect_detail_def effect_first_page_def
  effect_clicks_def cancel_effect_def start_op_def

lemma commit_deps:
  "st_preset (stats_commit old r) = st_preset r" "st_order (stats_commit old r) = st_order r"
  "st_range (stats_commit old r) = st_range r"
  "st_ranking_set (stats_commit old r) = st_ranking_set r" "st_ranking (stats_commit old r) = st_ranking r"
  "st_ranking_set r = st_ranking_set old \<Longrightarrow> st_selected (stats_commit old r) = st_selected r"
  "st_click_page (stats_commit old r) =
     (if st_preset r \<noteq> st_preset old \<or> st_selected r \<noteq> st_selected old then 0 else st_click_page r)"
  by (simp_all add: stats_commit_def effect_defs Let_def)

text \<open>Only selecting and going back to the first page feed further commits: after a third commit no
  effect has anything left to do.\<close>

lemma three_commits:
  assumes "s1 = stats_commit old r" "s2 = stats_commit r s1" "s3 = stats_commit s1 s2"
  shows "same_deps s2 s3"
  using assms commit_deps by (simp add: same_deps_def)

lemma flush_settled: "\<exists>d. same_deps d (stats_flush 4 old r) \<and> (d = old \<and> stats_flush 4 old r = r \<or>
    (\<exists>o1. stats_flush 4 old r = stats_commit o1 d))"
proof -
  define s1 s2 s3 where s: "s1 = stats_commit old r" "s2 = stats_commit r s1" "s3 = stats_commit s1 s2"
  have "stats_flush 4 old r =
    (if same_deps old r then r else if same_deps r s1 then s1 else if same_deps s1 s2 then s2 else s3)"
    using three_commits [OF s] by (simp add: eval_nat_numeral s)
  then show ?thesis using three_commits [OF s] s by (auto split: if_splits)
qed

section \<open>Which requests are wanted\<close>

definition wanted_of :: "stats_effect \<Rightarrow> stats_state \<Rightarrow> stats_op list" where
  "wanted_of k s = map fst (filter (\<lambda>(op, wanted). wanted \<and> effect_of op = k) (st_inflight s))"

fun op_current :: "stats_state \<Rightarrow> stats_op \<Rightarrow> bool" where
  \<comment> \<open>the request the effect makes in this state\<close>
  "op_current s (OverviewOp r) \<longleftrightarrow> r = st_range s"
| "op_current s (RankingOp o1 r) \<longleftrightarrow> o1 = st_order s \<and> r = st_range s"
| "op_current s AllOp \<longleftrightarrow> True"
| "op_current s (DetailOp i r) \<longleftrightarrow> i = st_selected s \<and> i \<noteq> [] \<and> r = st_range s"
| "op_current s (ClicksOp i r p) \<longleftrightarrow> i = st_selected s \<and> i \<noteq> [] \<and> r = st_range s \<and> p = st_click_page s"

definition stats_wants :: "stats_state \<Rightarrow> stats_state \<Rightarrow> bool" where
  \<comment> \<open>each effect wants no more than the request it makes in \<open>d\<close>, and a panel for a link is loading
      only while a wanted request will end it\<close>
  "stats_wants d s \<longleftrightarrow>
     (wanted_of EOverview s = [] \<or> wanted_of EOverview s = [OverviewOp (st_range d)]) \<and>
     (wanted_of ERanking s = [] \<or> wanted_of ERanking s = [RankingOp (st_order d) (st_range d)]) \<and>
     (wanted_of EDetail s = [] \<or> st_selected d \<noteq> [] \<and> wanted_of EDetail s = [DetailOp (st_selected d) (st_range d)]) \<and>
     (wanted_of EClicks s = [] \<or>
      st_selected d \<noteq> [] \<and> wanted_of EClicks s = [ClicksOp (st_selected d) (st_range d) (st_click_page d)]) \<and>
     (st_selected d \<noteq> [] \<longrightarrow>
        (st_detail_loading s \<longrightarrow> wanted_of EDetail s \<noteq> []) \<and> (st_click_loading s \<longrightarrow> wanted_of EClicks s \<noteq> []))"

definition same_range :: "stats_state \<Rightarrow> stats_state \<Rightarrow> bool" where
  "same_range old s \<longleftrightarrow> (st_preset s = st_preset old \<longrightarrow> st_range s = st_range old)"

lemma wanted_cancel [simp]: "wanted_of k (cancel_effect k' s) = (if k = k' then [] else wanted_of k s)"
proof -
  have "map fst (filter (\<lambda>(op, wanted). wanted \<and> effect_of op = k)
      (map (\<lambda>(op, wanted). (op, wanted \<and> effect_of op \<noteq> k')) ops)) =
    (if k = k' then [] else map fst (filter (\<lambda>(op, wanted). wanted \<and> effect_of op = k) ops))" for ops
    by (induction ops) auto
  then show ?thesis by (simp add: wanted_of_def cancel_effect_def)
qed

lemma wanted_start [simp]: "wanted_of k (start_op op c s) = wanted_of k s @ (if effect_of op = k then [op] else [])"
  by (simp add: wanted_of_def start_op_def)

lemma wanted_fields [simp]:
  "wanted_of k (s\<lparr>st_detail := x1\<rparr>) = wanted_of k s" "wanted_of k (s\<lparr>st_click_log := x2\<rparr>) = wanted_of k s"
  "wanted_of k (s\<lparr>st_detail_loading := x3\<rparr>) = wanted_of k s" "wanted_of k (s\<lparr>st_click_loading := x3\<rparr>) = wanted_of k s"
  "wanted_of k (s\<lparr>st_selected := x4\<rparr>) = wanted_of k s" "wanted_of k (s\<lparr>st_click_page := x5\<rparr>) = wanted_of k s"
  by (simp_all add: wanted_of_def)

lemma wanted_commit:
  "wanted_of EOverview (stats_commit old r) =
     (if st_preset r \<noteq> st_preset old then [OverviewOp (st_range r)] else wanted_of EOverview r)"
  "wanted_of ERanking (stats_commit old r) =
     (if st_preset r \<noteq> st_preset old \<or> st_order r \<noteq> st_order old then [RankingOp (st_order r) (st_range r)]
      else wanted_of ERanking r)"
  "wanted_of EDetail (stats_commit old r) =
     (if st_preset r \<noteq> st_preset old \<or> st_selected r \<noteq> st_selected old
      then (if st_selected r = [] then [] else [DetailOp (st_selected r) (st_range r)]) else wanted_of EDetail r)"
  "wanted_of EClicks (stats_commit old r) =
     (if st_preset r \<noteq> st_preset old \<or> st_selected r \<noteq> st_selected old \<or> st_click_page r \<noteq> st_click_page old
      then (if st_selected r = [] then [] else [ClicksOp (st_selected r) (st_range r) (st_click_page r)])
      else wanted_of EClicks r)"
  by (simp_all add: stats_commit_def effect_overview_def effect_ranking_def effect_select_def effect_detail_def
      effect_first_page_def effect_clicks_def Let_def)

lemma commit_loading:
  "st_detail_loading (stats_commit old r) \<longleftrightarrow>
     st_detail_loading r \<or> (st_preset r \<noteq> st_preset old \<or> st_selected r \<noteq> st_selected old) \<and> st_selected r \<noteq> []"
  "st_click_loading (stats_commit old r) \<longleftrightarrow>
     st_click_loading r \<or>
     (st_preset r \<noteq> st_preset old \<or> st_selected r \<noteq> st_selected old \<or> st_click_page r \<noteq> st_click_page old) \<and>
     st_selected r \<noteq> []"
  by (auto simp: stats_commit_def effect_defs Let_def)

lemma commit_wants:
  assumes "stats_wants old r" "same_range old r"
  shows "stats_wants r (stats_commit old r)"
  using assms by (auto simp: stats_wants_def same_range_def wanted_commit commit_loading)

lemma wants_same: "same_deps d s \<Longrightarrow> st_range d = st_range s \<Longrightarrow> stats_wants d s \<Longrightarrow> stats_wants s s"
  by (simp add: stats_wants_def same_deps_def)

lemma flush_wants:
  assumes "stats_wants old r" "same_range old r"
  shows "stats_wants (stats_flush 4 old r) (stats_flush 4 old r)"
proof -
  define s1 s2 s3 where s: "s1 = stats_commit old r" "s2 = stats_commit r s1" "s3 = stats_commit s1 s2"
  have eq: "stats_flush 4 old r =
    (if same_deps old r then r else if same_deps r s1 then s1 else if same_deps s1 s2 then s2 else s3)"
    using three_commits [OF s] by (simp add: eval_nat_numeral s)
  have rng: "st_range s1 = st_range r" "st_range s2 = st_range s1" "st_range s3 = st_range s2"
    by (simp_all add: s commit_deps)
  have w1: "stats_wants r s1" using commit_wants [OF assms] by (simp add: s)
  then have w2: "stats_wants s1 s2" using commit_wants [of r s1] rng by (simp add: s(2) same_range_def)
  then have w3: "stats_wants s2 s3" using commit_wants [of s1 s2] rng by (simp add: s(3) same_range_def)
  have "same_deps old r \<Longrightarrow> st_range old = st_range r" using assms(2) by (simp add: same_range_def same_deps_def)
  then show ?thesis using assms(1) w1 w2 w3 rng three_commits [OF s] wants_same by (simp add: eq)
qed

lemma map_fst_remove1:
  "list_all snd xs \<Longrightarrow> map fst (remove1 (op, True) xs) = remove1 op (map fst xs)"
  by (induction xs) auto

lemma wanted_remove:
  "wanted_of k (s\<lparr>st_inflight := remove1 (op, wanted) (st_inflight s)\<rparr>) =
     (if wanted \<and> effect_of op = k then remove1 op (wanted_of k s) else wanted_of k s)"
proof -
  define P where "P = (\<lambda>(op, wanted). wanted \<and> effect_of op = k)"
  have all: "list_all snd (filter P ops)" for ops by (induction ops) (auto simp: P_def)
  have w: "wanted_of k s = map fst (filter P (st_inflight s))" for s by (simp add: wanted_of_def P_def)
  have p: "(wanted \<and> effect_of op = k) = P (op, wanted)" by (simp add: P_def)
  show ?thesis
  proof (cases "P (op, wanted)")
    case True
    then have "wanted" "effect_of op = k" by (simp_all add: P_def)
    with True all show ?thesis by (simp add: w p filter_remove1 map_fst_remove1)
  qed (simp add: w p filter_remove1 remove1_idem)
qed

lemma wanted_mem: "(op, True) \<in> set (st_inflight s) \<Longrightarrow> op \<in> set (wanted_of (effect_of op) s)"
  by (force simp: wanted_of_def)

lemma apply_frame [simp]:
  "st_preset (stats_apply a s) = st_preset s" "st_range (stats_apply a s) = st_range s"
  "st_order (stats_apply a s) = st_order s" "st_selected (stats_apply a s) = st_selected s"
  "st_click_page (stats_apply a s) = st_click_page s" "st_inflight (stats_apply a s) = st_inflight s"
  by (cases a; simp)+

lemma fail_frame [simp]:
  "st_preset (stats_fail t op e s) = st_preset s" "st_range (stats_fail t op e s) = st_range s"
  "st_order (stats_fail t op e s) = st_order s" "st_selected (stats_fail t op e s) = st_selected s"
  "st_click_page (stats_fail t op e s) = st_click_page s" "st_inflight (stats_fail t op e s) = st_inflight s"
  by (cases op; simp)+

lemma wanted_frame [simp]: "wanted_of k (stats_apply a s) = wanted_of k s" "wanted_of k (stats_fail t op e s) = wanted_of k s"
  by (simp_all add: wanted_of_def)

lemma settle_loading:
  "answers a op \<Longrightarrow> st_detail_loading (stats_apply a s) = (st_detail_loading s \<and> effect_of op \<noteq> EDetail)"
  "answers a op \<Longrightarrow> st_click_loading (stats_apply a s) = (st_click_loading s \<and> effect_of op \<noteq> EClicks)"
  by (cases a; simp)+

lemma failed_loading:
  "st_detail_loading (stats_fail t op e s) = (st_detail_loading s \<and> effect_of op \<noteq> EDetail)"
  "st_click_loading (stats_fail t op e s) = (st_click_loading s \<and> effect_of op \<noteq> EClicks)"
  by (cases op; simp)+

lemma handle_range: "same_range s (stats_handle t s e)"
  by (cases "(t, s, e)" rule: stats_handle.cases) (auto simp: same_range_def Let_def split: sum.splits)

lemma wanted_single:
  assumes "stats_wants s s" "(op, True) \<in> set (st_inflight s)"
  shows "op_current s op \<and> (op = AllOp \<or> wanted_of (effect_of op) s = [op])"
proof -
  have m: "op \<in> set (wanted_of (effect_of op) s)" by (rule wanted_mem [OF assms(2)])
  have "wanted_of EOverview s = [] \<or> wanted_of EOverview s = [OverviewOp (st_range s)]"
    "wanted_of ERanking s = [] \<or> wanted_of ERanking s = [RankingOp (st_order s) (st_range s)]"
    "wanted_of EDetail s = [] \<or> st_selected s \<noteq> [] \<and> wanted_of EDetail s = [DetailOp (st_selected s) (st_range s)]"
    "wanted_of EClicks s = [] \<or>
      st_selected s \<noteq> [] \<and> wanted_of EClicks s = [ClicksOp (st_selected s) (st_range s) (st_click_page s)]"
    using assms(1) unfolding stats_wants_def by blast+
  note one = this
  show ?thesis
  proof (cases op)
    case OverviewOp
    then show ?thesis using m one(1) by auto
  next
    case RankingOp
    then show ?thesis using m one(2) by auto
  next
    case DetailOp
    then show ?thesis using m one(3) by auto
  next
    case ClicksOp
    then show ?thesis using m one(4) by auto
  qed simp
qed

lemma settle_wants:
  assumes "stats_wants s s" "stats_offered s (StatsSettles op wanted r)"
  shows "stats_wants s (stats_handle t s (StatsSettles op wanted r))"
proof (cases wanted)
  case False
  then show ?thesis using assms(1) by (simp add: stats_wants_def wanted_remove)
next
  case True
  then have m: "op = AllOp \<or> wanted_of (effect_of op) s = [op]" using assms wanted_single by simp
  show ?thesis
  proof (cases r)
    case (Inl e)
    with m True assms(1) show ?thesis by (cases op; simp add: stats_wants_def wanted_remove failed_loading del: stats_fail.simps; blast?)
  next
    case (Inr a)
    then have "answers a op" using assms(2) by simp
    note settled = settle_loading [OF this]
    with Inr m True assms(1) show ?thesis by (cases op; simp add: stats_wants_def wanted_remove settled del: stats_apply.simps; blast?)
  qed
qed

lemma handle_wants:
  assumes "stats_wants s s" "stats_offered s e"
  shows "stats_wants s (stats_handle t s e)"
proof (cases "\<exists>op wanted r. e = StatsSettles op wanted r")
  case True
  then show ?thesis using settle_wants assms by blast
next
  case False
  then have "st_inflight (stats_handle t s e) = st_inflight s"
    "st_detail_loading (stats_handle t s e) = st_detail_loading s"
    "st_click_loading (stats_handle t s e) = st_click_loading s"
    by (cases e; simp)+
  then show ?thesis using assms(1) by (simp add: stats_wants_def wanted_of_def)
qed

definition stats_inv :: "stats_state \<Rightarrow> bool" where
  "stats_inv s \<longleftrightarrow> stats_wants s s"

interpretation stats: react_page "stats_start today" stats_offered "stats_move t" stats_inv for today t
proof
  show "stats_inv (stats_start today)"
    by (simp add: stats_inv_def stats_start_def stats_blank_def effect_defs stats_wants_def wanted_of_def Let_def)
  show "stats_inv (stats_move t s e)" if "stats_inv s" "stats_offered s e" for s e
    using flush_wants [OF handle_wants [OF _ that(2), of t] handle_range] that(1) by (simp add: stats_inv_def stats_move_def)
qed

section \<open>What a failure leaves on the screen\<close>

text \<open>A failed request for the figures of a link leaves those of the link shown before, under the
  alias of the new one.\<close>

lemma stats_detail_kept:
  assumes "i \<noteq> []" "(DetailOp i w, True) \<in> set (st_inflight s)" "st_selected s = i"
  shows "st_detail (stats_handle t s (StatsSettles (DetailOp i w) True (Inl e))) = st_detail s \<and>
    st_selected (stats_handle t s (StatsSettles (DetailOp i w) True (Inl e))) = i \<and>
    \<not> st_detail_loading (stats_handle t s (StatsSettles (DetailOp i w) True (Inl e)))"
  by (simp add: assms)

section \<open>Properties\<close>

text \<open>C15 The statistics page never shows the answer to a superseded request: in any run each effect
  wants at most one request, the one for the range, order, link and page of the current state; the
  settling of any other request changes nothing but the list of requests in flight. A panel for a
  link is loading only while a wanted request will end it.\<close>
theorem stats_no_stale_answers:
  assumes "reachable (stats_start today) stats_offered (stats_move t) s"
    and "stats_offered s (StatsSettles op wanted r)"
  shows "(if wanted then op_current s op \<and> (op = AllOp \<or> wanted_of (effect_of op) s = [op])
     else stats_move t s (StatsSettles op wanted r) = s\<lparr>st_inflight := remove1 (op, wanted) (st_inflight s)\<rparr>) \<and>
    (st_selected s \<noteq> [] \<and> st_detail_loading s \<longrightarrow> wanted_of EDetail s \<noteq> []) \<and>
    (st_selected s \<noteq> [] \<and> st_click_loading s \<longrightarrow> wanted_of EClicks s \<noteq> [])"
proof -
  have w: "stats_wants s s" using stats.reachable_inv [OF assms(1)] by (simp add: stats_inv_def)
  have "same_deps s (s\<lparr>st_inflight := ops\<rparr>)" for ops by (simp add: same_deps_def)
  then have "stats_flush 4 s (s\<lparr>st_inflight := ops\<rparr>) = s\<lparr>st_inflight := ops\<rparr>" for ops
    by (simp add: eval_nat_numeral)
  then show ?thesis using wanted_single [OF w] w assms(2)
    by (cases wanted) (simp_all add: stats_move_def stats_wants_def [of s s])
qed

theorem stats_no_stale_answers_witness:
  "op_current (stats_start (2024, 3, 1)) (OverviewOp \<lparr>dr_from = js ''2024-02-01'', dr_to = js ''2024-03-01''\<rparr>)"
proof -
  have r: "range_for_preset (2024, 3, 1) R30 = \<lparr>dr_from = js ''2024-02-01'', dr_to = js ''2024-03-01''\<rparr>"
    by code_simp
  have "(OverviewOp \<lparr>dr_from = js ''2024-02-01'', dr_to = js ''2024-03-01''\<rparr>, True) \<in> set (st_inflight (stats_start (2024, 3, 1)))"
    by (simp add: stats_start_def stats_blank_def effect_defs Let_def r)
  then show ?thesis
    using stats_no_stale_answers [OF reachable.mounted, of "(2024, 3, 1)"
        "OverviewOp \<lparr>dr_from = js ''2024-02-01'', dr_to = js ''2024-03-01''\<rparr>" True "Inl Thrown"]
    by (simp del: op_current.simps)
qed

text \<open>A preset asks for exactly its days: for a valid day on the clock the range ends on that day
  and starts as many days earlier as the preset says, on a valid day, across months and leap years.\<close>
lemma preset_range_days:
  assumes "valid_day today"
  shows "\<exists>first. range_for_preset today p = \<lparr>dr_from = to_iso_date first, dr_to = to_iso_date today\<rparr> \<and>
    valid_day first \<and> (next_day ^^ preset_days p) first = today \<and> preset_days p < 365"
proof -
  have "preset_days p < 365" by (cases p) (simp_all add: preset_days_def range_presets_def)
  then show ?thesis
    using days_before_valid [OF assms, of "preset_days p"] days_before_steps [OF assms, of "preset_days p"]
    by (intro exI [of _ "days_before (preset_days p) today"]) (simp add: range_for_preset_def)
qed

lemma preset_range_days_witness:
  "\<exists>first. range_for_preset (2024, 3, 1) R7 = \<lparr>dr_from = to_iso_date first, dr_to = to_iso_date (2024, 3, 1)\<rparr> \<and>
     (next_day ^^ 6) first = (2024, 3, 1)"
proof -
  have "valid_day (2024, 3, 1)" "preset_days R7 = 6" by code_simp+
  then show ?thesis using preset_range_days [of "(2024, 3, 1)" R7] by auto
qed

end
