(* ===== verification/Saved_Form.thy ===== *)
theory Saved_Form
  imports Runtime_Form Settling Analytics_Config
begin

text \<open>
  The forms of one saved record: \<open>web/src/components/settings/captcha-form.tsx\<close> and
  \<open>tracking-form.tsx\<close>. The two files repeat the same state, handlers and guards around what differs
  (the draft, the two calls, the check before saving), which is a record of its own here.
\<close>

section \<open>State\<close>

record 'd saved_form =
  sf_saved :: 'd
  sf_draft :: 'd
  sf_error :: jstr
  sf_notice :: jstr
  sf_loading :: bool
  sf_loaded :: bool
  sf_busy :: bool
  sf_pending :: "pending_call list"
  sf_log :: "effect list"

record ('d, 'c, 'v) form_kind =
  fk_empty :: 'd
  fk_to_draft :: "'v \<Rightarrow> 'd"
  fk_change :: "'c \<Rightarrow> 'd \<Rightarrow> 'd"
  fk_get :: api_call
  fk_save :: "'d \<Rightarrow> string + api_call" \<comment> \<open>the key of a message when the draft is refused\<close>
  fk_forbidden :: string

section \<open>Handlers\<close>

definition sf_dirty :: "'d saved_form \<Rightarrow> bool" where
  "sf_dirty s \<longleftrightarrow> sf_draft s \<noteq> sf_saved s"

definition describe_error :: "translator \<Rightarrow> ('d, 'c, 'v) form_kind \<Rightarrow> exn \<Rightarrow> string \<Rightarrow> jstr" where
  "describe_error t k e fallback = error_text t e fallback [(403, fk_forbidden k)]"

definition sf_load :: "('d, 'c, 'v) form_kind \<Rightarrow> 'd saved_form \<Rightarrow> 'd saved_form" where
  "sf_load k s =
     s\<lparr>sf_loading := True, sf_loaded := False, sf_pending := sf_pending s @ [PLoad], sf_log := sf_log s @ [Call (fk_get k)]\<rparr>"

definition sf_load_answered :: "('d, 'c, 'v) form_kind \<Rightarrow> 'v \<Rightarrow> 'd saved_form \<Rightarrow> 'd saved_form" where
  "sf_load_answered k v s =
     s\<lparr>sf_saved := fk_to_draft k v, sf_draft := fk_to_draft k v, sf_loaded := True, sf_error := [], sf_loading := False,
       sf_pending := remove1 PLoad (sf_pending s)\<rparr>"

definition sf_load_failed :: "translator \<Rightarrow> ('d, 'c, 'v) form_kind \<Rightarrow> exn \<Rightarrow> 'd saved_form \<Rightarrow> 'd saved_form" where
  "sf_load_failed t k e s =
     s\<lparr>sf_error := describe_error t k e ''error.load'', sf_loading := False, sf_pending := remove1 PLoad (sf_pending s)\<rparr>"

definition sf_edit :: "('d, 'c, 'v) form_kind \<Rightarrow> 'c \<Rightarrow> 'd saved_form \<Rightarrow> 'd saved_form" where
  "sf_edit k c s = s\<lparr>sf_notice := [], sf_draft := fk_change k c (sf_draft s)\<rparr>"

definition sf_discard :: "'d saved_form \<Rightarrow> 'd saved_form" where
  "sf_discard s = s\<lparr>sf_draft := sf_saved s, sf_error := [], sf_notice := []\<rparr>"

definition sf_save :: "translator \<Rightarrow> ('d, 'c, 'v) form_kind \<Rightarrow> 'd saved_form \<Rightarrow> 'd saved_form" where
  "sf_save t k s =
     (case fk_save k (sf_draft s) of
        Inl message \<Rightarrow> s\<lparr>sf_notice := [], sf_error := tr t message\<rparr>
      | Inr call \<Rightarrow>
          s\<lparr>sf_busy := True, sf_error := [], sf_notice := [], sf_pending := sf_pending s @ [PSave],
            sf_log := sf_log s @ [Call call]\<rparr>)"

definition sf_stored :: "translator \<Rightarrow> ('d, 'c, 'v) form_kind \<Rightarrow> 'v \<Rightarrow> 'd saved_form \<Rightarrow> 'd saved_form" where
  "sf_stored t k v s =
     s\<lparr>sf_saved := fk_to_draft k v, sf_draft := fk_to_draft k v, sf_notice := tr t ''settings.saved'', sf_busy := False,
       sf_pending := remove1 PSave (sf_pending s),
       sf_log := sf_log s @ [Toast ToastSuccess (tr t ''settings.saved'') []]\<rparr>"

definition sf_save_failed :: "translator \<Rightarrow> ('d, 'c, 'v) form_kind \<Rightarrow> exn \<Rightarrow> 'd saved_form \<Rightarrow> 'd saved_form" where
  "sf_save_failed t k e s =
     s\<lparr>sf_error := describe_error t k e ''error.save'', sf_busy := False, sf_pending := remove1 PSave (sf_pending s)\<rparr>"

datatype ('c, 'v) saved_event =
    SfEdit 'c | SfDiscard | SfSave | SfRetry | SfLoadSettles "'v promise" | SfSaveSettles "'v promise"

definition sf_shown :: "'d saved_form \<Rightarrow> bool" where
  "sf_shown s \<longleftrightarrow> sf_loaded s \<and> \<not> sf_loading s"

fun sf_offered :: "'d saved_form \<Rightarrow> ('c, 'v) saved_event \<Rightarrow> bool" where
  "sf_offered s (SfEdit c) \<longleftrightarrow> sf_shown s \<and> \<not> sf_busy s"
| "sf_offered s SfDiscard \<longleftrightarrow> sf_shown s \<and> sf_dirty s \<and> \<not> sf_busy s"
| "sf_offered s SfSave \<longleftrightarrow> sf_shown s \<and> sf_dirty s \<and> \<not> sf_busy s"
| "sf_offered s SfRetry \<longleftrightarrow> \<not> sf_loading s \<and> \<not> sf_loaded s"
| "sf_offered s (SfLoadSettles _) \<longleftrightarrow> PLoad \<in> set (sf_pending s)"
| "sf_offered s (SfSaveSettles _) \<longleftrightarrow> PSave \<in> set (sf_pending s)"

fun sf_move :: "translator \<Rightarrow> ('d, 'c, 'v) form_kind \<Rightarrow> 'd saved_form \<Rightarrow> ('c, 'v) saved_event \<Rightarrow> 'd saved_form" where
  "sf_move t k s (SfEdit c) = sf_edit k c s"
| "sf_move t k s SfDiscard = sf_discard s"
| "sf_move t k s SfSave = sf_save t k s"
| "sf_move t k s SfRetry = sf_load k s"
| "sf_move t k s (SfLoadSettles (Inr v)) = sf_load_answered k v s"
| "sf_move t k s (SfLoadSettles (Inl e)) = sf_load_failed t k e s"
| "sf_move t k s (SfSaveSettles (Inr v)) = sf_stored t k v s"
| "sf_move t k s (SfSaveSettles (Inl e)) = sf_save_failed t k e s"

definition sf_start :: "('d, 'c, 'v) form_kind \<Rightarrow> 'd saved_form" where
  "sf_start k =
     sf_load k \<lparr>sf_saved = fk_empty k, sf_draft = fk_empty k, sf_error = [], sf_notice = [], sf_loading = True,
                sf_loaded = False, sf_busy = False, sf_pending = [], sf_log = []\<rparr>"

lemmas sf_handlers = sf_load_def sf_load_answered_def sf_load_failed_def sf_edit_def sf_discard_def sf_save_def
  sf_stored_def sf_save_failed_def

section \<open>What such a form keeps\<close>

definition sf_inv :: "('d \<Rightarrow> bool) \<Rightarrow> 'd saved_form \<Rightarrow> bool" where
  "sf_inv ok s \<longleftrightarrow>
     ok (sf_saved s) \<and>
     sf_pending s = (if sf_loading s then [PLoad] else if sf_busy s then [PSave] else []) \<and>
     (sf_loading s \<longrightarrow> \<not> sf_loaded s \<and> \<not> sf_busy s) \<and> (sf_busy s \<longrightarrow> sf_loaded s) \<and> (sf_dirty s \<longrightarrow> sf_loaded s)"

locale saved_record =
  fixes k :: "('d, 'c, 'v) form_kind" and ok :: "'d \<Rightarrow> bool" and rule :: "effect \<Rightarrow> bool"
  assumes ok_empty: "ok (fk_empty k)" and ok_draft: "ok (fk_to_draft k v)"
    and rule_get: "rule (Call (fk_get k))" and rule_save: "fk_save k d = Inr c \<Longrightarrow> rule (Call c)"
    and rule_toast: "rule (Toast x y z)"
begin

lemma start_inv: "sf_inv ok (sf_start k)"
  by (simp add: sf_inv_def sf_start_def sf_load_def ok_empty sf_dirty_def)

lemma move_inv: "sf_inv ok s \<Longrightarrow> sf_offered s e \<Longrightarrow> sf_inv ok (sf_move t k s e)"
  using ok_draft
  by (cases "(t, k, s, e)" rule: sf_move.cases)
    (auto simp: sf_inv_def sf_handlers sf_shown_def sf_dirty_def split: sum.splits if_splits)

lemma start_log: "list_all rule (sf_log (sf_start k))"
  by (simp add: sf_start_def sf_load_def rule_get)

lemma move_log: "list_all rule (sf_log s) \<Longrightarrow> list_all rule (sf_log (sf_move t k s e))"
  using rule_get rule_save rule_toast
  by (cases "(t, k, s, e)" rule: sf_move.cases) (auto simp: sf_handlers split: sum.splits)

end

sublocale saved_record \<subseteq> form: logging_page "sf_start k" sf_offered "sf_move t k" "sf_inv ok" sf_log rule for t
  by unfold_locales (auto intro: start_inv move_inv start_log move_log)

sublocale saved_record \<subseteq> draft: draft_form sf_dirty sf_draft "sf_load_answered k" "sf_stored t k"
    "sf_save_failed t k" sf_discard "\<lambda>_. True" for t
  by unfold_locales (auto simp: sf_dirty_def sf_handlers)

fun sf_settles :: "('c, 'v) saved_event \<Rightarrow> bool" where
  "sf_settles (SfLoadSettles _) = True"
| "sf_settles (SfSaveSettles _) = True"
| "sf_settles _ = False"

sublocale saved_record \<subseteq> rest: settling_page sf_offered "sf_move t k" "sf_inv ok" sf_settles
    "\<lambda>s. length (sf_pending s)" "\<lambda>s. \<not> sf_loading s \<and> \<not> sf_busy s" for t
proof
  show "sf_inv ok (sf_move t k s e)" if "sf_inv ok s" "sf_offered s e" for s and e :: "('c, 'v) saved_event"
    by (rule move_inv [OF that])
  show "length (sf_pending (sf_move t k s e)) < length (sf_pending s)"
    if "sf_inv ok s" "sf_offered s e" "sf_settles e" for s and e :: "('c, 'v) saved_event"
    using that by (cases "(t, k, s, e)" rule: sf_move.cases) (auto simp: sf_inv_def sf_handlers split: if_splits)
  show "\<exists>e :: ('c, 'v) saved_event. sf_settles e \<and> sf_offered s e" if "sf_inv ok s" "\<not> (\<not> sf_loading s \<and> \<not> sf_busy s)" for s
  proof (cases "sf_loading s")
    case True
    then have "sf_settles (SfLoadSettles (Inl Thrown) :: ('c, 'v) saved_event)"
      "sf_offered s (SfLoadSettles (Inl Thrown) :: ('c, 'v) saved_event)" using that by (simp_all add: sf_inv_def)
    then show ?thesis by blast
  next
    case False
    then have "sf_settles (SfSaveSettles (Inl Thrown) :: ('c, 'v) saved_event)"
      "sf_offered s (SfSaveSettles (Inl Thrown) :: ('c, 'v) saved_event)" using that by (simp_all add: sf_inv_def)
    then show ?thesis by blast
  qed
qed

end
