(* ===== verification/Settings_Forms.thy ===== *)
theory Settings_Forms
  imports Saved_Form
begin

text \<open>
  The two forms of \<open>Saved_Form\<close>: the CAPTCHA form with its write-only secret and the tracking form
  with its check before saving.
\<close>

section \<open>CAPTCHA\<close>

record captcha_draft =
  cd_enabled :: bool
  cd_site_key :: jstr
  cd_secret :: jstr
  cd_has_secret :: bool
  cd_hostname :: jstr
  cd_action :: jstr

definition empty_captcha_draft :: captcha_draft where
  "empty_captcha_draft =
     \<lparr>cd_enabled = False, cd_site_key = [], cd_secret = [], cd_has_secret = False, cd_hostname = [], cd_action = []\<rparr>"

definition captcha_draft_of :: "captcha_settings \<Rightarrow> captcha_draft" where
  "captcha_draft_of v =
     \<lparr>cd_enabled = cs_enabled v, cd_site_key = cs_site_key v, cd_secret = [], cd_has_secret = cs_has_secret v,
      cd_hostname = cs_hostname v, cd_action = cs_action v\<rparr>"

datatype captcha_change = ToggleEnabled | SiteKeyTo jstr | SecretTo jstr | HostnameTo jstr | ActionTo jstr

fun captcha_changed :: "captcha_change \<Rightarrow> captcha_draft \<Rightarrow> captcha_draft" where
  "captcha_changed ToggleEnabled d = d\<lparr>cd_enabled := \<not> cd_enabled d\<rparr>"
| "captcha_changed (SiteKeyTo v) d = d\<lparr>cd_site_key := v\<rparr>"
| "captcha_changed (SecretTo v) d = d\<lparr>cd_secret := v\<rparr>"
| "captcha_changed (HostnameTo v) d = d\<lparr>cd_hostname := v\<rparr>"
| "captcha_changed (ActionTo v) d = d\<lparr>cd_action := v\<rparr>"

definition captcha_input_of :: "captcha_draft \<Rightarrow> captcha_input" where
  "captcha_input_of d =
     \<lparr>ci_enabled = Some (cd_enabled d), ci_site_key = Some (cd_site_key d),
      ci_secret = (if cd_secret d = [] then None else Some (cd_secret d)),
      ci_hostname = Some (cd_hostname d), ci_action = Some (cd_action d)\<rparr>"

definition captcha_form :: "(captcha_draft, captcha_change, captcha_settings) form_kind" where
  "captcha_form =
     \<lparr>fk_empty = empty_captcha_draft, fk_to_draft = captcha_draft_of, fk_change = captcha_changed, fk_get = GetCaptcha,
      fk_save = (\<lambda>d. Inr (UpdateCaptcha (captcha_input_of d))), fk_forbidden = ''settings.captcha.noPermission''\<rparr>"

definition no_secret :: "captcha_draft \<Rightarrow> bool" where
  "no_secret d \<longleftrightarrow> cd_secret d = []"

fun captcha_effect :: "effect \<Rightarrow> bool" where
  \<comment> \<open>every field but the secret is sent, and the secret never as an empty text\<close>
  "captcha_effect (Call GetCaptcha) \<longleftrightarrow> True"
| "captcha_effect (Call (UpdateCaptcha i)) \<longleftrightarrow>
     ci_enabled i \<noteq> None \<and> ci_site_key i \<noteq> None \<and> ci_hostname i \<noteq> None \<and> ci_action i \<noteq> None \<and> ci_secret i \<noteq> Some []"
| "captcha_effect (Toast _ _ _) \<longleftrightarrow> True"
| "captcha_effect _ \<longleftrightarrow> False"

interpretation captcha: saved_record captcha_form no_secret captcha_effect
  by unfold_locales
    (auto simp: captcha_form_def no_secret_def empty_captcha_draft_def captcha_draft_of_def captcha_input_of_def)

section \<open>Tracking\<close>

definition empty_tracking_draft :: analytics_input where
  "empty_tracking_draft =
     \<lparr>an_ga4 = [], an_gtm = [], an_google_tag = [], an_matomo_url = [], an_matomo_site = [], an_clarity = []\<rparr>"

definition tracking_draft_of :: "analytics_settings \<Rightarrow> analytics_input" where
  "tracking_draft_of v =
     \<lparr>an_ga4 = an_ga4 v, an_gtm = an_gtm v, an_google_tag = an_google_tag v, an_matomo_url = an_matomo_url v,
      an_matomo_site = an_matomo_site v, an_clarity = an_clarity v\<rparr>"

datatype tracking_change =
    Ga4To jstr | GtmTo jstr | GoogleTagTo jstr | MatomoUrlTo jstr | MatomoSiteTo jstr | ClarityTo jstr

fun tracking_changed :: "tracking_change \<Rightarrow> analytics_input \<Rightarrow> analytics_input" where
  "tracking_changed (Ga4To v) d = d\<lparr>an_ga4 := v\<rparr>"
| "tracking_changed (GtmTo v) d = d\<lparr>an_gtm := v\<rparr>"
| "tracking_changed (GoogleTagTo v) d = d\<lparr>an_google_tag := v\<rparr>"
| "tracking_changed (MatomoUrlTo v) d = d\<lparr>an_matomo_url := v\<rparr>"
| "tracking_changed (MatomoSiteTo v) d = d\<lparr>an_matomo_site := v\<rparr>"
| "tracking_changed (ClarityTo v) d = d\<lparr>an_clarity := v\<rparr>"

definition configured_count :: "'a analytics_input_scheme \<Rightarrow> nat" where
  "configured_count d =
     length (filter (\<lambda>v. v \<noteq> [])
       [an_ga4 d, an_gtm d, an_google_tag d, if an_matomo_url d = [] then [] else an_matomo_site d, an_clarity d])"

definition tracking_form :: "(analytics_input, tracking_change, analytics_settings) form_kind" where
  "tracking_form =
     \<lparr>fk_empty = empty_tracking_draft, fk_to_draft = tracking_draft_of, fk_change = tracking_changed, fk_get = GetAnalytics,
      fk_save = (\<lambda>d. case validate_analytics_input d of Some key \<Rightarrow> Inl key | None \<Rightarrow> Inr (UpdateAnalytics d)),
      fk_forbidden = ''settings.analytics.noPermission''\<rparr>"

fun tracking_effect :: "effect \<Rightarrow> bool" where
  \<comment> \<open>nothing is stored that the check refuses\<close>
  "tracking_effect (Call GetAnalytics) \<longleftrightarrow> True"
| "tracking_effect (Call (UpdateAnalytics i)) \<longleftrightarrow> validate_analytics_input i = None"
| "tracking_effect (Toast _ _ _) \<longleftrightarrow> True"
| "tracking_effect _ \<longleftrightarrow> False"

interpretation tracking: saved_record tracking_form "\<lambda>_. True" tracking_effect
  by unfold_locales (auto simp: tracking_form_def split: option.splits)

section \<open>Properties\<close>


definition stored_captcha :: captcha_settings where
  "stored_captcha =
     \<lparr>cs_provider = js ''turnstile'', cs_enabled = True, cs_site_key = js ''k'', cs_has_secret = True, cs_hostname = [],
      cs_action = [], cs_updated_at = []\<rparr>"


text \<open>The tracking form stores nothing its check refuses: in any run every stored configuration
  passes the check; a save with a refused draft sends nothing, names the field and keeps the draft.\<close>
lemma tracking_saves_valid:
  assumes "reachable (sf_start tracking_form) sf_offered (sf_move t tracking_form) s"
  shows "list_all tracking_effect (sf_log s) \<and>
    (case validate_analytics_input (sf_draft s) of
       None \<Rightarrow> sf_log (sf_move t tracking_form s SfSave) = sf_log s @ [Call (UpdateAnalytics (sf_draft s))]
     | Some key \<Rightarrow>
         sf_log (sf_move t tracking_form s SfSave) = sf_log s \<and> sf_draft (sf_move t tracking_form s SfSave) = sf_draft s \<and>
         sf_error (sf_move t tracking_form s SfSave) = tr t key)"
proof -
  have "list_all tracking_effect (sf_log s)" by (rule tracking.form.reachable_log [OF assms])
  then show ?thesis by (simp add: sf_save_def tracking_form_def split: option.splits)
qed

lemma tracking_saves_valid_witness:
  "list_all tracking_effect (sf_log (sf_move (t_for (js ''en'')) tracking_form (sf_start tracking_form) (SfLoadSettles (Inl Thrown))))"
proof -
  let ?t = "t_for (js ''en'')"
  have "runs sf_offered (sf_move ?t tracking_form) (sf_start tracking_form) [SfLoadSettles (Inl Thrown)] =
      Some (sf_move ?t tracking_form (sf_start tracking_form) (SfLoadSettles (Inl Thrown)))"
    by (simp add: sf_start_def sf_handlers)
  from tracking_saves_valid [OF runs_from_start [OF this]] show ?thesis by blast
qed

end
