(* ===== verification/Roles_Page.thy ===== *)
theory Roles_Page
  imports Page_Model "HOL-Library.List_Lexorder"
begin

text \<open>
  \<open>web/src/app/home/settings/roles/page.tsx\<close>: the roles and their scopes. A draft keeps its scopes
  as a sorted list, which \<open>sort\<close> orders by code units; the sorted lists implement sets of scopes.
\<close>

section \<open>Scopes\<close>

definition role_scopes :: "string list" where
  "role_scopes =
     [''links:read'', ''links:write'', ''stats:read'', ''audit:read'', ''tokens:manage'', ''users:manage'',
      ''roles:manage'', ''oidc:manage'', ''analytics:manage'', ''captcha:manage'', ''settings:manage'']"

definition scope_groups :: "(string \<times> string list) list" where
  "scope_groups =
     [(''settings.roles.group.links'', [''links:read'', ''links:write'']),
      (''settings.roles.group.workspace'', [''stats:read'', ''audit:read'']),
      (''settings.roles.group.access'', [''tokens:manage'', ''users:manage'', ''roles:manage'', ''oidc:manage'']),
      (''settings.roles.group.service'', [''analytics:manage'', ''captcha:manage'', ''settings:manage''])]"

definition offered_scopes :: "string list" where
  \<comment> \<open>the check boxes of a role\<close>
  "offered_scopes = concat (map (\<lambda>(_, scopes). filter (\<lambda>sc. sc \<in> set role_scopes) scopes) scope_groups)"

definition scope_label :: "translator \<Rightarrow> jstr \<Rightarrow> jstr" where
  "scope_label t scope = (let key = js ''scope.'' @ scope in if has_message key then t key None else scope)"

definition role_label :: "translator \<Rightarrow> jstr \<Rightarrow> jstr" where
  "role_label t name = (let key = js ''role.'' @ name in if has_message key then t key None else name)"

section \<open>Drafts\<close>

record role_draft =
  rd_scopes :: "jstr list"
  rd_unrestricted :: bool

definition to_draft :: "role_record \<Rightarrow> role_draft" where
  "to_draft role = \<lparr>rd_scopes = sort (rr_scopes role), rd_unrestricted = rr_unrestricted role\<rparr>"

definition same_draft :: "role_draft \<Rightarrow> role_draft \<Rightarrow> bool" where
  "same_draft a b \<longleftrightarrow>
     rd_unrestricted a = rd_unrestricted b \<and> length (rd_scopes a) = length (rd_scopes b) \<and>
     list_all (\<lambda>(x, y). x = y) (zip (rd_scopes a) (rd_scopes b))"

definition scope_toggled :: "jstr \<Rightarrow> role_draft \<Rightarrow> role_draft" where
  "scope_toggled scope d =
     d\<lparr>rd_scopes := (if scope \<in> set (rd_scopes d) then filter (\<lambda>v. v \<noteq> scope) (rd_scopes d)
                     else sort (rd_scopes d @ [scope]))\<rparr>"

definition unrestricted_toggled :: "role_draft \<Rightarrow> role_draft" where
  "unrestricted_toggled d = d\<lparr>rd_unrestricted := \<not> rd_unrestricted d\<rparr>"

section \<open>State and handlers\<close>

datatype roles_op = RolesLoad "jstr option" \<comment> \<open>the role whose save it follows\<close> | RoleSave jstr

record roles_state =
  rp_roles :: "role_record list"
  rp_drafts :: "(jstr \<times> role_draft) list"
  rp_error :: jstr
  rp_notice :: jstr
  rp_busy :: jstr
  rp_loading :: bool
  rp_inflight :: "roles_op list"
  rp_log :: "effect list"

definition roles_load :: "jstr option \<Rightarrow> roles_state \<Rightarrow> roles_state" where
  "roles_load after s =
     s\<lparr>rp_loading := True, rp_inflight := rp_inflight s @ [RolesLoad after], rp_log := rp_log s @ [Call ListRoles]\<rparr>"

definition drafts_of :: "role_record list \<Rightarrow> (jstr \<times> role_draft) list" where
  \<comment> \<open>\<open>Object.fromEntries\<close>: the last entry of a name counts\<close>
  "drafts_of roles = foldl (\<lambda>ds role. AList.update (rr_name role) (to_draft role) ds) [] roles"

definition roles_answered :: "role_record list promise \<Rightarrow> translator \<Rightarrow> roles_state \<Rightarrow> roles_state" where
  "roles_answered r t s =
     (case r of
        Inr roles \<Rightarrow> s\<lparr>rp_roles := roles, rp_drafts := drafts_of roles, rp_error := [], rp_loading := False\<rparr>
      | Inl e \<Rightarrow> s\<lparr>rp_error := error_text t e ''error.load'' [], rp_loading := False\<rparr>)"

definition role_saved :: "translator \<Rightarrow> jstr \<Rightarrow> roles_state \<Rightarrow> roles_state" where
  \<comment> \<open>what follows \<open>await load()\<close> in \<open>save\<close>\<close>
  "role_saved t name s =
     (let message = trp t ''settings.roles.saved'' [(''name'', PText (role_label t name))] in
      s\<lparr>rp_notice := message, rp_log := rp_log s @ [Toast ToastSuccess message []], rp_busy := []\<rparr>)"

definition edit_role :: "jstr \<Rightarrow> (role_draft \<Rightarrow> role_draft) \<Rightarrow> roles_state \<Rightarrow> roles_state" where
  \<comment> \<open>a role on the page has a draft: both are set together\<close>
  "edit_role name change s =
     (case map_of (rp_drafts s) name of
        None \<Rightarrow> s
      | Some d \<Rightarrow> s\<lparr>rp_notice := [], rp_drafts := AList.update name (change d) (rp_drafts s)\<rparr>)"

definition save_role :: "jstr \<Rightarrow> roles_state \<Rightarrow> roles_state" where
  "save_role name s =
     (case map_of (rp_drafts s) name of
        None \<Rightarrow> s
      | Some d \<Rightarrow>
          s\<lparr>rp_busy := name, rp_error := [], rp_notice := [], rp_inflight := rp_inflight s @ [RoleSave name],
            rp_log := rp_log s @ [Call (UpdateRole name (rd_scopes d) (rd_unrestricted d))]\<rparr>)"

definition shown_draft :: "roles_state \<Rightarrow> role_record \<Rightarrow> role_draft" where
  "shown_draft s role = (case map_of (rp_drafts s) (rr_name role) of Some d \<Rightarrow> d | None \<Rightarrow> to_draft role)"

definition role_dirty :: "roles_state \<Rightarrow> role_record \<Rightarrow> bool" where
  "role_dirty s role \<longleftrightarrow> \<not> same_draft (shown_draft s role) (to_draft role)"

datatype roles_event =
    ToggleScope jstr jstr | ToggleUnrestricted jstr | SaveRole jstr
  | RolesLoadSettles "jstr option" "role_record list promise"
  | RoleSaveSettles jstr "role_record promise"

fun roles_offered :: "roles_state \<Rightarrow> roles_event \<Rightarrow> bool" where
  "roles_offered s (ToggleScope name scope) \<longleftrightarrow> name \<in> set (map rr_name (rp_roles s)) \<and> scope \<in> set (map js offered_scopes)"
| "roles_offered s (ToggleUnrestricted name) \<longleftrightarrow> name \<in> set (map rr_name (rp_roles s))"
| "roles_offered s (SaveRole name) \<longleftrightarrow>
     list_ex (\<lambda>role. rr_name role = name \<and> role_dirty s role) (rp_roles s) \<and> rp_busy s \<noteq> name"
| "roles_offered s (RolesLoadSettles after _) \<longleftrightarrow> RolesLoad after \<in> set (rp_inflight s)"
| "roles_offered s (RoleSaveSettles name _) \<longleftrightarrow> RoleSave name \<in> set (rp_inflight s)"

fun roles_move :: "translator \<Rightarrow> roles_state \<Rightarrow> roles_event \<Rightarrow> roles_state" where
  "roles_move t s (ToggleScope name scope) = edit_role name (scope_toggled scope) s"
| "roles_move t s (ToggleUnrestricted name) = edit_role name unrestricted_toggled s"
| "roles_move t s (SaveRole name) = save_role name s"
| "roles_move t s (RolesLoadSettles after r) =
     (let s1 = roles_answered r t (s\<lparr>rp_inflight := remove1 (RolesLoad after) (rp_inflight s)\<rparr>) in
      case after of None \<Rightarrow> s1 | Some name \<Rightarrow> role_saved t name s1)"
| "roles_move t s (RoleSaveSettles name r) =
     (let s1 = s\<lparr>rp_inflight := remove1 (RoleSave name) (rp_inflight s)\<rparr> in
      case r of Inr _ \<Rightarrow> roles_load (Some name) s1
              | Inl e \<Rightarrow> s1\<lparr>rp_error := error_text t e ''error.save'' [], rp_busy := []\<rparr>)"

definition roles_start :: roles_state where
  "roles_start =
     roles_load None \<lparr>rp_roles = [], rp_drafts = [], rp_error = [], rp_notice = [], rp_busy = [], rp_loading = True,
                      rp_inflight = [], rp_log = []\<rparr>"

section \<open>Drafts implement sets of scopes\<close>

definition canonical :: "role_draft \<Rightarrow> bool" where
  "canonical d \<longleftrightarrow> sorted (rd_scopes d) \<and> distinct (rd_scopes d)"

definition draft_set :: "role_draft \<Rightarrow> jstr set \<times> bool" where
  "draft_set d = (set (rd_scopes d), rd_unrestricted d)"

definition set_toggled :: "jstr \<Rightarrow> jstr set \<times> bool \<Rightarrow> jstr set \<times> bool" where
  "set_toggled scope p = ((if scope \<in> fst p then fst p - {scope} else insert scope (fst p)), snd p)"

lemma same_draft_eq: "same_draft a b \<longleftrightarrow> rd_scopes a = rd_scopes b \<and> rd_unrestricted a = rd_unrestricted b"
  by (auto simp: same_draft_def list_eq_iff_zip_eq list_all_iff)

lemma to_draft_canonical: "distinct (rr_scopes role) \<Longrightarrow> canonical (to_draft role)"
  by (simp add: canonical_def to_draft_def)

lemma scope_toggled_canonical: "canonical d \<Longrightarrow> canonical (scope_toggled scope d)"
  by (auto simp: canonical_def scope_toggled_def sorted_wrt_filter)

lemma scope_toggled_set: "draft_set (scope_toggled scope d) = set_toggled scope (draft_set d)"
  by (auto simp: draft_set_def scope_toggled_def set_toggled_def)

lemma canonical_inj: "canonical a \<Longrightarrow> canonical b \<Longrightarrow> draft_set a = draft_set b \<Longrightarrow> same_draft a b"
  by (auto simp: canonical_def draft_set_def same_draft_eq intro: sorted_distinct_set_unique)

section \<open>Property\<close>

text \<open>C26 A role draft is a set of permissions: over answers without repeated scopes, toggling a
  permission in the sorted list is toggling it in the set it stands for and keeps the list sorted
  and free of repetition; two drafts count as the same exactly when they stand for the same set and
  the same switch; so a role is shown as changed exactly when its permissions are, and toggling
  twice gives back the draft.\<close>
theorem role_drafts_refine_sets:
  assumes "canonical d" "canonical d'"
  shows "canonical (scope_toggled scope d) \<and>
    draft_set (scope_toggled scope d) = set_toggled scope (draft_set d) \<and>
    (same_draft d d' \<longleftrightarrow> draft_set d = draft_set d') \<and>
    same_draft (scope_toggled scope (scope_toggled scope d)) d"
proof -
  have "draft_set (scope_toggled scope (scope_toggled scope d)) = draft_set d"
    by (cases "draft_set d") (auto simp: scope_toggled_set set_toggled_def)
  then have "same_draft (scope_toggled scope (scope_toggled scope d)) d"
    using canonical_inj scope_toggled_canonical assms(1) by blast
  moreover have "same_draft d d' \<longleftrightarrow> draft_set d = draft_set d'"
    using canonical_inj [OF assms] by (auto simp: same_draft_eq draft_set_def)
  ultimately show ?thesis using assms(1) by (simp add: scope_toggled_canonical scope_toggled_set)
qed

definition editor_draft :: role_draft where
  "editor_draft = to_draft \<lparr>rr_name = js ''editor'', rr_scopes = [js ''links:write'', js ''links:read''], rr_unrestricted = False\<rparr>"

theorem role_drafts_refine_sets_witness:
  "rd_scopes editor_draft = [js ''links:read'', js ''links:write''] \<and>
   same_draft (scope_toggled (js ''stats:read'') (scope_toggled (js ''stats:read'') editor_draft)) editor_draft"
proof -
  have "canonical editor_draft" by (simp add: editor_draft_def to_draft_canonical)
  moreover have "rd_scopes editor_draft = [js ''links:read'', js ''links:write'']" by code_simp
  ultimately show ?thesis using role_drafts_refine_sets [of editor_draft editor_draft "js ''stats:read''"] by blast
qed

section \<open>Saving one role\<close>

text \<open>The load after a save replaces every draft: what was changed in another role and not saved yet is
  gone, without a message.\<close>

lemma saving_drops_other_drafts:
  "rp_drafts (roles_move t s (RolesLoadSettles (Some name) (Inr roles))) = drafts_of roles \<and>
   rp_notice (roles_move t s (RolesLoadSettles (Some name) (Inr roles))) =
     trp t ''settings.roles.saved'' [(''name'', PText (role_label t name))]"
  by (simp add: roles_answered_def role_saved_def Let_def)

end
