(* ===== verification/Users_Page.thy ===== *)
theory Users_Page
  imports Settling
begin

text \<open>
  \<open>web/src/app/home/users/page.tsx\<close>: the accounts, with their roles, their switch and the reset of a
  second factor. One row is marked busy at a time, whatever is in flight.
\<close>

section \<open>State\<close>

datatype users_after = UsersOnly | UsersAfterChange

datatype users_op = UsersLoad users_after | UserChange jstr | MfaReset jstr

record users_state =
  us_accounts :: "account_record list"
  us_roles :: "role_record list"
  us_current :: jstr
  us_error :: jstr
  us_loading :: bool
  us_busy :: jstr
  us_target :: "account_record option"
  us_mfa_error :: jstr
  us_inflight :: "users_op list"
  us_log :: "effect list"

definition user_role_label :: "translator \<Rightarrow> jstr \<Rightarrow> jstr" where
  "user_role_label t name = (let key = js ''role.'' @ name in if has_message key then t key None else name)"

definition role_options :: "users_state \<Rightarrow> account_record \<Rightarrow> jstr list" where
  \<comment> \<open>an account that cannot list the roles is offered the role it has\<close>
  "role_options s account = (if us_roles s = [] then [ac_role account] else map rr_name (us_roles s))"

section \<open>Handlers\<close>

definition users_load :: "users_after \<Rightarrow> users_state \<Rightarrow> users_state" where
  "users_load after s =
     s\<lparr>us_loading := True, us_inflight := us_inflight s @ [UsersLoad after],
       us_log := us_log s @ [Call ListUsers, Call Me, Call ListRoles]\<rparr>"

definition users_answered ::
    "(account_record list \<times> admin_user option \<times> role_record list option) promise \<Rightarrow> translator \<Rightarrow> users_state \<Rightarrow> users_state" where
  \<comment> \<open>\<open>Promise.all\<close>: only the accounts can make it reject; \<open>None\<close> stands for a request that failed\<close>
  "users_answered r t s =
     (case r of
        Inr (users, me, roles) \<Rightarrow>
          s\<lparr>us_accounts := users,
            us_current := (case me of None \<Rightarrow> [] | Some u \<Rightarrow> (case au_id u of None \<Rightarrow> [] | Some i \<Rightarrow> i)),
            us_roles := (case roles of None \<Rightarrow> [] | Some rs \<Rightarrow> rs), us_error := [], us_loading := False\<rparr>
      | Inl e \<Rightarrow> s\<lparr>us_error := error_text t e ''error.load'' [], us_loading := False\<rparr>)"

definition update_user :: "jstr \<Rightarrow> jstr option \<Rightarrow> bool option \<Rightarrow> users_state \<Rightarrow> users_state" where
  "update_user i role disabled s =
     s\<lparr>us_busy := i, us_error := [], us_inflight := us_inflight s @ [UserChange i],
       us_log := us_log s @ [Call (UpdateUser i role disabled)]\<rparr>"

definition reset_mfa :: "jstr \<Rightarrow> users_state \<Rightarrow> users_state" where
  "reset_mfa i s =
     s\<lparr>us_busy := i, us_mfa_error := [], us_inflight := us_inflight s @ [MfaReset i], us_log := us_log s @ [Call (ResetMfa i)]\<rparr>"

datatype users_event =
    PickRole jstr jstr | ToggleDisabled jstr
  | AskReset jstr | CloseReset | ConfirmReset | UsersRetry
  | UsersSettle users_after "(account_record list \<times> admin_user option \<times> role_record list option) promise"
  | ChangeSettles jstr "unit promise"
  | ResetSettles jstr "unit promise"

definition account_named :: "users_state \<Rightarrow> jstr \<Rightarrow> account_record option" where
  "account_named s i = find (\<lambda>a. ac_id a = i) (us_accounts s)"

definition row_enabled :: "users_state \<Rightarrow> jstr \<Rightarrow> bool" where
  \<comment> \<open>\<open>!(isSelf || disabled)\<close>\<close>
  "row_enabled s i \<longleftrightarrow> account_named s i \<noteq> None \<and> \<not> (i = us_current s \<or> us_busy s = i)"

fun users_offered :: "users_state \<Rightarrow> users_event \<Rightarrow> bool" where
  "users_offered s (PickRole i role) \<longleftrightarrow>
     row_enabled s i \<and> (case account_named s i of None \<Rightarrow> False | Some a \<Rightarrow> role \<in> set (role_options s a))"
| "users_offered s (ToggleDisabled i) \<longleftrightarrow> row_enabled s i"
| "users_offered s (AskReset i) \<longleftrightarrow>
     us_busy s \<noteq> i \<and> (case account_named s i of None \<Rightarrow> False | Some a \<Rightarrow> ac_mfa_enabled a)"
| "users_offered s CloseReset \<longleftrightarrow> us_target s \<noteq> None"
| "users_offered s ConfirmReset \<longleftrightarrow> us_target s \<noteq> None \<and> us_busy s = []"
| "users_offered s UsersRetry \<longleftrightarrow> us_error s \<noteq> []"
| "users_offered s (UsersSettle after _) \<longleftrightarrow> UsersLoad after \<in> set (us_inflight s)"
| "users_offered s (ChangeSettles i _) \<longleftrightarrow> UserChange i \<in> set (us_inflight s)"
| "users_offered s (ResetSettles i _) \<longleftrightarrow> MfaReset i \<in> set (us_inflight s)"

fun users_move :: "translator \<Rightarrow> users_state \<Rightarrow> users_event \<Rightarrow> users_state" where
  "users_move t s (PickRole i role) = update_user i (Some role) None s"
| "users_move t s (ToggleDisabled i) =
     (case account_named s i of None \<Rightarrow> s | Some a \<Rightarrow> update_user i None (Some (\<not> ac_disabled a)) s)"
| "users_move t s (AskReset i) = s\<lparr>us_mfa_error := [], us_target := account_named s i\<rparr>"
| "users_move t s CloseReset = s\<lparr>us_target := None\<rparr>"
| "users_move t s ConfirmReset = (case us_target s of None \<Rightarrow> s | Some a \<Rightarrow> reset_mfa (ac_id a) s)"
| "users_move t s UsersRetry = users_load UsersOnly s"
| "users_move t s (UsersSettle after r) =
     (let s1 = users_answered r t (s\<lparr>us_inflight := remove1 (UsersLoad after) (us_inflight s)\<rparr>) in
      if after = UsersAfterChange then s1\<lparr>us_busy := []\<rparr> else s1)"
| "users_move t s (ChangeSettles i r) =
     (let s1 = s\<lparr>us_inflight := remove1 (UserChange i) (us_inflight s)\<rparr> in
      case r of Inr _ \<Rightarrow> users_load UsersAfterChange s1
              | Inl e \<Rightarrow> s1\<lparr>us_error := error_text t e ''error.update'' [], us_busy := []\<rparr>)"
| "users_move t s (ResetSettles i r) =
     (let s1 = s\<lparr>us_inflight := remove1 (MfaReset i) (us_inflight s)\<rparr> in
      case r of Inr _ \<Rightarrow> users_load UsersAfterChange (s1\<lparr>us_target := None\<rparr>)
              | Inl e \<Rightarrow> s1\<lparr>us_mfa_error := error_text t e ''error.reset'' [], us_busy := []\<rparr>)"

definition users_start :: users_state where
  "users_start =
     users_load UsersOnly
       \<lparr>us_accounts = [], us_roles = [], us_current = [], us_error = [], us_loading = True, us_busy = [], us_target = None,
        us_mfa_error = [], us_inflight = [], us_log = []\<rparr>"

section \<open>Coming to rest\<close>

fun users_op_work :: "users_op \<Rightarrow> nat" where
  "users_op_work (UsersLoad _) = 1"
| "users_op_work (UserChange _) = 2"
| "users_op_work (MfaReset _) = 2"

definition users_work :: "users_state \<Rightarrow> nat" where
  "users_work s = sum_list (map users_op_work (us_inflight s))"

fun users_settles :: "users_event \<Rightarrow> bool" where
  "users_settles (UsersSettle _ _) = True"
| "users_settles (ChangeSettles _ _) = True"
| "users_settles (ResetSettles _ _) = True"
| "users_settles _ = False"

fun ends_row :: "users_op \<Rightarrow> bool" where
  "ends_row (UsersLoad after) = (after = UsersAfterChange)"
| "ends_row _ = True"

definition users_inv :: "users_state \<Rightarrow> bool" where
  \<comment> \<open>a row is busy, or the page loading, only while a request will end it\<close>
  "users_inv s \<longleftrightarrow>
     (us_busy s \<noteq> [] \<longrightarrow> list_ex ends_row (us_inflight s)) \<and>
     (us_loading s \<longrightarrow> list_ex (\<lambda>op. op = UsersLoad UsersOnly \<or> op = UsersLoad UsersAfterChange) (us_inflight s))"

definition users_quiet :: "users_state \<Rightarrow> bool" where
  "users_quiet s \<longleftrightarrow> us_inflight s = [] \<and> us_busy s = [] \<and> \<not> us_loading s"

lemma users_inv_move:
  assumes "users_inv s" "users_offered s e"
  shows "users_inv (users_move t s e)"
proof -
  have keep: "list_ex P (remove1 x xs)" if "list_ex P xs" "\<not> P x" for P and x :: users_op and xs
    using that by (induction xs) auto
  show ?thesis using assms
    by (cases e) (auto simp: users_inv_def users_load_def users_answered_def update_user_def reset_mfa_def keep Let_def
        split: sum.splits option.splits)
qed

interpretation users: react_page users_start users_offered "users_move t" users_inv for t
  by unfold_locales (simp_all add: users_inv_move, simp add: users_inv_def users_start_def users_load_def)

lemma users_settle_work:
  assumes "users_offered s e" "users_settles e"
  shows "users_work (users_move t s e) < users_work s"
proof -
  have out: "sum_list (map users_op_work (us_inflight s)) =
      users_op_work op + sum_list (map users_op_work (remove1 op (us_inflight s)))"
    if "op \<in> set (us_inflight s)" for op using that by (rule sum_list_map_remove1)
  show ?thesis using assms
    by (cases e) (auto simp: users_work_def users_load_def users_answered_def Let_def dest: out split: sum.splits)
qed

interpretation users_rest: settling_page users_offered "users_move t" users_inv users_settles users_work users_quiet for t
proof
  show "users_inv (users_move t s e)" if "users_inv s" "users_offered s e" for s e by (rule users_inv_move [OF that])
  show "users_work (users_move t s e) < users_work s" if "users_inv s" "users_offered s e" "users_settles e" for s e
    by (rule users_settle_work [OF that(2,3)])
  show "\<exists>e. users_settles e \<and> users_offered s e" if "users_inv s" "\<not> users_quiet s" for s
  proof -
    have "us_inflight s \<noteq> []" using that by (auto simp: users_quiet_def users_inv_def)
    then obtain op where op: "op \<in> set (us_inflight s)" using list.set_sel(1) by blast
    define e where "e = (case op of UsersLoad after \<Rightarrow> UsersSettle after (Inl Thrown)
      | UserChange i \<Rightarrow> ChangeSettles i (Inl Thrown) | MfaReset i \<Rightarrow> ResetSettles i (Inl Thrown))"
    have "users_settles e \<and> users_offered s e" by (insert op, cases op) (simp_all add: e_def)
    then show ?thesis by blast
  qed
qed

section \<open>One mark for every row\<close>

text \<open>The page keeps the account whose change is in flight in a single field. A change in a second row
  takes the mark over, and the first row is offered again while its request is still in flight.\<close>

lemma users_row_offered_twice:
  assumes "row_enabled s a" "row_enabled s b" "a \<noteq> b"
  shows "\<exists>s'. runs users_offered (users_move t) s [ToggleDisabled a, ToggleDisabled b] = Some s' \<and>
    users_offered s' (ToggleDisabled a) \<and> UserChange a \<in> set (us_inflight s')"
  using assms by (auto simp: row_enabled_def account_named_def update_user_def)

text \<open>The account that is signed in cannot change its own role or switch itself off here, as long as the
  API said who it is.\<close>

lemma own_row_closed:
  "users_offered s (PickRole i role) \<or> users_offered s (ToggleDisabled i) \<Longrightarrow> i \<noteq> us_current s"
  by (auto simp: row_enabled_def)

section \<open>Property\<close>

text \<open>The user directory never stays busy: in any run a row is marked busy, or the list loading, only
  while a request is in flight that will end it; without further input a bounded number of answers
  is handled, and settling can go on until no row is busy and nothing is loading.\<close>
lemma users_come_to_rest:
  assumes "reachable users_start users_offered (users_move t) s"
  shows "(list_all users_settles es \<and> runs users_offered (users_move t) s es = Some s' \<longrightarrow> length es \<le> users_work s) \<and>
    (\<exists>es s'. list_all users_settles es \<and> runs users_offered (users_move t) s es = Some s' \<and> users_quiet s') \<and>
    (us_busy s \<noteq> [] \<longrightarrow> list_ex ends_row (us_inflight s))"
proof -
  have i: "users_inv s" by (rule users.reachable_inv [OF assms])
  then show ?thesis
    using users_rest.settling_ends [OF i, of es t s'] users_rest.comes_to_quiet [OF i, of t] by (auto simp: users_inv_def)
qed

lemma users_come_to_rest_witness:
  "\<exists>es s'. list_all users_settles es \<and> runs users_offered (users_move (t_for (js ''en''))) users_start es = Some s' \<and> users_quiet s'"
  using users_come_to_rest [OF reachable.mounted] by blast

end
