(* ===== verification/Oidc_Page.thy ===== *)
theory Oidc_Page
  imports Settling Text_Tools
begin

text \<open>
  \<open>web/src/app/home/settings/oidc/page.tsx\<close>: the sign-in providers, one draft each, and the form of a
  new one. The client secret is write-only and the scopes are edited as text.
\<close>

section \<open>Drafts\<close>

record oidc_draft =
  od_display_name :: jstr
  od_issuer :: jstr
  od_client_id :: jstr
  od_client_secret :: jstr
  od_scopes :: jstr
  od_auto_provision :: bool
  od_enabled :: bool

record new_provider = oidc_draft +
  od_slug :: jstr

definition oidc_draft_of :: "oidc_provider \<Rightarrow> oidc_draft" where
  "oidc_draft_of p =
     \<lparr>od_display_name = op_display_name p, od_issuer = op_issuer p, od_client_id = op_client_id p, od_client_secret = [],
      od_scopes = join [32] (op_scopes p), od_auto_provision = op_auto_provision p, od_enabled = op_enabled p\<rparr>"

definition empty_new :: new_provider where
  "empty_new =
     \<lparr>od_display_name = [], od_issuer = [], od_client_id = [], od_client_secret = [],
      od_scopes = js ''openid profile email'', od_auto_provision = True, od_enabled = True, od_slug = []\<rparr>"

definition oidc_input_of :: "'a oidc_draft_scheme \<Rightarrow> oidc_input" where
  \<comment> \<open>the secret is left out when nothing was typed\<close>
  "oidc_input_of d =
     \<lparr>oi_slug = None, oi_display_name = Some (od_display_name d), oi_issuer = Some (od_issuer d),
      oi_client_id = Some (od_client_id d),
      oi_client_secret = (if od_client_secret d = [] then None else Some (od_client_secret d)),
      oi_scopes = Some (parse_scopes (od_scopes d)), oi_auto_provision = Some (od_auto_provision d),
      oi_enabled = Some (od_enabled d)\<rparr>"

definition new_input_of :: "new_provider \<Rightarrow> oidc_input" where
  "new_input_of d = (oidc_input_of d)\<lparr>oi_slug := Some (od_slug d)\<rparr>"

datatype oidc_change =
    DisplayNameTo jstr | IssuerTo jstr | ClientIdTo jstr | ClientSecretTo jstr | ScopesTo jstr
  | ToggleProvision | ToggleProviderEnabled

fun oidc_changed :: "oidc_change \<Rightarrow> 'a oidc_draft_scheme \<Rightarrow> 'a oidc_draft_scheme" where
  "oidc_changed (DisplayNameTo v) d = d\<lparr>od_display_name := v\<rparr>"
| "oidc_changed (IssuerTo v) d = d\<lparr>od_issuer := v\<rparr>"
| "oidc_changed (ClientIdTo v) d = d\<lparr>od_client_id := v\<rparr>"
| "oidc_changed (ClientSecretTo v) d = d\<lparr>od_client_secret := v\<rparr>"
| "oidc_changed (ScopesTo v) d = d\<lparr>od_scopes := v\<rparr>"
| "oidc_changed ToggleProvision d = d\<lparr>od_auto_provision := \<not> od_auto_provision d\<rparr>"
| "oidc_changed ToggleProviderEnabled d = d\<lparr>od_enabled := \<not> od_enabled d\<rparr>"

section \<open>State\<close>

datatype oidc_after = OidcShown | OidcSaved jstr | OidcDeleted jstr | OidcCreated

datatype oidc_op = OidcLoad oidc_after | OidcSave jstr jstr | OidcRemove jstr jstr | OidcCreate

record oidc_state =
  os_providers :: "oidc_provider list"
  os_redirect_base :: jstr
  os_drafts :: "(jstr \<times> oidc_draft) list"
  os_creating :: new_provider
  os_confirming :: jstr
  os_error :: jstr
  os_notice :: jstr
  os_busy :: jstr
  os_loading :: bool
  os_inflight :: "oidc_op list"
  os_log :: "effect list"

definition oidc_error :: "translator \<Rightarrow> exn \<Rightarrow> string \<Rightarrow> jstr" where
  "oidc_error t e fallback = error_text t e fallback [(403, ''settings.oidc.noPermission'')]"

definition provider_of :: "oidc_state \<Rightarrow> jstr \<Rightarrow> oidc_provider option" where
  "provider_of s i = find (\<lambda>p. op_id p = i) (os_providers s)"

definition oidc_dirty :: "oidc_state \<Rightarrow> oidc_provider \<Rightarrow> bool" where
  "oidc_dirty s p =
     (case map_of (os_drafts s) (op_id p) of
        None \<Rightarrow> False
      | Some d \<Rightarrow>
          (let c = oidc_draft_of p in
           od_display_name d \<noteq> od_display_name c \<or> od_issuer d \<noteq> od_issuer c \<or> od_client_id d \<noteq> od_client_id c \<or>
           od_scopes d \<noteq> od_scopes c \<or> od_auto_provision d \<noteq> od_auto_provision c \<or> od_enabled d \<noteq> od_enabled c \<or>
           od_client_secret d \<noteq> []))"

definition can_create :: "new_provider \<Rightarrow> bool" where
  "can_create d \<longleftrightarrow> od_slug d \<noteq> [] \<and> od_display_name d \<noteq> [] \<and> od_issuer d \<noteq> [] \<and> od_client_id d \<noteq> []"

definition shown_name :: "jstr \<Rightarrow> oidc_provider \<Rightarrow> jstr" where
  "shown_name name p = (if name = [] then op_slug p else name)"

section \<open>Handlers\<close>

definition oidc_begin :: "jstr \<Rightarrow> oidc_op \<Rightarrow> api_call \<Rightarrow> oidc_state \<Rightarrow> oidc_state" where
  "oidc_begin mark op call s =
     s\<lparr>os_busy := mark, os_error := [], os_notice := [], os_inflight := os_inflight s @ [op], os_log := os_log s @ [Call call]\<rparr>"

definition oidc_load :: "oidc_after \<Rightarrow> oidc_state \<Rightarrow> oidc_state" where
  "oidc_load after s =
     s\<lparr>os_loading := True, os_inflight := os_inflight s @ [OidcLoad after], os_log := os_log s @ [Call ListProviders]\<rparr>"

definition oidc_drafts_of :: "oidc_provider list \<Rightarrow> (jstr \<times> oidc_draft) list" where
  "oidc_drafts_of ps = foldl (\<lambda>ds p. AList.update (op_id p) (oidc_draft_of p) ds) [] ps"

definition oidc_answered ::
    "(oidc_provider list option \<times> jstr option) promise \<Rightarrow> translator \<Rightarrow> oidc_state \<Rightarrow> oidc_state" where
  "oidc_answered r t s =
     (case r of
        Inr (providers, base) \<Rightarrow>
          (let ps = (case providers of None \<Rightarrow> [] | Some xs \<Rightarrow> xs) in
           s\<lparr>os_providers := ps, os_redirect_base := (case base of None \<Rightarrow> [] | Some b \<Rightarrow> b),
             os_drafts := oidc_drafts_of ps, os_error := [], os_loading := False\<rparr>)
      | Inl e \<Rightarrow> s\<lparr>os_error := oidc_error t e ''error.load'', os_loading := False\<rparr>)"

fun oidc_finish :: "translator \<Rightarrow> oidc_after \<Rightarrow> oidc_state \<Rightarrow> oidc_state" where
  \<comment> \<open>what follows \<open>await load()\<close> in a handler\<close>
  "oidc_finish t OidcShown s = s"
| "oidc_finish t (OidcSaved name) s =
     (let m = trp t ''settings.oidc.saved'' [(''name'', PText name)] in
      s\<lparr>os_notice := m, os_busy := [], os_log := os_log s @ [Toast ToastSuccess m []]\<rparr>)"
| "oidc_finish t (OidcDeleted name) s =
     (let m = trp t ''settings.oidc.deleted'' [(''name'', PText name)] in
      s\<lparr>os_notice := m, os_busy := [], os_log := os_log s @ [Toast ToastSuccess m []]\<rparr>)"
| "oidc_finish t OidcCreated s =
     (let m = tr t ''settings.oidc.created'' in
      s\<lparr>os_notice := m, os_busy := [], os_log := os_log s @ [Toast ToastSuccess m []]\<rparr>)"

definition oidc_edit :: "jstr \<Rightarrow> oidc_change \<Rightarrow> oidc_state \<Rightarrow> oidc_state" where
  \<comment> \<open>a provider on the page has a draft: both are set together\<close>
  "oidc_edit i c s =
     (case map_of (os_drafts s) i of
        None \<Rightarrow> s
      | Some d \<Rightarrow> s\<lparr>os_notice := [], os_drafts := AList.update i (oidc_changed c d) (os_drafts s)\<rparr>)"

definition oidc_save :: "oidc_provider \<Rightarrow> oidc_state \<Rightarrow> oidc_state" where
  "oidc_save p s =
     (case map_of (os_drafts s) (op_id p) of
        None \<Rightarrow> s
      | Some d \<Rightarrow>
          oidc_begin (op_id p) (OidcSave (op_id p) (shown_name (od_display_name d) p))
            (UpdateProvider (op_id p) (oidc_input_of d)) s)"

definition oidc_remove :: "oidc_provider \<Rightarrow> oidc_state \<Rightarrow> oidc_state" where
  "oidc_remove p s =
     oidc_begin (op_id p) (OidcRemove (op_id p) (shown_name (op_display_name p) p)) (RemoveProvider (op_id p)) s"

definition oidc_create :: "oidc_state \<Rightarrow> oidc_state" where
  "oidc_create s = oidc_begin (js ''new'') OidcCreate (CreateProvider (new_input_of (os_creating s))) s"

definition oidc_failed :: "translator \<Rightarrow> exn \<Rightarrow> string \<Rightarrow> oidc_state \<Rightarrow> oidc_state" where
  "oidc_failed t e fallback s = s\<lparr>os_error := oidc_error t e fallback, os_busy := []\<rparr>"

datatype oidc_event =
    EditProvider jstr oidc_change | SaveProvider jstr
  | AskRemove jstr | KeepProvider | RemoveConfirmed jstr
  | EditNew oidc_change | EditSlug jstr | PressCreate
  | OidcLoadSettles oidc_after "(oidc_provider list option \<times> jstr option) promise"
  | OidcSaveSettles jstr jstr "unit promise"
  | OidcRemoveSettles jstr jstr "unit promise"
  | OidcCreateSettles "unit promise"

fun oidc_offered :: "oidc_state \<Rightarrow> oidc_event \<Rightarrow> bool" where
  "oidc_offered s (EditProvider i c) \<longleftrightarrow> provider_of s i \<noteq> None"
| "oidc_offered s (SaveProvider i) \<longleftrightarrow>
     (case provider_of s i of None \<Rightarrow> False | Some p \<Rightarrow> oidc_dirty s p \<and> os_busy s \<noteq> i)"
| "oidc_offered s (AskRemove i) \<longleftrightarrow> provider_of s i \<noteq> None \<and> os_confirming s \<noteq> i \<and> os_busy s \<noteq> i"
| "oidc_offered s KeepProvider \<longleftrightarrow> provider_of s (os_confirming s) \<noteq> None \<and> os_busy s \<noteq> os_confirming s"
| "oidc_offered s (RemoveConfirmed i) \<longleftrightarrow> provider_of s i \<noteq> None \<and> os_confirming s = i \<and> os_busy s \<noteq> i"
| "oidc_offered s (EditNew c) \<longleftrightarrow> True"
| "oidc_offered s (EditSlug v) \<longleftrightarrow> True"
| "oidc_offered s PressCreate \<longleftrightarrow> can_create (os_creating s) \<and> os_busy s \<noteq> js ''new''"
| "oidc_offered s (OidcLoadSettles after _) \<longleftrightarrow> OidcLoad after \<in> set (os_inflight s)"
| "oidc_offered s (OidcSaveSettles i n _) \<longleftrightarrow> OidcSave i n \<in> set (os_inflight s)"
| "oidc_offered s (OidcRemoveSettles i n _) \<longleftrightarrow> OidcRemove i n \<in> set (os_inflight s)"
| "oidc_offered s (OidcCreateSettles _) \<longleftrightarrow> OidcCreate \<in> set (os_inflight s)"

definition oidc_end :: "oidc_op \<Rightarrow> oidc_state \<Rightarrow> oidc_state" where
  "oidc_end op s = s\<lparr>os_inflight := remove1 op (os_inflight s)\<rparr>"

fun oidc_move :: "translator \<Rightarrow> oidc_state \<Rightarrow> oidc_event \<Rightarrow> oidc_state" where
  "oidc_move t s (EditProvider i c) = oidc_edit i c s"
| "oidc_move t s (SaveProvider i) = (case provider_of s i of None \<Rightarrow> s | Some p \<Rightarrow> oidc_save p s)"
| "oidc_move t s (AskRemove i) = s\<lparr>os_confirming := i\<rparr>"
| "oidc_move t s KeepProvider = s\<lparr>os_confirming := []\<rparr>"
| "oidc_move t s (RemoveConfirmed i) = (case provider_of s i of None \<Rightarrow> s | Some p \<Rightarrow> oidc_remove p s)"
| "oidc_move t s (EditNew c) = s\<lparr>os_creating := oidc_changed c (os_creating s)\<rparr>"
| "oidc_move t s (EditSlug v) = s\<lparr>os_creating := (os_creating s)\<lparr>od_slug := v\<rparr>\<rparr>"
| "oidc_move t s PressCreate = oidc_create s"
| "oidc_move t s (OidcLoadSettles after r) = oidc_finish t after (oidc_answered r t (oidc_end (OidcLoad after) s))"
| "oidc_move t s (OidcSaveSettles i n r) =
     (case r of Inr _ \<Rightarrow> oidc_load (OidcSaved n) (oidc_end (OidcSave i n) s)
              | Inl e \<Rightarrow> oidc_failed t e ''error.save'' (oidc_end (OidcSave i n) s))"
| "oidc_move t s (OidcRemoveSettles i n r) =
     (case r of Inr _ \<Rightarrow> oidc_load (OidcDeleted n) ((oidc_end (OidcRemove i n) s)\<lparr>os_confirming := []\<rparr>)
              | Inl e \<Rightarrow> oidc_failed t e ''error.save'' (oidc_end (OidcRemove i n) s))"
| "oidc_move t s (OidcCreateSettles r) =
     (case r of Inr _ \<Rightarrow> oidc_load OidcCreated ((oidc_end OidcCreate s)\<lparr>os_creating := empty_new\<rparr>)
              | Inl e \<Rightarrow> oidc_failed t e ''error.create'' (oidc_end OidcCreate s))"

definition oidc_start :: oidc_state where
  "oidc_start =
     oidc_load OidcShown
       \<lparr>os_providers = [], os_redirect_base = [], os_drafts = [], os_creating = empty_new, os_confirming = [], os_error = [],
        os_notice = [], os_busy = [], os_loading = True, os_inflight = [], os_log = []\<rparr>"

lemmas oidc_handlers = oidc_begin_def oidc_load_def oidc_answered_def oidc_edit_def oidc_save_def oidc_remove_def
  oidc_create_def oidc_failed_def oidc_end_def

section \<open>What is sent\<close>

fun oidc_effect :: "effect \<Rightarrow> bool" where
  \<comment> \<open>an update never moves a provider or clears its secret; a new provider is named\<close>
  "oidc_effect (Call ListProviders) \<longleftrightarrow> True"
| "oidc_effect (Call (UpdateProvider i x)) \<longleftrightarrow>
     oi_slug x = None \<and> oi_client_secret x \<noteq> Some [] \<and> (case oi_scopes x of None \<Rightarrow> False | Some scs \<Rightarrow> [] \<notin> set scs)"
| "oidc_effect (Call (CreateProvider x)) \<longleftrightarrow>
     oi_slug x \<notin> {None, Some []} \<and> oi_display_name x \<notin> {None, Some []} \<and> oi_issuer x \<notin> {None, Some []} \<and>
     oi_client_id x \<notin> {None, Some []} \<and> oi_client_secret x \<noteq> Some []"
| "oidc_effect (Call (RemoveProvider i)) \<longleftrightarrow> True"
| "oidc_effect (Toast _ _ _) \<longleftrightarrow> True"
| "oidc_effect _ \<longleftrightarrow> False"

lemma oidc_input_effect: "oidc_effect (Call (UpdateProvider i (oidc_input_of d)))"
  by (simp add: oidc_input_of_def parse_scopes_def)

lemma new_input_effect: "can_create d \<Longrightarrow> oidc_effect (Call (CreateProvider (new_input_of d)))"
  by (simp add: new_input_of_def oidc_input_of_def can_create_def)

interpretation oidc: logging_page oidc_start oidc_offered "oidc_move t" "\<lambda>_. True" os_log oidc_effect for t
proof
  show "list_all oidc_effect (os_log oidc_start)" by (simp add: oidc_start_def oidc_load_def)
  show "list_all oidc_effect (os_log (oidc_move t s e))" if "oidc_offered s e" "list_all oidc_effect (os_log s)" for s e
  proof (cases "(t, s, e)" rule: oidc_move.cases)
    case (9 t' s' after r)
    have "list_all oidc_effect (os_log (oidc_finish t after s1))" if "list_all oidc_effect (os_log s1)" for s1
      using that by (cases after) (simp_all add: Let_def)
    then show ?thesis using 9 that by (simp add: oidc_answered_def oidc_end_def Let_def split: sum.split)
  qed (use that in \<open>simp_all add: oidc_handlers oidc_input_effect new_input_effect del: oidc_effect.simps(2,3) split: option.splits sum.splits\<close>)
qed simp_all

section \<open>Scopes as text\<close>

definition scope_words :: "jstr list \<Rightarrow> bool" where
  \<comment> \<open>scopes as OAuth writes them: not empty, without white space or commas\<close>
  "scope_words scs \<longleftrightarrow> list_all (\<lambda>sc. sc \<noteq> [] \<and> list_all (\<lambda>c. \<not> (is_ws c \<or> c = 44)) sc) scs"

lemma parse_scopes_join: "scope_words scs \<Longrightarrow> parse_scopes (join [32] scs) = scs"
proof (cases "scs = []")
  case True
  then show ?thesis by (simp add: parse_scopes_def)
next
  case False
  assume w: "scope_words scs"
  have "is_ws 32" by (simp add: unit_simps)
  then have "split_by (\<lambda>c. is_ws c \<or> c = 44) (join [32] scs) = scs"
    using split_by_join [of "\<lambda>c. is_ws c \<or> c = 44" 32 scs] False w by (auto simp: scope_words_def list_all_iff)
  then show ?thesis using w by (simp add: parse_scopes_def split_runs_nonempty scope_words_def list_all_iff)
qed

section \<open>Property\<close>


definition sample_provider :: oidc_provider where
  "sample_provider =
     \<lparr>op_id = js ''1'', op_slug = js ''dex'', op_display_name = js ''Dex'', op_issuer = js ''https://i'', op_client_id = js ''c'',
      op_has_secret = True, op_scopes = [js ''openid'', js ''email''], op_auto_provision = True, op_enabled = True,
      op_identity_count = 0, op_created_at = [], op_updated_at = []\<rparr>"


end
