(* ===== verification/Register_Page.thy ===== *)
theory Register_Page
  imports Page_Model
begin

text \<open>
  \<open>web/src/app/register/page.tsx\<close> with the widget it renders,
  \<open>web/src/components/turnstile-widget.tsx\<close>. The third-party script is the environment: whether it
  is there when it has loaded, and when it hands out a token, lets one expire or reports an error.
\<close>

section \<open>State\<close>

record register_state =
  rg_username :: jstr
  rg_password :: jstr
  rg_error :: jstr
  rg_loading :: bool
  rg_captcha :: "public_captcha option"
  rg_token :: jstr
  rg_captcha_error :: jstr
  rg_captcha_loading :: bool
  rg_reset :: nat
  rg_script_ready :: bool
  rg_widget :: bool \<comment> \<open>the widget is rendered\<close>
  rg_widget_resets :: nat \<comment> \<open>calls of \<open>turnstile.reset\<close>\<close>
  rg_pending :: bool \<comment> \<open>a registration is in flight\<close>
  rg_log :: "effect list"

definition turnstile_script_url :: jstr where
  "turnstile_script_url = js ''https://challenges.cloudflare.com/turnstile/v0/api.js?render=explicit''"

definition captcha_required :: "register_state \<Rightarrow> bool" where
  "captcha_required s \<longleftrightarrow> (case rg_captcha s of None \<Rightarrow> False | Some c \<Rightarrow> pc_enabled c)"

definition registration_closed :: "register_state \<Rightarrow> bool" where
  "registration_closed s \<longleftrightarrow> (case rg_captcha s of None \<Rightarrow> False | Some c \<Rightarrow> \<not> pc_registration_enabled c)"

definition widget_mounted :: "register_state \<Rightarrow> bool" where
  "widget_mounted s \<longleftrightarrow>
     \<not> registration_closed s \<and> captcha_required s \<and> (case rg_captcha s of None \<Rightarrow> False | Some c \<Rightarrow> pc_site_key c \<noteq> [])"

section \<open>Handlers\<close>

definition register_submit :: "translator \<Rightarrow> register_state \<Rightarrow> register_state" where
  "register_submit t s =
     (if captcha_required s \<and> rg_token s = [] then s\<lparr>rg_error := tr t ''register.completeCaptcha''\<rparr>
      else s\<lparr>rg_loading := True, rg_error := [], rg_pending := True,
             rg_log := rg_log s @ [Call (Register (rg_username s) (rg_password s) (rg_token s))]\<rparr>)"

definition widget_reset :: "register_state \<Rightarrow> register_state" where
  \<comment> \<open>the effect on \<open>resetSignal\<close>\<close>
  "widget_reset s =
     (if rg_reset s = 0 \<or> \<not> rg_widget s then s else s\<lparr>rg_widget_resets := rg_widget_resets s + 1, rg_token := []\<rparr>)"

definition register_failed :: "translator \<Rightarrow> exn \<Rightarrow> register_state \<Rightarrow> register_state" where
  "register_failed t e s =
     widget_reset (s\<lparr>rg_token := [], rg_reset := rg_reset s + 1, rg_error := error_text t e ''register.failed'' [],
                     rg_loading := False, rg_pending := False\<rparr>)"

definition widget_render :: "bool \<Rightarrow> register_state \<Rightarrow> register_state" where
  \<comment> \<open>the script has loaded; the effect renders the widget once when the library is there\<close>
  "widget_render available s =
     (if rg_script_ready s then s else s\<lparr>rg_script_ready := True, rg_widget := available\<rparr>)"

datatype register_event =
    CaptchaSettles "public_captcha promise"
  | RegUsername jstr | RegPassword jstr | SubmitRegister
  | RegisterSettles "login_response promise"
  | ScriptLoaded bool | TokenGiven jstr | TokenExpired | WidgetError

fun register_offered :: "register_state \<Rightarrow> register_event \<Rightarrow> bool" where
  "register_offered s (CaptchaSettles _) \<longleftrightarrow> rg_captcha_loading s"
| "register_offered s (RegUsername _) \<longleftrightarrow> \<not> registration_closed s"
| "register_offered s (RegPassword _) \<longleftrightarrow> \<not> registration_closed s"
| "register_offered s SubmitRegister \<longleftrightarrow>
     \<not> registration_closed s \<and> rg_username s \<noteq> [] \<and> 12 \<le> length (rg_password s) \<and>
     \<not> (rg_loading s \<or> rg_captcha_loading s \<or> rg_captcha_error s \<noteq> [] \<or> captcha_required s \<and> rg_token s = [])"
| "register_offered s (RegisterSettles _) \<longleftrightarrow> rg_pending s"
| "register_offered s (ScriptLoaded _) \<longleftrightarrow> widget_mounted s"
| "register_offered s (TokenGiven _) \<longleftrightarrow> rg_widget s"
| "register_offered s TokenExpired \<longleftrightarrow> rg_widget s"
| "register_offered s WidgetError \<longleftrightarrow> rg_widget s"

fun register_move :: "translator \<Rightarrow> register_state \<Rightarrow> register_event \<Rightarrow> register_state" where
  "register_move t s (CaptchaSettles (Inr v)) = s\<lparr>rg_captcha := Some v, rg_captcha_error := [], rg_captcha_loading := False\<rparr>"
| "register_move t s (CaptchaSettles (Inl e)) =
     s\<lparr>rg_captcha_error := error_text t e ''register.captchaLoadFailed'' [], rg_captcha_loading := False\<rparr>"
| "register_move t s (RegUsername v) = s\<lparr>rg_username := v\<rparr>"
| "register_move t s (RegPassword v) = s\<lparr>rg_password := v\<rparr>"
| "register_move t s SubmitRegister = register_submit t s"
| "register_move t s (RegisterSettles (Inr _)) =
     s\<lparr>rg_loading := False, rg_pending := False, rg_log := rg_log s @ [ReplaceRoute (js ''/home'')]\<rparr>"
| "register_move t s (RegisterSettles (Inl e)) = register_failed t e s"
| "register_move t s (ScriptLoaded available) = widget_render available s"
| "register_move t s (TokenGiven token) = s\<lparr>rg_token := token\<rparr>"
| "register_move t s TokenExpired = s\<lparr>rg_token := []\<rparr>"
| "register_move t s WidgetError = s\<lparr>rg_token := [], rg_captcha_error := tr t ''turnstile.loadFailed''\<rparr>"

definition register_start :: register_state where
  "register_start =
     \<lparr>rg_username = [], rg_password = [], rg_error = [], rg_loading = False, rg_captcha = None, rg_token = [],
      rg_captcha_error = [], rg_captcha_loading = True, rg_reset = 0, rg_script_ready = False, rg_widget = False,
      rg_widget_resets = 0, rg_pending = False, rg_log = [Call PublicCaptcha]\<rparr>"

lemmas register_handlers = register_submit_def widget_reset_def register_failed_def widget_render_def

section \<open>Invariant\<close>

definition register_effect :: "public_captcha option \<Rightarrow> effect \<Rightarrow> bool" where
  \<comment> \<open>what may be sent under the CAPTCHA settings\<close>
  "register_effect c e \<longleftrightarrow>
     (case e of
        Call PublicCaptcha \<Rightarrow> True
      | Call (Register u p token) \<Rightarrow>
          u \<noteq> [] \<and> 12 \<le> length p \<and>
          (case c of None \<Rightarrow> False | Some c \<Rightarrow> pc_registration_enabled c \<and> (pc_enabled c \<longrightarrow> token \<noteq> []))
      | ReplaceRoute r \<Rightarrow> r = js ''/home''
      | _ \<Rightarrow> False)"

definition register_inv :: "register_state \<Rightarrow> bool" where
  "register_inv s \<longleftrightarrow>
     (rg_captcha s = None \<longrightarrow> rg_captcha_loading s \<or> rg_captcha_error s \<noteq> []) \<and>
     (rg_captcha_loading s \<longrightarrow> rg_captcha s = None \<and> rg_log s = [Call PublicCaptcha] \<and> \<not> rg_loading s \<and> \<not> rg_widget s) \<and>
     (rg_widget s \<longrightarrow> rg_captcha s \<noteq> None) \<and>
     rg_loading s = rg_pending s \<and> list_all (register_effect (rg_captcha s)) (rg_log s)"

lemma register_messages: "has_message (js ''register.captchaLoadFailed'')" "has_message (js ''turnstile.loadFailed'')"
proof -
  have "js ''register.captchaLoadFailed'' \<in> set (map fst en_messages_3)" "js ''turnstile.loadFailed'' \<in> set (map fst en_messages_3)"
    unfolding en_messages_3_def list.map fst_conv by simp_all
  then show "has_message (js ''register.captchaLoadFailed'')" "has_message (js ''turnstile.loadFailed'')"
    using has_message_in by blast+
qed

context worded_translator
begin

lemma register_inv_move:
  assumes "register_inv s" "register_offered s e"
  shows "register_inv (register_move t s e)"
proof -
  have "error_text t x ''register.captchaLoadFailed'' [] \<noteq> []" for x
    by (rule error_text_worded) (simp_all add: register_messages)
  moreover have "tr t ''turnstile.loadFailed'' \<noteq> []" by (rule plain_worded [OF register_messages(2)])
  ultimately show ?thesis using assms
    by (cases "(t, s, e)" rule: register_move.cases)
      (auto simp: register_inv_def register_handlers register_effect_def captcha_required_def registration_closed_def
        widget_mounted_def split: option.splits)
qed

end

interpretation register: react_page register_start register_offered "register_move (t_for l)" register_inv for l
proof
  show "register_inv register_start" by (simp add: register_inv_def register_start_def register_effect_def)
qed (rule site_translator.register_inv_move)

section \<open>A reported error stays\<close>

text \<open>Nothing takes back the error of the widget: once it has reported one, the form cannot be submitted
  again in this visit, whatever token the widget hands out afterwards.\<close>

lemma register_blocked:
  assumes "runs register_offered (register_move t) s es = Some s'"
    and "\<not> rg_captcha_loading s" "rg_captcha_error s \<noteq> []" "tr t ''turnstile.loadFailed'' \<noteq> []"
  shows "\<not> register_offered s' SubmitRegister"
proof -
  have "\<not> rg_captcha_loading s' \<and> rg_captcha_error s' \<noteq> []"
    using assms(1-3)
  proof (induction es arbitrary: s)
    case (Cons e es)
    have o: "register_offered s e" and r: "runs register_offered (register_move t) (register_move t s e) es = Some s'"
      using Cons(2) by (auto split: if_splits)
    have "\<not> rg_captcha_loading (register_move t s e) \<and> rg_captcha_error (register_move t s e) \<noteq> []"
      using o Cons(3,4) assms(4)
      by (cases "(t, s, e)" rule: register_move.cases) (auto simp: register_handlers)
    then show ?case using Cons(1) [OF r] by blast
  qed simp
  then show ?thesis by simp
qed

section \<open>Property\<close>

text \<open>C29 Registration is asked for only as the deployment allows: in any run, in either language, every
  registration request names an account, has a password of at least twelve code units, was made
  after the public settings had loaded, not while registration is closed, and carries a token when
  one is required; at most one is in flight; and a failed one uses up the token.\<close>
theorem register_requests_allowed:
  assumes "reachable register_start register_offered (register_move (t_for l)) s"
  shows "list_all (register_effect (rg_captcha s)) (rg_log s) \<and>
    (rg_pending s \<longrightarrow> \<not> register_offered s SubmitRegister) \<and>
    rg_token (register_move (t_for l) s (RegisterSettles (Inl e))) = []"
  using register.reachable_inv [OF assms] by (auto simp: register_inv_def register_handlers)

definition open_settings :: public_captcha where
  "open_settings =
     \<lparr>pc_enabled = True, pc_provider = js ''turnstile'', pc_site_key = js ''k'', pc_registration_enabled = True\<rparr>"

definition register_run :: "register_event list" where
  "register_run = [CaptchaSettles (Inr open_settings), RegUsername (js ''u''), RegPassword (replicate 12 97),
     ScriptLoaded True, TokenGiven (js ''tok''), SubmitRegister]"

theorem register_requests_allowed_witness:
  "let s = foldl (register_move (t_for (js ''en''))) register_start register_run in
   rg_log s = [Call PublicCaptcha, Call (Register (js ''u'') (replicate 12 97) (js ''tok''))] \<and>
   rg_token (register_move (t_for (js ''en'')) s (RegisterSettles (Inl Thrown))) = []"
proof -
  define s where "s = foldl (register_move (t_for (js ''en''))) register_start register_run"
  have "runs register_offered (register_move (t_for (js ''en''))) register_start register_run = Some s"
    "rg_log s = [Call PublicCaptcha, Call (Register (js ''u'') (replicate 12 97) (js ''tok''))]"
    by (simp_all add: s_def register_run_def register_start_def register_handlers open_settings_def captcha_required_def
        registration_closed_def widget_mounted_def numeral_eq_Suc)
  with register_requests_allowed [OF runs_from_start, of "js ''en''" register_run s Thrown] show ?thesis
    by (simp add: s_def Let_def)
qed

end
