(* ===== verification/Link_Forms.thy ===== *)
theory Link_Forms
  imports Page_Model Text_Tools Js_Date
begin

text \<open>
  Making and changing one link: the rule editor and the domain picker
  (\<open>web/src/components/link-rules-editor.tsx\<close>, \<open>link-domain-picker.tsx\<close>), the form of a new link
  (\<open>web/src/app/home/links/new/page.tsx\<close>) and the edit form (\<open>web/src/app/home/links/[id]/edit/page.tsx\<close>).
  What the browser checks before it lets a form be submitted is part of when submitting is offered;
  of the syntax of a URL field only that it is not empty.
\<close>

section \<open>The rule editor\<close>

definition max_rules :: nat where "max_rules = 10"

definition match_types :: "(string \<times> string) list" where
  "match_types = [(''ua_contains'', ''rules.matchUa''), (''device'', ''rules.matchDevice'')]"

definition devices :: "(string \<times> string) list" where
  "devices =
     [(''mobile'', ''deviceRule.mobile''), (''tablet'', ''deviceRule.tablet''), (''desktop'', ''deviceRule.desktop''),
      (''bot'', ''deviceRule.bot''), (''unknown'', ''deviceRule.unknown'')]"

definition empty_rule :: rule_input where
  "empty_rule = \<lparr>ri_match_type = js ''ua_contains'', ri_match_value = [], ri_destination = [], ri_redirect_code = 0\<rparr>"

definition rule_updated :: "nat \<Rightarrow> (rule_input \<Rightarrow> rule_input) \<Rightarrow> rule_input list \<Rightarrow> rule_input list" where
  "rule_updated index patch rules = map (\<lambda>(p, rule). if p = index then patch rule else rule) (enumerate 0 rules)"

datatype rules_event =
    AddRule | DropRule nat | MatchTypeTo nat jstr | MatchValueTo nat jstr | RuleUrlTo nat jstr | RuleCodeTo nat int

fun rules_offered :: "rule_input list \<Rightarrow> rules_event \<Rightarrow> bool" where
  "rules_offered rules AddRule \<longleftrightarrow> length rules < max_rules"
| "rules_offered rules (DropRule i) \<longleftrightarrow> i < length rules"
| "rules_offered rules (MatchTypeTo i v) \<longleftrightarrow> i < length rules \<and> v \<in> set (map (js \<circ> fst) match_types)"
| "rules_offered rules (MatchValueTo i v) \<longleftrightarrow>
     i < length rules \<and>
     (if ri_match_type (rules ! i) = js ''device'' then v \<in> set (map (js \<circ> fst) devices) else length v \<le> 255)"
| "rules_offered rules (RuleUrlTo i v) \<longleftrightarrow> i < length rules"
| "rules_offered rules (RuleCodeTo i n) \<longleftrightarrow> i < length rules \<and> n \<in> {0, 302, 301}"

fun rules_changed :: "rules_event \<Rightarrow> rule_input list \<Rightarrow> rule_input list" where
  "rules_changed AddRule rules = rules @ [empty_rule]"
| "rules_changed (DropRule i) rules = map snd (filter (\<lambda>(p, _). p \<noteq> i) (enumerate 0 rules))"
| "rules_changed (MatchTypeTo i v) rules =
     rule_updated i (\<lambda>r. r\<lparr>ri_match_type := v, ri_match_value := (if v = js ''device'' then js ''mobile'' else [])\<rparr>) rules"
| "rules_changed (MatchValueTo i v) rules = rule_updated i (\<lambda>r. r\<lparr>ri_match_value := v\<rparr>) rules"
| "rules_changed (RuleUrlTo i v) rules = rule_updated i (\<lambda>r. r\<lparr>ri_destination := v\<rparr>) rules"
| "rules_changed (RuleCodeTo i n) rules = rule_updated i (\<lambda>r. r\<lparr>ri_redirect_code := n\<rparr>) rules"

definition rule_ok :: "rule_input \<Rightarrow> bool" where
  \<comment> \<open>a device rule names a device of the vocabulary\<close>
  "rule_ok r \<longleftrightarrow> (ri_match_type r = js ''device'' \<longrightarrow> ri_match_value r \<in> set (map (js \<circ> fst) devices))"

lemma rule_updated_eq: "rule_updated i f rules = (if i < length rules then rules[i := f (rules ! i)] else rules)"
  by (auto simp: rule_updated_def list_eq_iff_nth_eq nth_enumerate_eq nth_list_update)

lemma rules_changed_ok:
  assumes "list_all rule_ok rules" "rules_offered rules e"
  shows "list_all rule_ok (rules_changed e rules)" "length (rules_changed e rules) \<le> max (length rules) max_rules"
proof -
  have upd: "list_all rule_ok (rules[i := r])" if "rule_ok r" for i r
    using assms(1) that by (auto simp: list_all_iff dest: set_update_subset_insert [THEN subsetD])
  have "set (map snd (filter P (enumerate 0 rules))) \<subseteq> set rules" for P
    by (auto simp: in_set_enumerate_eq)
  then have drop: "list_all rule_ok (map snd (filter P (enumerate 0 rules)))" for P
    using assms(1) unfolding list_all_iff by blast
  have at: "rule_ok (rules ! i)" if "i < length rules" for i using assms(1) that by (simp add: list_all_length)
  show "list_all rule_ok (rules_changed e rules)"
    using assms upd drop at
    by (cases e) (auto simp: rule_updated_eq empty_rule_def rule_ok_def devices_def split: if_splits)
  have "length (filter P (enumerate 0 rules)) \<le> length rules" for P
    using length_filter_le [of P "enumerate 0 rules"] by simp
  then show "length (rules_changed e rules) \<le> max (length rules) max_rules"
    using assms(2) by (cases e) (auto simp: rule_updated_eq le_max_iff_disj)
qed

section \<open>The domain picker\<close>

datatype domain_event = ConfigSettles "app_config promise"

definition domain_options :: "app_config option \<Rightarrow> (jstr \<times> jstr) list option" where
  \<comment> \<open>value and text of the options, \<open>None\<close> when nothing is rendered\<close>
  "domain_options config =
     (case config of
        None \<Rightarrow> None
      | Some c \<Rightarrow>
          if cf_short_domains c = [] then None
          else Some (([], cf_default_domain c) # map (\<lambda>d. (d, d)) (cf_short_domains c)))"

fun config_settled :: "domain_event \<Rightarrow> app_config option" where
  "config_settled (ConfigSettles (Inr c)) = Some c"
| "config_settled (ConfigSettles (Inl _)) = None"

section \<open>Fields both forms have\<close>

record link_fields =
  lf_url :: jstr
  lf_title :: jstr
  lf_tags :: jstr
  lf_code :: jstr
  lf_interstitial_on :: bool
  lf_seconds :: jstr
  lf_domain :: jstr
  lf_rules :: "rule_input list"
  lf_config :: "app_config option"

datatype field_event =
    UrlTo jstr | TitleTo jstr | TagsTo jstr | CodeTo jstr | InterstitialTo bool | SecondsTo jstr | DomainTo jstr
  | RulesTo rules_event | DomainsKnown domain_event

definition number_field :: "jstr \<Rightarrow> bool" where
  \<comment> \<open>the value of a number field is empty or a number\<close>
  "number_field v \<longleftrightarrow> v = [] \<or> (case js_number v of JFin _ \<Rightarrow> True | _ \<Rightarrow> False)"

fun field_offered :: "'a link_fields_scheme \<Rightarrow> field_event \<Rightarrow> bool" where
  "field_offered s (UrlTo v) \<longleftrightarrow> True"
| "field_offered s (TitleTo v) \<longleftrightarrow> length v \<le> 255"
| "field_offered s (TagsTo v) \<longleftrightarrow> True"
| "field_offered s (CodeTo v) \<longleftrightarrow> v = js ''302'' \<or> v = js ''301''"
| "field_offered s (InterstitialTo b) \<longleftrightarrow> True"
| "field_offered s (SecondsTo v) \<longleftrightarrow> lf_interstitial_on s \<and> number_field v"
| "field_offered s (DomainTo v) \<longleftrightarrow>
     (case domain_options (lf_config s) of None \<Rightarrow> False | Some os \<Rightarrow> v \<in> set (map fst os))"
| "field_offered s (RulesTo e) \<longleftrightarrow> rules_offered (lf_rules s) e"
| "field_offered s (DomainsKnown e) \<longleftrightarrow> True"

fun field_changed :: "field_event \<Rightarrow> 'a link_fields_scheme \<Rightarrow> 'a link_fields_scheme" where
  "field_changed (UrlTo v) s = s\<lparr>lf_url := v\<rparr>"
| "field_changed (TitleTo v) s = s\<lparr>lf_title := v\<rparr>"
| "field_changed (TagsTo v) s = s\<lparr>lf_tags := v\<rparr>"
| "field_changed (CodeTo v) s = s\<lparr>lf_code := v\<rparr>"
| "field_changed (InterstitialTo b) s = s\<lparr>lf_interstitial_on := b\<rparr>"
| "field_changed (SecondsTo v) s = s\<lparr>lf_seconds := v\<rparr>"
| "field_changed (DomainTo v) s = s\<lparr>lf_domain := v\<rparr>"
| "field_changed (RulesTo e) s = s\<lparr>lf_rules := rules_changed e (lf_rules s)\<rparr>"
| "field_changed (DomainsKnown e) s = s\<lparr>lf_config := config_settled e\<rparr>"

definition interstitial_value :: "'a link_fields_scheme \<Rightarrow> jnum" where
  "interstitial_value s = (if lf_interstitial_on s then js_number (lf_seconds s) else JFin 0)"

definition form_valid :: "'a link_fields_scheme \<Rightarrow> bool" where
  \<comment> \<open>what the browser checks: the required URL, and the seconds from 1 to 60 while they are asked for\<close>
  "form_valid s \<longleftrightarrow>
     lf_url s \<noteq> [] \<and>
     (lf_interstitial_on s \<longrightarrow>
        (case js_number (lf_seconds s) of JFin q \<Rightarrow> 1 \<le> q \<and> q \<le> 60 \<and> q = of_int \<lfloor>q\<rfloor> | _ \<Rightarrow> False))"

definition interstitial_ok :: "jnum \<Rightarrow> bool" where
  \<comment> \<open>off, or a whole number of seconds from 1 to 60\<close>
  "interstitial_ok v \<longleftrightarrow> (case v of JFin q \<Rightarrow> q = of_int \<lfloor>q\<rfloor> \<and> 0 \<le> q \<and> q \<le> 60 | _ \<Rightarrow> False)"

lemma form_valid_interstitial: "form_valid s \<Longrightarrow> interstitial_ok (interstitial_value s)"
  by (auto simp: form_valid_def interstitial_value_def interstitial_ok_def split: jnum.splits)

section \<open>A new link\<close>

record new_link = link_fields +
  nl_alias :: jstr
  nl_error :: jstr
  nl_loading :: bool
  nl_created :: "(link_record \<times> jstr) option"
  nl_pending :: bool
  nl_log :: "effect list"

definition new_parse_tags :: "jstr \<Rightarrow> jstr list" where
  \<comment> \<open>the page has a copy of \<open>parseTags\<close> of its own\<close>
  "new_parse_tags raw =
     foldl (\<lambda>seen part. let name = trim part in if name \<noteq> [] then set_add seen name else seen) [] (split_runs tag_sep raw)"

definition create_input :: "new_link \<Rightarrow> link_input" where
  "create_input s =
     \<lparr>li_destination = Some (lf_url s), li_alias = (if nl_alias s = [] then None else Some (nl_alias s)),
      li_title = (if lf_title s = [] then None else Some (lf_title s)), li_tags = Some (new_parse_tags (lf_tags s)),
      li_redirect_code = Some (js_number (lf_code s)), li_expires_at = None, li_rules = Some (lf_rules s),
      li_domain = Some (lf_domain s), li_interstitial = Some (interstitial_value s), li_status = None\<rparr>"

definition new_submit :: "new_link \<Rightarrow> new_link" where
  "new_submit s =
     s\<lparr>nl_loading := True, nl_error := [], nl_pending := True, nl_log := nl_log s @ [Call (CreateLink (create_input s))]\<rparr>"

definition new_fields :: "new_link \<Rightarrow> new_link" where
  \<comment> \<open>the initial fields, which \<open>startAnother\<close> restores\<close>
  "new_fields s =
     s\<lparr>lf_url := [], nl_alias := [], lf_domain := [], lf_title := [], lf_tags := [], lf_code := js ''302'',
       lf_interstitial_on := True, lf_seconds := js ''2'', lf_rules := [], nl_error := [], nl_created := None\<rparr>"

datatype new_event =
    NewField field_event | NewAlias jstr | SubmitNew | CancelNew | StartAnother
  | NewSettles "(link_record \<times> jstr) promise"

fun new_offered :: "new_link \<Rightarrow> new_event \<Rightarrow> bool" where
  "new_offered s (NewField e) \<longleftrightarrow> nl_created s = None \<and> field_offered s e"
| "new_offered s (NewAlias v) \<longleftrightarrow> nl_created s = None"
| "new_offered s SubmitNew \<longleftrightarrow> nl_created s = None \<and> \<not> nl_loading s \<and> form_valid s"
| "new_offered s CancelNew \<longleftrightarrow> nl_created s = None"
| "new_offered s StartAnother \<longleftrightarrow> nl_created s \<noteq> None"
| "new_offered s (NewSettles _) \<longleftrightarrow> nl_pending s"

fun new_move :: "translator \<Rightarrow> new_link \<Rightarrow> new_event \<Rightarrow> new_link" where
  "new_move t s (NewField e) = field_changed e s"
| "new_move t s (NewAlias v) = s\<lparr>nl_alias := v\<rparr>"
| "new_move t s SubmitNew = new_submit s"
| "new_move t s CancelNew = s\<lparr>nl_log := nl_log s @ [Back]\<rparr>"
| "new_move t s StartAnother = new_fields s"
| "new_move t s (NewSettles (Inr r)) =
     s\<lparr>nl_created := Some r, nl_loading := False, nl_pending := False,
       nl_log := nl_log s @ [Toast ToastSuccess (tr t ''links.created.title'') []]\<rparr>"
| "new_move t s (NewSettles (Inl e)) =
     s\<lparr>nl_error := error_text t e ''error.create'' [], nl_loading := False, nl_pending := False\<rparr>"

definition new_start :: new_link where
  "new_start =
     \<lparr>lf_url = [], lf_title = [], lf_tags = [], lf_code = js ''302'', lf_interstitial_on = True, lf_seconds = js ''2'',
      lf_domain = [], lf_rules = [], lf_config = None, nl_alias = [], nl_error = [], nl_loading = False, nl_created = None,
      nl_pending = False, nl_log = [Call GetConfig]\<rparr>"

lemma new_parse_tags_same: "new_parse_tags raw = parse_tags raw"
proof -
  have "(\<lambda>seen part. let name = trim part in if name \<noteq> [] then set_add seen name else seen) =
      (\<lambda>seen part. let name = trim part in if name = [] then seen else set_add seen name)"
    by (simp add: fun_eq_iff Let_def)
  then show ?thesis by (simp add: new_parse_tags_def parse_tags_def)
qed

definition tags_ok :: "jstr list \<Rightarrow> bool" where
  "tags_ok ts \<longleftrightarrow> distinct ts \<and> list_all (\<lambda>tag. tag \<noteq> [] \<and> list_all (\<lambda>c. \<not> tag_sep c) tag) ts"

lemma parse_tags_ok: "tags_ok (parse_tags raw)"
  using split_by_pieces by (auto simp: tags_ok_def parse_tags_distinct parse_tags_set list_all_iff)

definition create_ok :: "link_input \<Rightarrow> bool" where
  "create_ok i \<longleftrightarrow>
     li_destination i \<notin> {None, Some []} \<and> li_alias i \<noteq> Some [] \<and> li_title i \<noteq> Some [] \<and>
     (case li_tags i of None \<Rightarrow> False | Some ts \<Rightarrow> tags_ok ts) \<and>
     li_redirect_code i \<in> {Some (JFin 301), Some (JFin 302)} \<and>
     (case li_rules i of None \<Rightarrow> False | Some rs \<Rightarrow> length rs \<le> max_rules \<and> list_all rule_ok rs) \<and>
     (case li_interstitial i of None \<Rightarrow> False | Some v \<Rightarrow> interstitial_ok v)"

fun new_effect :: "effect \<Rightarrow> bool" where
  "new_effect (Call GetConfig) \<longleftrightarrow> True"
| "new_effect (Call (CreateLink i)) \<longleftrightarrow> create_ok i"
| "new_effect (Toast _ _ _) \<longleftrightarrow> True"
| "new_effect Back \<longleftrightarrow> True"
| "new_effect _ \<longleftrightarrow> False"

definition new_inv :: "new_link \<Rightarrow> bool" where
  "new_inv s \<longleftrightarrow>
     (lf_code s = js ''302'' \<or> lf_code s = js ''301'') \<and> list_all rule_ok (lf_rules s) \<and> length (lf_rules s) \<le> max_rules \<and>
     nl_loading s = nl_pending s"

lemma code_number: "js_number (js ''302'') = JFin 302" "js_number (js ''301'') = JFin 301" "js_number (js ''2'') = JFin 2"
proof -
  have "js_of_int 302 = js ''302''" "js_of_int 301 = js ''301''" "js_of_int 2 = js ''2''" by code_simp+
  then show "js_number (js ''302'') = JFin 302" "js_number (js ''301'') = JFin 301" "js_number (js ''2'') = JFin 2"
    using js_number_of_int [of 302] js_number_of_int [of 301] js_number_of_int [of 2] by simp_all
qed

lemma field_changed_inv:
  assumes "new_inv s" "field_offered s e"
  shows "new_inv (field_changed e s)"
proof (cases e)
  case (RulesTo x)
  then have "rules_offered (lf_rules s) x" using assms(2) by simp
  from rules_changed_ok [OF _ this] assms(1) RulesTo show ?thesis by (simp add: new_inv_def max_def)
qed (use assms in \<open>simp_all add: new_inv_def\<close>)

lemma field_changed_log [simp]: "nl_log (field_changed e s) = nl_log s"
  by (cases e) simp_all

interpretation new_page: logging_page new_start new_offered "new_move t" new_inv nl_log new_effect for t
proof
  show "new_inv new_start" by (simp add: new_inv_def new_start_def)
  show "new_inv (new_move t s e)" if "new_inv s" "new_offered s e" for s e
    using that field_changed_inv
    by (cases "(t, s, e)" rule: new_move.cases) (auto simp: new_inv_def new_submit_def new_fields_def)
  show "list_all new_effect (nl_log new_start)" by (simp add: new_start_def)
  show "list_all new_effect (nl_log (new_move t s e))"
    if "new_inv s" "new_offered s e" "list_all new_effect (nl_log s)" for s e
    using that form_valid_interstitial [of s] parse_tags_ok
    by (cases "(t, s, e)" rule: new_move.cases)
      (auto simp: new_inv_def new_submit_def new_fields_def create_ok_def create_input_def new_parse_tags_same code_number
        form_valid_def)
qed

section \<open>The edit form\<close>

record edit_link = link_fields +
  el_id :: jstr
  el_link :: "link_record option"
  el_short_url :: jstr
  el_status :: jstr
  el_expires :: jstr
  el_error :: jstr
  el_loading :: bool
  el_saving :: bool
  el_checking :: bool
  el_load_pending :: bool
  el_save_pending :: bool
  el_check_pending :: bool
  el_log :: "effect list"

definition to_rule_inputs :: "link_record \<Rightarrow> rule_input list" where
  "to_rule_inputs link =
     map (\<lambda>r. \<lparr>ri_match_type = ru_match_type r, ri_match_value = ru_match_value r, ri_destination = ru_destination r,
               ri_redirect_code = ru_redirect_code r\<rparr>) (case lk_rules link of None \<Rightarrow> [] | Some rs \<Rightarrow> rs)"

definition edit_loaded :: "link_record \<Rightarrow> jstr \<Rightarrow> edit_link \<Rightarrow> edit_link" where
  "edit_loaded r short s =
     s\<lparr>el_link := Some r, el_short_url := short, lf_url := lk_destination r, lf_title := lk_title r,
       lf_tags := join [44, 32] (lk_tags r), lf_code := js_of_int (lk_redirect_code r),
       lf_interstitial_on := 0 < lk_interstitial r,
       lf_seconds := js_of_int (if lk_interstitial r = 0 then 2 else lk_interstitial r),
       lf_domain := (case lk_domain r of None \<Rightarrow> [] | Some d \<Rightarrow> d), el_status := lk_status r,
       el_expires := (case lk_expires_at r of None \<Rightarrow> [] | Some e \<Rightarrow> take 10 e), lf_rules := to_rule_inputs r,
       el_loading := False, el_load_pending := False\<rparr>"

definition update_input :: "edit_link \<Rightarrow> link_input option" where
  \<comment> \<open>\<open>None\<close> when building the expiry throws\<close>
  "update_input s =
     (let input = (\<lambda>expires. \<lparr>li_destination = Some (lf_url s), li_alias = None, li_title = Some (lf_title s),
          li_tags = Some (parse_tags (lf_tags s)), li_redirect_code = Some (js_number (lf_code s)),
          li_expires_at = Some expires, li_rules = Some (lf_rules s), li_domain = Some (lf_domain s),
          li_interstitial = Some (interstitial_value s), li_status = Some (el_status s)\<rparr>)
      in if el_expires s = [] then Some (input []) else map_option input (midnight_iso (el_expires s)))"

definition edit_submit :: "translator \<Rightarrow> edit_link \<Rightarrow> edit_link" where
  \<comment> \<open>\<open>toISOString\<close> throws inside the \<open>try\<close>; the text is the one V8 gives its \<open>RangeError\<close>\<close>
  "edit_submit t s =
     (case update_input s of
        None \<Rightarrow> s\<lparr>el_error := error_text t (PlainError (js ''Invalid time value'')) ''error.save'' []\<rparr>
      | Some i \<Rightarrow>
          s\<lparr>el_saving := True, el_error := [], el_save_pending := True, el_log := el_log s @ [Call (UpdateLink (el_id s) i)]\<rparr>)"

definition edit_check :: "edit_link \<Rightarrow> edit_link" where
  "edit_check s =
     s\<lparr>el_checking := True, el_error := [], el_check_pending := True, el_log := el_log s @ [Call (CheckLink (el_id s))]\<rparr>"

definition edit_checked :: "translator \<Rightarrow> link_health \<Rightarrow> edit_link \<Rightarrow> edit_link" where
  "edit_checked t h s =
     (let s1 = s\<lparr>el_link := map_option (\<lambda>l. l\<lparr>lk_checked_at := Some (lh_checked_at h), lk_status_code := Some (lh_status_code h)\<rparr>)
                   (el_link s), el_checking := False, el_check_pending := False\<rparr>
      in case lh_error h of
           Some m \<Rightarrow> if m = [] then s1\<lparr>el_log := el_log s @
                        [Toast ToastSuccess (trp t ''links.checkOk'' [(''code'', PInt (lh_status_code h))]) []]\<rparr>
                     else s1\<lparr>el_error := m\<rparr>
         | None \<Rightarrow> s1\<lparr>el_log := el_log s @
                        [Toast ToastSuccess (trp t ''links.checkOk'' [(''code'', PInt (lh_status_code h))]) []]\<rparr>)"

datatype edit_event =
    EditField field_event | StatusTo jstr | ExpiresTo jstr | SubmitEdit | CancelEdit | CheckNow
  | EditLoadSettles "(link_record \<times> jstr) promise"
  | EditSaveSettles "unit promise"
  | EditCheckSettles "link_health promise"

definition edit_shown :: "edit_link \<Rightarrow> bool" where
  "edit_shown s \<longleftrightarrow> \<not> el_loading s \<and> el_link s \<noteq> None"

fun edit_offered :: "edit_link \<Rightarrow> edit_event \<Rightarrow> bool" where
  "edit_offered s (EditField e) \<longleftrightarrow> edit_shown s \<and> field_offered s e"
| "edit_offered s (StatusTo v) \<longleftrightarrow> edit_shown s \<and> (v = js ''active'' \<or> v = js ''disabled'')"
| "edit_offered s (ExpiresTo v) \<longleftrightarrow> edit_shown s \<and> (v = [] \<or> date_value v)"
| "edit_offered s SubmitEdit \<longleftrightarrow> edit_shown s \<and> \<not> el_saving s \<and> form_valid s"
| "edit_offered s CancelEdit \<longleftrightarrow> edit_shown s"
| "edit_offered s CheckNow \<longleftrightarrow> edit_shown s \<and> \<not> el_checking s"
| "edit_offered s (EditLoadSettles _) \<longleftrightarrow> el_load_pending s"
| "edit_offered s (EditSaveSettles _) \<longleftrightarrow> el_save_pending s"
| "edit_offered s (EditCheckSettles _) \<longleftrightarrow> el_check_pending s"

fun edit_move :: "translator \<Rightarrow> edit_link \<Rightarrow> edit_event \<Rightarrow> edit_link" where
  "edit_move t s (EditField e) = field_changed e s"
| "edit_move t s (StatusTo v) = s\<lparr>el_status := v\<rparr>"
| "edit_move t s (ExpiresTo v) = s\<lparr>el_expires := v\<rparr>"
| "edit_move t s SubmitEdit = edit_submit t s"
| "edit_move t s CancelEdit = s\<lparr>el_log := el_log s @ [Back]\<rparr>"
| "edit_move t s CheckNow = edit_check s"
| "edit_move t s (EditLoadSettles (Inr (r, short))) = edit_loaded r short s"
| "edit_move t s (EditLoadSettles (Inl e)) =
     s\<lparr>el_error := error_text t e ''error.load'' [], el_loading := False, el_load_pending := False\<rparr>"
| "edit_move t s (EditSaveSettles (Inr _)) =
     s\<lparr>el_saving := False, el_save_pending := False,
       el_log := el_log s @ [Toast ToastSuccess (tr t ''settings.saved'') [], Push (js ''/home/links'')]\<rparr>"
| "edit_move t s (EditSaveSettles (Inl e)) =
     s\<lparr>el_error := error_text t e ''error.save'' [], el_saving := False, el_save_pending := False\<rparr>"
| "edit_move t s (EditCheckSettles (Inr h)) = edit_checked t h s"
| "edit_move t s (EditCheckSettles (Inl e)) =
     s\<lparr>el_error := error_text t e ''error.check'' [], el_checking := False, el_check_pending := False\<rparr>"

definition edit_start :: "jstr \<Rightarrow> edit_link" where
  \<comment> \<open>without an id nothing is loaded\<close>
  "edit_start i =
     \<lparr>lf_url = [], lf_title = [], lf_tags = [], lf_code = js ''302'', lf_interstitial_on = False, lf_seconds = js ''2'',
      lf_domain = [], lf_rules = [], lf_config = None, el_id = i, el_link = None, el_short_url = [], el_status = js ''active'',
      el_expires = [], el_error = [], el_loading = True, el_saving = False, el_checking = False,
      el_load_pending = (i \<noteq> []), el_save_pending = False, el_check_pending = False,
      el_log = (if i = [] then [] else [Call (GetLink i)])\<rparr>"

section \<open>Editing without changing\<close>

lemma parse_tags_join:
  assumes "tags_ok ts"
  shows "parse_tags (join [44, 32] ts) = ts"
proof (cases "ts = []")
  case True
  then show ?thesis by (simp add: parse_tags_def)
next
  case False
  have clean: "\<And>x c. x \<in> set ts \<Longrightarrow> c \<in> set x \<Longrightarrow> \<not> tag_sep c" and ne: "\<And>x. x \<in> set ts \<Longrightarrow> x \<noteq> []"
    using assms by (auto simp: tags_ok_def list_all_iff)
  have "trim x = x" if "x \<in> set ts" for x using clean [OF that] by (intro trim_no_ws) (auto simp: tag_sep_def)
  then show ?thesis using split_runs_join_tags [OF False clean ne] foldl_all_new [of "[]" ts] ne assms
    by (simp add: parse_tags_def tags_ok_def)
qed

definition stored_ok :: "link_record \<Rightarrow> bool" where
  \<comment> \<open>a link as the API stores it: clean tags, numbers a double holds, an expiry with a day of four
      digits for the year\<close>
  "stored_ok r \<longleftrightarrow>
     tags_ok (lk_tags r) \<and> \<bar>lk_redirect_code r\<bar> < 1000 \<and> 0 \<le> lk_interstitial r \<and> lk_interstitial r \<le> 60 \<and>
     (case lk_expires_at r of None \<Rightarrow> True | Some e \<Rightarrow> e \<noteq> [] \<and> 10 \<le> length e \<and> length (hd (split_on 45 (take 10 e))) = 4)"

definition day_start :: "jstr option \<Rightarrow> jstr" where
  "day_start e = (case e of None \<Rightarrow> [] | Some e \<Rightarrow> take 10 e @ js ''T00:00:00.000Z'')"

lemma edit_round_trip_fields:
  assumes "stored_ok r"
  shows "update_input (edit_loaded r short s) =
    Some \<lparr>li_destination = Some (lk_destination r), li_alias = None, li_title = Some (lk_title r), li_tags = Some (lk_tags r),
      li_redirect_code = Some (JFin (of_int (lk_redirect_code r))), li_expires_at = Some (day_start (lk_expires_at r)),
      li_rules = Some (to_rule_inputs r), li_domain = Some (case lk_domain r of None \<Rightarrow> [] | Some d \<Rightarrow> d),
      li_interstitial = Some (JFin (of_int (lk_interstitial r))), li_status = Some (lk_status r)\<rparr>"
proof -
  have "js_number (js_of_int (lk_redirect_code r)) = JFin (of_int (lk_redirect_code r))"
    by (rule js_number_of_int) (use assms in \<open>simp add: stored_ok_def\<close>)
  moreover have "js_number (js_of_int (lk_interstitial r)) = JFin (of_int (lk_interstitial r))"
    by (rule js_number_of_int) (use assms in \<open>simp add: stored_ok_def\<close>)
  moreover have "parse_tags (join [44, 32] (lk_tags r)) = lk_tags r"
    by (rule parse_tags_join) (use assms in \<open>simp add: stored_ok_def\<close>)
  moreover have "take 10 e \<noteq> []" "midnight_iso (take 10 e) = Some (take 10 e @ js ''T00:00:00.000Z'')"
    if "lk_expires_at r = Some e" for e
    using assms that by (auto simp: stored_ok_def midnight_iso_def)
  moreover have "interstitial_value (edit_loaded r short s) =
      (if 0 < lk_interstitial r then js_number (js_of_int (lk_interstitial r)) else JFin 0)"
    by (simp add: interstitial_value_def edit_loaded_def)
  moreover have "0 \<le> lk_interstitial r" using assms by (simp add: stored_ok_def)
  ultimately show ?thesis
    by (cases "lk_expires_at r") (auto simp: update_input_def edit_loaded_def day_start_def Let_def)
qed

text \<open>The expiry is edited as a day: one that was stored with a time of day is moved to the midnight
  before it by any save, also by one that changes something else.\<close>

lemma edit_truncates_expiry:
  assumes "stored_ok r" "lk_expires_at r = Some e" "drop 10 e \<noteq> js ''T00:00:00.000Z''"
  shows "\<exists>i. update_input (edit_loaded r short s) = Some i \<and> li_expires_at i \<noteq> Some e"
proof -
  have "take 10 e @ js ''T00:00:00.000Z'' \<noteq> e"
    using assms by (metis append_take_drop_id same_append_eq)
  then show ?thesis using edit_round_trip_fields [OF assms(1)] assms(2) by (simp add: day_start_def)
qed

section \<open>Properties\<close>

text \<open>What the form of a new link asks for is well formed: in any run every creation names a
  destination, has no empty alias or title, each tag once and none empty, one of the two redirect
  codes, at most ten rules whose device is of the vocabulary, and an interstitial that is off or a
  whole number of seconds from 1 to 60; at most one is in flight.\<close>
lemma new_link_well_formed:
  assumes "reachable new_start new_offered (new_move t) s"
  shows "list_all new_effect (nl_log s) \<and> (nl_pending s \<longrightarrow> \<not> new_offered s SubmitNew)"
  using new_page.reachable_log [OF assms] new_page.reachable_inv [OF assms] by (auto simp: new_inv_def)

lemma new_link_well_formed_witness:
  "let s = foldl (new_move (t_for (js ''en''))) new_start [NewField (UrlTo (js ''https://a'')), SubmitNew]
   in length (nl_log s) = 2 \<and> list_all new_effect (nl_log s)"
proof -
  define s where "s = foldl (new_move (t_for (js ''en''))) new_start [NewField (UrlTo (js ''https://a'')), SubmitNew]"
  have r: "runs new_offered (new_move (t_for (js ''en''))) new_start [NewField (UrlTo (js ''https://a'')), SubmitNew] = Some s"
    and l: "length (nl_log s) = 2"
    by (simp_all add: s_def new_start_def new_submit_def form_valid_def code_number)
  have "list_all new_effect (nl_log s)" using new_link_well_formed [OF runs_from_start [OF r]] by blast
  with l show ?thesis unfolding s_def Let_def by blast
qed


definition stored_link :: link_record where
  "stored_link =
     \<lparr>lk_id = js ''7'', lk_alias = js ''a'', lk_destination = js ''https://a'', lk_title = [], lk_tags = [js ''x'', js ''y''],
       lk_redirect_code = 301, lk_status = js ''active'', lk_version = 1, lk_expires_at = Some (js ''2024-05-01T10:30:00Z''),
       lk_created_at = [], lk_updated_at = [], lk_clicks = None, lk_checked_at = None, lk_status_code = None, lk_rules = None,
       lk_domain = None, lk_interstitial = 5\<rparr>"


end
