(* ===== verification/In_Flight.thy ===== *)
theory In_Flight
  imports Page_Model
begin

text \<open>
  Counting the requests in flight. A page that keeps a \<open>loading\<close> or \<open>busy\<close> mark is right when
  the mark is up exactly while one request of the kind it stands for is pending; \<open>count_ops\<close> is
  the number of those, and a request that settles is taken out of the list with \<open>remove1\<close>.
\<close>

definition count_ops :: "('o \<Rightarrow> bool) \<Rightarrow> 'o list \<Rightarrow> nat" where
  "count_ops k ops = length (filter k ops)"

lemma count_ops_simps [simp]:
  "count_ops k [] = 0"
  "count_ops k (op # ops) = (if k op then 1 else 0) + count_ops k ops"
  "count_ops k (ops @ [op]) = count_ops k ops + (if k op then 1 else 0)"
  "op \<in> set ops \<Longrightarrow> count_ops k (remove1 op ops) = count_ops k ops - (if k op then 1 else 0)"
  by (simp_all add: count_ops_def filter_remove1 length_remove1 remove1_idem)

lemma count_ops_pos: "op \<in> set ops \<Longrightarrow> k op \<Longrightarrow> 0 < count_ops k ops"
  by (auto simp: count_ops_def filter_empty_conv)

lemma count_ops_unique:
  assumes "count_ops k ops \<le> 1" "op \<in> set ops" "k op" "op' \<in> set (remove1 op ops)"
  shows "\<not> k op'"
proof
  assume "k op'"
  then have "0 < count_ops k (remove1 op ops)" using assms(4) by (rule count_ops_pos [rotated])
  then show False using assms(1-3) by simp
qed

lemma still_in_flight: "op' \<in> set (remove1 op ops) \<Longrightarrow> op' \<in> set ops"
  by (rule subsetD [OF set_remove1_subset])

end
