(* ===== verification/Tokens_Page.thy ===== *)
theory Tokens_Page
  imports In_Flight
begin

text \<open>
  The page of the account's API tokens (\<open>web/src/app/home/account/tokens/page.tsx\<close>): a created
  token's secret is shown once, and the list is read again behind it.
\<close>

section \<open>API tokens\<close>

datatype tokens_op = TokensMe bool | TokensList bool | TokenCreate | TokenRevoke jstr
  \<comment> \<open>the flag: the load follows a creation\<close>

record tokens_state =
  to_allowed :: "bool option"
  to_tokens :: "token_record list option"
  to_name :: jstr
  to_secret :: jstr
  to_error :: jstr
  to_load_error :: jstr
  to_loading :: bool
  to_creating :: bool
  to_inflight :: "tokens_op list"
  to_log :: "effect list"

definition tokens_begin :: "tokens_op \<Rightarrow> api_call \<Rightarrow> tokens_state \<Rightarrow> tokens_state" where
  "tokens_begin op call s = s\<lparr>to_inflight := to_inflight s @ [op], to_log := to_log s @ [Call call]\<rparr>"

definition tokens_end :: "tokens_op \<Rightarrow> tokens_state \<Rightarrow> tokens_state" where
  "tokens_end op s = s\<lparr>to_inflight := remove1 op (to_inflight s)\<rparr>"

definition tokens_load :: "bool \<Rightarrow> tokens_state \<Rightarrow> tokens_state" where
  "tokens_load created s = tokens_begin (TokensMe created) Me (s\<lparr>to_loading := True, to_load_error := []\<rparr>)"

definition tokens_loaded :: "translator \<Rightarrow> bool \<Rightarrow> tokens_state \<Rightarrow> tokens_state" where
  \<comment> \<open>the end of \<open>load\<close>, and what follows it in \<open>create\<close>\<close>
  "tokens_loaded t created s =
     (let s1 = s\<lparr>to_loading := False\<rparr> in
      if created
      then s1\<lparr>to_creating := False, to_log := to_log s @ [Toast ToastSuccess (tr t ''settings.security.tokenCreated'') []]\<rparr>
      else s1)"

definition tokens_create :: "tokens_state \<Rightarrow> tokens_state" where
  "tokens_create s =
     (if to_allowed s \<noteq> Some True \<or> to_creating s \<or> trim (to_name s) = [] \<or> to_secret s \<noteq> [] then s
      else tokens_begin TokenCreate (CreateToken (trim (to_name s))) (s\<lparr>to_creating := True, to_error := []\<rparr>))"

definition tokens_revoke :: "jstr \<Rightarrow> tokens_state \<Rightarrow> tokens_state" where
  "tokens_revoke i s =
     (if to_allowed s \<noteq> Some True then s else tokens_begin (TokenRevoke i) (RevokeToken i) (s\<lparr>to_error := []\<rparr>))"

datatype tokens_event =
    TokensRetry | TypeName jstr | SubmitToken | SecretSaved | ConfirmRevoke jstr
  | TokensMeSettles bool "admin_user promise"
  | TokensListSettles bool "token_record list promise"
  | TokenCreateSettles "jstr promise"
  | TokenRevokeSettles jstr "unit promise"

fun tokens_offered :: "tokens_state \<Rightarrow> tokens_event \<Rightarrow> bool" where
  "tokens_offered s TokensRetry \<longleftrightarrow> to_load_error s \<noteq> [] \<and> \<not> to_loading s"
| "tokens_offered s (TypeName v) \<longleftrightarrow> to_allowed s = Some True \<and> \<not> (to_creating s \<or> to_secret s \<noteq> [])"
| "tokens_offered s SubmitToken \<longleftrightarrow>
     to_allowed s = Some True \<and> \<not> (to_creating s \<or> trim (to_name s) = [] \<or> to_secret s \<noteq> [])"
| "tokens_offered s SecretSaved \<longleftrightarrow> to_allowed s = Some True \<and> to_secret s \<noteq> []"
| "tokens_offered s (ConfirmRevoke i) \<longleftrightarrow>
     to_allowed s = Some True \<and> (case to_tokens s of None \<Rightarrow> False | Some ts \<Rightarrow> i \<in> set (map tk_id ts))"
| "tokens_offered s (TokensMeSettles c _) \<longleftrightarrow> TokensMe c \<in> set (to_inflight s)"
| "tokens_offered s (TokensListSettles c _) \<longleftrightarrow> TokensList c \<in> set (to_inflight s)"
| "tokens_offered s (TokenCreateSettles r) \<longleftrightarrow> TokenCreate \<in> set (to_inflight s)"
| "tokens_offered s (TokenRevokeSettles i _) \<longleftrightarrow> TokenRevoke i \<in> set (to_inflight s)"

fun tokens_move :: "translator \<Rightarrow> tokens_state \<Rightarrow> tokens_event \<Rightarrow> tokens_state" where
  "tokens_move t s TokensRetry = tokens_load False s"
| "tokens_move t s (TypeName v) = s\<lparr>to_name := v\<rparr>"
| "tokens_move t s SubmitToken = tokens_create s"
| "tokens_move t s SecretSaved = s\<lparr>to_secret := []\<rparr>"
| "tokens_move t s (ConfirmRevoke i) = tokens_revoke i s"
| "tokens_move t s (TokensMeSettles c r) =
     (let s1 = tokens_end (TokensMe c) s in
      case r of
        Inl e \<Rightarrow> tokens_loaded t c (s1\<lparr>to_load_error := error_text t e ''error.load'' []\<rparr>)
      | Inr user \<Rightarrow>
          if js ''tokens:manage'' \<in> set (case au_scopes user of None \<Rightarrow> [] | Some sc \<Rightarrow> sc)
          then tokens_begin (TokensList c) ListTokens (s1\<lparr>to_allowed := Some True\<rparr>)
          else tokens_loaded t c (s1\<lparr>to_allowed := Some False, to_tokens := None, to_secret := []\<rparr>))"
| "tokens_move t s (TokensListSettles c r) =
     (let s1 = tokens_end (TokensList c) s in
      case r of
        Inl e \<Rightarrow> tokens_loaded t c (s1\<lparr>to_load_error := error_text t e ''error.load'' []\<rparr>)
      | Inr ts \<Rightarrow> tokens_loaded t c (s1\<lparr>to_tokens := Some ts\<rparr>))"
| "tokens_move t s (TokenCreateSettles r) =
     (let s1 = tokens_end TokenCreate s in
      case r of
        Inl e \<Rightarrow> s1\<lparr>to_error := error_text t e ''error.create'' [], to_creating := False\<rparr>
      | Inr secret \<Rightarrow> tokens_load True (s1\<lparr>to_secret := secret, to_name := []\<rparr>))"
| "tokens_move t s (TokenRevokeSettles i r) =
     (let s1 = tokens_end (TokenRevoke i) s in
      case r of
        Inl e \<Rightarrow> s1\<lparr>to_error := error_text t e ''error.revoke'' []\<rparr>
      | Inr _ \<Rightarrow> s1\<lparr>to_tokens := map_option (filter (\<lambda>tk. tk_id tk \<noteq> i)) (to_tokens s),
                    to_log := to_log s1 @ [Toast ToastSuccess (tr t ''settings.security.tokenRevoked'') []]\<rparr>)"

definition tokens_start :: tokens_state where
  "tokens_start = tokens_load False
     \<lparr>to_allowed = None, to_tokens = None, to_name = [], to_secret = [], to_error = [], to_load_error = [], to_loading = True,
      to_creating = False, to_inflight = [], to_log = []\<rparr>"

lemmas tokens_handlers = tokens_begin_def tokens_end_def tokens_load_def tokens_loaded_def tokens_create_def
  tokens_revoke_def

fun creating_op :: "tokens_op \<Rightarrow> bool" where
  \<comment> \<open>the creation of a token, from its request to the load that follows it\<close>
  "creating_op TokenCreate = True"
| "creating_op (TokensMe c) = c"
| "creating_op (TokensList c) = c"
| "creating_op (TokenRevoke _) = False"

definition tokens_inv :: "tokens_state \<Rightarrow> bool" where
  "tokens_inv s \<longleftrightarrow>
     count_ops creating_op (to_inflight s) = (if to_creating s then 1 else 0) \<and>
     (TokenCreate \<in> set (to_inflight s) \<longrightarrow> to_secret s = [])"

fun tokens_effect :: "effect \<Rightarrow> bool" where
  "tokens_effect (Call Me) \<longleftrightarrow> True"
| "tokens_effect (Call ListTokens) \<longleftrightarrow> True"
| "tokens_effect (Call (CreateToken n)) \<longleftrightarrow> n \<noteq> [] \<and> trim n = n"
| "tokens_effect (Call (RevokeToken _)) \<longleftrightarrow> True"
| "tokens_effect (Toast _ _ _) \<longleftrightarrow> True"
| "tokens_effect _ \<longleftrightarrow> False"

lemma tokens_inv_move:
  assumes "tokens_inv s" "tokens_offered s e"
  shows "tokens_inv (tokens_move t s e)"
proof -
  have gone: "TokenCreate \<notin> set (remove1 op (to_inflight s))" if "op \<in> set (to_inflight s)" "creating_op op" for op
    using count_ops_unique [of creating_op "to_inflight s" op TokenCreate] that assms(1) count_ops_pos [of op "to_inflight s" creating_op]
    by (auto simp: tokens_inv_def split: if_splits)
  have pos: "op \<in> set (to_inflight s) \<Longrightarrow> creating_op op \<Longrightarrow> to_creating s" for op
    using assms(1) count_ops_pos [of op "to_inflight s" creating_op] by (auto simp: tokens_inv_def split: if_splits)
  have still: "TokenCreate \<in> set (remove1 op (to_inflight s)) \<Longrightarrow> TokenCreate \<in> set (to_inflight s)" for op
    by (rule still_in_flight)
  have count: "count_ops creating_op (to_inflight s) = (if to_creating s then 1 else 0)"
    and secret: "TokenCreate \<in> set (to_inflight s) \<longrightarrow> to_secret s = []"
    using assms(1) by (auto simp: tokens_inv_def)
  have idle: "\<not> to_creating s \<Longrightarrow> TokenCreate \<notin> set (to_inflight s)"
    using pos by force
  show ?thesis
  proof (cases e)
    case (TokensMeSettles c r)
    then show ?thesis using assms(2) count secret gone [of "TokensMe c"] pos [of "TokensMe c"] still
      by (cases c) (auto simp: tokens_inv_def tokens_handlers Let_def split: sum.splits)
  next
    case (TokensListSettles c r)
    then show ?thesis using assms(2) count secret gone [of "TokensList c"] pos [of "TokensList c"] still
      by (cases c) (auto simp: tokens_inv_def tokens_handlers Let_def split: sum.splits)
  next
    case (TokenCreateSettles r)
    then show ?thesis using assms(2) count secret gone [of TokenCreate] pos [of TokenCreate]
      by (auto simp: tokens_inv_def tokens_handlers Let_def split: sum.splits)
  next
    case (TokenRevokeSettles i r)
    then show ?thesis using assms(2) count secret still
      by (auto simp: tokens_inv_def tokens_handlers Let_def split: sum.splits)
  qed (use assms(2) count secret idle in
      \<open>auto simp: tokens_inv_def tokens_handlers Let_def split: sum.splits\<close>)
qed

lemma tokens_log_move:
  assumes "tokens_offered s e" "list_all tokens_effect (to_log s)"
  shows "list_all tokens_effect (to_log (tokens_move t s e))"
  using assms by (cases e) (auto simp: tokens_handlers Let_def split: sum.splits)

interpretation tokens: logging_page tokens_start tokens_offered "tokens_move t" tokens_inv to_log tokens_effect
proof unfold_locales
  show "tokens_inv tokens_start" "list_all tokens_effect (to_log tokens_start)"
    by (simp_all add: tokens_inv_def tokens_start_def tokens_handlers)
qed (use tokens_inv_move tokens_log_move in auto)

fun loses_permission :: "tokens_event \<Rightarrow> bool" where
  \<comment> \<open>the account is read again and no longer carries the scope\<close>
  "loses_permission (TokensMeSettles _ (Inr u)) \<longleftrightarrow>
     js ''tokens:manage'' \<notin> set (case au_scopes u of None \<Rightarrow> [] | Some sc \<Rightarrow> sc)"
| "loses_permission _ \<longleftrightarrow> False"

section \<open>Property\<close>

text \<open>C31 A token's secret, which the server shows once, stays on screen until it is put away: in any
  run of the page, an event other than the acknowledgement and the loss of the permission leaves a
  shown secret as it is; while it is shown no other token can be created, and none is being created
  twice; and a creation is asked for only with a trimmed name that is not empty.\<close>
theorem token_secret_kept:
  assumes "reachable tokens_start tokens_offered (tokens_move t) s"
  shows "list_all tokens_effect (to_log s) \<and> count_ops creating_op (to_inflight s) \<le> 1 \<and>
    (to_secret s \<noteq> [] \<longrightarrow>
       \<not> tokens_offered s SubmitToken \<and> TokenCreate \<notin> set (to_inflight s) \<and>
       (\<forall>e. tokens_offered s e \<longrightarrow> e \<noteq> SecretSaved \<longrightarrow> \<not> loses_permission e \<longrightarrow>
            to_secret (tokens_move t s e) = to_secret s))"
proof -
  have inv: "tokens_inv s" using tokens.reachable_inv [OF assms] .
  have "to_secret (tokens_move t s e) = to_secret s"
    if "tokens_offered s e" "e \<noteq> SecretSaved" "\<not> loses_permission e" "to_secret s \<noteq> []" for e
    using that inv by (cases e) (auto simp: tokens_handlers tokens_inv_def Let_def split: sum.splits)
  then show ?thesis using tokens.reachable_log [OF assms] inv by (auto simp: tokens_inv_def)
qed

definition token_keeper :: admin_user where
  "token_keeper = \<lparr>au_id = None, au_username = js ''u'', au_role = None, au_scopes = Some [js ''tokens:manage''],
     au_unrestricted = None, au_mfa_enabled = None, au_display_name = None\<rparr>"

definition tokens_run :: "tokens_event list" where
  "tokens_run = [TokensMeSettles False (Inr token_keeper), TokensListSettles False (Inr []), TypeName (js '' ci ''),
     SubmitToken, TokenCreateSettles (Inr (js ''s3cret''))]"

theorem token_secret_kept_witness:
  "let s = foldl (tokens_move (t_for (js ''en''))) tokens_start tokens_run in
   to_log s = [Call Me, Call ListTokens, Call (CreateToken (js ''ci'')), Call Me] \<and>
   to_secret (tokens_move (t_for (js ''en'')) s (TokensMeSettles True (Inl Thrown))) = js ''s3cret''"
proof -
  define s where "s = foldl (tokens_move (t_for (js ''en''))) tokens_start tokens_run"
  have n: "trim (js '' ci '') = js ''ci''" "js ''ci'' \<noteq> []" by code_simp+
  have r: "runs tokens_offered (tokens_move (t_for (js ''en''))) tokens_start tokens_run = Some s"
    "to_log s = [Call Me, Call ListTokens, Call (CreateToken (js ''ci'')), Call Me]"
    "to_secret s = js ''s3cret''" "TokensMe True \<in> set (to_inflight s)"
    by (simp_all add: s_def tokens_run_def tokens_start_def tokens_handlers token_keeper_def n)
  with token_secret_kept [OF runs_from_start, of "t_for (js ''en'')" tokens_run s] show ?thesis
    by (simp add: s_def [symmetric] del: tokens_move.simps)
qed

end
