(* ===== verification/Sign_In.thy ===== *)
theory Sign_In
  imports In_Flight
begin

text \<open>
  Signing in: the one-time code field (\<open>web/src/components/ui/rare/otp-input.tsx\<close>) and the login page
  (\<open>web/src/app/login/page.tsx\<close>) with its second factor.
\<close>

section \<open>The one-time code field\<close>

datatype otp_type = OtpNumbers | OtpLetters | OtpBoth

fun otp_char :: "otp_type \<Rightarrow> u16 \<Rightarrow> bool" where
  \<comment> \<open>\<open>PATTERNS\<close>; a character of two code units matches none of them\<close>
  "otp_char OtpNumbers c \<longleftrightarrow> is_digit c"
| "otp_char OtpLetters c \<longleftrightarrow> is_upper c \<or> is_lower c"
| "otp_char OtpBoth c \<longleftrightarrow> is_upper c \<or> is_lower c \<or> is_digit c"

definition otp_update :: "otp_type \<Rightarrow> nat \<Rightarrow> jstr \<Rightarrow> jstr \<times> bool" where
  \<comment> \<open>the value handed to \<open>onChange\<close>, and whether \<open>onComplete\<close> follows\<close>
  "otp_update ty len raw = (let next = take len (filter (otp_char ty) raw) in (next, length next = len))"

definition otp_slots :: "nat \<Rightarrow> jstr \<Rightarrow> jstr list" where
  "otp_slots len v = map (\<lambda>i. if i < length v then [v ! i] else []) [0..<len]"

lemma otp_update_value:
  "length (fst (otp_update ty len raw)) \<le> len" "list_all (otp_char ty) (fst (otp_update ty len raw))"
  by (auto simp: otp_update_def Let_def list_all_iff dest: in_set_takeD)

section \<open>The login page\<close>

datatype login_op = CheckSession | LoadProviders | LoginOp | VerifyOp

record login_state =
  ln_username :: jstr
  ln_password :: jstr
  ln_challenge :: jstr
  ln_cookie_mfa :: bool
  ln_code :: jstr
  ln_error :: jstr
  ln_loading :: bool
  ln_checking :: bool
  ln_providers :: "public_provider list"
  ln_failure :: jstr
  ln_inflight :: "login_op list"
  ln_log :: "effect list"

definition verifying :: "login_state \<Rightarrow> bool" where
  "verifying s \<longleftrightarrow> ln_challenge s \<noteq> [] \<or> ln_cookie_mfa s"

definition shown_error :: "translator \<Rightarrow> login_state \<Rightarrow> jstr" where
  "shown_error t s =
     (let key = js ''oidcError.'' @ ln_failure s;
          failure = (if ln_failure s = [] then []
                     else t (if has_message key then key else js ''oidcError.oidc_failed'') None)
      in if ln_error s \<noteq> [] then ln_error s else failure)"

definition provider_href :: "public_provider \<Rightarrow> jstr" where
  "provider_href p = js ''/api/v1/auth/oidc/'' @ pp_slug p @ js ''/start''"

definition login_send :: "login_op \<Rightarrow> api_call \<Rightarrow> login_state \<Rightarrow> login_state" where
  "login_send op call s = s\<lparr>ln_inflight := ln_inflight s @ [op], ln_log := ln_log s @ [Call call]\<rparr>"

definition login_end :: "login_op \<Rightarrow> login_state \<Rightarrow> login_state" where
  "login_end op s = s\<lparr>ln_inflight := remove1 op (ln_inflight s)\<rparr>"

definition go_home :: "login_state \<Rightarrow> login_state" where
  "go_home s = s\<lparr>ln_log := ln_log s @ [ReplaceRoute (js ''/home'')]\<rparr>"

datatype login_event =
    SessionSettles "jstr option" "jstr option" "admin_user promise" \<comment> \<open>\<open>mfa\<close> and \<open>error\<close> of the query\<close>
  | ProvidersSettle "public_provider list promise"
  | TypeUsername jstr | TypePassword jstr | SubmitLogin
  | TypeCode jstr | SubmitCode | RestartLogin
  | LoginSettles "login_response promise"
  | VerifySettles "login_response promise"

fun login_offered :: "login_state \<Rightarrow> login_event \<Rightarrow> bool" where
  "login_offered s (SessionSettles _ _ _) \<longleftrightarrow> CheckSession \<in> set (ln_inflight s)"
| "login_offered s (ProvidersSettle _) \<longleftrightarrow> LoadProviders \<in> set (ln_inflight s)"
| "login_offered s (TypeUsername _) \<longleftrightarrow> \<not> ln_checking s \<and> \<not> verifying s"
| "login_offered s (TypePassword _) \<longleftrightarrow> \<not> ln_checking s \<and> \<not> verifying s"
| "login_offered s SubmitLogin \<longleftrightarrow>
     \<not> ln_checking s \<and> \<not> verifying s \<and> \<not> ln_loading s \<and> ln_username s \<noteq> [] \<and> ln_password s \<noteq> []"
| "login_offered s (TypeCode _) \<longleftrightarrow> \<not> ln_checking s \<and> verifying s"
| "login_offered s SubmitCode \<longleftrightarrow> \<not> ln_checking s \<and> verifying s \<and> \<not> ln_loading s \<and> ln_code s \<noteq> []"
| "login_offered s RestartLogin \<longleftrightarrow> \<not> ln_checking s \<and> verifying s"
| "login_offered s (LoginSettles _) \<longleftrightarrow> LoginOp \<in> set (ln_inflight s)"
| "login_offered s (VerifySettles _) \<longleftrightarrow> VerifyOp \<in> set (ln_inflight s)"

definition login_answered :: "login_response \<Rightarrow> login_state \<Rightarrow> login_state" where
  "login_answered r s =
     (case (lr_mfa_required r, lr_challenge r) of
        (Some True, Some ch) \<Rightarrow> if ch = [] then go_home s else s\<lparr>ln_challenge := ch, ln_code := []\<rparr>
      | _ \<Rightarrow> go_home s)"

fun login_move :: "translator \<Rightarrow> login_state \<Rightarrow> login_event \<Rightarrow> login_state" where
  "login_move t s (SessionSettles mfa err r) =
     (let s1 = login_end CheckSession s in
      case r of
        Inr _ \<Rightarrow> go_home s1
      | Inl _ \<Rightarrow>
          login_send LoadProviders PublicProviders
            (s1\<lparr>ln_cookie_mfa := ln_cookie_mfa s \<or> mfa = Some (js ''1''),
                ln_failure := (case err of None \<Rightarrow> [] | Some c \<Rightarrow> c), ln_checking := False\<rparr>))"
| "login_move t s (ProvidersSettle r) =
     (login_end LoadProviders s)\<lparr>ln_providers := (case r of Inr ps \<Rightarrow> ps | Inl _ \<Rightarrow> [])\<rparr>"
| "login_move t s (TypeUsername v) = s\<lparr>ln_username := v\<rparr>"
| "login_move t s (TypePassword v) = s\<lparr>ln_password := v\<rparr>"
| "login_move t s SubmitLogin =
     login_send LoginOp (Login (ln_username s) (ln_password s)) (s\<lparr>ln_loading := True, ln_error := []\<rparr>)"
| "login_move t s (TypeCode raw) = s\<lparr>ln_code := fst (otp_update OtpNumbers 6 raw)\<rparr>"
| "login_move t s SubmitCode =
     login_send VerifyOp (MfaVerify (ln_challenge s) (ln_code s)) (s\<lparr>ln_loading := True, ln_error := []\<rparr>)"
| "login_move t s RestartLogin = s\<lparr>ln_challenge := [], ln_cookie_mfa := False, ln_code := [], ln_error := []\<rparr>"
| "login_move t s (LoginSettles r) =
     (let s1 = (login_end LoginOp s)\<lparr>ln_loading := False\<rparr> in
      case r of Inr v \<Rightarrow> login_answered v s1 | Inl e \<Rightarrow> s1\<lparr>ln_error := error_text t e ''login.failed'' []\<rparr>)"
| "login_move t s (VerifySettles r) =
     (let s1 = (login_end VerifyOp s)\<lparr>ln_loading := False\<rparr> in
      case r of Inr _ \<Rightarrow> go_home s1
              | Inl e \<Rightarrow> s1\<lparr>ln_error := error_text t e ''login.verifyFailed'' [], ln_code := []\<rparr>)"

definition login_start :: login_state where
  "login_start = login_send CheckSession Me
     \<lparr>ln_username = [], ln_password = [], ln_challenge = [], ln_cookie_mfa = False, ln_code = [], ln_error = [],
      ln_loading = False, ln_checking = True, ln_providers = [], ln_failure = [], ln_inflight = [], ln_log = []\<rparr>"

section \<open>Invariant\<close>

definition code_ok :: "jstr \<Rightarrow> bool" where
  "code_ok v \<longleftrightarrow> length v \<le> 6 \<and> list_all is_digit v"

fun sign_in_op :: "login_op \<Rightarrow> bool" where
  "sign_in_op LoginOp = True"
| "sign_in_op VerifyOp = True"
| "sign_in_op _ = False"

abbreviation sign_in_count :: "login_op list \<Rightarrow> nat" where
  "sign_in_count \<equiv> count_ops sign_in_op"

definition login_inv :: "login_state \<Rightarrow> bool" where
  "login_inv s \<longleftrightarrow>
     code_ok (ln_code s) \<and> sign_in_count (ln_inflight s) = (if ln_loading s then 1 else 0) \<and>
     (ln_checking s \<longrightarrow> \<not> ln_loading s)"

fun login_effect :: "effect \<Rightarrow> bool" where
  "login_effect (Call Me) \<longleftrightarrow> True"
| "login_effect (Call PublicProviders) \<longleftrightarrow> True"
| "login_effect (Call (Login u p)) \<longleftrightarrow> u \<noteq> [] \<and> p \<noteq> []"
| "login_effect (Call (MfaVerify ch c)) \<longleftrightarrow> c \<noteq> [] \<and> code_ok c"
| "login_effect (ReplaceRoute r) \<longleftrightarrow> r = js ''/home''"
| "login_effect _ \<longleftrightarrow> False"

lemma otp_code_ok: "code_ok (fst (otp_update OtpNumbers 6 raw))"
  using otp_update_value [of OtpNumbers 6 raw] by (simp add: code_ok_def list_all_iff)

lemma login_inv_move:
  assumes "login_inv s" "login_offered s e"
  shows "login_inv (login_move t s e)"
  using assms otp_code_ok
  by (cases e)
    (auto simp: login_inv_def login_send_def login_end_def go_home_def login_answered_def Let_def code_ok_def [of "[]"]
      split: sum.splits option.splits bool.splits)

lemma login_log_move:
  assumes "login_inv s" "login_offered s e" "list_all login_effect (ln_log s)"
  shows "list_all login_effect (ln_log (login_move t s e))"
  using assms
  by (cases e)
    (auto simp: login_inv_def login_send_def login_end_def go_home_def login_answered_def Let_def
      split: sum.splits option.splits bool.splits)

interpretation login: logging_page login_start login_offered "login_move t" login_inv ln_log login_effect for t
proof
  show "login_inv login_start" by (simp add: login_inv_def login_start_def login_send_def code_ok_def)
  show "list_all login_effect (ln_log login_start)" by (simp add: login_start_def login_send_def)
qed (auto intro: login_inv_move login_log_move)

section \<open>Property\<close>

text \<open>C27 Signing in is one request at a time and in two steps where a second factor is due: in any run
  at most one sign-in request is in flight; the password form and the code form are never offered
  together; a code that is sent has one to six digits; and an answer that asks for a second factor
  leads to the code form, not to the console.\<close>
theorem login_two_steps:
  assumes "reachable login_start login_offered (login_move t) s"
  shows "sign_in_count (ln_inflight s) \<le> 1 \<and> list_all login_effect (ln_log s) \<and>
    \<not> (login_offered s SubmitLogin \<and> login_offered s SubmitCode) \<and>
    (LoginOp \<in> set (ln_inflight s) \<and> lr_mfa_required v = Some True \<and> lr_challenge v = Some ch \<and> ch \<noteq> [] \<longrightarrow>
       (let s' = login_move t s (LoginSettles (Inr v)) in
        verifying s' \<and> ln_challenge s' = ch \<and> ln_code s' = [] \<and> ln_log s' = ln_log s \<and> \<not> ln_loading s'))"
  using login.reachable_inv [OF assms] login.reachable_log [OF assms]
  by (auto simp: login_inv_def login_answered_def login_end_def verifying_def Let_def)

definition challenge_answer :: login_response where
  "challenge_answer = \<lparr>lr_user = None, lr_csrf_token = None, lr_mfa_required = Some True, lr_challenge = Some (js ''c'')\<rparr>"

definition password_sent :: "translator \<Rightarrow> login_state" where
  "password_sent t = foldl (login_move t) login_start
     [SessionSettles None None (Inl Thrown), TypeUsername (js ''u''), TypePassword (js ''p''), SubmitLogin]"

theorem login_two_steps_witness:
  "verifying (login_move (t_for (js ''en'')) (password_sent (t_for (js ''en''))) (LoginSettles (Inr challenge_answer)))"
proof -
  let ?t = "t_for (js ''en'')"
  let ?es = "[SessionSettles None None (Inl Thrown), TypeUsername (js ''u''), TypePassword (js ''p''), SubmitLogin]"
  have "runs login_offered (login_move ?t) login_start ?es = Some (password_sent ?t)"
    "LoginOp \<in> set (ln_inflight (password_sent ?t))"
    by (simp_all add: password_sent_def login_start_def login_send_def login_end_def verifying_def Let_def)
  with login_two_steps [OF runs_from_start, of ?t ?es "password_sent ?t" challenge_answer "js ''c''"]
  show ?thesis by (simp add: challenge_answer_def Let_def)
qed

end
