(* ===== verification/Security_Page.thy ===== *)
theory Security_Page
  imports Sign_In In_Flight
begin

text \<open>
  The second factor of the account (\<open>web/src/app/home/account/security/page.tsx\<close>): enrolment in two
  steps, the recovery codes that are shown once, and turning the factor off.
\<close>

section \<open>State and operations\<close>

datatype security_then = JustStatus | AfterConfirm | AfterDisable
  \<comment> \<open>what follows \<open>loadStatus\<close> in the action that called it\<close>

datatype security_op = ReadStatus security_then | Enrolling | Confirming | Disabling

record security_state =
  se_status :: "mfa_status option"
  se_enrollment :: "mfa_enrollment option"
  se_codes :: "jstr list"
  se_code :: jstr
  se_password :: jstr
  se_error :: jstr
  se_busy :: bool
  se_loading :: bool
  se_inflight :: "security_op list"
  se_log :: "effect list"

definition security_send :: "security_op \<Rightarrow> api_call \<Rightarrow> security_state \<Rightarrow> security_state" where
  "security_send op call s = s\<lparr>se_inflight := se_inflight s @ [op], se_log := se_log s @ [Call call]\<rparr>"

definition security_end :: "security_op \<Rightarrow> security_state \<Rightarrow> security_state" where
  "security_end op s = s\<lparr>se_inflight := remove1 op (se_inflight s)\<rparr>"

definition load_status :: "security_then \<Rightarrow> security_state \<Rightarrow> security_state" where
  "load_status k s = security_send (ReadStatus k) MfaStatus (s\<lparr>se_loading := True, se_error := []\<rparr>)"

definition run_begin :: "security_state \<Rightarrow> security_state" where
  "run_begin s = s\<lparr>se_busy := True, se_error := []\<rparr>"

definition run_failed :: "translator \<Rightarrow> exn \<Rightarrow> security_state \<Rightarrow> security_state" where
  "run_failed t e s = s\<lparr>se_error := error_text t e ''error.operation'' [], se_busy := False\<rparr>"

definition after_status :: "translator \<Rightarrow> security_then \<Rightarrow> security_state \<Rightarrow> security_state" where
  "after_status t k s =
     (case k of
        JustStatus \<Rightarrow> s
      | AfterConfirm \<Rightarrow>
          s\<lparr>se_log := se_log s @ [Toast ToastSuccess (tr t ''settings.security.enabled'') []], se_busy := False\<rparr>
      | AfterDisable \<Rightarrow>
          s\<lparr>se_log := se_log s @ [Toast ToastSuccess (tr t ''settings.security.notEnabled'') []], se_busy := False\<rparr>)"

definition start_enroll :: "security_state \<Rightarrow> security_state" where
  "start_enroll s = security_send Enrolling MfaEnroll ((run_begin s)\<lparr>se_codes := [], se_code := []\<rparr>)"

definition confirm_enroll :: "security_state \<Rightarrow> security_state" where
  "confirm_enroll s = security_send Confirming (MfaConfirm (se_code s)) (run_begin s)"

definition disable_factor :: "security_state \<Rightarrow> security_state" where
  "disable_factor s = security_send Disabling (MfaDisable (se_password s) (se_code s)) (run_begin s)"

definition cancel_enroll :: "security_state \<Rightarrow> security_state" where
  "cancel_enroll s = s\<lparr>se_enrollment := None, se_code := [], se_error := []\<rparr>"

definition security_confirmed :: "jstr list \<Rightarrow> security_state \<Rightarrow> security_state" where
  \<comment> \<open>what \<open>confirmEnroll\<close> does with the answer, up to its next \<open>await\<close>\<close>
  "security_confirmed codes s =
     load_status AfterConfirm
       (s\<lparr>se_status := map_option (\<lambda>st. st\<lparr>ms_enabled := True, ms_pending := False,
                                            ms_codes_remaining := int (length codes)\<rparr>) (se_status s),
          se_codes := codes, se_enrollment := None, se_code := []\<rparr>)"

definition security_disabled :: "security_state \<Rightarrow> security_state" where
  "security_disabled s =
     load_status AfterDisable
       (s\<lparr>se_status := map_option (\<lambda>st. st\<lparr>ms_enabled := False, ms_pending := False, ms_codes_remaining := 0\<rparr>)
                         (se_status s),
          se_password := [], se_code := [], se_enrollment := None\<rparr>)"

section \<open>What is rendered\<close>

datatype security_panel = NoPanel | CodesPanel | EnrollPanel | DisablePanel | EnablePanel

definition panel_of :: "security_state \<Rightarrow> security_panel" where
  \<comment> \<open>the four blocks of the section exclude each other\<close>
  "panel_of s =
     (case se_status s of
        None \<Rightarrow> NoPanel
      | Some st \<Rightarrow>
          if \<not> ms_available st then NoPanel
          else if se_codes s \<noteq> [] then CodesPanel
          else if se_enrollment s \<noteq> None then EnrollPanel
          else if ms_enabled st then DisablePanel else EnablePanel)"

datatype security_event =
    RetryStatus | StartEnroll | CancelEnroll | ConfirmEnroll | TurnOff | CodesSaved
  | TypeFactor jstr | TypeSecret jstr
  | StatusSettles security_then "mfa_status promise"
  | EnrollSettles "mfa_enrollment promise"
  | ConfirmSettles "jstr list promise"
  | DisableSettles "unit promise"

fun security_offered :: "security_state \<Rightarrow> security_event \<Rightarrow> bool" where
  "security_offered s RetryStatus \<longleftrightarrow> se_error s \<noteq> [] \<and> se_status s = None \<and> \<not> se_loading s"
| "security_offered s StartEnroll \<longleftrightarrow> panel_of s = EnablePanel \<and> \<not> se_busy s"
| "security_offered s CancelEnroll \<longleftrightarrow> panel_of s = EnrollPanel \<and> \<not> se_busy s"
| "security_offered s ConfirmEnroll \<longleftrightarrow> panel_of s = EnrollPanel \<and> \<not> (se_busy s \<or> length (se_code s) \<noteq> 6)"
| "security_offered s TurnOff \<longleftrightarrow>
     panel_of s = DisablePanel \<and> \<not> (se_busy s \<or> se_password s = [] \<or> length (se_code s) \<noteq> 6)"
| "security_offered s CodesSaved \<longleftrightarrow> panel_of s = CodesPanel"
| "security_offered s (TypeFactor _) \<longleftrightarrow> panel_of s = EnrollPanel \<or> panel_of s = DisablePanel"
| "security_offered s (TypeSecret _) \<longleftrightarrow> panel_of s = DisablePanel"
| "security_offered s (StatusSettles k _) \<longleftrightarrow> ReadStatus k \<in> set (se_inflight s)"
| "security_offered s (EnrollSettles _) \<longleftrightarrow> Enrolling \<in> set (se_inflight s)"
| "security_offered s (ConfirmSettles _) \<longleftrightarrow> Confirming \<in> set (se_inflight s)"
| "security_offered s (DisableSettles _) \<longleftrightarrow> Disabling \<in> set (se_inflight s)"

fun security_move :: "translator \<Rightarrow> security_state \<Rightarrow> security_event \<Rightarrow> security_state" where
  "security_move t s RetryStatus = load_status JustStatus s"
| "security_move t s StartEnroll = start_enroll s"
| "security_move t s CancelEnroll = cancel_enroll s"
| "security_move t s ConfirmEnroll = confirm_enroll s"
| "security_move t s TurnOff = disable_factor s"
| "security_move t s CodesSaved = s\<lparr>se_codes := []\<rparr>"
| "security_move t s (TypeFactor raw) = s\<lparr>se_code := fst (otp_update OtpNumbers 6 raw)\<rparr>"
| "security_move t s (TypeSecret v) = s\<lparr>se_password := v\<rparr>"
| "security_move t s (StatusSettles k r) =
     (let s1 = (security_end (ReadStatus k) s)\<lparr>se_loading := False\<rparr> in
      after_status t k
        (case r of Inr st \<Rightarrow> s1\<lparr>se_status := Some st\<rparr> | Inl e \<Rightarrow> s1\<lparr>se_error := error_text t e ''error.load'' []\<rparr>))"
| "security_move t s (EnrollSettles r) =
     (let s1 = security_end Enrolling s in
      case r of Inr en \<Rightarrow> s1\<lparr>se_enrollment := Some en, se_busy := False\<rparr> | Inl e \<Rightarrow> run_failed t e s1)"
| "security_move t s (ConfirmSettles r) =
     (let s1 = security_end Confirming s in
      case r of Inr codes \<Rightarrow> security_confirmed codes s1 | Inl e \<Rightarrow> run_failed t e s1)"
| "security_move t s (DisableSettles r) =
     (let s1 = security_end Disabling s in
      case r of Inr _ \<Rightarrow> security_disabled s1 | Inl e \<Rightarrow> run_failed t e s1)"

definition security_start :: security_state where
  "security_start = load_status JustStatus
     \<lparr>se_status = None, se_enrollment = None, se_codes = [], se_code = [], se_password = [], se_error = [],
      se_busy = False, se_loading = True, se_inflight = [], se_log = []\<rparr>"

lemmas security_handlers = security_send_def security_end_def load_status_def run_begin_def run_failed_def after_status_def
  start_enroll_def confirm_enroll_def disable_factor_def cancel_enroll_def security_confirmed_def security_disabled_def

section \<open>Invariant\<close>

fun factor_op :: "security_op \<Rightarrow> bool" where
  \<comment> \<open>an action run by \<open>run\<close>, up to the status it reads at its end\<close>
  "factor_op (ReadStatus k) = (k \<noteq> JustStatus)"
| "factor_op _ = True"

definition security_inv :: "security_state \<Rightarrow> bool" where
  "security_inv s \<longleftrightarrow>
     code_ok (se_code s) \<and> count_ops factor_op (se_inflight s) = (if se_busy s then 1 else 0) \<and>
     (Confirming \<in> set (se_inflight s) \<longrightarrow> se_codes s = [])"

fun security_effect :: "effect \<Rightarrow> bool" where
  "security_effect (Call MfaStatus) \<longleftrightarrow> True"
| "security_effect (Call MfaEnroll) \<longleftrightarrow> True"
| "security_effect (Call (MfaConfirm c)) \<longleftrightarrow> length c = 6 \<and> list_all is_digit c"
| "security_effect (Call (MfaDisable p c)) \<longleftrightarrow> p \<noteq> [] \<and> length c = 6 \<and> list_all is_digit c"
| "security_effect (Toast _ _ _) \<longleftrightarrow> True"
| "security_effect _ \<longleftrightarrow> False"

lemma factor_op_busy:
  "security_inv s \<Longrightarrow> op \<in> set (se_inflight s) \<Longrightarrow> factor_op op \<Longrightarrow> se_busy s"
  using count_ops_pos [of op "se_inflight s" factor_op] by (auto simp: security_inv_def split: if_splits)

lemma factor_op_gone:
  "security_inv s \<Longrightarrow> op \<in> set (se_inflight s) \<Longrightarrow> factor_op op \<Longrightarrow> Confirming \<notin> set (remove1 op (se_inflight s))"
  using count_ops_unique [of factor_op "se_inflight s" op Confirming] by (auto simp: security_inv_def split: if_splits)

lemma panel_codes: "panel_of s \<noteq> NoPanel \<Longrightarrow> panel_of s \<noteq> CodesPanel \<Longrightarrow> se_codes s = []"
  by (auto simp: panel_of_def split: option.splits if_splits)

lemma security_inv_move:
  assumes "security_inv s" "security_offered s e"
  shows "security_inv (security_move t s e)"
proof -
  have idle: "\<not> se_busy s \<Longrightarrow> Confirming \<notin> set (se_inflight s)"
    using factor_op_busy [OF assms(1), of Confirming] by auto
  have parts: "code_ok (se_code s)" "count_ops factor_op (se_inflight s) = (if se_busy s then 1 else 0)"
    "Confirming \<in> set (se_inflight s) \<longrightarrow> se_codes s = []"
    using assms(1) by (auto simp: security_inv_def)
  show ?thesis
  proof (cases e)
    case (StatusSettles k r)
    then show ?thesis
      using assms parts factor_op_busy [OF assms(1), of "ReadStatus k"] still_in_flight [of Confirming "ReadStatus k"]
      by (cases k) (auto simp: security_inv_def security_handlers Let_def split: sum.splits)
  next
    case (EnrollSettles r)
    then show ?thesis using assms parts factor_op_busy [OF assms(1), of Enrolling] factor_op_gone [OF assms(1), of Enrolling]
      by (auto simp: security_inv_def security_handlers Let_def split: sum.splits)
  next
    case (ConfirmSettles r)
    then show ?thesis using assms parts factor_op_busy [OF assms(1), of Confirming] factor_op_gone [OF assms(1), of Confirming]
      by (auto simp: security_inv_def security_handlers Let_def code_ok_def split: sum.splits)
  next
    case (DisableSettles r)
    then show ?thesis using assms parts factor_op_busy [OF assms(1), of Disabling] factor_op_gone [OF assms(1), of Disabling]
      by (auto simp: security_inv_def security_handlers Let_def code_ok_def split: sum.splits)
  qed (use assms(2) parts idle panel_codes [of s] otp_code_ok in
      \<open>auto simp: security_inv_def security_handlers code_ok_def [of "[]"]\<close>)
qed

lemma security_log_move:
  assumes "security_inv s" "security_offered s e" "list_all security_effect (se_log s)"
  shows "list_all security_effect (se_log (security_move t s e))"
  using assms by (cases e)
    (auto simp: security_handlers Let_def security_inv_def code_ok_def split: sum.splits security_then.splits)

interpretation security: logging_page security_start security_offered "security_move t" security_inv se_log security_effect
proof unfold_locales
  show "security_inv security_start" "list_all security_effect (se_log security_start)"
    by (simp_all add: security_inv_def security_start_def security_handlers code_ok_def)
qed (use security_inv_move security_log_move in auto)

section \<open>Property\<close>


definition factor_off :: mfa_status where
  "factor_off = \<lparr>ms_available = True, ms_enabled = False, ms_pending = False, ms_codes_remaining = 0\<rparr>"

definition security_run :: "security_event list" where
  "security_run = [StatusSettles JustStatus (Inr factor_off), StartEnroll,
     EnrollSettles (Inr \<lparr>me_secret = js ''s'', me_otpauth_url = [], me_qr = []\<rparr>), TypeFactor (js ''12 34-56''),
     ConfirmEnroll, ConfirmSettles (Inr [js ''c1'', js ''c2''])]"


end
