(* ===== verification/Dashboard.thy ===== *)
theory Dashboard
  imports Pager
begin

text \<open>
  The overview page (\<open>web/src/app/home/page.tsx\<close>): three reads start together and the page waits for
  all of them with \<open>Promise.allSettled\<close>; what it shows then depends on which of them failed.
\<close>

section \<open>State and operations\<close>

record gathered =
  \<comment> \<open>the outcomes \<open>Promise.allSettled\<close> has so far\<close>
  ga_summary :: "stats_summary promise option"
  ga_page :: "link_page promise option"
  ga_probe :: "readiness promise option"

record dashboard_state =
  da_stats :: "stats_summary option"
  da_links :: "link_list_record list"
  da_readiness :: "readiness option"   \<comment> \<open>\<open>None\<close> is the empty string\<close>
  da_error :: jstr
  da_loading :: bool
  da_waiting :: "gathered option"
  da_log :: "effect list"

definition readiness_view :: "translator \<Rightarrow> readiness option \<Rightarrow> rare_tone \<times> jstr" where
  "readiness_view t r =
     (case r of
        None \<Rightarrow> (ToneNeutral, tr t ''dashboard.statusChecking'')
      | Some Ready \<Rightarrow> (ToneSuccess, tr t ''dashboard.statusReady'')
      | Some Degraded \<Rightarrow> (ToneWarning, tr t ''dashboard.statusDegraded'')
      | Some Unreachable \<Rightarrow> (ToneDanger, tr t ''dashboard.statusUnreachable''))"

definition recent_tone :: "jstr \<Rightarrow> rare_tone" where
  "recent_tone status =
     (if status = js ''active'' then ToneSuccess
      else if status = js ''disabled'' then ToneWarning
      else if status = js ''expired'' then ToneDanger
      else ToneNeutral)"

definition recent_params :: list_params where
  "recent_params = \<lparr>pa_limit = Some 5, pa_offset = None, pa_sort = Some CreatedDesc, pa_status = None,
     pa_search = None, pa_tag = None\<rparr>"

definition dashboard_load :: "dashboard_state \<Rightarrow> dashboard_state" where
  "dashboard_load s = s\<lparr>da_loading := True, da_readiness := None, da_error := [],
     da_waiting := Some \<lparr>ga_summary = None, ga_page = None, ga_probe = None\<rparr>,
     da_log := da_log s @ [Call Summary, Call (ListLinks recent_params), Call Readyz]\<rparr>"

definition dashboard_commit ::
  "translator \<Rightarrow> stats_summary promise \<Rightarrow> link_page promise \<Rightarrow> readiness promise \<Rightarrow> dashboard_state \<Rightarrow> dashboard_state" where
  \<comment> \<open>what follows the \<open>await\<close>\<close>
  "dashboard_commit t summary page probe s =
     (let s1 = (case summary of
                  Inl e \<Rightarrow> s\<lparr>da_error := error_text t e ''error.load'' []\<rparr>
                | Inr st \<Rightarrow>
                    (case page of
                       Inl e \<Rightarrow> s\<lparr>da_error := error_text t e ''error.load'' []\<rparr>
                     | Inr p \<Rightarrow> s\<lparr>da_stats := Some st,
                                  da_links := (case lp_links p of None \<Rightarrow> [] | Some ls \<Rightarrow> ls)\<rparr>))
      in s1\<lparr>da_readiness := Some (case probe of Inr r \<Rightarrow> r | Inl _ \<Rightarrow> Unreachable), da_loading := False,
            da_waiting := None\<rparr>)"

definition dashboard_gather :: "translator \<Rightarrow> gathered \<Rightarrow> dashboard_state \<Rightarrow> dashboard_state" where
  "dashboard_gather t g s =
     (case (ga_summary g, ga_page g, ga_probe g) of
        (Some a, Some b, Some c) \<Rightarrow> dashboard_commit t a b c s
      | _ \<Rightarrow> s\<lparr>da_waiting := Some g\<rparr>)"

datatype dashboard_event =
    DashboardRetry
  | SummarySettles "stats_summary promise"
  | RecentSettles "link_page promise"
  | ProbeSettles "readiness promise"

fun dashboard_offered :: "dashboard_state \<Rightarrow> dashboard_event \<Rightarrow> bool" where
  "dashboard_offered s DashboardRetry \<longleftrightarrow> da_error s \<noteq> []"
| "dashboard_offered s (SummarySettles _) \<longleftrightarrow> (case da_waiting s of None \<Rightarrow> False | Some g \<Rightarrow> ga_summary g = None)"
| "dashboard_offered s (RecentSettles _) \<longleftrightarrow> (case da_waiting s of None \<Rightarrow> False | Some g \<Rightarrow> ga_page g = None)"
| "dashboard_offered s (ProbeSettles _) \<longleftrightarrow> (case da_waiting s of None \<Rightarrow> False | Some g \<Rightarrow> ga_probe g = None)"

fun dashboard_move :: "translator \<Rightarrow> dashboard_state \<Rightarrow> dashboard_event \<Rightarrow> dashboard_state" where
  "dashboard_move t s DashboardRetry = dashboard_load s"
| "dashboard_move t s (SummarySettles r) =
     (case da_waiting s of None \<Rightarrow> s | Some g \<Rightarrow> dashboard_gather t (g\<lparr>ga_summary := Some r\<rparr>) s)"
| "dashboard_move t s (RecentSettles r) =
     (case da_waiting s of None \<Rightarrow> s | Some g \<Rightarrow> dashboard_gather t (g\<lparr>ga_page := Some r\<rparr>) s)"
| "dashboard_move t s (ProbeSettles r) =
     (case da_waiting s of None \<Rightarrow> s | Some g \<Rightarrow> dashboard_gather t (g\<lparr>ga_probe := Some r\<rparr>) s)"

definition dashboard_start :: dashboard_state where
  "dashboard_start = dashboard_load
     \<lparr>da_stats = None, da_links = [], da_readiness = None, da_error = [], da_loading = True, da_waiting = None, da_log = []\<rparr>"

section \<open>What is rendered\<close>

datatype counter = Unavailable | Shows int

definition total_links_card :: "dashboard_state \<Rightarrow> counter" where
  "total_links_card s =
     (if da_error s \<noteq> [] then Unavailable else Shows (case da_stats s of None \<Rightarrow> 0 | Some st \<Rightarrow> ss_total_links st))"

definition total_clicks_card :: "dashboard_state \<Rightarrow> counter" where
  "total_clicks_card s =
     (if da_error s \<noteq> [] then Unavailable else Shows (case da_stats s of None \<Rightarrow> 0 | Some st \<Rightarrow> ss_total_clicks st))"

datatype recent_panel = Skeleton | Rows "link_list_record list" | NoReading | NothingYet

definition recent_panel_of :: "dashboard_state \<Rightarrow> recent_panel" where
  "recent_panel_of s =
     (if da_loading s then Skeleton
      else if da_links s \<noteq> [] then Rows (da_links s)
      else if da_error s \<noteq> [] then NoReading else NothingYet)"

section \<open>Invariant\<close>

definition dashboard_inv :: "dashboard_state \<Rightarrow> bool" where
  "dashboard_inv s \<longleftrightarrow>
     da_loading s = (da_waiting s \<noteq> None) \<and> da_loading s = (da_readiness s = None) \<and>
     (da_loading s \<longrightarrow> da_error s = []) \<and>
     (\<not> da_loading s \<and> da_error s = [] \<longrightarrow> da_stats s \<noteq> None) \<and>
     (\<forall>g. da_waiting s = Some g \<longrightarrow> ga_summary g = None \<or> ga_page g = None \<or> ga_probe g = None)"

lemmas dashboard_handlers = dashboard_load_def dashboard_commit_def dashboard_gather_def

lemma dashboard_inv_start: "dashboard_inv dashboard_start"
  by (simp add: dashboard_inv_def dashboard_start_def dashboard_load_def)

lemmas load_message = error_messages(1)

context worded_translator
begin

lemma dashboard_inv_gather:
  assumes "dashboard_inv s" "da_waiting s = Some g0"
  shows "dashboard_inv (dashboard_gather t g s)"
proof -
  have "error_text t e ''error.load'' [] \<noteq> []" for e
    by (rule error_text_worded) (simp_all add: load_message)
  then show ?thesis using assms
    by (auto simp: dashboard_inv_def dashboard_handlers Let_def split: option.splits sum.splits)
qed

lemma dashboard_inv_move:
  assumes "dashboard_inv s" "dashboard_offered s e"
  shows "dashboard_inv (dashboard_move t s e)"
  using assms dashboard_inv_gather [OF assms(1)]
  by (cases e) (auto simp: dashboard_inv_def dashboard_load_def split: option.splits)

end

interpretation dashboard: react_page dashboard_start dashboard_offered "dashboard_move (t_for l)" dashboard_inv for l
  by unfold_locales (simp_all add: dashboard_inv_start site_translator.dashboard_inv_move)

section \<open>The order of the answers does not matter\<close>

lemma three_in_any_order:
  assumes "length es = 3" "set es = {x, y, z}" "distinct [x, y, z]"
  shows "es \<in> {[x, y, z], [x, z, y], [y, x, z], [y, z, x], [z, x, y], [z, y, x]}"
proof -
  obtain p q r where es: "es = [p, q, r]"
    using assms(1) by (auto simp: numeral_3_eq_3 length_Suc_conv)
  have "distinct [p, q, r]"
    using assms es by (intro card_distinct) simp
  moreover have "p = x \<or> p = y \<or> p = z" "q = x \<or> q = y \<or> q = z" "r = x \<or> r = y \<or> r = z"
    using assms(2) es by auto
  ultimately show ?thesis unfolding es by (elim disjE; simp)
qed

text \<open>Whatever the order in which the three answers arrive, nothing is shown before the last, and then the
  page shows the same thing.\<close>

lemma dashboard_any_order:
  assumes "da_waiting s = Some \<lparr>ga_summary = None, ga_page = None, ga_probe = None\<rparr>"
    and "length es = 3" "set es = {SummarySettles a, RecentSettles b, ProbeSettles c}"
  shows "runs dashboard_offered (dashboard_move t) s es = Some (dashboard_commit t a b c s)"
proof -
  have again: "dashboard_commit t a b c (s\<lparr>da_waiting := g\<rparr>) = dashboard_commit t a b c s" for g
    by (simp add: dashboard_commit_def Let_def split: sum.splits option.splits)
  show ?thesis using three_in_any_order [OF assms(2,3)] assms(1)
    by (auto simp: dashboard_gather_def again)
qed

text \<open>One failed read takes the answer of the other with it: after a failure the cards and the list keep what
  an earlier load brought, whatever the other read answered.\<close>

lemma dashboard_failed_read:
  "dashboard_commit t (Inl e) page probe s = dashboard_commit t (Inl e) page' probe s"
  "da_stats (dashboard_commit t summary (Inl e) probe s) = da_stats s"
  "da_links (dashboard_commit t summary (Inl e) probe s) = da_links s"
  by (simp_all add: dashboard_commit_def Let_def split: sum.splits)

section \<open>Property\<close>

text \<open>The overview never reports a number nobody read: in any run, in either language, a card shows a
  total only once the summary has been read, and then the summary's own; the verdict on the service
  is undecided exactly while the load runs; and once it has settled the panel of recent links is
  empty only when that is what the server answered or a failure is on screen.\<close>
lemma dashboard_reports_only_readings:
  assumes "reachable dashboard_start dashboard_offered (dashboard_move (t_for l)) s"
  shows "(fst (readiness_view (t_for l) (da_readiness s)) = ToneNeutral \<longleftrightarrow> da_loading s) \<and>
    (da_loading s \<longrightarrow> recent_panel_of s = Skeleton) \<and>
    (\<not> da_loading s \<longrightarrow>
       (if da_error s \<noteq> [] then total_links_card s = Unavailable \<and> total_clicks_card s = Unavailable
        else \<exists>st. da_stats s = Some st \<and> total_links_card s = Shows (ss_total_links st) \<and>
                  total_clicks_card s = Shows (ss_total_clicks st)) \<and>
       (recent_panel_of s = NothingYet \<longrightarrow> da_links s = [] \<and> da_error s = []))"
  using dashboard.reachable_inv [OF assms]
  by (auto simp: dashboard_inv_def readiness_view_def recent_panel_of_def total_links_card_def total_clicks_card_def
      split: option.splits readiness.splits)

definition dashboard_run :: "dashboard_event list" where
  "dashboard_run = [ProbeSettles (Inr Degraded), RecentSettles (Inl Thrown),
     SummarySettles (Inr \<lparr>ss_total_links = 3, ss_total_clicks = 9\<rparr>)]"

lemma dashboard_reports_only_readings_witness:
  "let s = foldl (dashboard_move (t_for (js ''en''))) dashboard_start dashboard_run in
   total_links_card s = Unavailable \<and> da_readiness s = Some Degraded"
proof -
  define s where "s = foldl (dashboard_move (t_for (js ''en''))) dashboard_start dashboard_run"
  have msg: "error_text (t_for (js ''en'')) Thrown ''error.load'' [] \<noteq> []"
    by (rule site_translator.error_text_worded) (simp_all add: load_message)
  have r: "runs dashboard_offered (dashboard_move (t_for (js ''en''))) dashboard_start dashboard_run = Some s"
    "da_readiness s = Some Degraded" "\<not> da_loading s" "da_error s \<noteq> []"
    by (simp_all add: s_def dashboard_run_def dashboard_start_def dashboard_handlers msg)
  with dashboard_reports_only_readings [OF runs_from_start, of "js ''en''" dashboard_run s] show ?thesis
    by (simp add: s_def [symmetric])
qed

end
