(* ===== verification/Interstitial.thy ===== *)
theory Interstitial
  imports Page_Model
begin

text \<open>
  The countdown of the page between a short link and its destination
  (\<open>internal/http/handler/gallery/redirect.js\<close>). Every event carries the reading of
  \<open>performance.now()\<close> at which it happens; the readings are exact numbers of milliseconds here, and
  the readings one handler takes are one. What is drawn follows from the state; \<open>replace\<close> to the
  destination is appended to a log with its time.
\<close>

section \<open>State\<close>

record countdown =
  co_duration :: rat
  co_remaining :: rat
  co_started :: rat
  co_paused :: bool
  co_leaving :: bool
  co_timer :: "rat option"  \<comment> \<open>when the pending timeout is due\<close>
  co_now :: rat             \<comment> \<open>the time of the last event\<close>
  co_left :: "rat list"     \<comment> \<open>when \<open>location.replace\<close> was called\<close>

definition integer_of :: "jnum \<Rightarrow> int option" where
  \<comment> \<open>\<open>Number.isInteger\<close>, with the integer\<close>
  "integer_of v = (case v of JFin q \<Rightarrow> if of_int \<lfloor>q\<rfloor> = q then Some \<lfloor>q\<rfloor> else None | _ \<Rightarrow> None)"

definition countdown_seconds :: "jstr option \<Rightarrow> jstr option \<Rightarrow> bool \<Rightarrow> int option" where
  \<comment> \<open>\<open>None\<close> when the script returns early; \<open>found\<close>: every element it draws into exists\<close>
  "countdown_seconds interstitial seconds found =
     (case integer_of (case seconds of None \<Rightarrow> JNaN | Some v \<Rightarrow> js_number v) of
        None \<Rightarrow> None
      | Some n \<Rightarrow> if interstitial \<noteq> Some (js ''true'') \<or> n \<le> 0 \<or> 60 < n \<or> \<not> found then None else Some n)"

section \<open>Operations\<close>

definition clear_timer :: "countdown \<Rightarrow> countdown" where
  "clear_timer s = s\<lparr>co_timer := None\<rparr>"

definition update_remaining :: "countdown \<Rightarrow> countdown" where
  "update_remaining s = s\<lparr>co_remaining := max 0 (co_remaining s - (co_now s - co_started s)), co_started := co_now s\<rparr>"

definition countdown_tick :: "countdown \<Rightarrow> countdown" where
  "countdown_tick s =
     (if co_paused s \<or> co_leaving s then s
      else (let s1 = update_remaining s in
            if co_remaining s1 \<le> 0
            then (clear_timer (s1\<lparr>co_leaving := True\<rparr>))\<lparr>co_left := co_left s @ [co_now s]\<rparr>
            else s1\<lparr>co_timer := Some (co_now s + min 50 (co_remaining s1))\<rparr>))"

definition pause_countdown :: "countdown \<Rightarrow> countdown" where
  "pause_countdown s =
     clear_timer ((if co_paused s \<or> co_leaving s then s else update_remaining s)\<lparr>co_paused := True\<rparr>)"

definition resume_countdown :: "countdown \<Rightarrow> countdown" where
  "resume_countdown s =
     (if co_leaving s then s else countdown_tick (s\<lparr>co_paused := False, co_started := co_now s\<rparr>))"

datatype countdown_event = TimerFires | PauseButton | PageHide | PageShow bool

fun countdown_handle :: "countdown_event \<Rightarrow> countdown \<Rightarrow> countdown" where
  "countdown_handle TimerFires s = countdown_tick (clear_timer s)"
| "countdown_handle PauseButton s = (if co_paused s then resume_countdown s else pause_countdown s)"
| "countdown_handle PageHide s = pause_countdown s"
| "countdown_handle (PageShow persisted) s = (if persisted then pause_countdown (s\<lparr>co_leaving := False\<rparr>) else s)"

fun countdown_offered :: "countdown \<Rightarrow> rat \<times> countdown_event \<Rightarrow> bool" where
  \<comment> \<open>time does not run backwards; a timeout fires when it is due or later\<close>
  "countdown_offered s (now, TimerFires) \<longleftrightarrow>
     co_now s \<le> now \<and> (case co_timer s of None \<Rightarrow> False | Some due \<Rightarrow> due \<le> now)"
| "countdown_offered s (now, _) \<longleftrightarrow> co_now s \<le> now"

definition countdown_move :: "countdown \<Rightarrow> rat \<times> countdown_event \<Rightarrow> countdown" where
  "countdown_move s e = countdown_handle (snd e) (s\<lparr>co_now := fst e\<rparr>)"

definition countdown_start :: "int \<Rightarrow> rat \<Rightarrow> countdown" where
  "countdown_start seconds now = countdown_tick
     \<lparr>co_duration = of_int seconds * 1000, co_remaining = of_int seconds * 1000, co_started = now, co_paused = False,
      co_leaving = False, co_timer = None, co_now = now, co_left = []\<rparr>"

section \<open>What is drawn\<close>

definition drawn_fraction :: "countdown \<Rightarrow> rat" where
  "drawn_fraction s = max 0 (min 1 (co_remaining s / co_duration s))"

definition drawn_seconds :: "countdown \<Rightarrow> int option" where
  \<comment> \<open>the number on the ring, \<open>None\<close> for the sign of a pause\<close>
  "drawn_seconds s = (if co_paused s then None else Some \<lceil>co_remaining s / 1000\<rceil>)"

definition details_after_key :: "jstr \<Rightarrow> bool list \<Rightarrow> bool list" where
  \<comment> \<open>which of the address panels are open\<close>
  "details_after_key key open_panels = (if key = js ''Escape'' then map (\<lambda>_. False) open_panels else open_panels)"

section \<open>The time the countdown has run\<close>

definition running :: "countdown \<Rightarrow> bool" where
  "running s \<longleftrightarrow> \<not> co_paused s \<and> \<not> co_leaving s"

fun running_time :: "countdown \<Rightarrow> (rat \<times> countdown_event) list \<Rightarrow> rat" where
  \<comment> \<open>how long the visitor could see it count\<close>
  "running_time s [] = 0"
| "running_time s (e # es) = (if running s then fst e - co_now s else 0) + running_time (countdown_move s e) es"

lemma running_time_append:
  "runs countdown_offered countdown_move s es = Some s' \<Longrightarrow>
   running_time s (es @ [e]) = running_time s es + (if running s' then fst e - co_now s' else 0)"
  by (induction es arbitrary: s) (auto split: if_splits)

lemmas countdown_handlers = clear_timer_def update_remaining_def countdown_tick_def pause_countdown_def
  resume_countdown_def countdown_move_def running_def

definition countdown_inv :: "rat \<Rightarrow> countdown \<Rightarrow> bool" where
  \<comment> \<open>\<open>spent\<close> is the time it has run so far\<close>
  "countdown_inv spent s \<longleftrightarrow>
     0 < co_duration s \<and> 0 \<le> spent \<and> co_started s \<le> co_now s \<and>
     (running s \<longrightarrow> co_now s - co_started s \<le> spent \<and>
        co_remaining s = max 0 (co_duration s - (spent - (co_now s - co_started s))) \<and> 0 < co_remaining s \<and>
        (case co_timer s of None \<Rightarrow> False | Some due \<Rightarrow> due \<le> co_started s + 50)) \<and>
     (\<not> running s \<longrightarrow> co_remaining s = max 0 (co_duration s - spent) \<and> co_timer s = None) \<and>
     (co_leaving s \<longrightarrow> co_duration s \<le> spent \<and> co_left s \<noteq> []) \<and> (co_left s \<noteq> [] \<longrightarrow> co_duration s \<le> spent)"

lemma countdown_inv_start: "0 < n \<Longrightarrow> countdown_inv 0 (countdown_start n now)"
  by (auto simp: countdown_inv_def countdown_start_def countdown_handlers Let_def min_def)

lemma countdown_inv_move:
  assumes "countdown_inv spent s" "countdown_offered s e"
  shows "countdown_inv (spent + (if running s then fst e - co_now s else 0)) (countdown_move s e)"
proof (cases e)
  case (Pair now ev)
  then have "co_now s \<le> now" using assms(2) by (cases ev) auto
  then show ?thesis using assms Pair
    by (cases ev) (auto simp: countdown_inv_def countdown_handlers Let_def min_def max_def split: option.splits)
qed

lemma countdown_inv_runs:
  "runs countdown_offered countdown_move s es = Some s' \<Longrightarrow> countdown_inv spent s \<Longrightarrow>
   countdown_inv (spent + running_time s es) s'"
proof (induction es arbitrary: s spent)
  case (Cons e es)
  then show ?case using countdown_inv_move [OF Cons(3)] by (fastforce simp: add.assoc split: if_splits)
qed simp

lemma duration_kept [simp]: "co_duration (countdown_move s e) = co_duration s"
  by (cases "(snd e, s)" rule: countdown_handle.cases) (auto simp: countdown_handlers Let_def)

lemma duration_runs:
  "runs countdown_offered countdown_move s es = Some s' \<Longrightarrow> co_duration s' = co_duration s"
  by (induction es arbitrary: s) (auto split: if_splits)

section \<open>Property\<close>

lemma number_two: "js_number (js ''2'') = JFin 2"
proof -
  have "js ''2'' = dec_digits 2" by (simp add: dec_digits.simps text_eval)
  then show ?thesis using js_number_dec [of 2] by simp
qed

text \<open>C10 The visitor is given the whole countdown. From a start with a whole number of seconds, after any
  sequence of timeouts, pauses, resumptions and page transitions: the page has been left only if the
  countdown has run, pauses not counted, for its full duration; while it runs a timeout is pending,
  due within fifty milliseconds of the last update, and while it is paused or the page is being left
  there is none; a timeout leaves exactly when the time is used up; the fraction drawn is the part
  of the time that was left at the last update and the number drawn never exceeds the seconds asked for.\<close>
theorem countdown_runs_in_full:
  assumes "countdown_seconds flag text found = Some n"
    and "runs countdown_offered countdown_move (countdown_start n t0) es = Some s"
  shows "(co_left s \<noteq> [] \<longrightarrow> of_int n * 1000 \<le> running_time (countdown_start n t0) es) \<and>
    (if running s then \<exists>due. co_timer s = Some due \<and> due \<le> co_started s + 50 else co_timer s = None) \<and>
    (countdown_offered s (now, TimerFires) \<longrightarrow>
       (co_leaving (countdown_move s (now, TimerFires)) \<longleftrightarrow>
        of_int n * 1000 \<le> running_time (countdown_start n t0) (es @ [(now, TimerFires)]))) \<and>
    drawn_fraction s * (of_int n * 1000) = co_remaining s \<and>
    (\<forall>k. drawn_seconds s = Some k \<longrightarrow> 0 \<le> k \<and> k \<le> n)"
proof -
  let ?spent = "running_time (countdown_start n t0) es"
  have n: "0 < n" using assms(1) by (auto simp: countdown_seconds_def split: option.splits if_splits)
  have inv: "countdown_inv ?spent s"
    using countdown_inv_runs [OF assms(2) countdown_inv_start [OF n]] by simp
  have dur: "co_duration s = of_int n * 1000"
    using duration_runs [OF assms(2)] by (simp add: countdown_start_def countdown_handlers Let_def)
  have rem: "0 \<le> co_remaining s" "co_remaining s \<le> of_int n * 1000"
    using inv dur by (auto simp: countdown_inv_def max_def split: if_splits)
  have "co_leaving (countdown_move s (now, TimerFires)) \<longleftrightarrow>
      of_int n * 1000 \<le> running_time (countdown_start n t0) (es @ [(now, TimerFires)])"
    if "countdown_offered s (now, TimerFires)"
    using that inv dur running_time_append [OF assms(2), of "(now, TimerFires)"]
    by (auto simp: countdown_inv_def countdown_handlers Let_def max_def split: option.splits)
  moreover have "drawn_fraction s * (of_int n * 1000) = co_remaining s"
    using rem n by (simp add: drawn_fraction_def dur min_def max_def)
  moreover have "0 \<le> k \<and> k \<le> n" if "drawn_seconds s = Some k" for k
    using that rem by (auto simp: drawn_seconds_def ceiling_le_iff split: if_splits)
  ultimately show ?thesis using inv dur by (auto simp: countdown_inv_def split: option.splits)
qed

definition countdown_run :: "(rat \<times> countdown_event) list" where
  "countdown_run = [(50, TimerFires), (100, PauseButton), (5000, PauseButton), (5050, TimerFires)]"

theorem countdown_runs_in_full_witness:
  "\<exists>s. runs countdown_offered countdown_move (countdown_start 2 0) countdown_run = Some s \<and>
     running_time (countdown_start 2 0) countdown_run = 150 \<and> co_left s = [] \<and>
     drawn_fraction s * 2000 = 1850 \<and>
     \<not> co_leaving (countdown_move s (5100, TimerFires))"
proof -
  let ?s = "countdown_start 2 0"
  define s where "s = foldl countdown_move ?s countdown_run"
  have r: "runs countdown_offered countdown_move ?s countdown_run = Some s" "running_time ?s countdown_run = 150"
      "running_time ?s (countdown_run @ [(5100, TimerFires)]) = 200" "co_left s = []" "co_remaining s = 1850"
      "countdown_offered s (5100, TimerFires)"
    by (simp_all add: s_def countdown_run_def countdown_start_def countdown_handlers Let_def min_def max_def)
  have "countdown_seconds (Some (js ''true'')) (Some (js ''2'')) True = Some 2"
    by (simp add: countdown_seconds_def integer_of_def number_two)
  from countdown_runs_in_full [OF this r(1), of 5100] r show ?thesis by auto
qed

end
