(* ===== verification/Countdown_Clock.thy ===== *)
theory Countdown_Clock
  imports Interstitial
begin

text \<open>
  The countdown of \<open>internal/http/handler/gallery/redirect.js\<close> with the timers it sets. \<open>Interstitial\<close> says that
  a timeout may fire any time after it is due; here the timers are a map from numbers to times, as in
  the virtual clock of \<open>scripts/redirect-gallery.test.mjs\<close>, and \<open>advance\<close> fires them when they are due. The
  script keeps the number of its timer in a variable that may be stale. Every run under this clock is
  a run of \<open>Interstitial\<close>, and the clock adds what that one cannot say: the page does leave, and when.
\<close>

section \<open>The clock\<close>

datatype announcement = AnnouncedNothing | AnnouncedPaused | AnnouncedResumed

record clocked =
  ck_now :: rat
  ck_next_timer :: nat
  ck_timers :: "(nat \<times> rat) list"    \<comment> \<open>in the order of the map; the callback is always \<open>tick\<close>\<close>
  ck_navigations :: "rat list"
  ck_attached :: bool                  \<comment> \<open>the script got past its checks and listens\<close>
  ck_duration :: rat
  ck_remaining :: rat
  ck_started :: rat
  ck_paused :: bool
  ck_leaving :: bool
  ck_timer :: "nat option"
  ck_status :: announcement

definition set_timeout :: "rat \<Rightarrow> clocked \<Rightarrow> nat \<times> clocked" where
  "set_timeout milliseconds f =
     (let i = ck_next_timer f
      in (i, f\<lparr>ck_next_timer := i + 1, ck_timers := ck_timers f @ [(i, ck_now f + milliseconds)]\<rparr>))"

definition delete_timer :: "nat \<Rightarrow> clocked \<Rightarrow> clocked" where
  "delete_timer i f = f\<lparr>ck_timers := filter (\<lambda>t. fst t \<noteq> i) (ck_timers f)\<rparr>"

definition clear_timeout :: "nat option \<Rightarrow> clocked \<Rightarrow> clocked" where
  "clear_timeout i f = (case i of None \<Rightarrow> f | Some k \<Rightarrow> delete_timer k f)"

section \<open>The script over the clock\<close>

definition timed_clear :: "clocked \<Rightarrow> clocked" where
  "timed_clear f = (clear_timeout (ck_timer f) f)\<lparr>ck_timer := None\<rparr>"

definition timed_update :: "clocked \<Rightarrow> clocked" where
  "timed_update f = f\<lparr>ck_remaining := max 0 (ck_remaining f - (ck_now f - ck_started f)), ck_started := ck_now f\<rparr>"

definition timed_tick :: "clocked \<Rightarrow> clocked" where
  "timed_tick f =
     (if ck_paused f \<or> ck_leaving f then f
      else (let f1 = timed_update f in
            if ck_remaining f1 \<le> 0
            then (let f2 = timed_clear (f1\<lparr>ck_leaving := True\<rparr>) in f2\<lparr>ck_navigations := ck_navigations f2 @ [ck_now f2]\<rparr>)
            else (let (i, f2) = set_timeout (min 50 (ck_remaining f1)) f1 in f2\<lparr>ck_timer := Some i\<rparr>)))"

definition timed_pause :: "bool \<Rightarrow> clocked \<Rightarrow> clocked" where
  "timed_pause announce f =
     (let f1 = (if \<not> ck_paused f \<and> \<not> ck_leaving f then timed_update f else f);
          f2 = timed_clear (f1\<lparr>ck_paused := True\<rparr>)
      in if announce then f2\<lparr>ck_status := AnnouncedPaused\<rparr> else f2)"

definition timed_resume :: "clocked \<Rightarrow> clocked" where
  "timed_resume f =
     (if ck_leaving f then f
      else timed_tick (f\<lparr>ck_paused := False, ck_started := ck_now f, ck_status := AnnouncedResumed\<rparr>))"

datatype visitor_op = Advance rat | ClickPause | HidePage | ShowPage bool

fun dispatched :: "visitor_op \<Rightarrow> clocked \<Rightarrow> clocked" where
  \<comment> \<open>the listeners; passing time dispatches nothing by itself\<close>
  "dispatched (Advance d) f = f"
| "dispatched ClickPause f = (if ck_paused f then timed_resume f else timed_pause True f)"
| "dispatched HidePage f = timed_pause False f"
| "dispatched (ShowPage persisted) f = (if persisted then timed_pause True (f\<lparr>ck_leaving := False\<rparr>) else f)"

definition mounted_page :: "jstr option \<Rightarrow> jstr option \<Rightarrow> bool \<Rightarrow> clocked" where
  "mounted_page interstitial seconds found =
     (let f = \<lparr>ck_now = 0, ck_next_timer = 1, ck_timers = [], ck_navigations = [], ck_attached = False, ck_duration = 0,
               ck_remaining = 0, ck_started = 0, ck_paused = False, ck_leaving = False, ck_timer = None,
               ck_status = AnnouncedNothing\<rparr>
      in (case countdown_seconds interstitial seconds found of
            None \<Rightarrow> f
          | Some n \<Rightarrow> timed_tick (f\<lparr>ck_attached := True, ck_duration := of_int n * 1000, ck_remaining := of_int n * 1000\<rparr>)))"

section \<open>Passing time\<close>

definition next_due :: "clocked \<Rightarrow> (nat \<times> rat) option" where
  "next_due f = (case sort_key snd (ck_timers f) of [] \<Rightarrow> None | t # _ \<Rightarrow> Some t)"

definition fire :: "nat \<times> rat \<Rightarrow> clocked \<Rightarrow> clocked" where
  "fire t f = timed_tick ((delete_timer (fst t) f)\<lparr>ck_now := snd t\<rparr>)"

partial_function (option) fire_until :: "rat \<Rightarrow> clocked \<Rightarrow> clocked option" where
  \<comment> \<open>the loop of \<open>advance\<close>; \<open>None\<close> would be a loop that does not end\<close>
  "fire_until target f =
     (case next_due f of
        None \<Rightarrow> Some f
      | Some t \<Rightarrow> if target < snd t then Some f else fire_until target (fire t f))"

definition advance :: "rat \<Rightarrow> clocked \<Rightarrow> clocked option" where
  "advance milliseconds f =
     (let target = ck_now f + milliseconds in map_option (\<lambda>g. g\<lparr>ck_now := target\<rparr>) (fire_until target f))"

fun perform :: "visitor_op \<Rightarrow> clocked \<Rightarrow> clocked option" where
  "perform (Advance d) f = advance d f"
| "perform op f = Some (if ck_attached f then dispatched op f else f)"

fun play :: "visitor_op list \<Rightarrow> clocked \<Rightarrow> clocked option" where
  "play [] f = Some f"
| "play (op # ops) f = (case perform op f of None \<Rightarrow> None | Some g \<Rightarrow> play ops g)"

fun forward :: "visitor_op \<Rightarrow> bool" where
  "forward (Advance d) \<longleftrightarrow> 0 \<le> d"
| "forward _ \<longleftrightarrow> True"

section \<open>The countdown behind the clock\<close>

definition counting :: "clocked \<Rightarrow> bool" where
  "counting f \<longleftrightarrow> ck_attached f \<and> \<not> ck_paused f \<and> \<not> ck_leaving f"

definition deadline :: "clocked \<Rightarrow> rat" where
  \<comment> \<open>when the time will be used up\<close>
  "deadline f = ck_started f + ck_remaining f"

definition page_of :: "clocked \<Rightarrow> countdown" where
  "page_of f =
     \<lparr>co_duration = ck_duration f, co_remaining = ck_remaining f, co_started = ck_started f, co_paused = ck_paused f,
      co_leaving = ck_leaving f, co_timer = (case ck_timers f of [] \<Rightarrow> None | t # _ \<Rightarrow> Some (snd t)), co_now = ck_now f,
      co_left = ck_navigations f\<rparr>"

definition clock_inv :: "clocked \<Rightarrow> bool" where
  \<comment> \<open>the one timer is the one the variable names, and it is never overdue\<close>
  "clock_inv f \<longleftrightarrow>
     (if counting f
      then \<exists>i. ck_timers f = [(i, ck_started f + min 50 (ck_remaining f))] \<and> ck_timer f = Some i \<and>
             ck_started f \<le> ck_now f \<and> ck_now f \<le> ck_started f + min 50 (ck_remaining f) \<and> 0 < ck_remaining f
      else ck_timers f = []) \<and>
     (\<not> ck_attached f \<longrightarrow> ck_navigations f = [])"

fun without :: "nat option \<Rightarrow> (nat \<times> rat) list \<Rightarrow> (nat \<times> rat) list" where
  "without None ts = ts"
| "without (Some i) ts = filter (\<lambda>t. fst t \<noteq> i) ts"

lemma without_Nil [simp]: "without i [] = []"
  by (cases i) simp_all

lemma timed_clear_simp: "timed_clear f = f\<lparr>ck_timers := without (ck_timer f) (ck_timers f), ck_timer := None\<rparr>"
  by (cases "ck_timer f") (simp_all add: timed_clear_def clear_timeout_def delete_timer_def)

lemmas clock_handlers = timed_clear_simp delete_timer_def set_timeout_def timed_update_def
  timed_tick_def timed_pause_def timed_resume_def

lemma page_of_simps [simp]:
  "co_duration (page_of f) = ck_duration f" "co_remaining (page_of f) = ck_remaining f"
  "co_started (page_of f) = ck_started f" "co_paused (page_of f) = ck_paused f" "co_leaving (page_of f) = ck_leaving f"
  "co_now (page_of f) = ck_now f" "co_left (page_of f) = ck_navigations f"
  by (simp_all add: page_of_def)

fun event_of :: "visitor_op \<Rightarrow> countdown_event" where
  "event_of (ShowPage persisted) = PageShow persisted"
| "event_of HidePage = PageHide"
| "event_of _ = PauseButton"

lemma inv_cleared: "clock_inv f \<Longrightarrow> without (ck_timer f) (ck_timers f) = []"
  by (auto simp: clock_inv_def split: if_splits)

lemma timed_pause_page:
  "without (ck_timer f) (ck_timers f) = [] \<Longrightarrow> page_of (timed_pause announce f) = pause_countdown (page_of f)"
  by (simp add: page_of_def timed_pause_def timed_clear_simp timed_update_def countdown_handlers Let_def)

lemma timed_tick_page: "ck_timers f = [] \<Longrightarrow> page_of (timed_tick f) = countdown_tick (page_of f)"
  by (simp add: page_of_def timed_tick_def timed_clear_simp timed_update_def set_timeout_def countdown_handlers Let_def)

lemma page_of_updates:
  "page_of (f\<lparr>ck_leaving := b\<rparr>) = (page_of f)\<lparr>co_leaving := b\<rparr>"
  "page_of (f\<lparr>ck_paused := b, ck_started := t, ck_status := a\<rparr>) = (page_of f)\<lparr>co_paused := b, co_started := t\<rparr>"
  "page_of (f\<lparr>ck_now := t\<rparr>) = (page_of f)\<lparr>co_now := t\<rparr>"
  by (simp_all add: page_of_def)

lemma dispatched_refines:
  assumes "clock_inv f" "\<forall>d. op \<noteq> Advance d"
  shows "page_of (dispatched op f) = countdown_move (page_of f) (ck_now f, event_of op)"
proof -
  have "without (ck_timer f) (ck_timers f) = []" using assms(1) by (rule inv_cleared)
  moreover have "ck_paused f \<Longrightarrow> ck_timers f = []" using assms(1) by (simp add: clock_inv_def counting_def)
  moreover have "countdown_move (page_of f) (ck_now f, e) = countdown_handle e (page_of f)" for e
    by (simp add: countdown_move_def page_of_def)
  ultimately show ?thesis using assms(2)
    by (cases op) (simp_all add: timed_pause_page timed_tick_page page_of_updates timed_resume_def
        resume_countdown_def)
qed

lemma timed_pause_frame:
  assumes "without (ck_timer f) (ck_timers f) = []" "ck_attached f"
  shows "clock_inv (timed_pause announce f)" "ck_now (timed_pause announce f) = ck_now f"
    and "ck_attached (timed_pause announce f)"
  using assms by (simp_all add: clock_inv_def counting_def timed_pause_def timed_clear_simp timed_update_def Let_def)

lemma timed_tick_frame:
  assumes "ck_timers f = []" "ck_started f \<le> ck_now f" "ck_attached f"
  shows "clock_inv (timed_tick f)" "ck_now (timed_tick f) = ck_now f" "ck_attached (timed_tick f)"
  using assms by (auto simp: clock_inv_def counting_def timed_tick_def timed_update_def timed_clear_simp set_timeout_def Let_def)

lemma dispatched_frame:
  assumes "clock_inv f" "ck_attached f"
  shows "clock_inv (dispatched op f) \<and> ck_now (dispatched op f) = ck_now f \<and> ck_attached (dispatched op f)"
proof -
  have "without (ck_timer f) (ck_timers f) = []" using assms(1) by (rule inv_cleared)
  moreover have "ck_paused f \<Longrightarrow> ck_timers f = []" using assms(1) by (simp add: clock_inv_def counting_def)
  ultimately show ?thesis using assms
    by (cases op) (simp_all add: timed_pause_frame timed_tick_frame timed_resume_def)
qed

lemma counting_stays: "counting f \<Longrightarrow> \<not> ck_leaving f"
  by (simp add: counting_def)

lemma next_due_inv:
  assumes "clock_inv f"
  shows "next_due f = (if counting f then Some (the (ck_timer f), ck_started f + min 50 (ck_remaining f)) else None)"
  using assms by (auto simp: clock_inv_def next_due_def)

lemma fire_counting:
  assumes "clock_inv f" "counting f" "next_due f = Some t"
  shows "clock_inv (fire t f)" "ck_now (fire t f) = snd t" "ck_status (fire t f) = ck_status f"
    and "ck_attached (fire t f) = ck_attached f"
    and "page_of (fire t f) = countdown_move (page_of f) (snd t, TimerFires)"
    and "countdown_offered (page_of f) (snd t, TimerFires)"
    and "if ck_remaining f \<le> 50
         then \<not> counting (fire t f) \<and> ck_leaving (fire t f) \<and>
              ck_navigations (fire t f) = ck_navigations f @ [deadline f] \<and> snd t = deadline f
         else counting (fire t f) \<and> ck_navigations (fire t f) = ck_navigations f \<and>
              ck_remaining (fire t f) = ck_remaining f - 50 \<and> deadline (fire t f) = deadline f \<and> snd t \<le> deadline f"
  using assms
  by (auto simp: next_due_inv clock_inv_def counting_def fire_def deadline_def clock_handlers page_of_def
      countdown_handlers Let_def min_def max_def split: if_splits)

section \<open>Passing time ends\<close>

definition outcome :: "rat \<Rightarrow> clocked \<Rightarrow> clocked \<Rightarrow> bool" where
  \<comment> \<open>what the loop of \<open>advance\<close> has done when it ends\<close>
  "outcome target f g \<longleftrightarrow>
     ck_now f \<le> ck_now g \<and> ck_now g \<le> target \<and> (\<forall>t. next_due g = Some t \<longrightarrow> target < snd t) \<and> ck_status g = ck_status f \<and>
     ck_attached g = ck_attached f \<and> clock_inv g \<and> (\<exists>es. runs countdown_offered countdown_move (page_of f) es = Some (page_of g)) \<and>
     (if counting f \<and> deadline f \<le> target
      then ck_navigations g = ck_navigations f @ [deadline f] \<and> ck_leaving g \<and> \<not> counting g
      else ck_navigations g = ck_navigations f \<and> counting g = counting f \<and> deadline g = deadline f \<and> ck_leaving g = ck_leaving f)"

lemma fire_until_stops:
  assumes "clock_inv f" "ck_now f \<le> target" "\<forall>t. next_due f = Some t \<longrightarrow> target < snd t"
  shows "fire_until target f = Some f" "outcome target f f"
proof -
  show "fire_until target f = Some f"
    using assms(3) by (subst fire_until.simps) (auto split: option.splits)
  have "\<exists>es. runs countdown_offered countdown_move (page_of f) es = Some (page_of f)"
    by (rule exI [of _ "[]"]) simp
  moreover have "counting f \<Longrightarrow> target < deadline f"
    using assms(1,3) by (auto simp: next_due_inv deadline_def min_def split: if_splits)
  ultimately show "outcome target f f" using assms by (auto simp: outcome_def)
qed

lemma outcome_fire:
  assumes "clock_inv f" "counting f" "next_due f = Some t" "snd t \<le> target" "outcome target (fire t f) g"
  shows "outcome target f g"
proof -
  note fired = fire_counting [OF assms(1-3)]
  obtain es where "runs countdown_offered countdown_move (page_of (fire t f)) es = Some (page_of g)"
    using assms(5) by (auto simp: outcome_def)
  then have "runs countdown_offered countdown_move (page_of f) ((snd t, TimerFires) # es) = Some (page_of g)"
    using fired(5,6) by simp
  then have "\<exists>es. runs countdown_offered countdown_move (page_of f) es = Some (page_of g)" by blast
  moreover have "ck_now f \<le> snd t"
    using assms(1-3) by (auto simp: next_due_inv clock_inv_def)
  ultimately show ?thesis
    using assms(2,4,5) fired(2,3,4,7) unfolding outcome_def by (auto dest: counting_stays split: if_splits)
qed

lemma fire_until_ends:
  "clock_inv f \<Longrightarrow> ck_now f \<le> target \<Longrightarrow> ck_remaining f \<le> of_nat k * 50 \<Longrightarrow>
   \<exists>g. fire_until target f = Some g \<and> outcome target f g"
proof (induction k arbitrary: f)
  case 0
  then have "next_due f = None" by (auto simp: next_due_inv clock_inv_def split: if_splits)
  then show ?case using fire_until_stops [OF 0(1,2)] by auto
next
  case (Suc k)
  show ?case
  proof (cases "\<forall>t. next_due f = Some t \<longrightarrow> target < snd t")
    case True
    then show ?thesis using fire_until_stops [OF Suc(2,3)] by blast
  next
    case False
    then obtain t where t: "next_due f = Some t" "snd t \<le> target" by auto
    then have c: "counting f" using next_due_inv [OF Suc(2)] by (auto split: if_splits)
    note fired = fire_counting [OF Suc(2) c t(1)]
    have "\<exists>g. fire_until target (fire t f) = Some g \<and> outcome target (fire t f) g"
    proof (cases "counting (fire t f)")
      case True
      then show ?thesis using fired Suc(4) t(2)
        by (intro Suc.IH) (auto simp: algebra_simps split: if_splits)
    next
      case False
      then have "next_due (fire t f) = None" using next_due_inv [OF fired(1)] by simp
      then show ?thesis using fire_until_stops [OF fired(1), of target] fired(2) t(2) by auto
    qed
    moreover have "fire_until target f = fire_until target (fire t f)"
      using t by (subst fire_until.simps) simp
    ultimately show ?thesis using outcome_fire [OF Suc(2) c t] by auto
  qed
qed

lemma advance_ends:
  assumes "clock_inv f" "0 \<le> d"
  shows "\<exists>g. fire_until (ck_now f + d) f = Some g \<and> outcome (ck_now f + d) f g \<and>
     advance d f = Some (g\<lparr>ck_now := ck_now f + d\<rparr>)"
proof -
  obtain k where "ck_remaining f / 50 \<le> of_nat k" using real_arch_simple by blast
  then have "ck_remaining f \<le> of_nat k * 50" by (simp add: field_simps)
  from fire_until_ends [OF assms(1) _ this, of "ck_now f + d"] assms(2) show ?thesis
    by (auto simp: advance_def Let_def)
qed

lemma clock_inv_later:
  assumes "clock_inv g" "ck_now g \<le> t" "\<forall>u. next_due g = Some u \<longrightarrow> t < snd u"
  shows "clock_inv (g\<lparr>ck_now := t\<rparr>)"
  using assms by (auto simp: next_due_inv clock_inv_def counting_def split: if_splits)

section \<open>Whole visits\<close>

definition behaves :: "int \<Rightarrow> clocked \<Rightarrow> bool" where
  \<comment> \<open>what the countdown has seen of the visit so far is a run of it\<close>
  "behaves n f \<longleftrightarrow> ck_now f \<ge> 0 \<and>
     (\<exists>es s. runs countdown_offered countdown_move (countdown_start n 0) es = Some s \<and> co_now s \<le> ck_now f \<and>
        page_of f = s\<lparr>co_now := ck_now f\<rparr>)"

lemma offered_later: "co_now s \<le> t \<Longrightarrow> countdown_offered (s\<lparr>co_now := t\<rparr>) e \<Longrightarrow> countdown_offered s e"
  by (cases "(s, e)" rule: countdown_offered.cases) auto

lemma runs_later:
  assumes "runs countdown_offered countdown_move (s\<lparr>co_now := t\<rparr>) es = Some r" "co_now s \<le> t" "t \<le> co_now r"
  shows "\<exists>s'. runs countdown_offered countdown_move s es = Some s' \<and> co_now s' \<le> co_now r \<and> r = s'\<lparr>co_now := co_now r\<rparr>"
proof (cases es)
  case Nil
  then show ?thesis using assms by auto
next
  case (Cons e es')
  then have "runs countdown_offered countdown_move s es = Some r"
    using assms(1) offered_later [OF assms(2), of e] by (auto simp: countdown_move_def split: if_splits)
  then show ?thesis by auto
qed

lemma behaves_on:
  assumes "behaves n f" "runs countdown_offered countdown_move (page_of f) es = Some (page_of g)" "ck_now f \<le> ck_now g"
  shows "behaves n g"
proof -
  from assms(1) obtain fs s where s: "runs countdown_offered countdown_move (countdown_start n 0) fs = Some s"
      "co_now s \<le> ck_now f" "page_of f = s\<lparr>co_now := ck_now f\<rparr>"
    by (auto simp: behaves_def)
  obtain s' where "runs countdown_offered countdown_move s es = Some s'" "co_now s' \<le> ck_now g"
      "page_of g = s'\<lparr>co_now := ck_now g\<rparr>"
    using runs_later [where s = s and t = "ck_now f" and es = es and r = "page_of g"] s(2,3) assms(2,3) by auto
  then have "runs countdown_offered countdown_move (countdown_start n 0) (fs @ es) = Some s'"
    using s(1) by (simp add: runs_append)
  then show ?thesis using assms(1,3) \<open>co_now s' \<le> ck_now g\<close> \<open>page_of g = s'\<lparr>co_now := ck_now g\<rparr>\<close>
    unfolding behaves_def by fastforce
qed

lemma behaves_later: "behaves n f \<Longrightarrow> ck_now f \<le> t \<Longrightarrow> behaves n (f\<lparr>ck_now := t\<rparr>)"
  unfolding behaves_def by (fastforce simp: page_of_updates)

definition sound :: "int option \<Rightarrow> clocked \<Rightarrow> bool" where
  "sound start f \<longleftrightarrow> clock_inv f \<and> (case start of None \<Rightarrow> \<not> ck_attached f | Some n \<Rightarrow> ck_attached f \<and> behaves n f)"

lemma sound_mounted: "sound (countdown_seconds flag text found) (mounted_page flag text found)"
proof (cases "countdown_seconds flag text found")
  case None
  then show ?thesis by (simp add: sound_def mounted_page_def clock_inv_def counting_def)
next
  case (Some n)
  let ?m = "mounted_page flag text found"
  have "clock_inv ?m \<and> ck_attached ?m \<and> ck_now ?m = 0"
    using Some by (simp add: mounted_page_def timed_tick_frame)
  moreover have "page_of ?m = countdown_start n 0"
    using Some by (simp add: mounted_page_def timed_tick_page countdown_start_def) (simp add: page_of_def)
  moreover have "runs countdown_offered countdown_move (countdown_start n 0) [] = Some (countdown_start n 0)"
    by simp
  moreover have "co_now (countdown_start n 0) = 0" by (simp add: countdown_start_def countdown_handlers Let_def)
  ultimately have "behaves n ?m"
    unfolding behaves_def by (intro conjI exI [of _ "[]"] exI [of _ "countdown_start n 0"]) (simp_all add: page_of_def)
  then show ?thesis using Some \<open>clock_inv ?m \<and> ck_attached ?m \<and> ck_now ?m = 0\<close> by (simp add: sound_def)
qed

lemma sound_perform:
  assumes "sound start f" "forward op"
  shows "\<exists>g. perform op f = Some g \<and> sound start g"
proof (cases "\<exists>d. op = Advance d")
  case True
  then obtain d where d: "op = Advance d" "0 \<le> d" using assms(2) by auto
  obtain g where g: "outcome (ck_now f + d) f g" "advance d f = Some (g\<lparr>ck_now := ck_now f + d\<rparr>)"
    using advance_ends assms(1) d(2) by (auto simp: sound_def)
  have "sound start (g\<lparr>ck_now := ck_now f + d\<rparr>)"
    using assms(1) g(1) by (auto simp: sound_def outcome_def intro: clock_inv_later behaves_later behaves_on split: option.splits)
  then show ?thesis using g(2) d(1) by simp
next
  case False
  then have p: "perform op f = Some (if ck_attached f then dispatched op f else f)" by (cases op) auto
  have "sound start (dispatched op f)" if "ck_attached f"
  proof -
    have i: "clock_inv f" using assms(1) by (simp add: sound_def)
    have r: "page_of (dispatched op f) = countdown_move (page_of f) (ck_now f, event_of op)"
      using dispatched_refines [OF i] False by blast
    have seen: "runs countdown_offered countdown_move (page_of f) [(ck_now f, event_of op)] = Some (page_of (dispatched op f))"
      using r False by (cases op) simp_all
    have "behaves n f \<Longrightarrow> behaves n (dispatched op f)" for n
      by (rule behaves_on [OF _ seen]) (simp_all add: dispatched_frame [OF i that])
    then show ?thesis
      using assms(1) that dispatched_frame [OF i that, of op] by (auto simp: sound_def split: option.splits)
  qed
  then show ?thesis using p assms(1) by auto
qed

lemma sound_play: "sound start f \<Longrightarrow> list_all forward ops \<Longrightarrow> \<exists>g. play ops f = Some g \<and> sound start g"
proof (induction ops arbitrary: f)
  case (Cons op ops)
  then obtain g where "perform op f = Some g" "sound start g" using sound_perform by fastforce
  then show ?case using Cons by auto
qed simp

lemma sound_seen:
  assumes "sound start f"
  shows "case start of
       None \<Rightarrow> ck_navigations f = [] \<and> ck_timers f = []
     | Some n \<Rightarrow> \<exists>es s. runs countdown_offered countdown_move (countdown_start n 0) es = Some s \<and>
         page_of f = s\<lparr>co_now := ck_now f\<rparr>"
proof (cases start)
  case None
  then show ?thesis using assms by (simp add: sound_def clock_inv_def counting_def)
next
  case (Some n)
  then have "behaves n f" using assms by (simp add: sound_def)
  then show ?thesis unfolding behaves_def Some option.case by blast
qed

lemma idle_timers: "clock_inv g \<Longrightarrow> \<not> counting g \<Longrightarrow> ck_timers g = []"
  by (simp add: clock_inv_def)

lemma advance_outcome:
  assumes "clock_inv f" "0 \<le> d"
  shows "\<exists>g. advance d f = Some g \<and> ck_now g = ck_now f + d \<and> ck_status g = ck_status f \<and>
       (if counting f \<and> deadline f \<le> ck_now f + d
        then ck_navigations g = ck_navigations f @ [deadline f] \<and> ck_leaving g \<and> ck_timers g = []
        else ck_navigations g = ck_navigations f \<and> counting g = counting f \<and> deadline g = deadline f)"
proof -
  obtain g where g: "outcome (ck_now f + d) f g" "advance d f = Some (g\<lparr>ck_now := ck_now f + d\<rparr>)"
    using advance_ends [OF assms] by blast
  have "counting (g\<lparr>ck_now := t\<rparr>) = counting g" "deadline (g\<lparr>ck_now := t\<rparr>) = deadline g" for t
    by (simp_all add: counting_def deadline_def)
  with g show ?thesis by (auto simp: outcome_def idle_timers)
qed

section \<open>Property\<close>

text \<open>C11 The page leaves, and at the right moment. Under a clock that fires timeouts when they are due, every
  visit (time passing, presses of the button, the page being hidden and shown again) goes on without
  a loop that does not end, and what the countdown has seen of it is one of its runs; a page whose settings
  are refused never navigates. Whatever has happened before, a timeout is pending exactly while the
  countdown counts, and when time passes the page navigates once if the time that was left is used
  up in it, at that very moment, and otherwise not at all, and still ends at the same moment;
  nothing is announced merely because time passes.\<close>
theorem countdown_leaves_on_time:
  assumes "list_all forward ops"
  shows "\<exists>f. play ops (mounted_page flag text found) = Some f \<and>
    (case countdown_seconds flag text found of
       None \<Rightarrow> ck_navigations f = [] \<and> ck_timers f = []
     | Some n \<Rightarrow> \<exists>es s. runs countdown_offered countdown_move (countdown_start n 0) es = Some s \<and>
         page_of f = s\<lparr>co_now := ck_now f\<rparr>) \<and>
    length (ck_timers f) = (if counting f then 1 else 0) \<and>
    (\<forall>d. 0 \<le> d \<longrightarrow> (\<exists>g. advance d f = Some g \<and> ck_now g = ck_now f + d \<and> ck_status g = ck_status f \<and>
       (if counting f \<and> deadline f \<le> ck_now f + d
        then ck_navigations g = ck_navigations f @ [deadline f] \<and> ck_leaving g \<and> ck_timers g = []
        else ck_navigations g = ck_navigations f \<and> counting g = counting f \<and> deadline g = deadline f)))"
proof -
  obtain f where f: "play ops (mounted_page flag text found) = Some f" "sound (countdown_seconds flag text found) f"
    using sound_play [OF sound_mounted assms] by blast
  then have inv: "clock_inv f" by (simp add: sound_def)
  have "\<exists>g. advance d f = Some g \<and> ck_now g = ck_now f + d \<and> ck_status g = ck_status f \<and>
       (if counting f \<and> deadline f \<le> ck_now f + d
        then ck_navigations g = ck_navigations f @ [deadline f] \<and> ck_leaving g \<and> ck_timers g = []
        else ck_navigations g = ck_navigations f \<and> counting g = counting f \<and> deadline g = deadline f)"
    if "0 \<le> d" for d
    using advance_outcome [OF inv that] .
  moreover have "length (ck_timers f) = (if counting f then 1 else 0)"
    using inv by (auto simp: clock_inv_def)
  moreover have "case countdown_seconds flag text found of
       None \<Rightarrow> ck_navigations f = [] \<and> ck_timers f = []
     | Some n \<Rightarrow> \<exists>es s. runs countdown_offered countdown_move (countdown_start n 0) es = Some s \<and>
         page_of f = s\<lparr>co_now := ck_now f\<rparr>"
    using sound_seen [OF f(2)] .
  ultimately show ?thesis using f(1) by blast
qed

definition short_visit :: "visitor_op list" where
  "short_visit = [Advance 40, ClickPause, Advance 5000, ClickPause]"

theorem countdown_leaves_on_time_witness:
  "\<exists>f g. play short_visit (mounted_page (Some (js ''true'')) (Some (js ''2'')) True) = Some f \<and>
     ck_navigations f = [] \<and> ck_status f = AnnouncedResumed \<and> advance 1960 f = Some g \<and> ck_navigations g = [7000]"
proof -
  let ?m = "mounted_page (Some (js ''true'')) (Some (js ''2'')) True"
  have start: "countdown_seconds (Some (js ''true'')) (Some (js ''2'')) True = Some 2"
    by (simp add: countdown_seconds_def integer_of_def number_two)
  have "list_all forward short_visit" by (simp add: short_visit_def)
  note visit = countdown_leaves_on_time [OF this, of "Some (js ''true'')" "Some (js ''2'')" True]
  obtain f where f: "play short_visit ?m = Some f" "counting f" "deadline f = 7000" "ck_now f = 5040"
      "ck_navigations f = []" "ck_status f = AnnouncedResumed"
    by (simp add: short_visit_def mounted_page_def start clock_handlers Let_def advance_def fire_until.simps next_due_def
        counting_def deadline_def)
  have "\<forall>d. 0 \<le> d \<longrightarrow> (\<exists>g. advance d f = Some g \<and> (if counting f \<and> deadline f \<le> ck_now f + d
      then ck_navigations g = ck_navigations f @ [deadline f] else True))"
    using visit f(1) by (metis option.inject)
  then have "\<exists>g. advance 1960 f = Some g \<and> ck_navigations g = [7000]"
    using f by (auto dest: spec [of _ 1960])
  then show ?thesis using f by blast
qed

end
