(* ===== verification/Settings_Home.thy ===== *)
theory Settings_Home
  imports Settings_Forms Navigation In_Flight Pager
begin

text \<open>
  The entrance to the settings (\<open>web/src/app/home/settings/page.tsx\<close>): which categories an account
  sees, the search over the settings, and the state each category is in. The page reads the account
  first and then, all at once, the settings its scopes allow. A retry starts a new run of the
  effect; the \<open>active\<close> flag of a run is modelled by its number. \<open>lower\<close> stands for
  \<open>toLocaleLowerCase\<close>, whose result depends on the platform's locale.
\<close>

section \<open>State\<close>

datatype settings_source = SrcRuntime | SrcCaptcha | SrcOidc | SrcAnalytics

record home_summary =
  hs_loading :: bool
  hs_runtime :: "runtime_settings option"
  hs_captcha :: "captcha_settings option"
  hs_oidc :: "(oidc_provider list \<times> jstr) option"
  hs_analytics :: "analytics_settings option"
  hs_failed :: "settings_source list"

datatype home_op = HomeMe nat | HomeReads nat "jstr list"

record settings_home =
  sh_scopes :: "jstr list option"
  sh_error :: "exn option"
  sh_summary :: home_summary
  sh_query :: jstr
  sh_refresh :: nat
  sh_inflight :: "home_op list"
  sh_log :: "effect list"

definition no_summary :: "bool \<Rightarrow> home_summary" where
  "no_summary loading =
     \<lparr>hs_loading = loading, hs_runtime = None, hs_captcha = None, hs_oidc = None, hs_analytics = None, hs_failed = []\<rparr>"

definition source_scope :: "settings_source \<Rightarrow> jstr" where
  "source_scope src =
     (case src of SrcRuntime \<Rightarrow> js ''settings:manage'' | SrcCaptcha \<Rightarrow> js ''captcha:manage''
                | SrcOidc \<Rightarrow> js ''oidc:manage'' | SrcAnalytics \<Rightarrow> js ''analytics:manage'')"

definition source_call :: "settings_source \<Rightarrow> api_call" where
  "source_call src =
     (case src of SrcRuntime \<Rightarrow> GetRuntime | SrcCaptcha \<Rightarrow> GetCaptcha | SrcOidc \<Rightarrow> ListProviders
                | SrcAnalytics \<Rightarrow> GetAnalytics)"

definition sources :: "settings_source list" where
  "sources = [SrcRuntime, SrcCaptcha, SrcOidc, SrcAnalytics]"

record source_results =
  \<comment> \<open>the outcomes of \<open>Promise.allSettled\<close>; \<open>None\<close> is the \<open>null\<close> of a setting that was not asked for\<close>
  re_runtime :: "runtime_settings option promise"
  re_captcha :: "captcha_settings option promise"
  re_oidc :: "(oidc_provider list \<times> jstr) option promise"
  re_analytics :: "analytics_settings option promise"

definition fulfilled :: "'a option promise \<Rightarrow> 'a option" where
  "fulfilled r = (case r of Inr v \<Rightarrow> v | Inl _ \<Rightarrow> None)"

definition rejected :: "settings_source \<Rightarrow> source_results \<Rightarrow> bool" where
  "rejected src r =
     (case src of SrcRuntime \<Rightarrow> (case re_runtime r of Inl _ \<Rightarrow> True | Inr _ \<Rightarrow> False)
                | SrcCaptcha \<Rightarrow> (case re_captcha r of Inl _ \<Rightarrow> True | Inr _ \<Rightarrow> False)
                | SrcOidc \<Rightarrow> (case re_oidc r of Inl _ \<Rightarrow> True | Inr _ \<Rightarrow> False)
                | SrcAnalytics \<Rightarrow> (case re_analytics r of Inl _ \<Rightarrow> True | Inr _ \<Rightarrow> False))"

definition present :: "settings_source \<Rightarrow> source_results \<Rightarrow> bool" where
  "present src r =
     (case src of SrcRuntime \<Rightarrow> fulfilled (re_runtime r) \<noteq> None | SrcCaptcha \<Rightarrow> fulfilled (re_captcha r) \<noteq> None
                | SrcOidc \<Rightarrow> fulfilled (re_oidc r) \<noteq> None | SrcAnalytics \<Rightarrow> fulfilled (re_analytics r) \<noteq> None)"

definition summary_of :: "source_results \<Rightarrow> home_summary" where
  "summary_of r =
     \<lparr>hs_loading = False, hs_runtime = fulfilled (re_runtime r), hs_captcha = fulfilled (re_captcha r),
      hs_oidc = fulfilled (re_oidc r), hs_analytics = fulfilled (re_analytics r),
      hs_failed = filter (\<lambda>src. rejected src r) sources\<rparr>"

section \<open>Operations\<close>

definition home_begin :: "settings_home \<Rightarrow> settings_home" where
  \<comment> \<open>a run of the effect, up to its first \<open>await\<close>\<close>
  "home_begin s = s\<lparr>sh_scopes := None, sh_error := None, sh_summary := no_summary True,
     sh_inflight := sh_inflight s @ [HomeMe (sh_refresh s)], sh_log := sh_log s @ [Call Me]\<rparr>"

definition home_end :: "home_op \<Rightarrow> settings_home \<Rightarrow> settings_home" where
  "home_end op s = s\<lparr>sh_inflight := remove1 op (sh_inflight s)\<rparr>"

definition home_account :: "nat \<Rightarrow> admin_user \<Rightarrow> settings_home \<Rightarrow> settings_home" where
  "home_account run user s =
     (let allowed = (case au_scopes user of None \<Rightarrow> [] | Some sc \<Rightarrow> sc) in
      s\<lparr>sh_scopes := Some allowed, sh_inflight := sh_inflight s @ [HomeReads run allowed],
        sh_log := sh_log s @ map (Call \<circ> source_call) (filter (\<lambda>src. source_scope src \<in> set allowed) sources)\<rparr>)"

definition home_failed :: "exn \<Rightarrow> settings_home \<Rightarrow> settings_home" where
  "home_failed e s = s\<lparr>sh_error := Some e, sh_scopes := Some [], sh_summary := no_summary False\<rparr>"

datatype home_event =
    SearchSettings jstr | HomeRetry
  | HomeMeSettles nat "admin_user promise"
  | HomeReadsSettle nat "jstr list" source_results

section \<open>What is shown\<close>

definition category_items :: "jstr list \<Rightarrow> nav_item list" where
  "category_items allowed =
     (case find (\<lambda>sec. ns_id sec = js ''settings'') (visible_navigation allowed) of
        None \<Rightarrow> [] | Some sec \<Rightarrow> nav_items [sec])"

definition occurs :: "jstr \<Rightarrow> jstr \<Rightarrow> bool" where
  "occurs w text = list_ex (prefix w) (suffixes text)"

definition entry_text :: "(jstr \<Rightarrow> jstr) \<Rightarrow> translator \<Rightarrow> search_entry \<Rightarrow> jstr" where
  "entry_text lower t e =
     lower (join [32]
       [t (sx_label e) None, t (sx_category e) None,
        (case sx_context e of None \<Rightarrow> [] | Some c \<Rightarrow> if c = [] then [] else t c None),
        t_for (js ''en'') (sx_label e) None, t_for (js ''zh-CN'') (sx_label e) None,
        (case sx_keywords e of None \<Rightarrow> [] | Some k \<Rightarrow> k)])"

definition search_of :: "(jstr \<Rightarrow> jstr) \<Rightarrow> settings_home \<Rightarrow> jstr" where
  "search_of lower s = lower (trim (sh_query s))"

definition search_results :: "(jstr \<Rightarrow> jstr) \<Rightarrow> translator \<Rightarrow> settings_home \<Rightarrow> search_entry list" where
  "search_results lower t s =
     filter (\<lambda>e. list_all (\<lambda>w. occurs w (entry_text lower t e)) (split_runs is_ws (search_of lower s)))
       (visible_search_entries (case sh_scopes s of None \<Rightarrow> [] | Some sc \<Rightarrow> sc))"

datatype home_panel =
    HomeError exn | HomeSkeleton | HomeFound "search_entry list" | HomeCategories "nav_item list" | HomeNoAccess

definition home_panel_of :: "(jstr \<Rightarrow> jstr) \<Rightarrow> translator \<Rightarrow> settings_home \<Rightarrow> home_panel" where
  "home_panel_of lower t s =
     (case sh_error s of
        Some e \<Rightarrow> HomeError e
      | None \<Rightarrow>
          (case sh_scopes s of
             None \<Rightarrow> HomeSkeleton
           | Some allowed \<Rightarrow>
               (let categories = category_items allowed in
                if categories = [] then HomeNoAccess
                else if search_of lower s \<noteq> [] then HomeFound (search_results lower t s)
                else HomeCategories categories)))"

definition relevant_sources :: "jstr \<Rightarrow> settings_source list" where
  "relevant_sources category =
     (if category = js ''settings.nav.links'' \<or> category = js ''settings.nav.traffic'' then [SrcRuntime]
      else if category = js ''settings.nav.registration'' then [SrcRuntime, SrcCaptcha, SrcOidc]
      else if category = js ''settings.nav.analytics'' then [SrcRuntime, SrcAnalytics]
      else [])"

definition status_messages :: "translator \<Rightarrow> home_summary \<Rightarrow> jstr \<Rightarrow> jstr list" where
  "status_messages t sm category =
     (if category = js ''settings.nav.links'' then
        (case hs_runtime sm of None \<Rightarrow> []
         | Some r \<Rightarrow> [tr t (if rt_health_enabled r then ''settings.nav.healthEnabled'' else ''settings.nav.healthDisabled''),
                      tr t (if rt_auto_prune r then ''settings.nav.cleanupEnabled'' else ''settings.nav.cleanupDisabled'')])
      else if category = js ''settings.nav.registration'' then
        (case hs_runtime sm of None \<Rightarrow> []
         | Some r \<Rightarrow> [tr t (if rt_registration_enabled r then ''settings.nav.registrationOpen'' else ''settings.nav.registrationClosed''),
                      tr t (if rt_totp_enabled r then ''settings.nav.totpEnabled'' else ''settings.nav.totpDisabled'')]) @
        (case hs_captcha sm of None \<Rightarrow> []
         | Some c \<Rightarrow> [tr t (if cs_enabled c then ''settings.nav.captchaEnabled'' else ''settings.nav.captchaDisabled'')]) @
        (case hs_oidc sm of None \<Rightarrow> []
         | Some (ps, _) \<Rightarrow> [trp t ''settings.nav.oidcEnabled'' [(''count'', PInt (int (length (filter op_enabled ps))))]])
      else if category = js ''settings.nav.traffic'' then
        (case hs_runtime sm of None \<Rightarrow> []
         | Some r \<Rightarrow> [tr t (if rt_rate_enabled r then ''settings.nav.rateEnabled'' else ''settings.nav.rateDisabled'')])
      else if category = js ''settings.nav.analytics'' then
        (case hs_runtime sm of None \<Rightarrow> []
         | Some r \<Rightarrow> [tr t (if rt_count_bots r then ''settings.nav.botsIncluded'' else ''settings.nav.botsExcluded'')]) @
        (case hs_analytics sm of None \<Rightarrow> []
         | Some a \<Rightarrow> [trp t ''settings.nav.integrationsConfigured'' [(''count'', PInt (int (configured_count a)))]])
      else [])"

definition category_status :: "translator \<Rightarrow> home_summary \<Rightarrow> jstr \<Rightarrow> jstr list" where
  "category_status t sm category =
     (if category = js ''settings.nav.access'' then []
      else if hs_loading sm then [tr t ''common.loading'']
      else status_messages t sm category @
        (if list_ex (\<lambda>src. src \<in> set (relevant_sources category)) (hs_failed sm)
         then [tr t ''settings.nav.statusUnavailable''] else []))"

fun home_offered :: "settings_home \<Rightarrow> home_event \<Rightarrow> bool" where
  "home_offered s (SearchSettings _) \<longleftrightarrow>
     sh_error s = None \<and> (case sh_scopes s of None \<Rightarrow> False | Some allowed \<Rightarrow> category_items allowed \<noteq> [])"
| "home_offered s HomeRetry \<longleftrightarrow>
     sh_error s \<noteq> None \<or>
     (case sh_scopes s of None \<Rightarrow> False | Some allowed \<Rightarrow> category_items allowed \<noteq> [] \<and> hs_failed (sh_summary s) \<noteq> [])"
| "home_offered s (HomeMeSettles run _) \<longleftrightarrow> HomeMe run \<in> set (sh_inflight s)"
| "home_offered s (HomeReadsSettle run allowed r) \<longleftrightarrow>
     HomeReads run allowed \<in> set (sh_inflight s) \<and>
     \<comment> \<open>a setting that was not asked for resolves to \<open>null\<close>\<close>
     list_all (\<lambda>src. source_scope src \<in> set allowed \<or> \<not> present src r \<and> \<not> rejected src r) sources"

fun home_move :: "settings_home \<Rightarrow> home_event \<Rightarrow> settings_home" where
  "home_move s (SearchSettings q) = s\<lparr>sh_query := q\<rparr>"
| "home_move s HomeRetry = home_begin (s\<lparr>sh_refresh := sh_refresh s + 1\<rparr>)"
| "home_move s (HomeMeSettles run r) =
     (let s1 = home_end (HomeMe run) s in
      if run \<noteq> sh_refresh s then s1
      else case r of Inr user \<Rightarrow> home_account run user s1 | Inl e \<Rightarrow> home_failed e s1)"
| "home_move s (HomeReadsSettle run allowed r) =
     (let s1 = home_end (HomeReads run allowed) s in
      if run \<noteq> sh_refresh s then s1 else s1\<lparr>sh_summary := summary_of r\<rparr>)"

definition home_start :: settings_home where
  "home_start = home_begin
     \<lparr>sh_scopes = None, sh_error = None, sh_summary = no_summary True, sh_query = [], sh_refresh = 0, sh_inflight = [],
      sh_log = []\<rparr>"

lemmas home_handlers = home_begin_def home_end_def home_account_def home_failed_def

section \<open>Invariant\<close>

fun op_run :: "home_op \<Rightarrow> nat" where
  "op_run (HomeMe run) = run"
| "op_run (HomeReads run _) = run"

definition shows_source :: "settings_source \<Rightarrow> home_summary \<Rightarrow> bool" where
  "shows_source src sm \<longleftrightarrow>
     src \<in> set (hs_failed sm) \<or>
     (case src of SrcRuntime \<Rightarrow> hs_runtime sm \<noteq> None | SrcCaptcha \<Rightarrow> hs_captcha sm \<noteq> None
                | SrcOidc \<Rightarrow> hs_oidc sm \<noteq> None | SrcAnalytics \<Rightarrow> hs_analytics sm \<noteq> None)"

definition home_inv :: "settings_home \<Rightarrow> bool" where
  "home_inv s \<longleftrightarrow>
     list_all (\<lambda>op. op_run op \<le> sh_refresh s) (sh_inflight s) \<and>
     count_ops (\<lambda>op. op_run op = sh_refresh s) (sh_inflight s) \<le> 1 \<and>
     (HomeMe (sh_refresh s) \<in> set (sh_inflight s) \<longrightarrow> sh_summary s = no_summary True) \<and>
     (\<forall>sc. HomeReads (sh_refresh s) sc \<in> set (sh_inflight s) \<longrightarrow> sh_scopes s = Some sc) \<and>
     (\<forall>src. shows_source src (sh_summary s) \<longrightarrow>
        (case sh_scopes s of None \<Rightarrow> False | Some sc \<Rightarrow> source_scope src \<in> set sc))"

lemma shows_no_summary [simp]: "\<not> shows_source src (no_summary b)"
  by (cases src) (simp_all add: shows_source_def no_summary_def)

lemma shows_summary_of:
  assumes "list_all (\<lambda>src. source_scope src \<in> set allowed \<or> \<not> present src r \<and> \<not> rejected src r) sources"
    and "shows_source src (summary_of r)"
  shows "source_scope src \<in> set allowed"
proof -
  have "src \<in> set sources" by (cases src) (simp_all add: sources_def)
  moreover have "present src r \<or> rejected src r"
    using assms(2) by (cases src) (auto simp: shows_source_def summary_of_def present_def)
  ultimately show ?thesis using assms(1) by (auto simp: list_all_iff)
qed

lemma list_all_bound: "list_all (\<lambda>op. op_run op \<le> n) ops \<Longrightarrow> count_ops (\<lambda>op. op_run op = Suc n) ops = 0"
  by (auto simp: count_ops_def list_all_iff filter_empty_conv)

lemma home_inv_retry:
  assumes "home_inv s"
  shows "home_inv (home_begin (s\<lparr>sh_refresh := sh_refresh s + 1\<rparr>))"
proof -
  have old: "list_all (\<lambda>op. op_run op \<le> sh_refresh s) (sh_inflight s)" using assms by (simp add: home_inv_def)
  then have "HomeReads (Suc (sh_refresh s)) sc \<notin> set (sh_inflight s)" for sc by (auto simp: list_all_iff)
  with old show ?thesis
    by (auto simp: home_inv_def home_begin_def list_all_bound list_all_iff)
qed

lemma home_inv_me:
  assumes "home_inv s" "HomeMe run \<in> set (sh_inflight s)"
  shows "home_inv (home_move s (HomeMeSettles run r))"
proof (cases "run = sh_refresh s")
  case False
  then show ?thesis using assms
    by (auto simp: home_inv_def home_end_def Let_def list_all_remove1 dest: still_in_flight)
next
  case True
  have only: "op_run op \<noteq> sh_refresh s" if "op \<in> set (remove1 (HomeMe run) (sh_inflight s))" for op
    using count_ops_unique [of "\<lambda>op. op_run op = sh_refresh s" "sh_inflight s" "HomeMe run" op] assms that True
    by (simp add: home_inv_def)
  have "HomeMe run \<notin> set (remove1 (HomeMe run) (sh_inflight s))" using only [of "HomeMe run"] True by auto
  moreover have "HomeReads run sc \<notin> set (remove1 (HomeMe run) (sh_inflight s))" for sc
    using only [of "HomeReads run sc"] True by auto
  ultimately show ?thesis using assms True
    by (auto simp: home_inv_def home_handlers Let_def list_all_remove1 split: sum.splits)
qed

lemma home_inv_reads:
  assumes "home_inv s" "home_offered s (HomeReadsSettle run allowed r)"
  shows "home_inv (home_move s (HomeReadsSettle run allowed r))"
proof (cases "run = sh_refresh s")
  case False
  then show ?thesis using assms
    by (auto simp: home_inv_def home_end_def Let_def list_all_remove1 dest: still_in_flight)
next
  case True
  have only: "op_run op \<noteq> sh_refresh s" if "op \<in> set (remove1 (HomeReads run allowed) (sh_inflight s))" for op
    using count_ops_unique [of "\<lambda>op. op_run op = sh_refresh s" "sh_inflight s" "HomeReads run allowed" op] assms that True
    by (simp add: home_inv_def)
  have "HomeMe run \<notin> set (remove1 (HomeReads run allowed) (sh_inflight s))"
    using only [of "HomeMe run"] True by auto
  moreover have "HomeReads run sc \<notin> set (remove1 (HomeReads run allowed) (sh_inflight s))" for sc
    using only [of "HomeReads run sc"] True by auto
  moreover have "source_scope src \<in> set allowed" if "shows_source src (summary_of r)" for src
    using shows_summary_of [OF _ that] assms(2) by simp
  ultimately show ?thesis using assms True
    by (auto simp: home_inv_def home_handlers Let_def list_all_remove1)
qed

fun home_effect :: "effect \<Rightarrow> bool" where
  "home_effect (Call c) \<longleftrightarrow> c = Me \<or> c \<in> set (map source_call sources)"
| "home_effect _ \<longleftrightarrow> False"

interpretation home: logging_page home_start home_offered home_move home_inv sh_log home_effect
proof
  show "home_inv home_start" by (simp add: home_inv_def home_start_def home_handlers)
  show "home_inv (home_move s e)" if "home_inv s" "home_offered s e" for s e
  proof (cases e)
    case (SearchSettings q)
    then show ?thesis using that by (simp add: home_inv_def)
  next
    case HomeRetry
    then show ?thesis using home_inv_retry [OF that(1)] by simp
  next
    case (HomeMeSettles run r)
    then show ?thesis using home_inv_me [OF that(1)] that(2) by simp
  next
    case (HomeReadsSettle run allowed r)
    then show ?thesis using home_inv_reads [OF that(1)] that(2) by blast
  qed
  show "list_all home_effect (sh_log home_start)" by (simp add: home_start_def home_begin_def)
  show "list_all home_effect (sh_log (home_move s e))" if "list_all home_effect (sh_log s)" for s e
    using that by (cases e) (auto simp: home_handlers Let_def list_all_iff split: sum.splits)
qed

section \<open>Property\<close>


definition captcha_keeper :: admin_user where
  "captcha_keeper = \<lparr>au_id = None, au_username = js ''u'', au_role = None, au_scopes = Some [js ''captcha:manage''],
     au_unrestricted = None, au_mfa_enabled = None, au_display_name = None\<rparr>"

definition captcha_down :: source_results where
  "captcha_down = \<lparr>re_runtime = Inr None, re_captcha = Inl Thrown, re_oidc = Inr None, re_analytics = Inr None\<rparr>"


end
