(* ===== verification/Shell.thy ===== *)
theory Shell
  imports Page_Model Request_Context Navigation
begin

text \<open>
  What surrounds the pages of the console: the shell with its drawer (\<open>web/src/components/admin-shell.tsx\<close>),
  the account menu (\<open>rare/account-menu.tsx\<close>), the theme (\<open>theme-provider.tsx\<close>), the language
  (\<open>locale-switcher.tsx\<close>, \<open>i18n-provider.tsx\<close>) and the gate in front of the settings
  (\<open>settings/settings-access.tsx\<close>).
\<close>

section \<open>The shell\<close>

datatype focus_target = MenuButton | CloseButton

datatype shell_op = ShellMe | ShellLogout

record shell_state =
  sl_user :: "admin_user option"
  sl_mobile :: bool
  sl_logging_out :: bool
  sl_desktop :: bool
  sl_was_open :: bool
  sl_focus :: "focus_target list"  \<comment> \<open>what was given the focus, in order\<close>
  sl_inflight :: "shell_op list"
  sl_log :: "effect list"

definition focus_effect :: "shell_state \<Rightarrow> shell_state" where
  \<comment> \<open>runs after a change of the drawer or of the breakpoint\<close>
  "focus_effect s =
     (if sl_mobile s then s\<lparr>sl_was_open := True, sl_focus := sl_focus s @ [CloseButton]\<rparr>
      else if \<not> sl_was_open s then s
      else (let s1 = s\<lparr>sl_was_open := False\<rparr> in
            if sl_desktop s then s1 else s1\<lparr>sl_focus := sl_focus s @ [MenuButton]\<rparr>))"

definition set_mobile :: "bool \<Rightarrow> shell_state \<Rightarrow> shell_state" where
  "set_mobile b s = (if sl_mobile s = b then s else focus_effect (s\<lparr>sl_mobile := b\<rparr>))"

definition set_desktop :: "bool \<Rightarrow> shell_state \<Rightarrow> shell_state" where
  "set_desktop b s = (if sl_desktop s = b then s else focus_effect (s\<lparr>sl_desktop := b\<rparr>))"

definition drawer_inert :: "shell_state \<Rightarrow> bool" where
  "drawer_inert s \<longleftrightarrow> \<not> (sl_desktop s \<or> sl_mobile s)"

definition content_inert :: "shell_state \<Rightarrow> bool" where
  "content_inert s \<longleftrightarrow> sl_mobile s"

datatype shell_event =
    OpenDrawer | CloseDrawer | ShellEscape | RouteChanges | BreakpointAt bool | PressLogout
  | ShellMeSettles "admin_user promise"
  | LogoutSettles "unit promise"

fun shell_offered :: "shell_state \<Rightarrow> shell_event \<Rightarrow> bool" where
  \<comment> \<open>the buttons of the drawer and the scrim are hidden from the breakpoint on\<close>
  "shell_offered s OpenDrawer \<longleftrightarrow> \<not> sl_desktop s \<and> \<not> content_inert s"
| "shell_offered s CloseDrawer \<longleftrightarrow> \<not> sl_desktop s \<and> sl_mobile s"
| "shell_offered s ShellEscape \<longleftrightarrow> True"
| "shell_offered s RouteChanges \<longleftrightarrow> True"
| "shell_offered s (BreakpointAt _) \<longleftrightarrow> True"
| "shell_offered s PressLogout \<longleftrightarrow> \<not> drawer_inert s \<and> \<not> sl_logging_out s"
| "shell_offered s (ShellMeSettles _) \<longleftrightarrow> ShellMe \<in> set (sl_inflight s)"
| "shell_offered s (LogoutSettles _) \<longleftrightarrow> ShellLogout \<in> set (sl_inflight s)"

fun shell_move :: "shell_state \<Rightarrow> shell_event \<Rightarrow> shell_state" where
  "shell_move s OpenDrawer = set_mobile True s"
| "shell_move s CloseDrawer = set_mobile False s"
| "shell_move s ShellEscape = (if sl_desktop s \<or> \<not> sl_mobile s then s else set_mobile False s)"
| "shell_move s RouteChanges = set_mobile False s"
| "shell_move s (BreakpointAt b) = set_desktop b s"
| "shell_move s PressLogout =
     s\<lparr>sl_logging_out := True, sl_inflight := sl_inflight s @ [ShellLogout], sl_log := sl_log s @ [Call Logout]\<rparr>"
| "shell_move s (ShellMeSettles r) =
     s\<lparr>sl_inflight := remove1 ShellMe (sl_inflight s), sl_user := (case r of Inr u \<Rightarrow> Some u | Inl _ \<Rightarrow> None)\<rparr>"
| "shell_move s (LogoutSettles _) =
     s\<lparr>sl_inflight := remove1 ShellLogout (sl_inflight s), sl_log := sl_log s @ [ReplaceRoute (js ''/login'')]\<rparr>"

definition shell_start :: "bool \<Rightarrow> shell_state" where
  \<comment> \<open>\<open>wide\<close>: what the media query answers when the shell is mounted\<close>
  "shell_start wide = set_desktop wide
     \<lparr>sl_user = None, sl_mobile = False, sl_logging_out = False, sl_desktop = True, sl_was_open = False, sl_focus = [],
      sl_inflight = [ShellMe], sl_log = [Call Me]\<rparr>"

definition shell_scopes :: "shell_state \<Rightarrow> jstr list" where
  "shell_scopes s = (case sl_user s of None \<Rightarrow> [] | Some u \<Rightarrow> (case au_scopes u of None \<Rightarrow> [] | Some sc \<Rightarrow> sc))"

datatype sidebar_item =
    SideHeading jstr
  | SideLink jstr jstr jstr
  | SideGroup jstr "jstr option" jstr "(jstr \<times> jstr \<times> jstr) list"
  \<comment> \<open>label, address and icon; the one section of the settings has no label of its own\<close>

definition side_entry :: "translator \<Rightarrow> nav_item \<Rightarrow> jstr \<times> jstr \<times> jstr" where
  "side_entry t i = (t (ni_label i) None, ni_href i, ni_icon i)"

definition sidebar_items :: "translator \<Rightarrow> jstr list \<Rightarrow> sidebar_item list" where
  "sidebar_items t scopes =
     (case visible_navigation scopes of
        [sec1, sec2] \<Rightarrow>
          SideHeading (tr t ''shell.workspace'') #
          map (\<lambda>i. SideLink (t (ni_label i) None) (ni_href i) (ni_icon i)) (nav_items [sec1]) @
          [SideGroup (t (case ns_label sec2 of None \<Rightarrow> js ''shell.settings'' | Some l \<Rightarrow> l) None) (ns_href sec2)
             (case ns_icon sec2 of None \<Rightarrow> js ''settings'' | Some i \<Rightarrow> i) (map (side_entry t) (nav_items [sec2]))]
      | _ \<Rightarrow> [])"

definition shell_avatar :: "shell_state \<Rightarrow> jstr" where
  "shell_avatar s =
     to_upper (take 1 (case sl_user s of None \<Rightarrow> js ''P'' | Some u \<Rightarrow> if au_username u = [] then js ''P'' else au_username u))"

definition shell_role :: "translator \<Rightarrow> shell_state \<Rightarrow> jstr" where
  "shell_role t s =
     (let role = (case sl_user s of None \<Rightarrow> None | Some u \<Rightarrow> au_role u);
          key = (case role of None \<Rightarrow> [] | Some r \<Rightarrow> if r = [] then [] else js ''role.'' @ r)
      in if has_message key then t key None else (case role of None \<Rightarrow> [] | Some r \<Rightarrow> r))"

lemmas shell_handlers = focus_effect_def set_mobile_def set_desktop_def drawer_inert_def content_inert_def

definition shell_inv :: "shell_state \<Rightarrow> bool" where
  "shell_inv s \<longleftrightarrow>
     sl_was_open s = sl_mobile s \<and>
     sl_inflight s \<in> {[], [ShellMe], [ShellLogout], [ShellMe, ShellLogout]} \<and>
     (ShellLogout \<in> set (sl_inflight s) \<longrightarrow> sl_logging_out s)"

interpretation shell: react_page "shell_start wide" shell_offered shell_move shell_inv for wide
proof
  show "shell_inv (shell_start wide)" by (simp add: shell_inv_def shell_start_def shell_handlers)
  show "shell_inv (shell_move s e)" if "shell_inv s" "shell_offered s e" for s e
    using that by (cases e) (auto simp: shell_inv_def shell_handlers Let_def)
qed

text \<open>At any time one of the two halves of the page can be used, and only one of them below the
  breakpoint.\<close>

lemma shell_halves:
  "\<not> (drawer_inert s \<and> content_inert s)" "\<not> sl_desktop s \<Longrightarrow> drawer_inert s = (\<not> content_inert s)"
  by (auto simp: drawer_inert_def content_inert_def)

text \<open>A drawer that is open when the window becomes wide keeps the content inert: the buttons that close it
  are hidden there and the key is ignored, so only a change of the route (or a narrow window) ends it.\<close>

lemma wide_window_stuck:
  assumes "sl_mobile s" "sl_desktop s" "shell_offered s e" "\<not> content_inert (shell_move s e)"
  shows "e = RouteChanges"
  using assms by (cases e) (auto simp: shell_handlers Let_def split: if_splits)

lemma wide_window_reached:
  "\<exists>s. runs shell_offered shell_move (shell_start False) [OpenDrawer, BreakpointAt True] = Some s \<and> content_inert s \<and>
     sl_desktop s"
  by (simp add: shell_start_def shell_handlers Let_def)

text \<open>Signing out ends on the sign-in page whatever the server answered, and is asked for once.\<close>

lemma logout_once:
  assumes "reachable (shell_start wide) shell_offered shell_move s" "ShellLogout \<in> set (sl_inflight s)"
  shows "\<not> shell_offered s PressLogout" "count_list (sl_inflight s) ShellLogout = 1"
    and "ReplaceRoute (js ''/login'') \<in> set (sl_log (shell_move s (LogoutSettles r)))"
  using shell.reachable_inv [OF assms(1)] assms(2) by (auto simp: shell_inv_def)

section \<open>The account menu\<close>

datatype menu_event = PressTriggerMenu | MenuEscape | PointerDown bool | FollowAccount jstr | MenuLogout

definition menu_actions :: "jstr list \<Rightarrow> jstr list" where
  "menu_actions scopes =
     js ''/home/account/security'' # (if js ''tokens:manage'' \<in> set scopes then [js ''/home/account/tokens''] else [])"

fun menu_offered :: "jstr list \<Rightarrow> bool \<Rightarrow> bool \<Rightarrow> menu_event \<Rightarrow> bool" where
  "menu_offered scopes logging_out opened PressTriggerMenu \<longleftrightarrow> True"
| "menu_offered scopes logging_out opened MenuEscape \<longleftrightarrow> opened"
| "menu_offered scopes logging_out opened (PointerDown _) \<longleftrightarrow> opened"
| "menu_offered scopes logging_out opened (FollowAccount href) \<longleftrightarrow> opened \<and> href \<in> set (menu_actions scopes)"
| "menu_offered scopes logging_out opened MenuLogout \<longleftrightarrow> opened \<and> \<not> logging_out"

fun menu_move :: "bool \<Rightarrow> menu_event \<Rightarrow> bool" where
  \<comment> \<open>\<open>PointerDown\<close>: whether the pointer went down inside the menu\<close>
  "menu_move opened PressTriggerMenu = (\<not> opened)"
| "menu_move opened MenuEscape = False"
| "menu_move opened (PointerDown inside) = (if inside then opened else False)"
| "menu_move opened (FollowAccount _) = False"
| "menu_move opened MenuLogout = False"

section \<open>The theme\<close>

datatype theme = Dark | Light

fun theme_text :: "theme \<Rightarrow> jstr" where
  "theme_text Dark = js ''dark''"
| "theme_text Light = js ''light''"

definition stored_theme :: "jstr option \<Rightarrow> theme" where
  "stored_theme v = (if v = Some (js ''light'') then Light else Dark)"

record theme_state =
  te_theme :: theme
  te_document :: "jstr option"  \<comment> \<open>\<open>document.documentElement.dataset.theme\<close>\<close>
  te_storage :: "jstr option"

datatype theme_event = ThemeMounts | SetTheme theme | ToggleTheme

definition set_theme :: "theme \<Rightarrow> theme_state \<Rightarrow> theme_state" where
  "set_theme next s = s\<lparr>te_theme := next, te_document := Some (theme_text next), te_storage := Some (theme_text next)\<rparr>"

fun theme_move :: "theme_state \<Rightarrow> theme_event \<Rightarrow> theme_state" where
  "theme_move s ThemeMounts = set_theme (stored_theme (te_storage s)) s"
| "theme_move s (SetTheme next) = set_theme next s"
| "theme_move s ToggleTheme = set_theme (case te_theme s of Dark \<Rightarrow> Light | Light \<Rightarrow> Dark) s"

lemma stored_theme_text [simp]: "stored_theme (Some (theme_text th)) = th"
proof -
  have "js ''dark'' \<noteq> js ''light''" by code_simp
  then show ?thesis by (cases th) (simp_all add: stored_theme_def)
qed

lemma theme_move_written:
  "te_document (theme_move s e) = Some (theme_text (te_theme (theme_move s e))) \<and>
   te_storage (theme_move s e) = Some (theme_text (te_theme (theme_move s e)))"
  by (cases e) (simp_all add: set_theme_def)

text \<open>A choice is remembered: after any events the document carries the theme of the state, and a page
  mounted later reads the same one back.\<close>

lemma theme_remembered:
  assumes "events \<noteq> []" and "s = foldl theme_move start events" and later: "te_storage later = te_storage s"
  shows "te_document s = Some (theme_text (te_theme s))" "te_theme (theme_move later ThemeMounts) = te_theme s"
proof -
  obtain before_last e where "events = before_last @ [e]" using assms(1) by (cases events rule: rev_cases) auto
  then have "te_document s = Some (theme_text (te_theme s)) \<and> te_storage s = Some (theme_text (te_theme s))"
    using assms(2) theme_move_written by simp
  then show "te_document s = Some (theme_text (te_theme s))" "te_theme (theme_move later ThemeMounts) = te_theme s"
    using later by (simp_all add: set_theme_def)
qed

section \<open>The language\<close>

definition pick_locale :: "jstr \<Rightarrow> jstr option" where
  \<comment> \<open>what the action is called with; the value of the select is shown until the server answers\<close>
  "pick_locale next = (if is_locale (Some next) then Some next else None)"

definition after_locale :: "jstr \<Rightarrow> jstr \<Rightarrow> effect list" where
  "after_locale pathname next =
     (if pathname = js ''/'' \<or> pathname = js ''/i18n/en'' \<or> pathname = js ''/i18n/zh-CN''
      then [Assign (js ''/i18n/'' @ next)] else [])"

lemma after_locale_shipped:
  "pick_locale next = Some l \<Longrightarrow> provider_locale l = l \<and> set (after_locale path l) \<subseteq> {Assign (js ''/i18n/'' @ l)}"
  by (auto simp: pick_locale_def provider_locale_def after_locale_def split: if_splits)

section \<open>The gate in front of the settings\<close>

record access_state =
  ax_scopes :: "jstr list option"
  ax_error :: jstr
  ax_pending :: nat

datatype access_panel = AccessError jstr | AccessLoading | AccessGranted "jstr list"

definition access_panel_of :: "access_state \<Rightarrow> access_panel" where
  "access_panel_of s =
     (if ax_error s \<noteq> [] then AccessError (ax_error s)
      else (case ax_scopes s of None \<Rightarrow> AccessLoading | Some sc \<Rightarrow> AccessGranted sc))"

definition access_load :: "access_state \<Rightarrow> access_state" where
  "access_load s = s\<lparr>ax_error := [], ax_pending := ax_pending s + 1\<rparr>"

definition access_settled :: "translator \<Rightarrow> admin_user promise \<Rightarrow> access_state \<Rightarrow> access_state" where
  "access_settled t r s =
     (case r of
        Inr u \<Rightarrow> s\<lparr>ax_scopes := Some (case au_scopes u of None \<Rightarrow> [] | Some sc \<Rightarrow> sc), ax_pending := ax_pending s - 1\<rparr>
      | Inl e \<Rightarrow> s\<lparr>ax_error := error_text t e ''error.load'' [], ax_pending := ax_pending s - 1\<rparr>)"

end
