(* ===== verification/Settings_Pages.thy ===== *)
theory Settings_Pages
  imports Shell Runtime_Settings
begin

text \<open>
  How the settings pages are put together from their forms (\<open>web/src/app/home/settings/registration/page.tsx\<close>,
  \<open>analytics/page.tsx\<close>, \<open>traffic/page.tsx\<close>, \<open>links/**/page.tsx\<close> through
  \<open>web/src/components/settings/links-settings.tsx\<close>, and the pages that only redirect), and the trail of
  \<open>settings-page.tsx\<close>. What a page shows to an account is a list of parts.
\<close>

datatype settings_part =
    PartTabs tab_group "jstr list" | PartPolicies runtime_group | PartCaptcha | PartTracking | PartForbidden
  | PartLink jstr

definition put :: "bool \<Rightarrow> settings_part \<Rightarrow> settings_part list" where
  "put b part = (if b then [part] else [])"

definition some_scope :: "jstr list \<Rightarrow> string list \<Rightarrow> bool" where
  "some_scope scopes wanted \<longleftrightarrow> list_ex (\<lambda>s. s \<in> set (map js wanted)) scopes"

definition registration_parts :: "jstr list \<Rightarrow> settings_part list" where
  "registration_parts scopes =
     [PartTabs TabRegistration scopes] @
     put (holds scopes ''settings:manage'') (PartPolicies GRegistration) @
     put (holds scopes ''captcha:manage'') PartCaptcha @
     put (\<not> some_scope scopes [''settings:manage'', ''captcha:manage'', ''oidc:manage'']) PartForbidden @
     put (holds scopes ''oidc:manage'') (PartLink (js ''/home/settings/oidc'')) @
     put (holds scopes ''settings:manage'') (PartLink (js ''/home/settings/traffic''))"

definition analytics_parts :: "jstr list \<Rightarrow> settings_part list" where
  "analytics_parts scopes =
     put (holds scopes ''settings:manage'') (PartPolicies GStatistics) @
     put (holds scopes ''analytics:manage'') PartTracking @
     put (\<not> some_scope scopes [''settings:manage'', ''analytics:manage'']) PartForbidden"

definition links_parts :: "runtime_group \<Rightarrow> settings_part list" where
  \<comment> \<open>not behind the gate: the tabs are those of an account that may manage the settings\<close>
  "links_parts g = [PartTabs TabLinks [js ''settings:manage''], PartPolicies g]"

definition traffic_parts :: "settings_part list" where
  "traffic_parts = [PartPolicies GTraffic]"

definition gated :: "(jstr list \<Rightarrow> settings_part list) \<Rightarrow> access_state \<Rightarrow> settings_part list" where
  "gated parts s = (case access_panel_of s of AccessGranted scopes \<Rightarrow> parts scopes | _ \<Rightarrow> [])"

definition legacy_redirects :: "(jstr \<times> jstr) list" where
  "legacy_redirects =
     [(js ''/home/settings/security'', js ''/home/account/security''),
      (js ''/home/settings/runtime'', js ''/home/settings/links''),
      (js ''/home/settings/captcha'', js ''/home/settings/registration#captcha'')]"

definition settings_trail :: "translator \<Rightarrow> bool \<Rightarrow> jstr option \<Rightarrow> (jstr \<times> jstr option) list" where
  "settings_trail t at_root parent =
     (if at_root then []
      else (tr t ''shell.settings'', Some (js ''/home/settings'')) #
        (case parent of
           None \<Rightarrow> []
         | Some g \<Rightarrow>
             if g = [] then []
             else [(g, if g = tr t ''settings.registration.title'' then Some (js ''/home/settings/registration'') else None)]))"

fun part_scope :: "settings_part \<Rightarrow> jstr option" where
  \<comment> \<open>the scope the API asks for behind a part\<close>
  "part_scope (PartPolicies _) = Some (js ''settings:manage'')"
| "part_scope PartCaptcha = Some (js ''captcha:manage'')"
| "part_scope PartTracking = Some (js ''analytics:manage'')"
| "part_scope _ = None"

definition part_allowed :: "jstr list \<Rightarrow> settings_part \<Rightarrow> bool" where
  "part_allowed scopes part \<longleftrightarrow> (case part_scope part of None \<Rightarrow> True | Some s \<Rightarrow> s \<in> set scopes)"

lemma some_scope_holds: "some_scope scopes wanted \<longleftrightarrow> (\<exists>w \<in> set wanted. holds scopes w)"
  by (auto simp: some_scope_def list_ex_iff)

text \<open>A tab that is shown next to the registration or the account pages is one the account holds a scope for,
  and every tab bar of a page an account can reach has the tab of a page it may use.\<close>

lemma visible_tabs_allowed:
  "tab \<in> set (visible_tabs g scopes) \<Longrightarrow> \<exists>s \<in> set (st_any_scopes tab). s \<in> set scopes"
  by (auto simp: visible_tabs_def list_ex_iff)

section \<open>Property\<close>

text \<open>C33 The navigation and the pages agree: the registration and the analytics page refuse an account, behind
  the gate that has read its scopes, exactly when its navigation has no entry for the page; and a
  form is put on such a page only for an account with the scope the API asks for behind that form.\<close>
theorem pages_agree_with_navigation:
  assumes "access_panel_of s = AccessGranted scopes"
  shows "(PartForbidden \<in> set (gated registration_parts s) \<longleftrightarrow>
            js ''/home/settings/registration'' \<notin> set (visible_hrefs scopes)) \<and>
    (PartForbidden \<in> set (gated analytics_parts s) \<longleftrightarrow>
            js ''/home/settings/analytics'' \<notin> set (visible_hrefs scopes)) \<and>
    list_all (part_allowed scopes) (gated registration_parts s @ gated analytics_parts s)"
  using assms
  by (auto simp: gated_def registration_parts_def analytics_parts_def put_def some_scope_holds part_allowed_def
      visible_hrefs_eq shown_def)

definition oidc_access :: access_state where
  "oidc_access = access_settled (t_for (js ''en''))
     (Inr \<lparr>au_id = None, au_username = js ''u'', au_role = None, au_scopes = Some [js ''oidc:manage''],
           au_unrestricted = None, au_mfa_enabled = None, au_display_name = None\<rparr>)
     \<lparr>ax_scopes = None, ax_error = [], ax_pending = 1\<rparr>"

theorem pages_agree_with_navigation_witness:
  "PartForbidden \<notin> set (gated registration_parts oidc_access) \<and> PartForbidden \<in> set (gated analytics_parts oidc_access)"
proof -
  have "access_panel_of oidc_access = AccessGranted [js ''oidc:manage'']"
    by (simp add: access_panel_of_def oidc_access_def access_settled_def)
  from pages_agree_with_navigation [OF this] show ?thesis by (simp add: visible_hrefs_eq shown_def)
qed

end
