(* ===== verification/Guarded_Page.thy ===== *)
theory Guarded_Page
  imports Draft_Guard Settings_Forms Settings_Pages
begin

text \<open>
  A settings page as a whole: the gate that reads the scopes of the account (\<open>settings-access.tsx\<close>),
  the forms it then mounts (\<open>Settings_Pages\<close>), and the guard around them
  (\<open>settings-draft-guard.tsx\<close>), to which each form reports through \<open>useSettingsDirty\<close> whether it
  has unsaved edits. \<open>useId\<close> is React's: a function from the position of a form to its id.

  An effect that follows from an event runs before the next event, so reporting is part of the
  step of the form.
\<close>

section \<open>What the guard offers the forms\<close>

definition dirty_of :: "('f \<Rightarrow> bool) \<Rightarrow> (jstr \<times> 'f) list \<Rightarrow> jstr set" where
  "dirty_of dirty fs = {i. \<exists>f. map_of fs i = Some f \<and> dirty f}"

definition resync :: "(jstr \<Rightarrow> bool \<Rightarrow> 'g \<Rightarrow> 'g) \<Rightarrow> jstr \<Rightarrow> bool \<Rightarrow> bool \<Rightarrow> 'g \<Rightarrow> 'g" where
  \<comment> \<open>the effect of \<open>useSettingsDirty\<close>: it reruns when \<open>dirty\<close> changed, after its cleanup\<close>
  "resync register i was is_dirty g = (if was = is_dirty then g else register i is_dirty (register i False g))"

definition mount_all :: "(jstr \<Rightarrow> bool \<Rightarrow> 'g \<Rightarrow> 'g) \<Rightarrow> ('f \<Rightarrow> bool) \<Rightarrow> (jstr \<times> 'f) list \<Rightarrow> 'g \<Rightarrow> 'g" where
  "mount_all register dirty fs g = foldl (\<lambda>g (i, f). register i (dirty f) g) g fs"

locale dirty_register =
  fixes register :: "jstr \<Rightarrow> bool \<Rightarrow> 'g \<Rightarrow> 'g" and dirty_ids :: "'g \<Rightarrow> jstr set"
  assumes registered: "dirty_ids (register i d g) = (if d then insert i (dirty_ids g) else dirty_ids g - {i})"
begin

lemma resync_tracks:
  assumes "dirty_ids g = dirty_of dirty fs" and "map_of fs i = Some f"
  shows "dirty_ids (resync register i (dirty f) (dirty f') g) = dirty_of dirty (AList.update i f' fs)"
  using assms by (auto simp: resync_def registered dirty_of_def update_conv' split: if_splits)

lemma mount_tracks_from:
  assumes "distinct (map fst fs)" and "dirty_ids g \<inter> set (map fst fs) = {}"
  shows "dirty_ids (mount_all register dirty fs g) = dirty_ids g \<union> dirty_of dirty fs"
  using assms
proof (induction fs arbitrary: g)
  case (Cons x fs)
  obtain i f where x: "x = (i, f)" by (cases x)
  have "map_of fs i = None" using Cons.prems x by (simp add: map_of_eq_None_iff)
  then have "dirty_of dirty ((i, f) # fs) = (if dirty f then {i} else {}) \<union> dirty_of dirty fs"
    by (auto simp: dirty_of_def)
  with Cons show ?case by (auto simp: x mount_all_def registered)
qed (simp add: mount_all_def dirty_of_def)

lemma mount_tracks: "distinct (map fst fs) \<Longrightarrow> dirty_ids g = {} \<Longrightarrow> dirty_ids (mount_all register dirty fs g) = dirty_of dirty fs"
  by (simp add: mount_tracks_from)

lemma others_kept: "dirty_ids (resync register i was is_dirty g) - {i} = dirty_ids g - {i}"
  by (auto simp: resync_def registered)

end

interpretation registry: dirty_register register_dirty "\<lambda>g. set (gd_dirty g)"
  by unfold_locales (simp add: register_dirty_def Let_def)

section \<open>The forms of a page\<close>

datatype mounted_form =
    Policies runtime_form
  | Captcha "captcha_draft saved_form"
  | Tracking "analytics_input saved_form"

datatype form_event =
    PoliciesEvent runtime_event
  | CaptchaEvent "(captcha_change, captcha_settings) saved_event"
  | TrackingEvent "(tracking_change, analytics_settings) saved_event"

fun mf_start :: "settings_part \<Rightarrow> mounted_form list" where
  "mf_start (PartPolicies g) = [Policies (form_start g)]"
| "mf_start PartCaptcha = [Captcha (sf_start captcha_form)]"
| "mf_start PartTracking = [Tracking (sf_start tracking_form)]"
| "mf_start _ = []"

fun mf_dirty :: "mounted_form \<Rightarrow> bool" where
  "mf_dirty (Policies s) = form_dirty s"
| "mf_dirty (Captcha s) = sf_dirty s"
| "mf_dirty (Tracking s) = sf_dirty s"

fun mf_log :: "mounted_form \<Rightarrow> effect list" where
  "mf_log (Policies s) = rf_log s"
| "mf_log (Captcha s) = sf_log s"
| "mf_log (Tracking s) = sf_log s"

fun mf_offered :: "mounted_form \<Rightarrow> form_event \<Rightarrow> bool" where
  "mf_offered (Policies s) (PoliciesEvent e) = form_offered s e"
| "mf_offered (Captcha s) (CaptchaEvent e) = sf_offered s e"
| "mf_offered (Tracking s) (TrackingEvent e) = sf_offered s e"
| "mf_offered _ _ = False"

fun mf_move :: "translator \<Rightarrow> mounted_form \<Rightarrow> form_event \<Rightarrow> mounted_form" where
  "mf_move t (Policies s) (PoliciesEvent e) = Policies (form_move t s e)"
| "mf_move t (Captcha s) (CaptchaEvent e) = Captcha (sf_move t captcha_form s e)"
| "mf_move t (Tracking s) (TrackingEvent e) = Tracking (sf_move t tracking_form s e)"
| "mf_move t f _ = f"

section \<open>The page\<close>

datatype settings_route = RouteRegistration | RouteAnalytics | RouteTraffic | RouteLinks runtime_group

fun gate_of :: "settings_route \<Rightarrow> (jstr list \<Rightarrow> settings_part list) option" where
  "gate_of RouteRegistration = Some registration_parts"
| "gate_of RouteAnalytics = Some analytics_parts"
| "gate_of _ = None"

fun open_parts :: "settings_route \<Rightarrow> settings_part list" where
  \<comment> \<open>the parts of a page that has no gate\<close>
  "open_parts RouteTraffic = traffic_parts"
| "open_parts (RouteLinks g) = links_parts g"
| "open_parts _ = []"

record guarded_page =
  gp_route :: settings_route
  gp_access :: access_state
  gp_forms :: "(jstr \<times> mounted_form) list"
  gp_guard :: guard_state

definition forms_of :: "(nat \<Rightarrow> jstr) \<Rightarrow> settings_part list \<Rightarrow> (jstr \<times> mounted_form) list" where
  "forms_of use_id parts = (let fs = concat (map mf_start parts) in zip (map use_id [0..<length fs]) fs)"

definition mount_parts :: "(nat \<Rightarrow> jstr) \<Rightarrow> settings_part list \<Rightarrow> guarded_page \<Rightarrow> guarded_page" where
  "mount_parts use_id parts p =
     (let fs = forms_of use_id parts
      in p\<lparr>gp_forms := fs, gp_guard := mount_all register_dirty mf_dirty fs (gp_guard p)\<rparr>)"

definition gate_settles :: "translator \<Rightarrow> (nat \<Rightarrow> jstr) \<Rightarrow> admin_user promise \<Rightarrow> guarded_page \<Rightarrow> guarded_page" where
  \<comment> \<open>the children of the gate mount when it first hands them scopes\<close>
  "gate_settles t use_id r p =
     (let a = access_settled t r (gp_access p); q = p\<lparr>gp_access := a\<rparr> in
      case gate_of (gp_route p) of
        None \<Rightarrow> q
      | Some parts \<Rightarrow> (if ax_scopes (gp_access p) = None then mount_parts use_id (gated parts a) q else q))"

definition form_does :: "translator \<Rightarrow> jstr \<Rightarrow> form_event \<Rightarrow> guarded_page \<Rightarrow> guarded_page" where
  "form_does t i e p =
     (case map_of (gp_forms p) i of
        None \<Rightarrow> p
      | Some f \<Rightarrow>
          let f' = mf_move t f e
          in p\<lparr>gp_forms := AList.update i f' (gp_forms p),
               gp_guard := resync register_dirty i (mf_dirty f) (mf_dirty f') (gp_guard p)\<rparr>)"

datatype page_event =
    GateSettles "admin_user promise" | GateRetry | FormDoes jstr form_event | GuardDoes guard_event

fun by_user :: "guard_event \<Rightarrow> bool" where
  \<comment> \<open>only the forms register; the rest is the visitor's\<close>
  "by_user (RegisterDirty _ _) = False"
| "by_user _ = True"

fun page_offered :: "guarded_page \<Rightarrow> page_event \<Rightarrow> bool" where
  "page_offered p (GateSettles _) \<longleftrightarrow> ax_pending (gp_access p) > 0"
| "page_offered p GateRetry \<longleftrightarrow> (case access_panel_of (gp_access p) of AccessError _ \<Rightarrow> True | _ \<Rightarrow> False)"
| "page_offered p (FormDoes i e) \<longleftrightarrow> (case map_of (gp_forms p) i of None \<Rightarrow> False | Some f \<Rightarrow> mf_offered f e)"
| "page_offered p (GuardDoes e) \<longleftrightarrow> by_user e \<and> guard_offered (gp_guard p) e"

fun page_move :: "translator \<Rightarrow> (nat \<Rightarrow> jstr) \<Rightarrow> guarded_page \<Rightarrow> page_event \<Rightarrow> guarded_page" where
  "page_move t use_id p (GateSettles r) = gate_settles t use_id r p"
| "page_move t use_id p GateRetry = p\<lparr>gp_access := access_load (gp_access p)\<rparr>"
| "page_move t use_id p (FormDoes i e) = form_does t i e p"
| "page_move t use_id p (GuardDoes e) = p\<lparr>gp_guard := guard_move (gp_guard p) e\<rparr>"

definition page_start :: "(nat \<Rightarrow> jstr) \<Rightarrow> settings_route \<Rightarrow> parsed_url \<Rightarrow> guarded_page" where
  "page_start use_id route here =
     mount_parts use_id (open_parts route)
       \<lparr>gp_route = route,
        gp_access = (if gate_of route = None then id else access_load) \<lparr>ax_scopes = None, ax_error = [], ax_pending = 0\<rparr>,
        gp_forms = [], gp_guard = guard_start here\<rparr>"

section \<open>What every page keeps\<close>

fun mf_good :: "mounted_form \<Rightarrow> bool" where
  \<comment> \<open>what each form keeps on its own, with the rule for its requests\<close>
  "mf_good (Policies s) \<longleftrightarrow> form_inv (rf_group s) s \<and> list_all (group_patch (rf_group s)) (rf_log s)"
| "mf_good (Captcha s) \<longleftrightarrow> sf_inv no_secret s \<and> list_all captcha_effect (sf_log s)"
| "mf_good (Tracking s) \<longleftrightarrow> sf_inv (\<lambda>_. True) s \<and> list_all tracking_effect (sf_log s)"

fun mf_scope :: "mounted_form \<Rightarrow> jstr" where
  "mf_scope (Policies _) = js ''settings:manage''"
| "mf_scope (Captcha _) = js ''captcha:manage''"
| "mf_scope (Tracking _) = js ''analytics:manage''"

fun call_scope :: "api_call \<Rightarrow> jstr option" where
  \<comment> \<open>the scope the API asks for, of the calls the forms make\<close>
  "call_scope GetRuntime = Some (js ''settings:manage'')"
| "call_scope (PatchRuntime _ _) = Some (js ''settings:manage'')"
| "call_scope GetCaptcha = Some (js ''captcha:manage'')"
| "call_scope (UpdateCaptcha _) = Some (js ''captcha:manage'')"
| "call_scope GetAnalytics = Some (js ''analytics:manage'')"
| "call_scope (UpdateAnalytics _) = Some (js ''analytics:manage'')"
| "call_scope _ = None"

lemma mf_start_good: "f \<in> set (mf_start part) \<Longrightarrow> mf_good f \<and> part_scope part = Some (mf_scope f)"
  using form_start_inv captcha.start_inv captcha.start_log tracking.start_inv tracking.start_log
  by (cases part) (auto simp: form_start_def form_load_def group_patch_def form_inv_def)

lemma mf_move_good:
  assumes "mf_good f" and "mf_offered f e"
  shows "mf_good (mf_move t f e)"
proof (cases "(f, e)" rule: mf_offered.cases)
  case (1 s ev)
  let ?g = "rf_group s"
  have inv: "form_inv ?g s" and off: "form_offered s ev" and l: "list_all (group_patch ?g) (rf_log s)" using assms 1 by simp_all
  have "form_inv ?g (form_move t s ev)" using inv off by (rule form_move_inv)
  moreover have "list_all (group_patch ?g) (rf_log (form_move t s ev))" using inv off l by (rule runtime_page.log_move)
  moreover have "rf_group (form_move t s ev) = ?g" using calculation(1) by (simp add: form_inv_def)
  ultimately show ?thesis using 1 by simp
next
  case (2 s ev)
  with assms show ?thesis by (simp add: captcha.move_inv captcha.move_log)
next
  case (3 s ev)
  with assms show ?thesis by (simp add: tracking.move_inv tracking.move_log)
qed (use assms in auto)

lemma mf_move_scope [simp]: "mf_scope (mf_move t f e) = mf_scope f"
  by (cases "(t, f, e)" rule: mf_move.cases) simp_all

lemma good_calls:
  assumes "mf_good f" and "Call c \<in> set (mf_log f)"
  shows "call_scope c = Some (mf_scope f)"
  using assms
proof (cases f)
  case (Policies s)
  then have "group_patch (rf_group s) (Call c)" using assms by (auto simp: list_all_iff)
  with Policies show ?thesis by (cases c) (simp_all add: group_patch_def)
next
  case (Captcha s)
  then have "captcha_effect (Call c)" using assms by (auto simp: list_all_iff)
  with Captcha show ?thesis by (cases c) simp_all
next
  case (Tracking s)
  then have "tracking_effect (Call c)" using assms by (auto simp: list_all_iff)
  with Tracking show ?thesis by (cases c) simp_all
qed

definition access_inv :: "access_state \<Rightarrow> bool" where
  "access_inv a \<longleftrightarrow>
     ax_pending a \<le> 1 \<and> (ax_pending a = 1 \<longrightarrow> ax_error a = [] \<and> ax_scopes a = None) \<and> (ax_scopes a \<noteq> None \<longrightarrow> ax_error a = [])"

lemma access_settled_inv: "access_inv a \<Longrightarrow> ax_pending a > 0 \<Longrightarrow> access_inv (access_settled t r a)"
  by (auto simp: access_inv_def access_settled_def split: sum.splits)

lemma access_retry_inv: "access_inv a \<Longrightarrow> access_panel_of a = AccessError e \<Longrightarrow> access_inv (access_load a)"
  by (auto simp: access_inv_def access_load_def access_panel_of_def split: if_splits option.splits)

definition form_allowed :: "settings_route \<Rightarrow> access_state \<Rightarrow> mounted_form \<Rightarrow> bool" where
  "form_allowed route a f \<longleftrightarrow>
     gate_of route = None \<or> (\<exists>scopes. access_panel_of a = AccessGranted scopes \<and> mf_scope f \<in> set scopes)"

definition page_inv :: "settings_route \<Rightarrow> parsed_url \<Rightarrow> guarded_page \<Rightarrow> bool" where
  "page_inv route here p \<longleftrightarrow>
     gp_route p = route \<and> access_inv (gp_access p) \<and> guard_inv here (gp_guard p) \<and>
     set (gd_dirty (gp_guard p)) = dirty_of mf_dirty (gp_forms p) \<and> distinct (map fst (gp_forms p)) \<and>
     (gate_of route \<noteq> None \<and> ax_scopes (gp_access p) = None \<longrightarrow> gp_forms p = []) \<and>
     (\<forall>f \<in> snd ` set (gp_forms p). mf_good f \<and> form_allowed route (gp_access p) f)"

lemma mount_all_guard: "guard_inv here g \<Longrightarrow> guard_inv here (mount_all register_dirty dirty fs g)"
  by (induction fs arbitrary: g) (auto simp: mount_all_def register_dirty_inv)

lemma resync_guard: "guard_inv here g \<Longrightarrow> guard_inv here (resync register_dirty i was now g)"
  by (simp add: resync_def register_dirty_inv)

lemma forms_of_keys: "map fst (forms_of use_id parts) = map use_id [0..<length (concat (map mf_start parts))]"
  by (simp add: forms_of_def Let_def)

lemma forms_of_snd: "snd ` set (forms_of use_id parts) = set (concat (map mf_start parts))"
proof -
  have "map snd (forms_of use_id parts) = concat (map mf_start parts)" by (simp add: forms_of_def Let_def)
  then show ?thesis by (metis set_map)
qed

lemma mount_parts_inv:
  assumes "inj use_id" and "guard_inv here (gp_guard p)" and "gd_dirty (gp_guard p) = []" and "gp_route p = route"
    and "access_inv (gp_access p)" and "gate_of route \<noteq> None \<and> ax_scopes (gp_access p) = None \<longrightarrow> parts = []"
    and "\<And>f. f \<in> set (concat (map mf_start parts)) \<Longrightarrow> form_allowed route (gp_access p) f"
  shows "page_inv route here (mount_parts use_id parts p)"
proof -
  let ?fs = "forms_of use_id parts"
  have d: "distinct (map fst ?fs)"
    unfolding forms_of_keys using inj_on_subset [OF assms(1) subset_UNIV] by (simp add: distinct_map)
  have g: "guard_inv here (mount_all register_dirty mf_dirty ?fs (gp_guard p))" by (rule mount_all_guard [OF assms(2)])
  have "set (gd_dirty (mount_all register_dirty mf_dirty ?fs (gp_guard p))) = dirty_of mf_dirty ?fs"
    using registry.mount_tracks [OF d, of "gp_guard p" mf_dirty] assms(3) by simp
  moreover have "\<forall>f \<in> snd ` set ?fs. mf_good f \<and> form_allowed route (gp_access p) f"
    unfolding forms_of_snd using assms(7) mf_start_good by auto
  moreover have "parts = [] \<Longrightarrow> ?fs = []" by (simp add: forms_of_def)
  ultimately show ?thesis
    using assms d g by (auto simp: page_inv_def mount_parts_def Let_def)
qed

lemma page_start_inv:
  assumes "inj use_id"
  shows "page_inv route here (page_start use_id route here)"
proof -
  have "route = RouteRegistration \<or> route = RouteAnalytics \<Longrightarrow> open_parts route = []" by auto
  moreover have "gate_of route \<noteq> None \<longleftrightarrow> route = RouteRegistration \<or> route = RouteAnalytics" by (cases route) simp_all
  ultimately show ?thesis
    unfolding page_start_def
    by (intro mount_parts_inv [OF assms])
      (auto simp: guard_inv_def guard_start_def access_inv_def access_load_def form_allowed_def)
qed

lemma gated_allowed:
  assumes "gate_of route = Some parts" and "f \<in> set (concat (map mf_start (gated parts a)))"
  shows "form_allowed route a f"
proof -
  obtain scopes where g: "access_panel_of a = AccessGranted scopes"
    using assms(2) by (cases "access_panel_of a") (simp_all add: gated_def)
  then obtain part where "part \<in> set (parts scopes)" "f \<in> set (mf_start part)" using assms(2) by (auto simp: gated_def)
  moreover have "parts = registration_parts \<or> parts = analytics_parts" using assms(1) by (cases route) auto
  ultimately have "mf_scope f \<in> set scopes"
    by (auto simp: registration_parts_def analytics_parts_def put_def split: if_splits)
  with g show ?thesis by (simp add: form_allowed_def)
qed

lemma gate_settles_inv:
  assumes "inj use_id" and inv: "page_inv route here p" and off: "ax_pending (gp_access p) > 0"
  shows "page_inv route here (gate_settles t use_id r p)"
proof -
  let ?a = "access_settled t r (gp_access p)"
  have a: "access_inv ?a" and none: "ax_scopes (gp_access p) = None"
    using inv off access_settled_inv by (auto simp: page_inv_def access_inv_def)
  show ?thesis
  proof (cases "gate_of (gp_route p)")
    case None
    then show ?thesis using inv a by (simp add: gate_settles_def Let_def page_inv_def form_allowed_def)
  next
    case (Some parts)
    have route: "gp_route p = route" using inv by (simp add: page_inv_def)
    have "gp_forms p = []" using inv none Some by (simp add: page_inv_def)
    then have "gd_dirty (gp_guard p) = []" using inv by (simp add: page_inv_def dirty_of_def)
    moreover have "ax_scopes ?a = None \<Longrightarrow> gated parts ?a = []" by (simp add: gated_def access_panel_of_def)
    moreover have "gate_settles t use_id r p = mount_parts use_id (gated parts ?a) (p\<lparr>gp_access := ?a\<rparr>)"
      using Some none by (simp add: gate_settles_def Let_def)
    moreover have "page_inv route here (mount_parts use_id (gated parts ?a) (p\<lparr>gp_access := ?a\<rparr>))"
    proof (rule mount_parts_inv [OF assms(1)])
      show "form_allowed route (gp_access (p\<lparr>gp_access := ?a\<rparr>)) f" if "f \<in> set (concat (map mf_start (gated parts ?a)))" for f
        using gated_allowed [OF _ that] Some route by simp
    qed (use inv a calculation route in \<open>simp_all add: page_inv_def\<close>)
    ultimately show ?thesis by simp
  qed
qed

lemma form_does_inv:
  assumes inv: "page_inv route here p" and f: "map_of (gp_forms p) i = Some f" and off: "mf_offered f e"
  shows "page_inv route here (form_does t i e p)"
proof -
  let ?f = "mf_move t f e"
  have "f \<in> snd ` set (gp_forms p)" using map_of_SomeD [OF f] by force
  then have good: "mf_good ?f" "form_allowed route (gp_access p) ?f"
    using inv off mf_move_good by (auto simp: page_inv_def form_allowed_def)
  have "set (gd_dirty (resync register_dirty i (mf_dirty f) (mf_dirty ?f) (gp_guard p))) =
      dirty_of mf_dirty (AList.update i ?f (gp_forms p))"
    using inv f by (intro registry.resync_tracks) (simp_all add: page_inv_def)
  moreover have "\<forall>h \<in> snd ` set (AList.update i ?f (gp_forms p)). mf_good h \<and> form_allowed route (gp_access p) h"
    using inv good set_update_subset [of i ?f "gp_forms p"] by (fastforce simp: page_inv_def)
  moreover have "gp_forms p \<noteq> []" using f by auto
  ultimately show ?thesis
    using inv f good resync_guard [of here "gp_guard p" i "mf_dirty f" "mf_dirty ?f"]
    by (auto simp: page_inv_def form_does_def Let_def distinct_update)
qed

lemma guard_does_inv: "page_inv route here p \<Longrightarrow> by_user e \<Longrightarrow> page_inv route here (p\<lparr>gp_guard := guard_move (gp_guard p) e\<rparr>)"
  by (cases e) (auto simp: page_inv_def guard_inv_def follow_link_fields discard_fields keep_editing_def)

lemma page_react: "inj use_id \<Longrightarrow> react_page (page_start use_id route here) page_offered (page_move t use_id) (page_inv route here)"
proof
  assume inj: "inj use_id"
  show "page_inv route here (page_start use_id route here)" using inj by (rule page_start_inv)
  show "page_inv route here (page_move t use_id p e)" if inv: "page_inv route here p" and off: "page_offered p e" for p e
  proof (cases e)
    case (GateSettles r)
    then show ?thesis using gate_settles_inv [OF inj inv] off by simp
  next
    case GateRetry
    then have "access_inv (access_load (gp_access p))" "ax_scopes (access_load (gp_access p)) = ax_scopes (gp_access p)"
      "\<not> (\<exists>sc. access_panel_of (gp_access p) = AccessGranted sc)"
      using inv off access_retry_inv by (auto simp: page_inv_def access_load_def split: access_panel.splits)
    then show ?thesis using inv GateRetry by (auto simp: page_inv_def form_allowed_def)
  next
    case (FormDoes i ev)
    then show ?thesis using form_does_inv [OF inv] off by (auto split: option.splits)
  next
    case (GuardDoes ev)
    then show ?thesis using guard_does_inv [OF inv] off by simp
  qed
qed

lemmas page_reachable_inv = react_page.reachable_inv [OF page_react]

section \<open>Properties\<close>

lemma some_dirty: "distinct (map fst fs) \<Longrightarrow> dirty_of dirty fs \<noteq> {} \<longleftrightarrow> (\<exists>f \<in> snd ` set fs. dirty f)"
proof -
  assume "distinct (map fst fs)"
  then have "dirty_of dirty fs = {i. \<exists>f. (i, f) \<in> set fs \<and> dirty f}" by (simp add: dirty_of_def)
  then show "dirty_of dirty fs \<noteq> {} \<longleftrightarrow> (\<exists>f \<in> snd ` set fs. dirty f)" by force
qed

lemma leaving_held: "guard_inv here s \<Longrightarrow> leaves_page here c href \<Longrightarrow> leaving s c = (if gd_dirty s = [] then None else Some href)"
proof -
  have "to_lower (js ''_self'') = js ''_self''" by code_simp
  then show "guard_inv here s \<Longrightarrow> leaves_page here c href \<Longrightarrow> leaving s c = (if gd_dirty s = [] then None else Some href)"
    by (auto simp: leaving_def leaves_page_def guard_inv_def)
qed

lemma guard_answers:
  assumes "guard_inv here g" and "leaves_page here c href"
  shows "snd (follow_link g c) \<longleftrightarrow> gd_dirty g \<noteq> []" and "unload_prevented g \<longleftrightarrow> gd_dirty g \<noteq> []"
    and "gd_dirty g \<noteq> [] \<Longrightarrow> gd_pending (fst (follow_link g c)) = Some (case gd_pending g of None \<Rightarrow> href | Some h \<Rightarrow> h)"
  using assms leaving_held [OF assms] by (auto simp: follow_link_def guard_inv_def unload_prevented_def split: option.splits)

text \<open>C6 The guard and the forms of a page agree: in every reachable state of a settings page a plain click
  that would leave it is held back, and closing the tab too, exactly when some form on the page has
  unsaved edits; a confirmation that is open keeps its destination and the click navigates nowhere;
  and nothing one form does, a save included, lets go of the page while another form is dirty.\<close>
theorem page_guard_exact:
  assumes "inj use_id" and "reachable (page_start use_id route here) page_offered (page_move t use_id) p"
    and "leaves_page here c href"
  shows "(snd (follow_link (gp_guard p) c) \<longleftrightarrow> (\<exists>f \<in> snd ` set (gp_forms p). mf_dirty f)) \<and>
    (unload_prevented (gp_guard p) \<longleftrightarrow> (\<exists>f \<in> snd ` set (gp_forms p). mf_dirty f)) \<and>
    gd_log (fst (follow_link (gp_guard p) c)) = gd_log (gp_guard p) \<and>
    (snd (follow_link (gp_guard p) c) \<longrightarrow>
       gd_pending (fst (follow_link (gp_guard p) c)) = Some (case gd_pending (gp_guard p) of None \<Rightarrow> href | Some h \<Rightarrow> h)) \<and>
    (\<forall>i e j f. page_offered p (FormDoes i e) \<and> map_of (gp_forms p) j = Some f \<and> i \<noteq> j \<and> mf_dirty f \<longrightarrow>
       snd (follow_link (gp_guard (page_move t use_id p (FormDoes i e))) c))"
proof -
  have inv: "page_inv route here p" using page_reachable_inv [OF assms(1,2)] .
  then have g: "guard_inv here (gp_guard p)" and d: "gd_dirty (gp_guard p) \<noteq> [] \<longleftrightarrow> (\<exists>f \<in> snd ` set (gp_forms p). mf_dirty f)"
    using some_dirty [of "gp_forms p" mf_dirty] by (auto simp: page_inv_def)
  have "snd (follow_link (gp_guard (page_move t use_id p (FormDoes i e))) c)"
    if "page_offered p (FormDoes i e)" "map_of (gp_forms p) j = Some f" "i \<noteq> j" "mf_dirty f" for i e j f
  proof -
    let ?q = "page_move t use_id p (FormDoes i e)"
    have q: "page_inv route here ?q" using react_page.inv_move [OF page_react [OF assms(1)] inv that(1)] .
    have "map_of (gp_forms ?q) j = Some f" using that by (simp add: form_does_def Let_def update_conv' split: option.splits)
    then have "j \<in> dirty_of mf_dirty (gp_forms ?q)" using that(4) unfolding dirty_of_def by blast
    then have "gd_dirty (gp_guard ?q) \<noteq> []" using q unfolding page_inv_def by force
    then show ?thesis using q guard_answers(1) [OF _ assms(3), of "gp_guard ?q"] by (auto simp: page_inv_def)
  qed
  with guard_answers [OF g assms(3)] d follow_link_fields(4) [of "gp_guard p" c] show ?thesis by blast
qed


section \<open>Witnesses\<close>

definition sample_id :: "nat \<Rightarrow> jstr" where "sample_id n = replicate n 97"

lemma sample_id_inj: "inj sample_id"
  by (auto simp: inj_def sample_id_def dest: arg_cong [of _ _ length])

definition sample_account :: admin_user where
  "sample_account = \<lparr>au_id = None, au_username = js ''u'', au_role = None, au_scopes = Some [js ''settings:manage'', js ''captcha:manage''],
     au_unrestricted = None, au_mfa_enabled = None, au_display_name = None\<rparr>"

definition sample_page_events :: "page_event list" where
  "sample_page_events =
     [GateSettles (Inr sample_account),
      FormDoes (sample_id 1) (CaptchaEvent (SfLoadSettles (Inr stored_captcha))),
      FormDoes (sample_id 1) (CaptchaEvent (SfEdit (SecretTo (js ''x''))))]"

definition sample_page :: guarded_page where
  "sample_page = foldl (page_move (t_for (js ''en'')) sample_id)
     (page_start sample_id RouteRegistration (sample_url ''/home/settings/registration'')) sample_page_events"

lemma sample_page_run:
  "runs page_offered (page_move (t_for (js ''en'')) sample_id)
     (page_start sample_id RouteRegistration (sample_url ''/home/settings/registration'')) sample_page_events = Some sample_page"
  "map_of (gp_forms sample_page) (sample_id 0) = Some (Policies (form_start GRegistration))"
  "\<exists>s. map_of (gp_forms sample_page) (sample_id 1) = Some (Captcha s) \<and> sf_dirty s \<and> Call GetCaptcha \<in> set (sf_log s)"
  unfolding sample_page_def
  by (simp_all add: sample_page_events_def page_start_def mount_parts_def Let_def forms_of_def mount_all_def access_load_def
      gate_settles_def gated_def access_settled_def access_panel_of_def sample_account_def registration_parts_def put_def
      holds_def some_scope_def form_does_def sample_id_def sf_start_def sf_handlers sf_shown_def sf_dirty_def
      captcha_form_def captcha_draft_of_def stored_captcha_def)

lemmas sample_page_reachable = runs_from_start [OF sample_page_run(1)]

definition sample_click :: mouse_click where
  "sample_click = \<lparr>mc_prevented = False, mc_button = 0, mc_modifier = False,
     mc_anchor = Some \<lparr>ca_download = False, ca_target = [], ca_url = Some (sample_url ''/home'')\<rparr>\<rparr>"

theorem page_guard_exact_witness:
  "snd (follow_link (gp_guard sample_page) sample_click) \<and> unload_prevented (gp_guard sample_page)"
proof -
  have "leaves_page (sample_url ''/home/settings/registration'') sample_click (js ''https://a.example/home'')"
    by (simp add: leaves_page_def sample_click_def sample_url_def)
  moreover obtain s where "map_of (gp_forms sample_page) (sample_id 1) = Some (Captcha s)" "sf_dirty s"
    using sample_page_run(3) by blast
  then have "\<exists>f \<in> snd ` set (gp_forms sample_page). mf_dirty f" by (force dest: map_of_SomeD)
  ultimately show ?thesis using page_guard_exact [OF sample_id_inj sample_page_reachable] by blast
qed


end
