(* ===== verification/Widgets.thy ===== *)
theory Widgets
  imports Page_Model
begin

text \<open>
  Controls that pages share: the duration field of the policies
  (\<open>web/src/components/rare/duration-field.tsx\<close>), the dialog with its focus trap
  (\<open>ui/rare/dialog.tsx\<close>), the sidebar (\<open>ui/rare/bounce-sidebar.tsx\<close>), the tab bar
  (\<open>ui/rare/gooey-nav.tsx\<close>) and the counter (\<open>ui/rare/animated-counter.tsx\<close>).
\<close>

section \<open>Durations\<close>

definition duration_units :: "int list" where
  "duration_units = [86400, 3600, 60, 1]"

definition initial_unit :: "jstr \<Rightarrow> int" where
  \<comment> \<open>the largest unit the value is a multiple of\<close>
  "initial_unit v =
     (case js_number v of
        JFin q \<Rightarrow>
          (case find (\<lambda>u. of_int u \<le> q \<and> q = of_int \<lfloor>q / of_int u\<rfloor> * of_int u) duration_units of
             Some u \<Rightarrow> u | None \<Rightarrow> 1)
      | _ \<Rightarrow> 1)"

definition shown_amount :: "int \<Rightarrow> jstr \<Rightarrow> jnum option" where
  \<comment> \<open>what the field shows; \<open>None\<close> is the empty field\<close>
  "shown_amount u v =
     (if v = [] then None
      else Some (case js_number v of
                   JFin q \<Rightarrow> to_double (q < 0) (\<bar>q\<bar> / of_int u)
                 | other \<Rightarrow> other))"

definition typed_seconds :: "int \<Rightarrow> jstr \<Rightarrow> jstr" where
  \<comment> \<open>\<open>Math.round\<close> of the product, rendered; below \<open>10 ^ 21\<close> a rendered integer has no exponent\<close>
  "typed_seconds u typed =
     (if typed = [] then []
      else (case js_number typed of
              JFin q \<Rightarrow>
                (case to_double (q < 0) (\<bar>q\<bar> * of_int u) of
                   JFin p \<Rightarrow> js_of_int \<lfloor>p + 1 / 2\<rfloor>
                 | JInf neg \<Rightarrow> (if neg then js ''-Infinity'' else js ''Infinity'')
                 | JNaN \<Rightarrow> js ''NaN'')
            | JInf neg \<Rightarrow> (if neg then js ''-Infinity'' else js ''Infinity'')
            | JNaN \<Rightarrow> js ''NaN''))"

text \<open>The field opens in a unit its value is a multiple of, so what it shows is a whole number, and typing
  that number back gives the same seconds.\<close>

lemma initial_unit_divides:
  assumes "0 < n" "n < 2 ^ 53"
  shows "initial_unit (js_of_int n) \<in> set duration_units" "initial_unit (js_of_int n) dvd n"
proof -
  have num: "js_number (js_of_int n) = JFin (of_int n)"
    by (rule js_number_of_int) (use assms in simp)
  let ?P = "\<lambda>u :: int. rat_of_int u \<le> of_int n \<and> rat_of_int n = of_int \<lfloor>rat_of_int n / of_int u\<rfloor> * of_int u"
  have "?P 1" using assms(1) by simp
  moreover have "1 \<in> set duration_units" by (simp add: duration_units_def)
  ultimately obtain u where u: "find ?P duration_units = Some u"
    using find_None_iff [of ?P duration_units] by (cases "find ?P duration_units") blast+
  then have "?P u" "u \<in> set duration_units" by (auto simp: find_Some_iff)
  moreover from \<open>?P u\<close> have "n = \<lfloor>rat_of_int n / of_int u\<rfloor> * u"
    by (metis of_int_eq_iff of_int_mult)
  then have "u dvd n" by (metis dvd_triv_right)
  ultimately show "initial_unit (js_of_int n) \<in> set duration_units" "initial_unit (js_of_int n) dvd n"
    using num u by (simp_all add: initial_unit_def)
qed

lemma duration_round_trip:
  assumes "0 < n" "n < 2 ^ 53" and u: "u = initial_unit (js_of_int n)"
  shows "shown_amount u (js_of_int n) = Some (JFin (of_int (n div u)))" "typed_seconds u (js_of_int (n div u)) = js_of_int n"
proof -
  have "u \<in> set duration_units" and dvd: "u dvd n" using initial_unit_divides [OF assms(1,2)] u by auto
  then have pos: "0 < u" by (auto simp: duration_units_def)
  obtain k where n: "n = u * k" using dvd by blast
  have k: "n div u = k" "0 < k" "k \<le> n" using n pos assms(1) by (auto simp: zero_less_mult_iff)
  have num: "js_number (js_of_int n) = JFin (of_int n)" "js_number (js_of_int k) = JFin (of_int k)"
    by (rule js_number_of_int; use assms k in simp)+
  have k_nat: "rat_of_int k = of_nat (nat k)" and n_nat: "rat_of_int n = of_nat (nat n)" using k assms(1) by simp_all
  have "to_double False (rat_of_int k) = JFin (of_int k)" "to_double False (rat_of_int n) = JFin (of_int n)"
    unfolding k_nat n_nat by (subst to_double_nat; use k assms in simp)+
  moreover have "rat_of_int n / of_int u = of_int k" "rat_of_int k * of_int u = of_int n" using n pos by simp_all
  moreover have "\<lfloor>rat_of_int n + 1 / 2\<rfloor> = n" by (simp add: floor_eq_iff)
  ultimately show "shown_amount u (js_of_int n) = Some (JFin (of_int (n div u)))" "typed_seconds u (js_of_int (n div u)) = js_of_int n"
    using num k assms(1) by (simp_all add: shown_amount_def typed_seconds_def js_of_int_ne)
qed

section \<open>The dialog\<close>

datatype dialog_key = KeyEscape | KeyTab bool | OtherKey \<comment> \<open>the flag: shift is held\<close>

datatype dialog_focus = OnElement nat | OnDialog

datatype key_result = Closes | Moves dialog_focus | Browser
  \<comment> \<open>\<open>Browser\<close>: the listener leaves the key to the browser\<close>

definition dialog_key_down :: "nat \<Rightarrow> dialog_focus \<Rightarrow> dialog_key \<Rightarrow> key_result" where
  \<comment> \<open>with \<open>n\<close> elements that can be focused\<close>
  "dialog_key_down n focus key =
     (case key of
        KeyEscape \<Rightarrow> Closes
      | OtherKey \<Rightarrow> Browser
      | KeyTab shift \<Rightarrow>
          if n = 0 then Moves OnDialog
          else if shift \<and> focus = OnElement 0 then Moves (OnElement (n - 1))
          else if \<not> shift \<and> focus = OnElement (n - 1) then Moves (OnElement 0)
          else Browser)"

definition tab_moves :: "nat \<Rightarrow> bool \<Rightarrow> nat \<Rightarrow> dialog_focus" where
  \<comment> \<open>the browser goes to the next or the previous element; the listener covers the two ends\<close>
  "tab_moves n shift i =
     (case dialog_key_down n (OnElement i) (KeyTab shift) of
        Moves f \<Rightarrow> f
      | _ \<Rightarrow> OnElement (if shift then i - 1 else i + 1))"

lemma focus_stays_inside:
  assumes "i < n"
  shows "tab_moves n shift i = OnElement (nat ((int i + (if shift then - 1 else 1)) mod int n))"
proof (cases shift)
  case True
  show ?thesis
  proof (cases i)
    case 0
    then have "nat ((int i - 1) mod int n) = n - 1"
      using assms by (simp add: zmod_minus1)
    with True 0 assms show ?thesis by (simp add: tab_moves_def dialog_key_down_def)
  next
    case (Suc j)
    then have "(int i - 1) mod int n = int j" using assms by simp
    with True Suc assms show ?thesis by (simp add: tab_moves_def dialog_key_down_def)
  qed
next
  case False
  show ?thesis
  proof (cases "i = n - 1")
    case True
    then have "(int i + 1) mod int n = 0" using assms by (simp add: of_nat_diff)
    with False True assms show ?thesis by (simp add: tab_moves_def dialog_key_down_def)
  next
    case neq: False
    then have "(int i + 1) mod int n = int (i + 1)" using assms by simp
    with False neq assms show ?thesis by (simp add: tab_moves_def dialog_key_down_def nat_add_distrib)
  qed
qed

text \<open>What the effect of the dialog does to the document around it: it remembers the focus and the scrolling of
  the body, locks the scrolling, and asks for a frame to focus its close button; its cleanup puts
  both back. The effect depends on \<open>onClose\<close>, so a parent that passes a new function on every render
  makes it start over.\<close>

record dialog_document =
  dd_focus :: nat \<comment> \<open>the focused element\<close>
  dd_overflow :: jstr
  dd_open :: "(nat \<times> nat \<times> jstr) list" \<comment> \<open>of each open dialog the focus and the scrolling it found\<close>
  dd_frames :: "nat list"

definition dialog_effect :: "nat \<Rightarrow> dialog_document \<Rightarrow> dialog_document" where
  "dialog_effect d s =
     s\<lparr>dd_open := (d, dd_focus s, dd_overflow s) # dd_open s, dd_overflow := js ''hidden'', dd_frames := dd_frames s @ [d]\<rparr>"

definition dialog_cleanup :: "nat \<Rightarrow> dialog_document \<Rightarrow> dialog_document" where
  "dialog_cleanup d s =
     (case map_of (dd_open s) d of
        None \<Rightarrow> s
      | Some (focus, overflow) \<Rightarrow>
          s\<lparr>dd_frames := removeAll d (dd_frames s), dd_overflow := overflow, dd_focus := focus,
            dd_open := AList.delete d (dd_open s)\<rparr>)"

datatype dialog_event = DialogOpens nat | DialogCloses nat | DialogRerenders nat | FrameRuns nat | FocusGoes nat

fun dialog_offered :: "dialog_document \<Rightarrow> dialog_event \<Rightarrow> bool" where
  "dialog_offered s (DialogOpens d) \<longleftrightarrow> map_of (dd_open s) d = None"
| "dialog_offered s (DialogCloses d) \<longleftrightarrow> map_of (dd_open s) d \<noteq> None"
| "dialog_offered s (DialogRerenders d) \<longleftrightarrow> map_of (dd_open s) d \<noteq> None"
| "dialog_offered s (FrameRuns d) \<longleftrightarrow> d \<in> set (dd_frames s)"
| "dialog_offered s (FocusGoes e) \<longleftrightarrow> True"

fun dialog_move :: "(nat \<Rightarrow> nat) \<Rightarrow> dialog_document \<Rightarrow> dialog_event \<Rightarrow> dialog_document" where
  \<comment> \<open>\<open>close_of d\<close> is the close button of a dialog\<close>
  "dialog_move close_of s (DialogOpens d) = dialog_effect d s"
| "dialog_move close_of s (DialogCloses d) = dialog_cleanup d s"
| "dialog_move close_of s (DialogRerenders d) = dialog_effect d (dialog_cleanup d s)"
| "dialog_move close_of s (FrameRuns d) = s\<lparr>dd_focus := close_of d, dd_frames := remove1 d (dd_frames s)\<rparr>"
| "dialog_move close_of s (FocusGoes e) = s\<lparr>dd_focus := e\<rparr>"

lemma dialog_saved:
  assumes "e \<noteq> DialogCloses d" and "map_of (dd_open s) d = Some saved" and "dialog_offered s e"
  shows "map_of (dd_open (dialog_move close_of s e)) d = Some saved"
  using assms
  by (cases e) (auto simp: dialog_effect_def dialog_cleanup_def delete_conv' split: option.splits)

lemma dialog_saved_run:
  "DialogCloses d \<notin> set es \<Longrightarrow> map_of (dd_open s) d = Some saved \<Longrightarrow> runs dialog_offered (dialog_move close_of) s es = Some s' \<Longrightarrow>
   map_of (dd_open s') d = Some saved"
proof (induction es arbitrary: s)
  case (Cons e es)
  then have "map_of (dd_open (dialog_move close_of s e)) d = Some saved" by (intro dialog_saved) (auto split: if_splits)
  with Cons show ?case by (auto split: if_splits)
qed simp

text \<open>Opening and closing a dialog is a round trip: whatever happens while it is open, closing it gives the document
  the focus and the scrolling it had when the dialog opened, and cancels its frame.\<close>

lemma dialog_round_trip:
  assumes "dialog_offered s (DialogOpens d)" and "DialogCloses d \<notin> set es"
    and "runs dialog_offered (dialog_move close_of) (dialog_move close_of s (DialogOpens d)) es = Some s'"
  defines "after \<equiv> dialog_move close_of s' (DialogCloses d)"
  shows "dialog_offered s' (DialogCloses d)" "dd_focus after = dd_focus s" "dd_overflow after = dd_overflow s"
    "map_of (dd_open after) d = None" "d \<notin> set (dd_frames after)"
proof -
  have "map_of (dd_open s') d = Some (dd_focus s, dd_overflow s)"
    by (rule dialog_saved_run [OF assms(2) _ assms(3)]) (simp add: dialog_effect_def)
  then show "dialog_offered s' (DialogCloses d)" "dd_focus after = dd_focus s" "dd_overflow after = dd_overflow s"
    "map_of (dd_open after) d = None" "d \<notin> set (dd_frames after)"
    by (simp_all add: after_def dialog_cleanup_def delete_conv')
qed

text \<open>Two dialogs must not close out of order: when the first closes before the second, the body stays locked
  after both are gone. And a dialog whose parent renders again takes the focus away from what its
  user was at: first behind the dialog, then to the close button.\<close>

lemma overlapping_dialogs_lock:
  assumes "d \<noteq> e" and "dd_open s = []"
  shows "dd_overflow (foldl (dialog_move close_of) s [DialogOpens d, DialogOpens e, DialogCloses d, DialogCloses e]) = js ''hidden''"
  using assms by (simp add: dialog_effect_def dialog_cleanup_def)

lemma rerender_moves_focus:
  assumes "map_of (dd_open s) d = Some (f, overflow)"
  shows "dd_focus (dialog_move close_of s (DialogRerenders d)) = f"
    and "dd_focus (foldl (dialog_move close_of) s [DialogRerenders d, FrameRuns d]) = close_of d"
  using assms by (simp_all add: dialog_effect_def dialog_cleanup_def)

section \<open>The code block\<close>

record code_block =
  ck_copied :: bool
  ck_pending :: nat
  ck_timers :: nat \<comment> \<open>timeouts that will take the label back; none is ever cleared\<close>
  ck_log :: "effect list"

datatype code_event = PressCopyCode | CodeCopied | CodeNotCopied | CodeTimer

fun code_offered :: "code_block \<Rightarrow> code_event \<Rightarrow> bool" where
  "code_offered s PressCopyCode \<longleftrightarrow> True"
| "code_offered s CodeCopied \<longleftrightarrow> 0 < ck_pending s"
| "code_offered s CodeNotCopied \<longleftrightarrow> 0 < ck_pending s"
| "code_offered s CodeTimer \<longleftrightarrow> 0 < ck_timers s"

fun code_move :: "translator \<Rightarrow> code_block \<Rightarrow> code_event \<Rightarrow> code_block" where
  "code_move t s PressCopyCode = s\<lparr>ck_pending := ck_pending s + 1\<rparr>"
| "code_move t s CodeCopied =
     s\<lparr>ck_pending := ck_pending s - 1, ck_copied := True, ck_timers := ck_timers s + 1,
       ck_log := ck_log s @ [Toast ToastSuccess (tr t ''common.copied'') []]\<rparr>"
| "code_move t s CodeNotCopied = s\<lparr>ck_pending := ck_pending s - 1, ck_copied := False\<rparr>"
| "code_move t s CodeTimer = s\<lparr>ck_copied := False, ck_timers := ck_timers s - 1\<rparr>"

definition code_start :: code_block where
  "code_start = \<lparr>ck_copied = False, ck_pending = 0, ck_timers = 0, ck_log = []\<rparr>"

definition code_label :: "translator \<Rightarrow> code_block \<Rightarrow> jstr" where
  "code_label t s = (if ck_copied s then tr t ''common.copied'' else tr t ''common.copy'')"

fun code_toasts :: "effect \<Rightarrow> bool" where
  "code_toasts (Toast k _ _) \<longleftrightarrow> k = ToastSuccess"
| "code_toasts _ \<longleftrightarrow> False"

interpretation code: logging_page code_start code_offered "code_move t" "\<lambda>s. ck_copied s \<longrightarrow> 0 < ck_timers s" ck_log code_toasts for t
proof
  show "ck_copied code_start \<longrightarrow> 0 < ck_timers code_start" by (simp add: code_start_def)
  show "ck_copied (code_move t s e) \<longrightarrow> 0 < ck_timers (code_move t s e)"
    if "ck_copied s \<longrightarrow> 0 < ck_timers s" "code_offered s e" for s e
    using that by (cases e) auto
  show "list_all code_toasts (ck_log code_start)" by (simp add: code_start_def)
  show "list_all code_toasts (ck_log (code_move t s e))" if "list_all code_toasts (ck_log s)" for s e
    using that by (cases e) auto
qed

text \<open>The label always goes back, but not always in time: the timeout of an earlier copy takes away the label of a
  later one.\<close>

lemma code_label_cut_short:
  "\<exists>s. runs code_offered (code_move t) code_start [PressCopyCode, CodeCopied, PressCopyCode, CodeCopied, CodeTimer] = Some s \<and>
     code_label t s = tr t ''common.copy'' \<and> ck_timers s = 1"
  by (simp add: code_start_def code_label_def)

section \<open>Trails and the QR code\<close>

definition console_breadcrumb :: "translator \<Rightarrow> (jstr \<times> jstr option) list \<Rightarrow> jstr \<Rightarrow> (jstr \<times> jstr option) list" where
  \<comment> \<open>the texts and targets in order; the last is the page itself\<close>
  "console_breadcrumb t parents title = (tr t ''shell.workspace'', Some (js ''/home'')) # parents @ [(title, None)]"

definition account_trail :: "translator \<Rightarrow> jstr \<Rightarrow> (jstr \<times> jstr option) list" where
  "account_trail t title = console_breadcrumb t [(tr t ''account.title'', None)] title"

definition qr_dialog :: "client_env \<Rightarrow> link_record option \<Rightarrow> (jstr \<times> jstr) option promise" where
  \<comment> \<open>the address of the picture and the name it is saved under\<close>
  "qr_dialog env link =
     (case link of
        None \<Rightarrow> Inr None
      | Some l \<Rightarrow> map_sum id (\<lambda>url. Some (url, lk_alias l @ js ''.png'')) (qr_url env (lk_id l) 320))"

section \<open>Sidebar and tab bar\<close>

definition gooey_select :: "nat option \<Rightarrow> nat \<Rightarrow> nat \<Rightarrow> nat \<times> nat" where
  \<comment> \<open>the value kept inside and the index \<open>onChange\<close> hears\<close>
  "gooey_select value index internal = (if value = None then index else internal, index)"

definition gooey_active :: "nat option \<Rightarrow> nat \<Rightarrow> nat \<Rightarrow> bool" where
  "gooey_active value internal index \<longleftrightarrow> index = (case value of None \<Rightarrow> internal | Some v \<Rightarrow> v)"

lemma gooey_one_active: "length (filter (gooey_active value internal) [0..<n]) \<le> 1"
proof -
  have "distinct (filter (gooey_active value internal) [0..<n])" by simp
  moreover have "set (filter (gooey_active value internal) [0..<n]) \<subseteq> {case value of None \<Rightarrow> internal | Some v \<Rightarrow> v}"
    by (auto simp: gooey_active_def)
  ultimately show ?thesis by (metis card_mono card.empty card.insert distinct_card empty_iff finite.emptyI finite_insert One_nat_def)
qed

record sidebar_state =
  sb_value :: nat
  sb_open :: "nat \<rightharpoonup> bool"

definition select_item :: "nat option \<Rightarrow> nat \<Rightarrow> sidebar_state \<Rightarrow> sidebar_state" where
  \<comment> \<open>a controlled component keeps no value of its own; \<open>onChange\<close> is called with the index\<close>
  "select_item value index s = (if value = None then s\<lparr>sb_value := index\<rparr> else s)"

definition active_index :: "nat option \<Rightarrow> sidebar_state \<Rightarrow> nat" where
  "active_index value s = (case value of Some i \<Rightarrow> i | None \<Rightarrow> sb_value s)"

definition side_active :: "(jstr \<Rightarrow> jstr \<Rightarrow> bool) option \<Rightarrow> jstr option \<Rightarrow> jstr \<Rightarrow> bool" where
  "side_active matches current href =
     (case (matches, current) of
        (Some f, Some c) \<Rightarrow> if c \<noteq> [] then f c href else href = js ''/home'' \<and> current = Some href
      | _ \<Rightarrow>
          if href = js ''/home'' then current = Some href
          else (case current of None \<Rightarrow> False | Some c \<Rightarrow> c \<noteq> [] \<and> (c = href \<or> prefix (href @ [47]) c)))"

definition group_open :: "bool option \<Rightarrow> bool \<Rightarrow> nat \<Rightarrow> sidebar_state \<Rightarrow> bool" where
  \<comment> \<open>what was toggled, else the default, else whether an entry of the group is current\<close>
  "group_open default_open child_active index s =
     (case sb_open s index of Some b \<Rightarrow> b | None \<Rightarrow> (case default_open of Some b \<Rightarrow> b | None \<Rightarrow> child_active))"

definition toggle_group :: "nat \<Rightarrow> bool \<Rightarrow> sidebar_state \<Rightarrow> sidebar_state" where
  "toggle_group index opened s = s\<lparr>sb_open := (sb_open s)(index \<mapsto> \<not> opened)\<rparr>"

text \<open>A press on the disclosure of a group turns that group over and no other, and from then on the group
  keeps its state when the route changes.\<close>

lemma toggle_group_open:
  "group_open d a' j (toggle_group i (group_open d a i s) s) =
     (if j = i then \<not> group_open d a i s else group_open d a' j s)"
  by (simp add: group_open_def toggle_group_def)

section \<open>The counter\<close>

definition theme_toggle_label :: "bool \<Rightarrow> string \<times> string" where
  \<comment> \<open>the icon and the text: the theme a press leads to\<close>
  "theme_toggle_label dark = (if dark then (''sun'', ''theme.light'') else (''moon'', ''theme.dark''))"

datatype counter_paint = Jump int | Animate int int

definition counter_effect :: "bool \<Rightarrow> int \<Rightarrow> int \<Rightarrow> counter_paint" where
  \<comment> \<open>from the value shown before to the new one\<close>
  "counter_effect reduce_motion from_value new_value =
     (if reduce_motion \<or> from_value = new_value then Jump new_value else Animate from_value new_value)"

end
