(* ===== verification/Api_Wire.thy ===== *)
theory Api_Wire
  imports Runtime_Form Link_Forms
begin

text \<open>
  The types of request bodies (the exported input types of \<open>web/src/lib/api-client.ts\<close>) as types of JSON
  values, with a typing predicate: what a call writes has the type its endpoint is declared with. The TypeScript
  types say \<open>number\<close> where the service decodes an integer; a \<open>NaN\<close>, which JSON would write as
  \<open>null\<close>, and a fraction have no type here.
\<close>

section \<open>Types of JSON values\<close>

datatype wire = WText | WBool | WInt | WList wire | WObject "(string \<times> bool \<times> wire) list"
  \<comment> \<open>the fields of an object with whether they are required\<close>

fun conforms :: "wire \<Rightarrow> json \<Rightarrow> bool" where
  "conforms WText (JText _) = True"
| "conforms WBool (JBool _) = True"
| "conforms WInt (JNum (JFin q)) = (q = of_int \<lfloor>q\<rfloor>)"
| "conforms (WList w) (JArr xs) = list_all (conforms w) xs"
| "conforms (WObject fs) (JObj kvs) =
     (distinct (map fst kvs) \<and> list_all (\<lambda>k. k \<in> set (map (js \<circ> fst) fs)) (map fst kvs) \<and>
      list_all (\<lambda>(n, required, w). case map_of kvs (js n) of None \<Rightarrow> \<not> required | Some v \<Rightarrow> conforms w v) fs)"
| "conforms _ _ = False"

definition must :: "string \<Rightarrow> wire \<Rightarrow> string \<times> bool \<times> wire" where "must n w = (n, True, w)"
definition may :: "string \<Rightarrow> wire \<Rightarrow> string \<times> bool \<times> wire" where "may n w = (n, False, w)"

definition rule_wire :: wire where
  "rule_wire = WObject [must ''match_type'' WText, must ''match_value'' WText, must ''destination_url'' WText, must ''redirect_code'' WInt]"

definition link_optional :: "(string \<times> bool \<times> wire) list" where
  "link_optional =
     [may ''alias'' WText, may ''title'' WText, may ''tags'' (WList WText), may ''redirect_code'' WInt, may ''expires_at'' WText,
      may ''rules'' (WList rule_wire), may ''domain'' WText, may ''interstitial_seconds'' WInt]"

definition link_wire :: wire where
  "link_wire = WObject (must ''destination_url'' WText # link_optional)"

definition link_update_wire :: wire where
  "link_update_wire = WObject (may ''destination_url'' WText # link_optional @ [may ''status'' WText])"

definition bulk_wire :: wire where
  "bulk_wire = WObject [must ''action'' WText, must ''ids'' (WList WText), may ''tags'' (WList WText), may ''expires_at'' WText]"

definition provider_wire :: wire where
  "provider_wire = WObject
     [may ''slug'' WText, may ''display_name'' WText, may ''issuer'' WText, may ''client_id'' WText, may ''client_secret'' WText,
      may ''scopes'' (WList WText), may ''auto_provision'' WBool, may ''enabled'' WBool]"

definition captcha_wire :: wire where
  "captcha_wire = WObject
     [may ''enabled'' WBool, may ''site_key'' WText, may ''secret'' WText, may ''expected_hostname'' WText, may ''expected_action'' WText]"

definition analytics_wire :: wire where
  "analytics_wire = WObject
     [must ''ga4_measurement_id'' WText, must ''gtm_container_id'' WText, must ''google_tag_id'' WText, must ''matomo_url'' WText,
      must ''matomo_site_id'' WText, must ''clarity_project_id'' WText]"

definition user_wire :: wire where
  "user_wire = WObject [may ''role'' WText, may ''disabled'' WBool]"

fun key_wire :: "runtime_key \<Rightarrow> wire" where
  "key_wire AliasMode = WText"
| "key_wire UniqueUrls = WBool"
| "key_wire RegistrationEnabled = WBool"
| "key_wire TotpEnabled = WBool"
| "key_wire CountBots = WBool"
| "key_wire ForwardQuery = WBool"
| "key_wire FallbackUrl = WText"
| "key_wire AutoPrune = WBool"
| "key_wire PruneGrace = WInt"
| "key_wire MaxLinks = WInt"
| "key_wire Denylist = WList WText"
| "key_wire ShortDomains = WList WText"
| "key_wire HealthEnabled = WBool"
| "key_wire HealthInterval = WInt"
| "key_wire RateEnabled = WBool"
| "key_wire RateLogin = WInt"
| "key_wire RateApi = WInt"
| "key_wire RateRedirect = WInt"
| "key_wire RateRegister = WInt"
| "key_wire Rate2fa = WInt"
| "key_wire RateOidc = WInt"

definition runtime_keys :: "runtime_key list" where
  "runtime_keys =
     [AliasMode, UniqueUrls, RegistrationEnabled, TotpEnabled, CountBots, ForwardQuery, FallbackUrl, AutoPrune, PruneGrace,
      MaxLinks, Denylist, ShortDomains, HealthEnabled, HealthInterval, RateEnabled, RateLogin, RateApi, RateRedirect,
      RateRegister, Rate2fa, RateOidc]"

definition runtime_wire :: "bool \<Rightarrow> wire" where
  \<comment> \<open>the whole object, or a \<open>Partial\<close> of it\<close>
  "runtime_wire whole = WObject (map (\<lambda>k. (key_text k, whole, key_wire k)) runtime_keys)"

section \<open>The body each call is declared to send\<close>

fun body_wire :: "api_call \<Rightarrow> wire option" where
  "body_wire (Login _ _) = Some (WObject [must ''username'' WText, must ''password'' WText])"
| "body_wire (Register _ _ _) = Some (WObject [must ''username'' WText, must ''password'' WText, may ''captcha_token'' WText])"
| "body_wire (MfaVerify _ _) = Some (WObject [must ''challenge'' WText, must ''code'' WText])"
| "body_wire (MfaConfirm _) = Some (WObject [must ''code'' WText])"
| "body_wire (MfaDisable _ _) = Some (WObject [must ''password'' WText, must ''code'' WText])"
| "body_wire (CreateLink _) = Some link_wire"
| "body_wire (UpdateLink _ _) = Some link_update_wire"
| "body_wire (BulkLinks _) = Some bulk_wire"
| "body_wire (UpdateUser _ _ _) = Some user_wire"
| "body_wire (UpdateRole _ _ _) = Some (WObject [must ''scopes'' (WList WText), must ''unrestricted'' WBool])"
| "body_wire (CreateProvider _) = Some provider_wire"
| "body_wire (UpdateProvider _ _) = Some provider_wire"
| "body_wire (UpdateCaptcha _) = Some captcha_wire"
| "body_wire (UpdateAnalytics _) = Some analytics_wire"
| "body_wire (PatchRuntime _ _) = Some (WObject [must ''revision'' WInt, must ''changes'' (runtime_wire False)])"
| "body_wire (PutRuntime _) = Some (runtime_wire True)"
| "body_wire (CreateToken _) = Some (WObject [must ''name'' WText])"
| "body_wire _ = None"

definition well_bodied :: "api_call \<Rightarrow> bool" where
  \<comment> \<open>the body, when the call is issued at all, is of the declared type; only an import is not JSON\<close>
  "well_bodied c \<longleftrightarrow>
     prepares (\<lambda>_ o1. case ro_body o1 of
         None \<Rightarrow> body_wire c = None
       | Some (BRaw csv) \<Rightarrow> c = ImportLinks csv
       | Some (BJson v) \<Rightarrow> (case body_wire c of None \<Rightarrow> False | Some w \<Rightarrow> conforms w v)) (request_of c)"

section \<open>Typing\<close>

definition whole :: "jnum \<Rightarrow> bool" where
  "whole v \<longleftrightarrow> (case v of JFin q \<Rightarrow> q = of_int \<lfloor>q\<rfloor> | _ \<Rightarrow> False)"

lemma conforms_number [simp]: "conforms WInt (JNum v) \<longleftrightarrow> whole v"
  by (cases v) (simp_all add: whole_def)

lemma conforms_jint [simp]: "conforms WInt (jint n)"
  by (simp add: jint_def whole_def)

lemma conforms_texts [simp]: "list_all (conforms WText) (map JText xs)"
  by (simp add: list_all_iff)

lemma conforms_rule [simp]: "conforms rule_wire (rule_json r)"
  by (simp add: rule_wire_def rule_json_def must_def)

lemma conforms_rules [simp]: "list_all (conforms rule_wire) (map rule_json rs)"
  by (simp add: list_all_iff)

definition link_numbers :: "link_input \<Rightarrow> bool" where
  "link_numbers i \<longleftrightarrow> pred_option whole (li_redirect_code i) \<and> pred_option whole (li_interstitial i)"

fun typed_call :: "api_call \<Rightarrow> bool" where
  \<comment> \<open>what the declared types of the arguments do not say by themselves\<close>
  "typed_call (CreateLink i) \<longleftrightarrow> li_destination i \<noteq> None \<and> li_status i = None \<and> link_numbers i"
| "typed_call (UpdateLink _ i) \<longleftrightarrow> link_numbers i"
| "typed_call (PatchRuntime _ ch) \<longleftrightarrow> conforms (runtime_wire False) (JObj ch)"
| "typed_call (PutRuntime fs) \<longleftrightarrow> conforms (runtime_wire True) (JObj fs)"
| "typed_call _ \<longleftrightarrow> True"

text \<open>Every body is a list of fields that may be absent; what is checked of each is independent of the others.\<close>

definition present :: "(string \<times> json option) list \<Rightarrow> (jstr \<times> json) list" where
  "present ps = concat (map (\<lambda>(k, v). opt_field k v) ps)"

lemma present_simps [simp]: "present [] = []" "present ((k, v) # ps) = opt_field k v @ present ps"
  by (simp_all add: present_def)

lemma present_keys: "fst ` set (present ps) \<subseteq> js ` fst ` set ps"
proof (induction ps)
  case (Cons p ps)
  then show ?case by (cases p; cases "snd p") auto
qed simp

lemma present_distinct: "distinct (map fst ps) \<Longrightarrow> distinct (map fst (present ps))"
proof (induction ps)
  case (Cons p ps)
  obtain k v where p: "p = (k, v)" by (cases p)
  have "js k \<notin> fst ` set (present ps)" using present_keys [of ps] Cons.prems p by force
  then show ?case using Cons p by (cases v) simp_all
qed simp

lemma present_lookup: "distinct (map fst ps) \<Longrightarrow> map_of (present ps) (js n) = Option.bind (map_of ps n) id"
proof (induction ps)
  case (Cons p ps)
  obtain k v where p: "p = (k, v)" by (cases p)
  have "k \<notin> fst ` set ps" using Cons.prems p by simp
  then have "map_of ps k = None" by (simp add: map_of_eq_None_iff)
  then show ?case using Cons p by (cases v) auto
qed simp

lemma conforms_present:
  assumes "distinct (map fst ps)" and "list_all (\<lambda>k. k \<in> set (map fst fs)) (map fst ps)"
    and "list_all (\<lambda>(n, required, w). case Option.bind (map_of ps n) id of None \<Rightarrow> \<not> required | Some v \<Rightarrow> conforms w v) fs"
  shows "conforms (WObject fs) (JObj (present ps))"
proof -
  have "fst ` set ps \<subseteq> fst ` set fs" using assms(2) by (auto simp: list_all_iff)
  then have "js ` fst ` set ps \<subseteq> (js \<circ> fst) ` set fs" unfolding image_comp [symmetric] by (rule image_mono)
  then have "fst ` set (present ps) \<subseteq> (js \<circ> fst) ` set fs" by (rule subset_trans [OF present_keys])
  then have "list_all (\<lambda>k. k \<in> set (map (js \<circ> fst) fs)) (map fst (present ps))"
    unfolding list_all_iff set_map by (simp only: subset_eq)
  then show ?thesis using assms(1,3) by (simp add: present_distinct present_lookup)
qed

lemma may_be_given: "(\<And>y. P y) \<Longrightarrow> case_option (\<not> False) P x"
  by (simp split: option.split)

lemma given_number: "case_option (\<not> False) (conforms WInt \<circ> JNum) x \<longleftrightarrow> pred_option whole x"
  by (cases x) simp_all

lemmas body_simps = may_be_given given_number must_def may_def link_optional_def

lemma link_present: "link_input_json i = JObj (present
    [(''destination_url'', map_option JText (li_destination i)), (''alias'', map_option JText (li_alias i)),
     (''title'', map_option JText (li_title i)), (''tags'', map_option jlist (li_tags i)),
     (''redirect_code'', map_option JNum (li_redirect_code i)), (''expires_at'', map_option JText (li_expires_at i)),
     (''rules'', map_option (\<lambda>rs. JArr (map rule_json rs)) (li_rules i)), (''domain'', map_option JText (li_domain i)),
     (''interstitial_seconds'', map_option JNum (li_interstitial i)), (''status'', map_option JText (li_status i))])"
  by (simp add: link_input_json_def)

lemma link_present_new: "li_status i = None \<Longrightarrow> link_input_json i = JObj (present
    [(''destination_url'', map_option JText (li_destination i)), (''alias'', map_option JText (li_alias i)),
     (''title'', map_option JText (li_title i)), (''tags'', map_option jlist (li_tags i)),
     (''redirect_code'', map_option JNum (li_redirect_code i)), (''expires_at'', map_option JText (li_expires_at i)),
     (''rules'', map_option (\<lambda>rs. JArr (map rule_json rs)) (li_rules i)), (''domain'', map_option JText (li_domain i)),
     (''interstitial_seconds'', map_option JNum (li_interstitial i))])"
  by (simp add: link_input_json_def)

lemma conforms_create:
  "li_destination i \<noteq> None \<Longrightarrow> li_status i = None \<Longrightarrow> link_numbers i \<Longrightarrow> conforms link_wire (link_input_json i)"
  unfolding link_present_new link_wire_def
  by (rule conforms_present) (auto simp: body_simps link_numbers_def)

lemma conforms_update: "link_numbers i \<Longrightarrow> conforms link_update_wire (link_input_json i)"
  unfolding link_present link_update_wire_def
  by (rule conforms_present) (auto simp: body_simps link_numbers_def)

lemma conforms_provider: "conforms provider_wire (oidc_json i)"
proof -
  have "oidc_json i = JObj (present
      [(''slug'', map_option JText (oi_slug i)), (''display_name'', map_option JText (oi_display_name i)),
       (''issuer'', map_option JText (oi_issuer i)), (''client_id'', map_option JText (oi_client_id i)),
       (''client_secret'', map_option JText (oi_client_secret i)), (''scopes'', map_option jlist (oi_scopes i)),
       (''auto_provision'', map_option JBool (oi_auto_provision i)), (''enabled'', map_option JBool (oi_enabled i))])"
    by (simp add: oidc_json_def)
  then show ?thesis unfolding provider_wire_def by (simp only:, intro conforms_present) (simp_all add: body_simps)
qed

lemma conforms_captcha: "conforms captcha_wire (captcha_json i)"
proof -
  have "captcha_json i = JObj (present
      [(''enabled'', map_option JBool (ci_enabled i)), (''site_key'', map_option JText (ci_site_key i)),
       (''secret'', map_option JText (ci_secret i)), (''expected_hostname'', map_option JText (ci_hostname i)),
       (''expected_action'', map_option JText (ci_action i))])"
    by (simp add: captcha_json_def)
  then show ?thesis unfolding captcha_wire_def by (simp only:, intro conforms_present) (simp_all add: body_simps)
qed

lemma conforms_bulk: "conforms bulk_wire (bulk_json b)"
proof -
  have "bulk_json b = JObj (present
      [(''action'', Some (JText (bulk_action_text (bi_action b)))), (''ids'', Some (jlist (bi_ids b))),
       (''tags'', map_option jlist (bi_tags b)), (''expires_at'', map_option JText (bi_expires_at b))])"
    by (simp add: bulk_json_def)
  then show ?thesis unfolding bulk_wire_def by (simp only:, intro conforms_present) (simp_all add: body_simps)
qed

lemma conforms_analytics: "conforms analytics_wire (analytics_json i)"
  by (simp add: analytics_wire_def analytics_json_def must_def)

lemma conforms_user: "conforms user_wire
    (JObj (opt_field ''role'' (map_option JText r) @ opt_field ''disabled'' (map_option JBool d)))"
  by (cases r; cases d) (simp_all add: user_wire_def may_def)

lemmas body_types = conforms_create conforms_update conforms_provider conforms_captcha conforms_bulk conforms_analytics conforms_user

section \<open>The policies\<close>

fun has_key_type :: "wire \<Rightarrow> setting_value \<Rightarrow> bool" where
  "has_key_type WText (SText _) = True"
| "has_key_type WBool (SBool _) = True"
| "has_key_type WInt (SNum _) = True"
| "has_key_type (WList WText) (SList _) = True"
| "has_key_type _ _ = False"

lemma setting_type: "has_key_type (key_wire k) (setting s k)"
  by (cases k) simp_all

lemma parsed_type:
  "has_key_type w old \<Longrightarrow> fits old raw \<Longrightarrow> parse_value old raw = Some v \<Longrightarrow> has_key_type w v"
  by (cases "(w, old)" rule: has_key_type.cases; cases raw) (auto split: if_splits)

lemma conforms_setting: "has_key_type w v \<Longrightarrow> conforms w (setting_json v)"
  by (cases "(w, v)" rule: has_key_type.cases) simp_all

lemma runtime_keys_all: "k \<in> set runtime_keys"
  by (cases k) (simp_all add: runtime_keys_def)

lemma conforms_changes:
  assumes "distinct (map fst cs)" and "\<And>k v. (k, v) \<in> set cs \<Longrightarrow> has_key_type (key_wire k) v"
  shows "conforms (runtime_wire False) (JObj (changes_json cs))"
proof -
  let ?f = "\<lambda>k. js (key_text k)"
  have inj: "inj ?f" by (simp add: inj_def key_text_inj)
  have keys: "map fst (changes_json cs) = map ?f (map fst cs)" by (simp add: changes_json_def case_prod_unfold comp_def)
  have d: "distinct (map fst (changes_json cs))"
    unfolding keys distinct_map using assms(1) inj_on_subset [OF inj subset_UNIV] by (simp add: distinct_map)
  have "case map_of (changes_json cs) (?f k) of None \<Rightarrow> \<not> False | Some v \<Rightarrow> conforms (key_wire k) v" for k
  proof (cases "map_of (changes_json cs) (?f k)")
    case (Some v)
    then have "(?f k, v) \<in> set (changes_json cs)" by (rule map_of_SomeD)
    then obtain k' v' where "(k', v') \<in> set cs" "?f k' = ?f k" "v = setting_json v'" by (auto simp: changes_json_def)
    then show ?thesis using Some assms(2) conforms_setting by (auto simp: key_text_inj)
  qed simp
  moreover have "set (map fst (changes_json cs)) \<subseteq> ?f ` set runtime_keys"
    unfolding keys using runtime_keys_all by auto
  moreover have "map (js \<circ> fst) (map (\<lambda>k. (key_text k, False, key_wire k)) runtime_keys) = map ?f runtime_keys" by simp
  ultimately show ?thesis
    unfolding runtime_wire_def conforms.simps
    by (intro conjI d) (simp_all add: list_all_iff comp_def subset_eq)
qed

lemma entered_fits:
  assumes "form_inv g s" and "rf_saved s = Some saved" and "entered saved (rf_draft s) k raw"
  shows "fits (setting saved k) raw"
  using assms by (auto simp: form_inv_def draft_fits_def entered_def dest!: map_of_SomeD)

lemma form_changes_typed:
  assumes "form_inv g s" and "rf_saved s = Some saved" and "runtime_changes saved (rf_draft s) g = Inr cs"
  shows "conforms (runtime_wire False) (JObj (changes_json cs))"
proof (rule conforms_changes)
  note c = changes_loop_Inr [OF assms(3) [unfolded runtime_changes_def] runtime_groups_distinct]
  show "distinct (map fst cs)" using c by blast
  show "has_key_type (key_wire k) v" if "(k, v) \<in> set cs" for k v
  proof -
    obtain raw where "entered saved (rf_draft s) k raw" "parse_value (setting saved k) raw = Some v" using c \<open>(k, v) \<in> set cs\<close> by auto
    then show ?thesis using parsed_type [OF setting_type] entered_fits [OF assms(1,2)] by blast
  qed
qed

section \<open>The calls of the pages\<close>

lemma typed_well_bodied: "typed_call c \<Longrightarrow> well_bodied c"
  by (cases c) (simp_all add: well_bodied_def plain_read_def body_types must_def may_def prepares_def [where x = "Inr _"])

fun typed_effect :: "effect \<Rightarrow> bool" where
  "typed_effect (Call c) = typed_call c"
| "typed_effect _ = True"

lemma form_valid_whole: "form_valid s \<Longrightarrow> whole (interstitial_value s)"
  by (auto simp: form_valid_def interstitial_value_def whole_def split: jnum.splits)

lemma whole_codes [simp]: "whole (JFin 301)" "whole (JFin 302)"
  by (simp_all add: whole_def)

interpretation new_typed: logging_page new_start new_offered "new_move t" new_inv nl_log typed_effect for t
proof
  show "list_all typed_effect (nl_log new_start)" by (simp add: new_start_def)
  show "list_all typed_effect (nl_log (new_move t s e))"
    if "new_inv s" "new_offered s e" "list_all typed_effect (nl_log s)" for s e
    using that form_valid_whole [of s]
    by (cases "(t, s, e)" rule: new_move.cases)
      (auto simp: new_inv_def new_submit_def new_fields_def create_input_def code_number link_numbers_def)
qed

text \<open>The edit form reads a stored link first; what it then sends depends on what the API answered.\<close>

definition edit_answered :: "edit_link \<Rightarrow> edit_event \<Rightarrow> bool" where
  "edit_answered s e \<longleftrightarrow> edit_offered s e \<and> (case e of EditLoadSettles (Inr (r, _)) \<Rightarrow> stored_ok r | _ \<Rightarrow> True)"

definition edit_inv :: "edit_link \<Rightarrow> bool" where
  "edit_inv s \<longleftrightarrow> whole (js_number (lf_code s))"

lemma edit_field_inv: "edit_inv s \<Longrightarrow> field_offered s e \<Longrightarrow> edit_inv (field_changed e s)"
  by (cases e) (auto simp: edit_inv_def code_number)

lemma edit_field_log [simp]: "el_log (field_changed e s) = el_log s"
  by (cases e) simp_all

lemma edit_loaded_inv: "stored_ok r \<Longrightarrow> edit_inv (edit_loaded r short s)"
proof -
  assume "stored_ok r"
  then have "js_number (js_of_int (lk_redirect_code r)) = JFin (of_int (lk_redirect_code r))"
    by (intro js_number_of_int) (simp add: stored_ok_def)
  then show ?thesis by (simp add: edit_inv_def edit_loaded_def whole_def)
qed

lemma update_input_typed:
  assumes "edit_inv s" "form_valid s" "update_input s = Some i"
  shows "link_numbers i"
  using assms form_valid_whole [OF assms(2)]
  by (auto simp: update_input_def Let_def link_numbers_def edit_inv_def split: if_splits)

interpretation edit_typed: logging_page "edit_start i" edit_answered "edit_move t" edit_inv el_log typed_effect for i t
proof
  show "edit_inv (edit_start i)" by (simp add: edit_inv_def edit_start_def code_number)
  show "edit_inv (edit_move t s e)" if "edit_inv s" "edit_answered s e" for s e
  proof (cases "(\<exists>x. e = EditField x) \<or> (\<exists>r short. e = EditLoadSettles (Inr (r, short)))")
    case True
    then show ?thesis using that edit_field_inv edit_loaded_inv by (auto simp: edit_answered_def)
  next
    case False
    then have "lf_code (edit_move t s e) = lf_code s"
      by (cases "(t, s, e)" rule: edit_move.cases)
        (auto simp: edit_submit_def edit_check_def edit_checked_def Let_def split: option.splits)
    then show ?thesis using that(1) by (simp add: edit_inv_def)
  qed
  show "list_all typed_effect (el_log (edit_start i))" by (simp add: edit_start_def)
  show "list_all typed_effect (el_log (edit_move t s e))"
    if "edit_inv s" "edit_answered s e" "list_all typed_effect (el_log s)" for s e
    using that update_input_typed [of s]
    by (cases "(t, s, e)" rule: edit_move.cases)
      (auto simp: edit_answered_def edit_submit_def edit_check_def edit_checked_def edit_loaded_def Let_def split: option.splits)
qed

interpretation runtime_typed: logging_page "form_start g" form_offered "form_move t" "form_inv g" rf_log typed_effect for g t
proof
  show "list_all typed_effect (rf_log (form_start g))" by (simp add: form_start_def form_load_def)
  show "list_all typed_effect (rf_log (form_move t s e))"
    if "form_inv g s" "form_offered s e" "list_all typed_effect (rf_log s)" for s e
  proof -
    have g: "rf_group s = g" using that(1) by (simp add: form_inv_def)
    have "list_all typed_effect (rf_log (form_save t s))"
      using form_changes_typed [OF that(1)] that(3) unfolding g
      by (auto simp: form_save_def Let_def g split: option.splits sum.splits)
    with that(3) show ?thesis
      by (cases "(t, s, e)" rule: form_move.cases)
        (auto simp: form_edit_def form_discard_def form_load_def form_loaded_def form_load_failed_def form_saved_def
          form_save_failed_def split: option.splits)
  qed
qed

section \<open>Property\<close>

definition plain_call :: "api_call \<Rightarrow> bool" where
  \<comment> \<open>a call whose arguments are text and flags\<close>
  "plain_call c \<longleftrightarrow> (case c of CreateLink _ \<Rightarrow> False | UpdateLink _ _ \<Rightarrow> False | PatchRuntime _ _ \<Rightarrow> False | PutRuntime _ \<Rightarrow> False | _ \<Rightarrow> True)"

text \<open>C8 What the console writes has the type its endpoint is declared with: every call of text and
  flags does by itself; of the calls with numbers or open objects, every creation of a link, every
  update of a link read from the API, and every change of the policies that any run of their
  forms issues does: no required field is missing, no field is unknown or given twice, and every
  number is a whole number (never the \<open>null\<close> that \<open>NaN\<close> is written as).\<close>
theorem bodies_have_wire_types:
  "(plain_call c \<longrightarrow> well_bodied c) \<and>
   (reachable new_start new_offered (new_move t) n \<and> Call c \<in> set (nl_log n) \<longrightarrow> well_bodied c) \<and>
   (reachable (edit_start i) edit_answered (edit_move t) s \<and> Call c \<in> set (el_log s) \<longrightarrow> well_bodied c) \<and>
   (reachable (form_start g) form_offered (form_move t) f \<and> Call c \<in> set (rf_log f) \<longrightarrow> well_bodied c)"
proof -
  have "plain_call c \<Longrightarrow> typed_call c" by (cases c) (simp_all add: plain_call_def)
  moreover have "list_all typed_effect l \<Longrightarrow> Call c \<in> set l \<Longrightarrow> typed_call c" for l by (auto simp: list_all_iff)
  ultimately show ?thesis
    using typed_well_bodied new_typed.reachable_log edit_typed.reachable_log runtime_typed.reachable_log by blast
qed

theorem bodies_have_wire_types_witness:
  "\<exists>f r ch. reachable (form_start GRegistration) form_offered (form_move (t_for (js ''en''))) f \<and>
     Call (PatchRuntime r ch) \<in> set (rf_log f) \<and> well_bodied (PatchRuntime r ch)"
proof -
  let ?t = "t_for (js ''en'')"
  have "\<exists>s r ch. runs form_offered (form_move ?t) (form_start GRegistration) sample_run = Some s \<and>
      Call (PatchRuntime r ch) \<in> set (rf_log s)"
    by (simp add: sample_run_def form_start_def form_load_def form_loaded_def form_shown_def control_disabled_def
        is_rate_dependent_def sample_settings_def sample_runtime_def runtime_input.defs form_edit_def form_dirty_def
        runtime_draft_def form_save_def Let_def runtime_changes_def retained_def)
  then obtain s r ch where s: "runs form_offered (form_move ?t) (form_start GRegistration) sample_run = Some s"
    "Call (PatchRuntime r ch) \<in> set (rf_log s)" by blast
  note reached = runs_from_start [OF s(1)]
  have "well_bodied (PatchRuntime r ch)"
    using bodies_have_wire_types [where c = "PatchRuntime r ch" and t = ?t and g = GRegistration and f = s] reached s(2) by simp
  with s(2) reached show ?thesis by blast
qed

end
