(* ===== verification/Landing.thy ===== *)
theory Landing
  imports Request_Context Analytics_Config Shell
begin

text \<open>
  The landing page: its metadata and structured data (\<open>web/src/app/page.tsx\<close>, \<open>layout.tsx\<close>), which
  links its header, sections and footer offer (\<open>web/src/components/home/\<close>), and the theme that
  the layout applies before the first paint. What a link is for is its target and the key of
  its text; layout and pictures are left out.
\<close>

section \<open>Metadata\<close>

record page_metadata =
  pm_title :: jstr
  pm_description :: jstr
  pm_canonical :: jstr
  pm_languages :: "(jstr \<times> jstr) list"
  pm_og_url :: jstr
  pm_og_locale :: jstr

definition landing_path :: "jstr option \<Rightarrow> jstr" where
  "landing_path header =
     (if header = Some (js ''en'') \<or> header = Some (js ''zh-CN'') then js ''/i18n/'' @ the header else js ''/'')"

definition landing_languages :: "(jstr \<times> jstr) list" where
  "landing_languages = [(js ''en'', js ''/i18n/en''), (js ''zh-CN'', js ''/i18n/zh-CN''), (js ''x-default'', js ''/'')]"

definition landing_metadata :: "headers \<Rightarrow> jstr option \<Rightarrow> page_metadata" where
  \<comment> \<open>from the headers the render sees and the locale cookie\<close>
  "landing_metadata hs cookie =
     (let locale = get_locale hs cookie; t = t_for locale; path = landing_path (header_get hs landing_header)
      in \<lparr>pm_title = tr t ''home.title'', pm_description = tr t ''home.description'', pm_canonical = path,
          pm_languages = landing_languages, pm_og_url = path,
          pm_og_locale = (if locale = js ''zh-CN'' then js ''zh_CN'' else js ''en_US'')\<rparr>)"

definition absolute :: "headers \<Rightarrow> jstr \<Rightarrow> jstr" where
  \<comment> \<open>\<open>metadataBase\<close> makes a path absolute\<close>
  "absolute hs path = request_origin hs @ path"

section \<open>Structured data\<close>

definition structured_data :: "headers \<Rightarrow> jstr option \<Rightarrow> (jstr \<times> jstr) list" where
  "structured_data hs cookie =
     (let locale = get_locale hs cookie in
      [(js ''@context'', js ''https://schema.org''), (js ''@type'', js ''WebSite''), (js ''name'', js ''Purels''),
       (js ''url'', request_origin hs @ js ''/''), (js ''description'', tr (t_for locale) ''home.description''),
       (js ''inLanguage'', locale)])"

definition object_text :: "(jstr \<times> jstr) list \<Rightarrow> jstr" where
  \<comment> \<open>\<open>JSON.stringify\<close> of an object whose values are strings\<close>
  "object_text entries = 123 # join [44] (map (\<lambda>(k, v). json_quote k @ 58 # json_quote v) entries) @ [125]"

definition escape_lt :: "jstr \<Rightarrow> jstr" where
  \<comment> \<open>\<open>.replace(/</g, "\\u003c")\<close>\<close>
  "escape_lt s = concat (map (\<lambda>c. if c = 60 then [92, 117, 48, 48, 51, 99] else [c]) s)"

definition structured_script :: "headers \<Rightarrow> jstr option \<Rightarrow> jstr" where
  "structured_script hs cookie = escape_lt (object_text (structured_data hs cookie))"

section \<open>Links\<close>

definition sections :: "(jstr \<times> string) list" where
  "sections =
     [(js ''features'', ''home.nav.features''), (js ''how'', ''home.nav.how''), (js ''self-hosted'', ''home.nav.selfHost''),
      (js ''faq'', ''home.nav.faq'')]"

definition section_links :: "(jstr \<times> string) list" where
  "section_links = map (\<lambda>(i, key). (35 # i, key)) sections"

definition header_links :: "bool \<Rightarrow> bool \<Rightarrow> (jstr \<times> string) list" where
  "header_links registration_open signed_in =
     (js ''/'', '''') # section_links @
     (if \<not> signed_in \<and> registration_open then [(js ''/register'', ''home.nav.getStarted'')] else []) @
     [(if signed_in then js ''/home'' else js ''/login'', if signed_in then ''home.nav.console'' else ''home.nav.signIn'')]"

definition page_links :: "jstr \<Rightarrow> bool \<Rightarrow> (jstr \<times> string) list" where
  "page_links locale registration_open =
     [(js ''#main-content'', ''home.skipToMain'')] @
     (if registration_open then [(js ''/register'', ''home.hero.ctaPrimary'')] else []) @
     [(if locale = js ''zh-CN'' then js ''https://github.com/puremixai/purels/blob/main/README.zh-CN.md''
       else js ''https://github.com/puremixai/purels#quick-start'', ''home.selfHost.docs''),
      (if registration_open then js ''/register'' else js ''/login'',
       if registration_open then ''home.cta.button'' else ''home.hero.ctaSecondary'')]"

definition footer_links :: "bool \<Rightarrow> (jstr \<times> string) list" where
  "footer_links registration_open =
     section_links @ [(js ''/i18n/en'', ''''), (js ''/i18n/zh-CN'', ''''), (js ''/login'', ''home.nav.signIn'')] @
     (if registration_open then [(js ''/register'', ''home.nav.getStarted'')] else [])"

definition page_anchors :: "jstr list" where
  \<comment> \<open>the ids of \<open>main\<close> and its sections\<close>
  "page_anchors = [js ''main-content'', js ''features'', js ''how'', js ''self-hosted'', js ''faq'']"

definition landing_links :: "headers \<Rightarrow> jstr option \<Rightarrow> jstr option \<Rightarrow> http_response promise \<Rightarrow> http_response promise \<Rightarrow> (jstr \<times> string) list" where
  \<comment> \<open>\<open>HomePage\<close>: from the locale and session cookies and the answers of the two reads\<close>
  "landing_links hs lang_cookie session_cookie config_answer session_answer =
     (let locale = get_locale hs lang_cookie; registration_open = registration_enabled config_answer;
          signed_in = has_session session_cookie session_answer
      in header_links registration_open signed_in @ page_links locale registration_open @ footer_links registration_open)"

definition feature_keys :: "string list" where
  "feature_keys =
     concat (map (\<lambda>f. [''home.feature.'' @ f @ ''.title'', ''home.feature.'' @ f @ ''.body''])
       [''links'', ''stats'', ''rules'', ''access'', ''gallery'', ''privacy''])"

definition chip_keys :: "string list" where
  "chip_keys = map ((@) ''home.chip.'') [''qr'', ''csv'', ''token'', ''rateLimit'', ''domains'', ''probe'']"

definition step_keys :: "string list" where
  "step_keys =
     concat (map (\<lambda>f. [''home.how.'' @ f @ ''.title'', ''home.how.'' @ f @ ''.body'']) [''create'', ''share'', ''measure''])"

definition faq_keys :: "(string \<times> string) list" where
  "faq_keys = map (\<lambda>n. (''home.faq.q'' @ n, ''home.faq.a'' @ n)) [''1'', ''2'', ''3'', ''4'', ''5'', ''6'', ''7'']"

section \<open>The theme before the first paint\<close>

definition bootstrap_theme :: "jstr option promise \<Rightarrow> jstr" where
  \<comment> \<open>the inline script of the layout on the document's \<open>data-theme="dark"\<close>; reading the storage may throw\<close>
  "bootstrap_theme stored =
     (case stored of
        Inr (Some v) \<Rightarrow> if v = js ''light'' \<or> v = js ''dark'' then v else js ''dark''
      | _ \<Rightarrow> js ''dark'')"

definition theme_mount :: "jstr option promise \<Rightarrow> theme_state promise" where
  \<comment> \<open>the mount effect of the provider, which does not catch what the storage throws\<close>
  "theme_mount stored =
     (case stored of
        Inl e \<Rightarrow> Inl e
      | Inr v \<Rightarrow> Inr (theme_move \<lparr>te_theme = Dark, te_document = Some (bootstrap_theme stored), te_storage = v\<rparr> ThemeMounts))"

section \<open>Reading the script back\<close>

fun read_string :: "jstr \<Rightarrow> (jstr \<times> jstr) option" where
  \<comment> \<open>a JSON string from after its opening quote, and what follows its closing one\<close>
  "read_string [] = None"
| "read_string (c # s) =
     (if c = 34 then Some ([], s)
      else if c = 92
      then (case s of
              [] \<Rightarrow> None
            | e # r \<Rightarrow>
                if e = 117
                then (case r of
                        i # j # k # l # w \<Rightarrow>
                          (case (unhex i, unhex j, unhex k, unhex l) of
                             (Some a, Some b, Some c', Some d) \<Rightarrow>
                               map_option (apfst ((#) (of_int (a * 4096 + b * 256 + c' * 16 + d)))) (read_string w)
                           | _ \<Rightarrow> None)
                      | _ \<Rightarrow> None)
                else (case simple_escape e of
                        None \<Rightarrow> None
                      | Some v \<Rightarrow> map_option (apfst ((#) v)) (read_string r)))
      else if c < 32 then None
      else map_option (apfst ((#) c)) (read_string s))"

fun read_fields :: "nat \<Rightarrow> jstr \<Rightarrow> (jstr \<times> jstr) list option" where
  \<comment> \<open>the fields of an object whose values are strings, from before a key; the fuel bounds their number\<close>
  "read_fields 0 _ = None"
| "read_fields (Suc n) (q # s) =
     (if q \<noteq> 34 then None
      else (case read_string s of
              Some (k, c # q' # w) \<Rightarrow>
                if c \<noteq> 58 \<or> q' \<noteq> 34 then None
                else (case read_string w of
                        Some (v, e # rest) \<Rightarrow>
                          if e = 125 \<and> rest = [] then Some [(k, v)]
                          else if e = 44 then map_option ((#) (k, v)) (read_fields n rest) else None
                      | _ \<Rightarrow> None)
            | _ \<Rightarrow> None))"
| "read_fields (Suc n) [] = None"

definition read_object :: "jstr \<Rightarrow> (jstr \<times> jstr) list option" where
  "read_object s = (case s of c # r \<Rightarrow> if c = 123 then read_fields (length r) r else None | [] \<Rightarrow> None)"

lemma escape_lt_append [simp]: "escape_lt (a @ b) = escape_lt a @ escape_lt b" "escape_lt [] = []"
  "escape_lt (c # s) = (if c = 60 then [92, 117, 48, 48, 51, 99] else [c]) @ escape_lt s"
  by (simp_all add: escape_lt_def)

lemma escape_lt_clean: "60 \<notin> set (escape_lt s)"
  by (auto simp: escape_lt_def split: if_splits)

lemma read_hex:
  assumes "0 \<le> i" "i < 16" "0 \<le> j" "j < 16" "0 \<le> k" "k < 16" "0 \<le> l" "l < 16"
  shows "read_string (92 # 117 # hex_unit i # hex_unit j # hex_unit k # hex_unit l # s) =
    map_option (apfst ((#) (of_int (i * 4096 + j * 256 + k * 16 + l)))) (read_string s)"
  using assms by (simp add: unhex_hex del: unhex.simps)

lemma read_unicode: "read_string (unicode_escape c @ s) = map_option (apfst ((#) c)) (read_string s)"
proof -
  have r: "0 \<le> uint c" "uint c < 65536" using uint_lt2p [of c] by simp_all
  have b: "0 \<le> x mod 16" "x mod 16 < 16" for x :: int by simp_all
  show ?thesis
    unfolding unicode_escape_def Let_def append_Cons append_Nil read_hex [OF b b b b] nibbles [OF r] by simp
qed

lemma escape_unicode: "escape_lt (unicode_escape c) = unicode_escape c"
proof -
  have "hex_unit (x mod 16) \<noteq> 60" for x :: int
    using hex_unit_safe [of x] by (auto simp: script_unit_def unicode_escape_def Let_def)
  then show ?thesis by (simp add: unicode_escape_def Let_def)
qed

lemma read_quote_unit: "read_string (escape_lt (quote_unit c) @ s) = map_option (apfst ((#) c)) (read_string s)"
proof (cases "c < 32 \<and> c \<notin> {8, 9, 10, 12, 13}")
  case True
  then have "quote_unit c = unicode_escape c" by (auto simp: quote_unit_def)
  then show ?thesis by (simp add: escape_unicode read_unicode)
next
  case False
  have "\<not> (60 :: u16) < 32" by simp
  with False show ?thesis by (auto simp: quote_unit_def)
qed

lemma read_json_body: "read_string (escape_lt (json_body s) @ 34 # r) = Some (s, r)"
proof (induction s rule: json_body.induct)
  case (2 c)
  then show ?case by (simp add: escape_unicode read_unicode read_quote_unit)
next
  case (3 h l s)
  show ?case
  proof (cases "is_high h \<and> is_low l")
    case True
    then have "h \<noteq> 60" "l \<noteq> 60" by (auto simp: unit_simps)
    with 3(1) True surrogate_plain [of h] surrogate_plain [of l] show ?thesis by simp
  next
    case False
    with 3(2) show ?thesis by (auto simp: escape_unicode read_unicode read_quote_unit)
  qed
qed simp

lemma quote_escaped: "escape_lt (json_quote s) = 34 # escape_lt (json_body s) @ [34]"
  by (simp add: json_quote_def)

lemma read_fields_escaped:
  assumes "entries \<noteq> []" and "length entries \<le> n"
  shows "read_fields n (escape_lt (join [44] (map (\<lambda>(k, v). json_quote k @ 58 # json_quote v) entries)) @ [125]) = Some entries"
  using assms
proof (induction entries arbitrary: n rule: induct_list012)
  case (2 x)
  then show ?case by (cases x; cases n) (simp_all add: quote_escaped read_json_body)
next
  case (3 x y zs)
  obtain m where n: "n = Suc m" using 3(4) by (cases n) simp_all
  have "read_fields m (escape_lt (join [44] (map (\<lambda>(k, v). json_quote k @ 58 # json_quote v) (y # zs))) @ [125]) = Some (y # zs)"
    using 3(2)[of m] 3(4) n by simp
  then show ?case using n by (cases x; cases y) (simp add: quote_escaped read_json_body)
qed simp

lemma join_length: "length xs \<le> length (join [44] xs) + 1"
proof (induction xs rule: induct_list012)
  case (3 x y zs)
  then show ?case by simp
qed simp_all

lemma escape_length: "length s \<le> length (escape_lt s)"
  by (induction s) simp_all

section \<open>Lemmas\<close>

lemma proxy_origin: "request_origin (proxy_headers path hs) = request_origin hs"
proof -
  have "landing_header \<notin> {''x-forwarded-host'', ''host'', ''x-forwarded-proto''}" by (simp add: landing_header_def)
  then have "header_get (proxy_headers path hs) n = header_get hs n" if "n \<in> {''x-forwarded-host'', ''host'', ''x-forwarded-proto''}" for n
    using that by (auto simp: proxy_headers_def header_get_def Let_def update_conv' delete_conv')
  then show ?thesis by (simp add: request_origin_def)
qed

lemma landing_routes_text: "drop 6 (js ''/i18n/en'') = js ''en''" "drop 6 (js ''/i18n/zh-CN'') = js ''zh-CN''"
  "js ''/i18n/'' @ js ''en'' = js ''/i18n/en''" "js ''/i18n/'' @ js ''zh-CN'' = js ''/i18n/zh-CN''"
  by code_simp+

text \<open>What the inline script of the layout puts on the document is what the provider puts there when it mounts,
  so no page is painted in a theme it does not keep; only the provider passes on what the storage throws.\<close>

lemma no_theme_flash:
  assumes "theme_mount stored = Inr s"
  shows "te_document s = Some (bootstrap_theme stored)"
proof -
  have "js ''dark'' \<noteq> js ''light''" by code_simp
  then show ?thesis
    using assms by (auto simp: theme_mount_def bootstrap_theme_def set_theme_def stored_theme_def split: sum.splits option.splits)
qed

lemma theme_throws: "theme_mount (Inl e) = Inl e" "bootstrap_theme (Inl e) = js ''dark''"
  by (simp_all add: theme_mount_def bootstrap_theme_def)

text \<open>The page is not as careful with its entries as the comments say: a visitor with a session is offered the
  sign-in page by the footer always, and by the closing section when registration is closed.\<close>

lemma signed_in_offered_sign_in:
  assumes "has_session session_cookie session_answer" and "\<not> registration_enabled config_answer"
  shows "(js ''/login'', ''home.hero.ctaSecondary'') \<in> set (landing_links hs c session_cookie config_answer session_answer)"
    and "(js ''/login'', ''home.nav.signIn'') \<in> set (landing_links hs c session_cookie config_answer session_answer)"
  using assms by (simp_all add: landing_links_def page_links_def footer_links_def Let_def)

text \<open>A host may carry a port no URL can have: the origin is then no URL, and the layout, which parses it,
  cannot render.\<close>

lemma origin_with_impossible_port:
  "request_origin [(js ''host'', js ''a.example:99999'')] = js ''http://a.example:99999''"
  by code_simp

section \<open>Properties\<close>

text \<open>C20 The structured data of the landing page cannot end its script and says what was meant: what is
  written for any request contains no tag opener and reads back as exactly the fields of the
  page, whatever text the messages hold.\<close>
theorem structured_data_reads_back:
  "60 \<notin> set (structured_script hs cookie) \<and> read_object (structured_script hs cookie) = Some (structured_data hs cookie)"
proof -
  let ?es = "structured_data hs cookie"
  let ?body = "escape_lt (join [44] (map (\<lambda>(k, v). json_quote k @ 58 # json_quote v) ?es))"
  have s: "structured_script hs cookie = 123 # ?body @ [125]" by (simp add: structured_script_def object_text_def)
  have "length ?es \<le> length (?body @ [125])"
    using join_length [of "map (\<lambda>(k, v). json_quote k @ 58 # json_quote v) ?es"] escape_length le_trans by fastforce
  then have "read_fields (length (?body @ [125])) (?body @ [125]) = Some ?es"
    by (intro read_fields_escaped) (simp_all add: structured_data_def Let_def)
  then show ?thesis using escape_lt_clean by (simp add: s read_object_def) 
qed

text \<open>C19 The landing page is one page under three addresses and says so consistently: on each of its
  routes, whatever headers and cookies the client sends, the canonical address is the route itself, an
  address of the sitemap that lists the same alternates, all on the origin of the request; a route of a
  language is rendered in that language, so each alternate is what it is declared to be.\<close>
theorem landing_canonical:
  assumes "path \<in> {js ''/'', js ''/i18n/en'', js ''/i18n/zh-CN''}"
  shows "let seen = proxy_headers path hs; md = landing_metadata seen cookie in
    pm_canonical md = path \<and> pm_og_url md = path \<and>
    (\<exists>e \<in> set (sitemap hs). se_url e = absolute seen (pm_canonical md) \<and>
       se_languages e = map (apsnd (absolute seen)) (pm_languages md)) \<and>
    (pm_og_locale md = js ''zh_CN'' \<longleftrightarrow> request_locale path hs cookie = js ''zh-CN'') \<and>
    (\<forall>(lang, p) \<in> set (pm_languages md). lang \<noteq> js ''x-default'' \<longrightarrow> request_locale p hs cookie = lang)"
proof -
  have "js ''zh_CN'' \<noteq> js ''en_US''" by code_simp
  then show ?thesis
    using assms proxy_landing [of path hs] landing_routes_text
    by (auto simp: landing_metadata_def landing_path_def Let_def landing_languages_def sitemap_def absolute_def proxy_origin
        request_locale_def proxy_get_locale proxy_matches_def)
qed

theorem landing_canonical_witness:
  "pm_canonical (landing_metadata (proxy_headers (js ''/i18n/en'') [(js landing_header, js ''zh-CN'')]) None) = js ''/i18n/en''"
  using landing_canonical [of "js ''/i18n/en''" "[(js landing_header, js ''zh-CN'')]" None] by (simp add: Let_def)

text \<open>A closed deployment advertises no registration and every visitor has one way in: the register
  page is linked, from anywhere on the landing page, exactly when the API did not say that it is
  closed; the header offers the console exactly on the API's word that there is a session and the
  sign-in page otherwise, never both; and a link within the page leads to a section it has.\<close>
lemma landing_advertises:
  "let links = landing_links hs c session_cookie config_answer session_answer;
       header = header_links (registration_enabled config_answer) (has_session session_cookie session_answer) in
    (js ''/register'' \<in> fst ` set links \<longleftrightarrow>
      \<not> (\<exists>r v. config_answer = Inr r \<and> response_ok r \<and> hr_json r = Some v \<and> prop_of v ''registration_enabled'' = Some (JBool False))) \<and>
    (js ''/home'' \<in> fst ` set header \<longleftrightarrow> text_or_empty session_cookie \<noteq> [] \<and> (\<exists>r. session_answer = Inr r \<and> response_ok r)) \<and>
    (js ''/login'' \<in> fst ` set header \<longleftrightarrow> js ''/home'' \<notin> fst ` set header) \<and>
    (\<forall>href \<in> fst ` set links. hd href = 35 \<longrightarrow> tl href \<in> set page_anchors)"
proof -
  let ?open = "registration_enabled config_answer" and ?signed = "has_session session_cookie session_answer"
  let ?links = "landing_links hs c session_cookie config_answer session_answer" and ?header = "header_links ?open ?signed"
  note defs = landing_links_def header_links_def page_links_def footer_links_def section_links_def
    sections_def page_anchors_def Let_def text_eval
  have "js ''/register'' \<in> fst ` set ?links \<longleftrightarrow> ?open" "js ''/home'' \<in> fst ` set ?header \<longleftrightarrow> ?signed"
    "js ''/login'' \<in> fst ` set ?header \<longleftrightarrow> \<not> ?signed"
    by (auto simp: defs)
  moreover have "\<forall>href \<in> fst ` set ?links. hd href = 35 \<longrightarrow> tl href \<in> set page_anchors"
    by (auto simp: defs)
  moreover have "?open \<longleftrightarrow> \<not> (\<exists>r v. config_answer = Inr r \<and> response_ok r \<and> hr_json r = Some v \<and>
      prop_of v ''registration_enabled'' = Some (JBool False))"
    using conjunct2 [OF landing_reads [where answer = config_answer]] by blast
  moreover have "?signed \<longleftrightarrow> text_or_empty session_cookie \<noteq> [] \<and> (\<exists>r. session_answer = Inr r \<and> response_ok r)"
    by (auto simp: has_session_def split: sum.splits)
  ultimately show ?thesis unfolding Let_def by blast
qed

end
