(* ===== verification/Gallery_Artworks.thy ===== *)
theory Gallery_Artworks
  imports Js_Value
begin

text \<open>
  The pictures of the redirect gallery prototype (\<open>docs/redirect-gallery/artworks.js\<close>), one
  definition per entry, in the order of the file. Text is the UTF-16 units of the source.
\<close>

record artwork =
  art_slug :: jstr
  art_title :: jstr
  art_artist :: jstr
  art_year :: jstr
  art_medium :: jstr
  art_collection :: jstr
  art_description :: jstr
  art_alt :: jstr
  art_english_title :: jstr
  art_english_artist :: jstr
  art_english_year :: jstr
  art_english_medium :: jstr
  art_english_collection :: jstr
  art_english_description :: jstr
  art_english_alt :: jstr
  art_file :: jstr
  art_width :: int
  art_height :: int
  art_accent :: jstr

definition art_of_along_the_river :: artwork where
  "art_of_along_the_river =
     \<lparr>art_slug = js ''along-the-river'',
      art_title = [28165, 26126, 19978, 27827, 22270, 65288, 34425, 26725, 27573, 65289],
      art_artist = [24352, 25321, 31471],
      art_year = [21271, 23435] @ js '' '' @ [32422] @ js ''1101'',
      art_medium = [32482, 26412, 35774, 33394],
      art_collection = [21271, 20140, 25925, 23467, 21338, 29289, 38498],
      art_description = [34425, 26725, 27178, 36328, 27827, 38754, 65292, 33337, 21482, 19982, 20154, 32676, 22312, 26725, 19979, 26725, 19978, 20132, 32455, 12290, 27839, 30528, 26262, 35088, 33394, 30340, 23627, 23431, 21644, 23736, 32447, 30475, 21435, 65292, 34903, 24066, 30340, 32454, 33410, 19968, 28857, 28857, 23637, 24320, 12290],
      art_alt = [26262, 35088, 33394, 20687, 32032, 30011, 20013, 65292, 25329, 26725, 36328, 36807, 27827, 27969, 65292, 26725, 19978, 20154, 32676, 19982, 20004, 23736, 23627, 23431, 23494, 24067, 12290],
      art_english_title = js ''Along the River During the Qingming Festival '' @ [183] @ js '' Rainbow Bridge'',
      art_english_artist = js ''Zhang Zeduan'',
      art_english_year = js ''Northern Song, c. 1101'',
      art_english_medium = js ''Color on silk'',
      art_english_collection = js ''The Palace Museum, Beijing'',
      art_english_description = js ''An arching bridge spans the river as boats and crowds fill the scene above and below. Follow the warm brown rooftops and riverbanks to discover the small details of a busy town.'',
      art_english_alt = js ''A pixel interpretation in warm browns, with an arched bridge, river boats, crowds and densely grouped buildings.'',
      art_file = js ''art/along-the-river__fine.svg'',
      art_width = 162,
      art_height = 93,
      art_accent = js ''#DEBB7C''\<rparr>"

definition art_of_a_thousand_miles :: artwork where
  "art_of_a_thousand_miles =
     \<lparr>art_slug = js ''a-thousand-miles'',
      art_title = [21315, 37324, 27743, 23665, 22270],
      art_artist = [29579, 24076, 23391],
      art_year = [21271, 23435] @ js '' 1113'',
      art_medium = [32482, 26412, 35774, 33394],
      art_collection = [21271, 20140, 25925, 23467, 21338, 29289, 38498],
      art_description = [38738, 32511, 23665, 23792, 23618, 23618, 30456, 21472, 65292, 27973, 33394, 27700, 38754, 20174, 23665, 33050, 32531, 32531, 31359, 36807, 12290, 25226, 30446, 20809, 30041, 22312, 36828, 36817, 20043, 38388, 65292, 23736, 36793, 30340, 23627, 33293, 19982, 23567, 33311, 20415, 28014, 29616, 20986, 26469, 12290],
      art_alt = [38738, 32511, 23665, 23792, 22312, 37329, 35088, 33394, 24213, 19978, 23618, 21472, 65292, 27827, 27969, 12289, 23627, 33293, 19982, 23567, 33311, 25955, 24067, 20854, 38388, 30340, 20687, 32032, 23665, 27700, 12290],
      art_english_title = js ''A Thousand Li of Rivers and Mountains'',
      art_english_artist = js ''Wang Ximeng'',
      art_english_year = js ''Northern Song, 1113'',
      art_english_medium = js ''Color on silk'',
      art_english_collection = js ''The Palace Museum, Beijing'',
      art_english_description = js ''Blue-green peaks rise in layers, with pale water winding around their feet. Let your gaze travel between near and far to find small houses and boats along the shore.'',
      art_english_alt = js ''A pixel landscape of layered blue-green mountains, pale waterways, small houses and boats against a golden brown ground.'',
      art_file = js ''art/a-thousand-miles__fine.svg'',
      art_width = 162,
      art_height = 93,
      art_accent = js ''#A5A27C''\<rparr>"

definition art_of_mona_lisa :: artwork where
  "art_of_mona_lisa =
     \<lparr>art_slug = js ''mona-lisa'',
      art_title = [33945, 23068, 20029, 33678],
      art_artist = [21015, 22885, 32435, 22810, 183, 36798, 183, 33452, 22855],
      art_year = [32422] @ js ''1503'',
      art_medium = [26472, 26408, 26495, 27833, 30011],
      art_collection = [21346, 28014, 23467],
      art_description = [20132, 21472, 30340, 21452, 25163, 19982, 24494, 24494, 25196, 36215, 30340, 22068, 35282, 65292, 35753, 30011, 38754, 23433, 38745, 19979, 26469, 12290, 20154, 29289, 36523, 21518, 30340, 23665, 27700, 28176, 28176, 38544, 20837, 28784, 32511, 33394, 65292, 34924, 20986, 38754, 24222, 28201, 26262, 30340, 20809, 12290],
      art_alt = [28145, 33394, 34915, 30528, 30340, 22899, 23376, 21452, 25163, 20132, 21472, 65292, 24102, 30528, 27973, 27973, 24494, 31505, 65292, 36523, 21518, 26159, 28784, 32511, 33394, 23665, 27700, 30340, 20687, 32032, 32918, 20687, 12290],
      art_english_title = js ''Mona Lisa'',
      art_english_artist = js ''Leonardo da Vinci'',
      art_english_year = js ''c. 1503'',
      art_english_medium = js ''Oil on poplar panel'',
      art_english_collection = js ''Louvre Museum'',
      art_english_description = js ''Folded hands and a barely lifted smile give the portrait its quiet presence. A distant landscape fades into gray-green tones behind the warm light on her face.'',
      art_english_alt = js ''A pixel portrait of a darkly dressed woman with folded hands and a slight smile, set before a gray-green landscape.'',
      art_file = js ''art/mona-lisa__fine.svg'',
      art_width = 100,
      art_height = 150,
      art_accent = js ''#D1A050''\<rparr>"

definition art_of_girl_pearl_earring :: artwork where
  "art_of_girl_pearl_earring =
     \<lparr>art_slug = js ''girl-pearl-earring'',
      art_title = [25140, 29645, 29664, 32819, 29615, 30340, 23569, 22899],
      art_artist = [32422, 32752, 20869, 26031, 183, 32500, 31859, 23572],
      art_year = [32422] @ js ''1665'',
      art_medium = [24067, 38754, 27833, 30011],
      art_collection = [28023, 29273, 33707, 29790, 27888, 26031, 30343, 23478, 32654, 26415, 39302],
      art_description = [23569, 22899, 20391, 36523, 22238, 26395, 65292, 34013, 33394, 22836, 24062, 20174, 28145, 33394, 32972, 26223, 37324, 20142, 36215, 12290, 32819, 30036, 30340, 19968, 28857, 29645, 29664, 20809, 65292, 19982, 38754, 39050, 21644, 22068, 21767, 19978, 30340, 24494, 20809, 36731, 36731, 21628, 24212, 12290],
      art_alt = [28145, 33394, 32972, 26223, 20013, 65292, 19968, 20301, 25140, 34013, 40644, 33394, 22836, 24062, 30340, 23569, 22899, 22238, 26395, 65292, 32819, 36793, 29645, 29664, 38378, 30528, 20142, 20809, 30340, 20687, 32032, 32918, 20687, 12290],
      art_english_title = js ''Girl with a Pearl Earring'',
      art_english_artist = js ''Johannes Vermeer'',
      art_english_year = js ''c. 1665'',
      art_english_medium = js ''Oil on canvas'',
      art_english_collection = js ''Mauritshuis, The Hague'',
      art_english_description = js ''A girl turns to look back, her blue headscarf emerging from the dark background. A small gleam at her ear echoes the soft highlights on her cheek and lips.'',
      art_english_alt = js ''A pixel portrait of a girl looking back against a dark background, wearing a blue and yellow headscarf and a bright pearl earring.'',
      art_file = js ''art/girl-pearl-earring__fine.svg'',
      art_width = 110,
      art_height = 138,
      art_accent = js ''#E8D3A6''\<rparr>"

definition art_of_starry_night :: artwork where
  "art_of_starry_night =
     \<lparr>art_slug = js ''starry-night'',
      art_title = [26143, 26376, 22812],
      art_artist = [25991, 26862, 29305, 183, 26805, 39640],
      art_year = js ''1889'',
      art_medium = [24067, 38754, 27833, 30011],
      art_collection = [32445, 32422, 29616, 20195, 33402, 26415, 21338, 29289, 39302],
      art_description = [34013, 33394, 22812, 31354, 21367, 36215, 23618, 23618, 26059, 28065, 65292, 26143, 19982, 26376, 22312, 20854, 20013, 38378, 20986, 37329, 40644, 12290, 20302, 22788, 30340, 26449, 24196, 23433, 38745, 27785, 30561, 65292, 28145, 33394, 26641, 24433, 21521, 22825, 31354, 20280, 23637, 12290],
      art_alt = [34013, 33394, 26059, 28065, 22812, 31354, 20013, 25955, 24067, 37329, 40644, 26143, 26376, 65292, 19979, 26041, 26159, 26449, 24196, 19982, 39640, 32824, 28145, 33394, 26641, 24433, 30340, 20687, 32032, 39118, 26223, 12290],
      art_english_title = js ''The Starry Night'',
      art_english_artist = js ''Vincent van Gogh'',
      art_english_year = js ''1889'',
      art_english_medium = js ''Oil on canvas'',
      art_english_collection = js ''The Museum of Modern Art, New York'',
      art_english_description = js ''Swirls sweep through a blue night sky, carrying the golden light of stars and moon. Below, a quiet village rests beside a dark tree reaching upward.'',
      art_english_alt = js ''A pixel landscape with a swirling blue sky, golden stars and moon, a small village and a tall dark tree.'',
      art_file = js ''art/starry-night__fine.svg'',
      art_width = 150,
      art_height = 100,
      art_accent = js ''#F8DE5A''\<rparr>"

definition art_of_great_wave :: artwork where
  "art_of_great_wave =
     \<lparr>art_slug = js ''great-wave'',
      art_title = [31070, 22856, 24029, 20914, 28010, 37324],
      art_artist = [33883, 39280, 21271, 25995],
      art_year = [32422] @ js ''1831'',
      art_medium = [26408, 21051, 29256, 30011],
      art_collection = [22810, 39302, 34255],
      art_description = [24040, 28010, 21367, 25104, 24359, 32447, 65292, 30333, 33394, 28010, 23574, 20687, 25351, 29226, 33324, 21521, 19979, 20280, 23637, 12290, 23567, 33311, 36148, 30528, 36215, 20239, 30340, 28023, 38754, 21069, 34892, 65292, 36828, 22788, 30340, 23665, 23792, 38745, 38745, 31435, 22312, 28010, 38388, 12290],
      art_alt = [34013, 33394, 24040, 28010, 19982, 30333, 33394, 28010, 33457, 21387, 21521, 32454, 38271, 23567, 33311, 65292, 36828, 22788, 38706, 20986, 23665, 23792, 30340, 20687, 32032, 28023, 26223, 12290],
      art_english_title = js ''The Great Wave off Kanagawa'',
      art_english_artist = js ''Katsushika Hokusai'',
      art_english_year = js ''c. 1831'',
      art_english_medium = js ''Woodblock print'',
      art_english_collection = js ''Multiple collections'',
      art_english_description = js ''A great wave curls overhead, its white tips reaching down like fingers. Slender boats follow the swell while a distant mountain stands still between the waves.'',
      art_english_alt = js ''A pixel seascape of a curling blue wave with white foam above slender boats and a distant mountain.'',
      art_file = js ''art/great-wave__fine.svg'',
      art_width = 150,
      art_height = 100,
      art_accent = js ''#A7BFC7''\<rparr>"

definition art_of_nymph_river :: artwork where
  "art_of_nymph_river =
     \<lparr>art_slug = js ''nymph-river'',
      art_title = [27931, 31070, 36171, 22270],
      art_artist = [39038, 24698, 20043, 65288, 23435, 25721, 26412, 65289],
      art_year = [19996, 26187] @ js '' '' @ [32422] @ js ''350'',
      art_medium = [32482, 26412, 35774, 33394],
      art_collection = [21271, 20140, 25925, 23467, 21338, 29289, 38498],
      art_description = [39128, 24102, 38543, 34915, 34966, 33298, 23637, 65292, 20154, 29289, 30340, 36523, 24433, 19982, 27700, 23736, 12289, 23665, 30707, 30456, 20114, 26144, 34924, 12290, 27839, 30528, 30095, 23494, 30456, 38388, 30340, 32447, 26465, 26395, 21435, 65292, 19968, 27573, 30456, 36935, 20223, 20315, 20572, 30041, 22312, 37329, 35088, 33394, 30340, 38271, 21367, 37324, 12290],
      art_alt = [37329, 35088, 33394, 20687, 32032, 30011, 20013, 65292, 34915, 24102, 39128, 25196, 30340, 22899, 23376, 24748, 22312, 27700, 23736, 19978, 26041, 65292, 24038, 20391, 20154, 29289, 22352, 22312, 23665, 30707, 26049, 65292, 27700, 38754, 25955, 24067, 33457, 21494, 12290],
      art_english_title = js ''Nymph of the Luo River'',
      art_english_artist = js ''Gu Kaizhi (Song dynasty copy)'',
      art_english_year = js ''Eastern Jin, c. 350'',
      art_english_medium = js ''Color on silk'',
      art_english_collection = js ''The Palace Museum, Beijing'',
      art_english_description = js ''Flowing ribbons connect the figures with water, rocks and distant hills. Fine lines and open spaces hold a quiet encounter within a golden brown landscape.'',
      art_english_alt = js ''A golden brown pixel scene with a ribbon-draped woman above the water, a seated figure beside rocks, and flowers along the shore.'',
      art_file = js ''art/nymph-river__fine.svg'',
      art_width = 150,
      art_height = 100,
      art_accent = js ''#C69E61''\<rparr>"

definition art_of_emperors_litter :: artwork where
  "art_of_emperors_litter =
     \<lparr>art_slug = js ''emperors-litter'',
      art_title = [27493, 36743, 22270],
      art_artist = [38414, 31435, 26412],
      art_year = [21776] @ js '' '' @ [32422] @ js ''641'',
      art_medium = [32482, 26412, 35774, 33394],
      art_collection = [21271, 20140, 25925, 23467, 21338, 29289, 38498],
      art_description = [28145, 33394, 34915, 34957, 30340, 22352, 20687, 19982, 24038, 20391, 31449, 31435, 30340, 20154, 29289, 36965, 30456, 23545, 26395, 65292, 20365, 20174, 21644, 20202, 20183, 22312, 36523, 21518, 23637, 24320, 12290, 26417, 32418, 12289, 36205, 40644, 19982, 38738, 32511, 30340, 34915, 33394, 65292, 35753, 30095, 26391, 30340, 30011, 38754, 26377, 20102, 40092, 26126, 30340, 33410, 22863, 12290],
      art_alt = [26262, 40644, 33394, 24213, 30340, 20687, 32032, 20154, 29289, 30011, 20013, 65292, 24038, 20391, 19977, 20154, 31449, 31435, 65292, 21491, 20391, 19968, 20301, 28145, 34915, 20154, 29289, 22352, 22312, 27493, 36743, 19978, 65292, 21608, 22260, 22260, 30528, 20365, 20174, 21644, 20202, 20183, 12290],
      art_english_title = js ''Emperor Taizong Receiving an Envoy'',
      art_english_artist = js ''Yan Liben'',
      art_english_year = js ''Tang dynasty, c. 641'',
      art_english_medium = js ''Color on silk'',
      art_english_collection = js ''The Palace Museum, Beijing'',
      art_english_description = js ''A seated figure in dark robes faces a small standing group, with attendants and ceremonial objects behind him. Red, ochre and green garments bring rhythm to the open ground.'',
      art_english_alt = js ''A pixel scene on a warm yellow ground, with three standing figures facing a dark-robed figure on a litter surrounded by attendants.'',
      art_file = js ''art/emperors-litter__fine.svg'',
      art_width = 141,
      art_height = 106,
      art_accent = js ''#DAA95C''\<rparr>"

definition art_of_palace_ladies :: artwork where
  "art_of_palace_ladies =
     \<lparr>art_slug = js ''palace-ladies'',
      art_title = [25443, 32451, 22270],
      art_artist = [24352, 33841, 65288, 23435, 25721, 26412, 65289],
      art_year = [21776] @ js '' '' @ [32422] @ js ''730'',
      art_medium = [32482, 26412, 35774, 33394],
      art_collection = [27874, 22763, 39039, 32654, 26415, 39302],
      art_description = [20960, 20301, 22899, 23376, 22260, 30528, 23637, 24320, 30340, 30333, 33394, 32482, 24091, 65292, 21508, 33258, 20463, 36523, 12289, 25206, 25345, 25110, 31449, 31435, 12290, 34915, 35033, 30340, 32418, 32511, 32441, 26679, 19982, 32454, 38271, 30340, 32482, 38754, 30456, 34924, 65292, 35753, 26085, 24120, 21171, 20316, 26174, 24471, 20174, 23481, 32780, 32454, 33147, 12290],
      art_alt = [36205, 40644, 33394, 24213, 30340, 20687, 32032, 30011, 20013, 65292, 20960, 20301, 36523, 30528, 32418, 32511, 34915, 35033, 30340, 22899, 23376, 22260, 30528, 19968, 27573, 30333, 33394, 32482, 24091, 21171, 20316, 65292, 26049, 36793, 25918, 30528, 31726, 31568, 19982, 22120, 20855, 12290],
      art_english_title = js ''Court Ladies Preparing Newly Woven Silk'',
      art_english_artist = js ''Zhang Xuan (Song dynasty copy)'',
      art_english_year = js ''Tang dynasty, c. 730'',
      art_english_medium = js ''Color on silk'',
      art_english_collection = js ''Museum of Fine Arts, Boston'',
      art_english_description = js ''Women gather around a length of pale silk, each bending, holding or standing at work. Patterned red and green robes frame the cloth with a calm, measured rhythm.'',
      art_english_alt = js ''A pixel scene of women in red and green robes working around a length of white silk, with baskets and tools on an ochre ground.'',
      art_file = js ''art/palace-ladies__fine.svg'',
      art_width = 162,
      art_height = 93,
      art_accent = js ''#E1BD81''\<rparr>"

definition art_of_travelers_mountains :: artwork where
  "art_of_travelers_mountains =
     \<lparr>art_slug = js ''travelers-mountains'',
      art_title = [28330, 23665, 34892, 26053, 22270],
      art_artist = [33539, 23485],
      art_year = [21271, 23435] @ js '' '' @ [32422] @ js ''1000'',
      art_medium = [32482, 26412, 27700, 22696],
      art_collection = [21488, 21271, 25925, 23467, 21338, 29289, 38498],
      art_description = [39640, 23665, 20174, 34180, 38654, 20013, 30452, 31435, 32780, 36215, 65292, 32454, 38271, 30340, 28689, 24067, 21010, 36807, 28145, 33394, 23721, 22721, 12290, 36817, 22788, 26641, 30707, 23618, 21472, 65292, 36828, 22788, 23665, 21183, 27785, 31283, 65292, 32454, 23567, 30340, 34892, 26053, 36523, 24433, 35753, 23665, 27700, 26174, 24471, 26684, 22806, 36797, 38420, 12290],
      art_alt = [31446, 24133, 27700, 22696, 20687, 32032, 23665, 27700, 20013, 65292, 24040, 22823, 30340, 28145, 33394, 23665, 23792, 39640, 32824, 65292, 28689, 24067, 22402, 33853, 65292, 21069, 26223, 26641, 26408, 21644, 23665, 36335, 26049, 21487, 35265, 32454, 23567, 34892, 26053, 12290],
      art_english_title = js ''Travelers Among Mountains and Streams'',
      art_english_artist = js ''Fan Kuan'',
      art_english_year = js ''Northern Song, c. 1000'',
      art_english_medium = js ''Ink on silk'',
      art_english_collection = js ''National Palace Museum, Taipei'',
      art_english_description = js ''A mountain rises through mist, with a slender waterfall tracing its dark face. Layered trees and rocks fill the foreground, while tiny travelers reveal the scale of the landscape.'',
      art_english_alt = js ''A vertical ink-style pixel landscape with a towering dark mountain, a waterfall, foreground trees and tiny travelers along a mountain path.'',
      art_file = js ''art/travelers-mountains__fine.svg'',
      art_width = 106,
      art_height = 141,
      art_accent = js ''#C6B193''\<rparr>"

definition art_of_dwelling_fuchun :: artwork where
  "art_of_dwelling_fuchun =
     \<lparr>art_slug = js ''dwelling-fuchun'',
      art_title = [23500, 26149, 23665, 23621, 22270, 65288, 21097, 23665, 21367, 65289],
      art_artist = [40644, 20844, 26395],
      art_year = [20803] @ js '' 1350'',
      art_medium = [32440, 26412, 27700, 22696],
      art_collection = [27993, 27743, 30465, 21338, 29289, 39302],
      art_description = [28129, 22696, 23665, 23782, 27839, 30528, 24320, 38420, 27700, 38754, 21521, 36828, 22788, 25512, 31227, 65292, 23736, 36793, 26641, 26408, 19982, 22369, 30707, 30095, 23494, 26377, 33268, 12290, 22823, 29255, 27973, 33394, 30041, 30333, 65292, 35753, 30446, 20809, 22312, 23665, 19982, 27700, 20043, 38388, 32531, 32531, 28216, 36208, 12290],
      art_alt = [27973, 31859, 33394, 24213, 30340, 20687, 32032, 27700, 22696, 23665, 27700, 20013, 65292, 36828, 23665, 23618, 21472, 65292, 36817, 23736, 26641, 19995, 19982, 23567, 19992, 22260, 32469, 30528, 24320, 38420, 30340, 27700, 38754, 12290],
      art_english_title = js ''Dwelling in the Fuchun Mountains '' @ [183] @ js '' The Remaining Mountain'',
      art_english_artist = js ''Huang Gongwang'',
      art_english_year = js ''Yuan dynasty, 1350'',
      art_english_medium = js ''Ink on paper'',
      art_english_collection = js ''Zhejiang Provincial Museum'',
      art_english_description = js ''Pale mountains recede beyond open water, with trees and rocky slopes gathered along the shore. Broad areas of light ground let the eye wander slowly between land and water.'',
      art_english_alt = js ''An ink-style pixel landscape on a pale beige ground, with layered distant mountains, waterside trees and low hills around an open expanse of water.'',
      art_file = js ''art/dwelling-fuchun__fine.svg'',
      art_width = 141,
      art_height = 106,
      art_accent = js ''#D5B780''\<rparr>"

definition art_of_hibiscus_pheasant :: artwork where
  "art_of_hibiscus_pheasant =
     \<lparr>art_slug = js ''hibiscus-pheasant'',
      art_title = [33433, 33993, 38182, 40481, 22270],
      art_artist = [36213, 20342],
      art_year = [21271, 23435] @ js '' '' @ [32422] @ js ''1115'',
      art_medium = [32482, 26412, 35774, 33394],
      art_collection = [21271, 20140, 25925, 23467, 21338, 29289, 38498],
      art_description = [38182, 40481, 20572, 22312, 26012, 20986, 30340, 33457, 26525, 19978, 65292, 38271, 38271, 30340, 23614, 32701, 21521, 19979, 22402, 33853, 12290, 27973, 31881, 33457, 26421, 12289, 38738, 32511, 21494, 29255, 19982, 19978, 26041, 30340, 34676, 34678, 65292, 25226, 32420, 32454, 30340, 26525, 26465, 34924, 24471, 29983, 21160, 32780, 36731, 30408, 12290],
      art_alt = [27973, 33394, 24213, 30340, 31446, 24133, 20687, 32032, 33457, 40479, 30011, 20013, 65292, 24425, 33394, 38182, 40481, 31435, 22312, 24320, 30528, 31881, 33457, 30340, 26525, 22836, 65292, 38271, 23614, 19979, 22402, 65292, 20004, 21482, 34676, 34678, 22312, 19978, 26041, 39134, 33310, 12290],
      art_english_title = js ''Golden Pheasant and Hibiscus'',
      art_english_artist = js ''Zhao Ji'',
      art_english_year = js ''Northern Song, c. 1115'',
      art_english_medium = js ''Color on silk'',
      art_english_collection = js ''The Palace Museum, Beijing'',
      art_english_description = js ''A colorful pheasant rests on a flowering branch, its long tail falling below. Pink blossoms, green leaves and butterflies above give the slender branch a lively sense of balance.'',
      art_english_alt = js ''A vertical pixel bird-and-flower painting with a colorful pheasant on a branch of pink blossoms, a long hanging tail and two butterflies above.'',
      art_file = js ''art/hibiscus-pheasant__fine.svg'',
      art_width = 106,
      art_height = 141,
      art_accent = js ''#DBB982''\<rparr>"

definition art_of_ink_grapes :: artwork where
  "art_of_ink_grapes =
     \<lparr>art_slug = js ''ink-grapes'',
      art_title = [22696, 33889, 33796, 22270],
      art_artist = [24464, 28205],
      art_year = [26126] @ js '' '' @ [32422] @ js ''1580'',
      art_medium = [32440, 26412, 27700, 22696],
      art_collection = [21271, 20140, 25925, 23467, 21338, 29289, 38498],
      art_description = [27987, 28129, 19981, 21516, 30340, 22696, 33394, 32858, 25104, 21494, 29255, 19982, 33889, 33796, 65292, 32454, 32454, 30340, 34276, 34067, 21521, 31354, 30333, 22788, 22402, 33853, 12290, 39281, 28385, 30340, 26524, 20018, 21644, 26494, 25955, 30340, 26525, 21494, 30456, 20114, 31359, 25554, 65292, 30041, 19979, 33258, 30001, 33298, 23637, 30340, 31508, 24847, 12290],
      art_alt = [31859, 33394, 24213, 30340, 31446, 24133, 20687, 32032, 27700, 22696, 30011, 20013, 65292, 28145, 27973, 22696, 21494, 19982, 25104, 20018, 33889, 33796, 32858, 22312, 19978, 26041, 65292, 32454, 38271, 34276, 34067, 21521, 19979, 20280, 23637, 65292, 21491, 20391, 26377, 39064, 23383, 12290],
      art_english_title = js ''Grapes in Ink'',
      art_english_artist = js ''Xu Wei'',
      art_english_year = js ''Ming dynasty, c. 1580'',
      art_english_medium = js ''Ink on paper'',
      art_english_collection = js ''The Palace Museum, Beijing'',
      art_english_description = js ''Leaves and grapes gather in shifting shades of ink, while thin tendrils trail into open space. Dense clusters and loose branches give the composition a freely unfolding rhythm.'',
      art_english_alt = js ''A vertical ink-style pixel painting on beige paper, with dark leaves and grape clusters above, trailing vines below and an inscription at the right.'',
      art_file = js ''art/ink-grapes__fine.svg'',
      art_width = 106,
      art_height = 141,
      art_accent = js ''#CDBB9E''\<rparr>"

definition art_of_shrimps :: artwork where
  "art_of_shrimps =
     \<lparr>art_slug = js ''shrimps'',
      art_title = [32676, 34430, 22270],
      art_artist = [40784, 30333, 30707],
      art_year = [29616, 20195] @ js '' '' @ [32422] @ js ''1940'',
      art_medium = [32440, 26412, 27700, 22696],
      art_collection = [20013, 22269, 32654, 26415, 39302],
      art_description = [20960, 21482, 34430, 26012, 26012, 31359, 36807, 30041, 30333, 65292, 36879, 26126, 20284, 30340, 36527, 20307, 19982, 27987, 22696, 28857, 20986, 30340, 22836, 37096, 24418, 25104, 23545, 27604, 12290, 38271, 39035, 19982, 32454, 36275, 30456, 20114, 20132, 38169, 65292, 20687, 25226, 27700, 20013, 30340, 36731, 24494, 27969, 21160, 20063, 24102, 36827, 20102, 30011, 38754, 12290],
      art_alt = [27973, 31859, 33394, 24213, 30340, 20687, 32032, 27700, 22696, 30011, 20013, 65292, 25968, 21482, 28784, 40657, 33394, 30340, 34430, 26012, 21521, 28216, 21160, 65292, 38271, 39035, 19982, 32454, 36275, 20132, 38169, 65292, 24038, 19979, 26377, 27700, 33609, 65292, 21491, 19979, 26377, 32418, 21360, 12290],
      art_english_title = js ''Shrimps'',
      art_english_artist = js ''Qi Baishi'',
      art_english_year = js ''Modern period, c. 1940'',
      art_english_medium = js ''Ink on paper'',
      art_english_collection = js ''National Art Museum of China'',
      art_english_description = js ''Shrimps drift diagonally through open space, their translucent-looking bodies contrasting with dark heads. Long antennae and fine legs overlap like traces of movement in water.'',
      art_english_alt = js ''An ink-style pixel painting of gray-black shrimps swimming diagonally across pale paper, with long antennae, aquatic plants and a red seal.'',
      art_file = js ''art/shrimps__fine.svg'',
      art_width = 141,
      art_height = 106,
      art_accent = js ''#CEC5B2''\<rparr>"

definition art_of_galloping_horse :: artwork where
  "art_of_galloping_horse =
     \<lparr>art_slug = js ''galloping-horse'',
      art_title = [22868, 39532, 22270],
      art_artist = [24464, 24754, 40511],
      art_year = [29616, 20195] @ js '' 1941'',
      art_medium = [32440, 26412, 27700, 22696],
      art_collection = [24464, 24754, 40511, 32426, 24565, 39302],
      art_description = [22868, 39532, 36814, 38754, 36291, 20986, 65292, 27987, 40657, 39683, 27611, 19982, 38271, 23614, 21521, 21518, 39134, 25196, 12290, 31895, 37325, 30340, 36527, 24178, 21644, 36731, 24555, 30340, 33151, 37096, 32447, 26465, 24418, 25104, 23545, 29031, 65292, 35753, 38745, 27490, 30340, 30011, 38754, 20805, 28385, 21521, 21069, 30340, 21147, 37327, 12290],
      art_alt = [27973, 33394, 24213, 30340, 20687, 32032, 27700, 22696, 30011, 20013, 65292, 19968, 21305, 40657, 28784, 33394, 22868, 39532, 36291, 21521, 21069, 26041, 65292, 39683, 27611, 21644, 38271, 23614, 39134, 25196, 65292, 24038, 20391, 26377, 31446, 25490, 39064, 23383, 19982, 32418, 21360, 12290],
      art_english_title = js ''Galloping Horse'',
      art_english_artist = js ''Xu Beihong'',
      art_english_year = js ''Modern period, 1941'',
      art_english_medium = js ''Ink on paper'',
      art_english_collection = js ''Xu Beihong Memorial Museum'',
      art_english_description = js ''A horse surges forward, its dark mane and long tail streaming behind. The weight of its body contrasts with swift lines in the legs, giving the still image a strong sense of motion.'',
      art_english_alt = js ''An ink-style pixel painting of a black and gray horse galloping forward with a flying mane and tail, beside an inscription and red seals.'',
      art_file = js ''art/galloping-horse__fine.svg'',
      art_width = 141,
      art_height = 106,
      art_accent = js ''#C9BBA5''\<rparr>"

definition art_of_birth_venus :: artwork where
  "art_of_birth_venus =
     \<lparr>art_slug = js ''birth-venus'',
      art_title = [32500, 32435, 26031, 30340, 35806, 29983],
      art_artist = [26705, 24503, 32599, 183, 27874, 25552, 20999, 21033],
      art_year = [32422] @ js ''1485'',
      art_medium = [24067, 38754, 34507, 24425],
      art_collection = [20044, 33778, 20857, 32654, 26415, 39302],
      art_description = [32500, 32435, 26031, 31435, 22312, 36125, 22771, 19978, 65292, 38271, 21457, 38543, 28023, 39118, 25955, 24320, 12290, 27973, 34013, 28023, 38754, 12289, 39128, 33853, 30340, 33457, 26421, 19982, 23736, 36793, 36814, 25509, 30340, 20154, 29289, 65292, 35753, 30011, 38754, 24102, 30528, 26580, 21644, 32780, 26126, 20142, 30340, 27668, 24687, 12290],
      art_alt = [20687, 32032, 30011, 20013, 65292, 19968, 20301, 38271, 21457, 22899, 23376, 31435, 22312, 28023, 19978, 30340, 36125, 22771, 20013, 65292, 24038, 19978, 26377, 20154, 29289, 21561, 39118, 65292, 21491, 20391, 20154, 29289, 25345, 34915, 30456, 36814, 65292, 21608, 22260, 25955, 33853, 33457, 26421, 12290],
      art_english_title = js ''The Birth of Venus'',
      art_english_artist = js ''Sandro Botticelli'',
      art_english_year = js ''c. 1485'',
      art_english_medium = js ''Tempera on canvas'',
      art_english_collection = js ''Uffizi Galleries'',
      art_english_description = js ''Venus stands on a shell as her long hair moves in the sea breeze. Pale blue water, scattered flowers and a welcoming figure on the shore give the scene a soft, luminous atmosphere.'',
      art_english_alt = js ''A pixel scene of a long-haired woman standing in a shell on the sea, with wind-blowing figures above the left and a figure holding a robe at the right.'',
      art_file = js ''art/birth-venus__fine.svg'',
      art_width = 106,
      art_height = 141,
      art_accent = js ''#D3C997''\<rparr>"

definition art_of_last_supper :: artwork where
  "art_of_last_supper =
     \<lparr>art_slug = js ''last-supper'',
      art_title = [26368, 21518, 30340, 26202, 39184],
      art_artist = [21015, 22885, 32435, 22810, 183, 36798, 183, 33452, 22855],
      art_year = [32422] @ js ''1495'' @ [8211] @ js ''1498'',
      art_medium = [24178, 22721, 30011],
      art_collection = [31859, 20848, 24681, 23456, 22307, 27597, 25945, 22530],
      art_description = [38271, 26700, 21069, 21518, 30340, 20154, 29289, 20197, 19981, 21516, 23039, 24577, 20132, 35848, 65292, 20013, 22830, 30340, 36523, 24433, 20445, 25345, 23433, 38745, 12290, 22825, 33457, 26495, 19982, 20004, 20391, 22681, 38754, 30340, 32447, 26465, 21521, 28145, 22788, 27719, 25314, 65292, 25226, 30446, 20809, 24102, 21521, 26700, 21518, 30340, 20142, 31383, 12290],
      art_alt = [20687, 32032, 30011, 20013, 65292, 19968, 32676, 20154, 29289, 22260, 22352, 22312, 38138, 30333, 24067, 30340, 38271, 26700, 26049, 65292, 20013, 22830, 20154, 29289, 31359, 32418, 34013, 34915, 34957, 65292, 25151, 38388, 30340, 36879, 35270, 32447, 24310, 20280, 21040, 21518, 26041, 20142, 31383, 12290],
      art_english_title = js ''The Last Supper'',
      art_english_artist = js ''Leonardo da Vinci'',
      art_english_year = js ''c. 1495'' @ [8211] @ js ''1498'',
      art_english_medium = js ''Dry wall painting'',
      art_english_collection = js ''Santa Maria delle Grazie, Milan'',
      art_english_description = js ''Figures gesture and turn around a long table, while the central figure remains still. Lines in the ceiling and side walls lead the eye toward the bright windows behind them.'',
      art_english_alt = js ''A pixel scene of figures gathered around a long white-covered table, with a central figure in red and blue and perspective lines leading to bright rear windows.'',
      art_file = js ''art/last-supper__fine.svg'',
      art_width = 141,
      art_height = 106,
      art_accent = js ''#A6BDD3''\<rparr>"

definition art_of_school_athens :: artwork where
  "art_of_school_athens =
     \<lparr>art_slug = js ''school-athens'',
      art_title = [38597, 20856, 23398, 38498],
      art_artist = [25289, 26000, 23572],
      art_year = js ''1509'' @ [8211] @ js ''1511'',
      art_medium = [28287, 22721, 30011],
      art_collection = [26805, 33922, 20872, 31614, 23383, 21381],
      art_description = [23618, 23618, 25329, 38376, 20043, 19979, 65292, 20154, 29289, 32858, 25314, 12289, 20132, 35848, 65292, 20063, 26377, 20154, 29420, 22352, 27785, 24605, 12290, 26126, 20142, 30707, 38454, 21644, 20960, 20309, 22320, 38754, 25226, 31354, 38388, 21521, 28145, 22788, 24310, 20280, 65292, 20013, 22830, 20004, 20154, 30340, 36523, 24433, 33853, 22312, 25329, 38376, 20043, 38388, 12290],
      art_alt = [20687, 32032, 30011, 20013, 65292, 20247, 22810, 31359, 38271, 34957, 30340, 20154, 29289, 32858, 38598, 22312, 39640, 22823, 30340, 25329, 38376, 22823, 21381, 37324, 65292, 26377, 20154, 20132, 35848, 65292, 26377, 20154, 22352, 22312, 21488, 38454, 19978, 65292, 20013, 22830, 36828, 22788, 38706, 20986, 34013, 22825, 12290],
      art_english_title = js ''The School of Athens'',
      art_english_artist = js ''Raphael'',
      art_english_year = js ''1509'' @ [8211] @ js ''1511'',
      art_english_medium = js ''Fresco'',
      art_english_collection = js ''Stanza della Segnatura, Vatican'',
      art_english_description = js ''Beneath a sequence of arches, figures gather in conversation or sit alone in thought. Pale steps and a patterned floor draw the space inward toward two central figures.'',
      art_english_alt = js ''A pixel scene of robed figures gathering and talking in a grand arched hall, with seated figures on steps and blue sky visible in the distance.'',
      art_file = js ''art/school-athens__fine.svg'',
      art_width = 141,
      art_height = 106,
      art_accent = js ''#D1CEC5''\<rparr>"

definition art_of_creation_adam :: artwork where
  "art_of_creation_adam =
     \<lparr>art_slug = js ''creation-adam'',
      art_title = [21019, 36896, 20122, 24403, 65288, 35199, 26031, 24311, 22825, 39030, 23616, 37096, 65289],
      art_artist = [31859, 24320, 26391, 22522, 32599],
      art_year = [32422] @ js ''1512'',
      art_medium = [28287, 22721, 30011],
      art_collection = [26805, 33922, 20872],
      art_description = [20004, 21482, 20280, 20986, 30340, 25163, 20572, 22312, 23558, 35302, 26410, 35302, 30340, 19968, 30636, 65292, 25104, 20026, 30011, 38754, 30340, 20013, 24515, 12290, 33298, 23637, 30340, 20154, 20307, 12289, 27973, 33394, 22825, 31354, 19982, 32763, 21367, 30340, 34915, 35126, 30456, 20114, 21628, 24212, 65292, 25226, 35270, 32447, 24341, 21521, 25351, 23574, 38388, 30340, 30041, 30333, 12290],
      art_alt = [20687, 32032, 22721, 30011, 23616, 37096, 20013, 65292, 26012, 20506, 30340, 30007, 23376, 21521, 21478, 19968, 32452, 34987, 32418, 33394, 34915, 35126, 22260, 32469, 30340, 20154, 29289, 20280, 25163, 65292, 20004, 20154, 30340, 25351, 23574, 20960, 20046, 30456, 35302, 12290],
      art_english_title = js ''The Creation of Adam '' @ [183] @ js '' Sistine Ceiling Detail'',
      art_english_artist = js ''Michelangelo'',
      art_english_year = js ''c. 1512'',
      art_english_medium = js ''Fresco'',
      art_english_collection = js ''Vatican'',
      art_english_description = js ''Two outstretched hands pause just before they touch. Reclining forms, pale sky and billowing drapery guide the eye toward the small gap between the fingertips.'',
      art_english_alt = js ''A pixel interpretation of a mural detail with a reclining man reaching toward figures enclosed in red drapery, their fingertips almost touching.'',
      art_file = js ''art/creation-adam__fine.svg'',
      art_width = 141,
      art_height = 106,
      art_accent = js ''#CBB592''\<rparr>"

definition art_of_night_watch :: artwork where
  "art_of_night_watch =
     \<lparr>art_slug = js ''night-watch'',
      art_title = [22812, 24033],
      art_artist = [20262, 21187, 26391],
      art_year = js ''1642'',
      art_medium = [24067, 38754, 27833, 30011],
      art_collection = [38463, 22982, 26031, 29305, 20025, 22269, 31435, 21338, 29289, 39302],
      art_description = [20154, 29289, 20174, 28145, 33394, 32972, 26223, 37324, 36208, 20986, 65292, 26126, 20142, 30340, 34915, 34966, 12289, 38754, 24222, 19982, 37329, 33394, 32454, 33410, 20381, 27425, 28014, 29616, 12290, 26071, 24092, 21644, 38271, 26438, 20132, 38169, 20854, 38388, 65292, 35753, 23494, 38598, 30340, 20154, 32676, 24102, 30528, 27491, 22312, 34892, 36827, 30340, 21160, 21183, 12290],
      art_alt = [26263, 35088, 33394, 20687, 32032, 32676, 20687, 20013, 65292, 19968, 38431, 20154, 29289, 32858, 22312, 19968, 36215, 65292, 21069, 26041, 20004, 20154, 21644, 24038, 20391, 27973, 34915, 20154, 29289, 34987, 20809, 29031, 20142, 65292, 26071, 24092, 19982, 38271, 26438, 20280, 21521, 19978, 26041, 12290],
      art_english_title = js ''The Night Watch'',
      art_english_artist = js ''Rembrandt'',
      art_english_year = js ''1642'',
      art_english_medium = js ''Oil on canvas'',
      art_english_collection = js ''Rijksmuseum, Amsterdam'',
      art_english_description = js ''Figures emerge from a dark background as sleeves, faces and golden details catch the light. A flag and raised poles weave through the group, suggesting a gathering about to move.'',
      art_english_alt = js ''A dark brown pixel group portrait with two figures in front and a pale-clad figure at the left caught in light, beneath a flag and raised poles.'',
      art_file = js ''art/night-watch__fine.svg'',
      art_width = 141,
      art_height = 106,
      art_accent = js ''#D0B587''\<rparr>"

definition art_of_las_meninas :: artwork where
  "art_of_las_meninas =
     \<lparr>art_slug = js ''las-meninas'',
      art_title = [23467, 23077],
      art_artist = [22996, 25289, 26031, 24320, 20857],
      art_year = js ''1656'',
      art_medium = [24067, 38754, 27833, 30011],
      art_collection = [39532, 24503, 37324, 26222, 25289, 22810, 21338, 29289, 39302],
      art_description = [27973, 33394, 35033, 35013, 30340, 22899, 23401, 31449, 22312, 25151, 38388, 20013, 22830, 65292, 36523, 26049, 30340, 20154, 29289, 25110, 20463, 36523, 65292, 25110, 36716, 22836, 20957, 26395, 12290, 26263, 22788, 30340, 30011, 26694, 12289, 21518, 26041, 30340, 38376, 21475, 19982, 21069, 26223, 30340, 29399, 65292, 25226, 23460, 20869, 31354, 38388, 19968, 23618, 23618, 23637, 24320, 12290],
      art_alt = [20687, 32032, 23460, 20869, 32676, 20687, 20013, 65292, 19968, 20301, 31359, 27973, 33394, 23485, 35033, 30340, 22899, 23401, 31449, 22312, 20013, 22830, 65292, 21608, 22260, 26377, 20365, 20174, 65292, 21069, 26223, 26377, 29399, 65292, 21518, 22681, 25346, 30528, 30011, 26694, 24182, 24320, 30528, 20142, 38376, 12290],
      art_english_title = js ''Las Meninas'',
      art_english_artist = js ''Diego Vel'' @ [225] @ js ''zquez'',
      art_english_year = js ''1656'',
      art_english_medium = js ''Oil on canvas'',
      art_english_collection = js ''Museo Nacional del Prado, Madrid'',
      art_english_description = js ''A girl in a pale dress stands at the center as nearby figures bend toward her or turn to look. Framed pictures, a distant doorway and a dog in front build layers of depth within the room.'',
      art_english_alt = js ''A pixel interior with a girl in a wide pale dress surrounded by attendants, a dog in front, framed pictures and a bright doorway at the back.'',
      art_file = js ''art/las-meninas__fine.svg'',
      art_width = 141,
      art_height = 106,
      art_accent = js ''#DAC497''\<rparr>"

definition art_of_liberty_leading :: artwork where
  "art_of_liberty_leading =
     \<lparr>art_slug = js ''liberty-leading'',
      art_title = [33258, 30001, 24341, 23548, 20154, 27665],
      art_artist = [24503, 25289, 20811, 27931, 29926],
      art_year = js ''1830'',
      art_medium = [24067, 38754, 27833, 30011],
      art_collection = [21346, 28014, 23467],
      art_description = [39640, 20030, 30340, 19977, 33394, 26071, 20174, 28895, 23576, 20013, 23637, 24320, 65292, 20013, 22830, 20154, 29289, 21521, 21069, 36808, 27493, 12290, 21608, 22260, 20154, 32676, 12289, 20498, 19979, 30340, 36523, 24433, 19982, 36828, 22788, 24314, 31569, 21472, 22312, 19968, 36215, 65292, 35753, 30011, 38754, 26174, 24471, 32039, 24352, 32780, 26377, 21147, 12290],
      art_alt = [20687, 32032, 30011, 20013, 65292, 19968, 21517, 22899, 23376, 20030, 36215, 34013, 30333, 32418, 19977, 33394, 26071, 36234, 36807, 29926, 30782, 21521, 21069, 65292, 25345, 26800, 20154, 32676, 36319, 38543, 65292, 21069, 26223, 26377, 20154, 20498, 21351, 65292, 36828, 22788, 22478, 24066, 31548, 32617, 22312, 28895, 38654, 20013, 12290],
      art_english_title = js ''Liberty Leading the People'',
      art_english_artist = js ''Eug'' @ [232] @ js ''ne Delacroix'',
      art_english_year = js ''1830'',
      art_english_medium = js ''Oil on canvas'',
      art_english_collection = js ''Louvre Museum'',
      art_english_description = js ''A raised tricolor opens above the smoke as the central figure strides forward. The crowd, fallen bodies and distant buildings gather into a scene of tension and force.'',
      art_english_alt = js ''A pixel scene of a woman raising a blue, white and red flag as she crosses rubble, followed by armed figures, with fallen bodies and a smoky city beyond.'',
      art_file = js ''art/liberty-leading__fine.svg'',
      art_width = 141,
      art_height = 106,
      art_accent = js ''#D2B582''\<rparr>"

definition art_of_wanderer_fog :: artwork where
  "art_of_wanderer_fog =
     \<lparr>art_slug = js ''wanderer-fog'',
      art_title = [38654, 28023, 19978, 30340, 26053, 20154],
      art_artist = [21345, 26031, 24085, 183, 22823, 21355, 183, 24343, 37324, 24503, 37324, 24076],
      art_year = [32422] @ js ''1818'',
      art_medium = [24067, 38754, 27833, 30011],
      art_collection = [27721, 22561, 32654, 26415, 39302],
      art_description = [19968, 20301, 26053, 20154, 32972, 23545, 35266, 32773, 65292, 29420, 33258, 31435, 22312, 36817, 22788, 30340, 23721, 30707, 19978, 12290, 38654, 27668, 28459, 36807, 23618, 23618, 23665, 35895, 65292, 21482, 30041, 19979, 38646, 25955, 23792, 39030, 65292, 35753, 28145, 33394, 36523, 24433, 19982, 36797, 38420, 36828, 26223, 24418, 25104, 23433, 38745, 30340, 23545, 29031, 12290],
      art_alt = [31446, 24133, 20687, 32032, 39118, 26223, 20013, 65292, 19968, 21517, 25345, 25163, 26454, 30340, 30007, 23376, 32972, 23545, 35266, 32773, 31449, 22312, 23721, 30707, 19978, 65292, 21069, 26041, 26159, 38654, 27668, 35206, 30422, 30340, 23665, 35895, 19982, 23618, 23618, 36828, 23665, 12290],
      art_english_title = js ''Wanderer Above the Sea of Fog'',
      art_english_artist = js ''Caspar David Friedrich'',
      art_english_year = js ''c. 1818'',
      art_english_medium = js ''Oil on canvas'',
      art_english_collection = js ''Hamburger Kunsthalle'',
      art_english_description = js ''A traveler stands alone on a rocky ledge with his back to the viewer. Mist fills the valleys and leaves scattered peaks visible, setting the dark figure against a wide, quiet distance.'',
      art_english_alt = js ''A vertical pixel landscape with a man holding a walking stick on a rocky ledge, seen from behind above mist-filled valleys and distant mountains.'',
      art_file = js ''art/wanderer-fog__fine.svg'',
      art_width = 106,
      art_height = 141,
      art_accent = js ''#A2B1B8''\<rparr>"

definition art_of_impression_sunrise :: artwork where
  "art_of_impression_sunrise =
     \<lparr>art_slug = js ''impression-sunrise'',
      art_title = [26085, 20986, 183, 21360, 35937],
      art_artist = [20811, 21171, 24503, 183, 33707, 22856],
      art_year = js ''1872'',
      art_medium = [24067, 38754, 27833, 30011],
      art_collection = [29595, 25705, 20025, 32654, 26415, 39302],
      art_description = [27225, 32418, 33394, 30340, 22826, 38451, 24748, 22312, 34013, 32043, 33394, 38654, 27668, 20013, 65292, 20498, 24433, 22312, 27700, 38754, 25289, 20986, 19968, 20018, 26262, 20809, 12290, 36817, 22788, 23567, 33311, 27785, 38745, 65292, 36828, 22788, 26693, 26438, 19982, 28895, 24433, 20132, 32455, 65292, 28207, 21475, 20687, 21018, 20174, 28165, 26216, 37266, 26469, 12290],
      art_alt = [34013, 32043, 33394, 20687, 32032, 28207, 28286, 20013, 65292, 27225, 32418, 22826, 38451, 21644, 20498, 24433, 29031, 20142, 27700, 38754, 65292, 21069, 26223, 26377, 28145, 33394, 23567, 33311, 65292, 36828, 22788, 25490, 21015, 30528, 33337, 21482, 12289, 26693, 26438, 19982, 28895, 38654, 12290],
      art_english_title = js ''Impression, Sunrise'',
      art_english_artist = js ''Claude Monet'',
      art_english_year = js ''1872'',
      art_english_medium = js ''Oil on canvas'',
      art_english_collection = js ''Mus'' @ [233] @ js ''e Marmottan Monet'',
      art_english_description = js ''An orange-red sun hangs in blue-violet mist, leaving a warm trail across the water. A small boat rests in the foreground while masts and smoke blur into the waking harbor.'',
      art_english_alt = js ''A blue-violet pixel harbor with an orange-red sun and its reflection, a dark boat in front, and distant ships, masts and smoke.'',
      art_file = js ''art/impression-sunrise__fine.svg'',
      art_width = 141,
      art_height = 106,
      art_accent = js ''#E58749''\<rparr>"

definition art_of_sunflowers :: artwork where
  "art_of_sunflowers =
     \<lparr>art_slug = js ''sunflowers'',
      art_title = [21521, 26085, 33909],
      art_artist = [25991, 26862, 29305, 183, 26805, 39640],
      art_year = js ''1888'',
      art_medium = [24067, 38754, 27833, 30011],
      art_collection = [20262, 25958, 22269, 23478, 32654, 26415, 39302],
      art_description = [37329, 40644, 33457, 26421, 20174, 33457, 29942, 37324, 21521, 22235, 21608, 33298, 23637, 65292, 26377, 30340, 30427, 24320, 65292, 26377, 30340, 20302, 22402, 12290, 28145, 35088, 33457, 24515, 19982, 38738, 32511, 32972, 26223, 30456, 20114, 26144, 34924, 65292, 35753, 19968, 26463, 33457, 20063, 26377, 20102, 20016, 23500, 30340, 23039, 24577, 19982, 33410, 22863, 12290],
      art_alt = [31446, 24133, 20687, 32032, 38745, 29289, 20013, 65292, 40644, 33394, 33457, 29942, 25918, 22312, 37329, 40644, 26700, 38754, 19978, 65292, 21521, 26085, 33909, 21521, 22235, 21608, 23637, 24320, 65292, 28145, 33394, 33457, 24515, 19982, 27973, 38738, 32511, 32972, 26223, 24418, 25104, 23545, 27604, 12290],
      art_english_title = js ''Sunflowers'',
      art_english_artist = js ''Vincent van Gogh'',
      art_english_year = js ''1888'',
      art_english_medium = js ''Oil on canvas'',
      art_english_collection = js ''The National Gallery, London'',
      art_english_description = js ''Golden flowers spread outward from a vase, some open and others bending low. Dark centers stand against a pale green-blue background, giving the bouquet varied shapes and rhythms.'',
      art_english_alt = js ''A vertical pixel still life of sunflowers with dark centers in a yellow vase on a golden table, set against a pale green-blue background.'',
      art_file = js ''art/sunflowers__fine.svg'',
      art_width = 106,
      art_height = 141,
      art_accent = js ''#F4D46A''\<rparr>"

definition art_of_sunday_afternoon :: artwork where
  "art_of_sunday_afternoon =
     \<lparr>art_slug = js ''sunday-afternoon'',
      art_title = [22823, 30871, 23707, 30340, 26143, 26399, 22825, 19979, 21320],
      art_artist = [20052, 27835, 183, 20462, 25289],
      art_year = js ''1884'' @ [8211] @ js ''1886'',
      art_medium = [24067, 38754, 27833, 30011],
      art_collection = [33437, 21152, 21733, 33402, 26415, 21338, 29289, 39302],
      art_description = [20154, 20204, 25955, 33853, 22312, 26641, 33643, 19982, 33609, 22320, 20043, 38388, 65292, 26377, 30340, 22352, 30528, 65292, 26377, 30340, 25745, 20254, 30522, 26395, 27700, 38754, 12290, 40092, 26126, 30340, 33394, 22359, 36830, 25104, 26641, 21494, 12289, 34915, 35033, 19982, 27827, 23736, 65292, 25226, 19968, 20010, 21320, 21518, 30340, 38386, 36866, 20957, 22312, 30011, 20013, 12290],
      art_alt = [20687, 32032, 39118, 26223, 20013, 65292, 20154, 20204, 22312, 32511, 26641, 19982, 33609, 22320, 38388, 22352, 21351, 25110, 25745, 20254, 31449, 31435, 65292, 24038, 20391, 27700, 38754, 26377, 24070, 33337, 65292, 26126, 20142, 33609, 22378, 19982, 28145, 33394, 26641, 33643, 20132, 38169, 12290],
      art_english_title = js ''A Sunday on La Grande Jatte'',
      art_english_artist = js ''Georges Seurat'',
      art_english_year = js ''1884'' @ [8211] @ js ''1886'',
      art_english_medium = js ''Oil on canvas'',
      art_english_collection = js ''Art Institute of Chicago'',
      art_english_description = js ''People rest in the shade or stand with parasols beside the water. Bright blocks of color gather into leaves, clothes and riverbank, holding the ease of an unhurried afternoon.'',
      art_english_alt = js ''A pixel riverside scene with people sitting or standing with parasols among green trees, sailboats on the water, and bright grass crossed by deep shade.'',
      art_file = js ''art/sunday-afternoon__fine.svg'',
      art_width = 141,
      art_height = 106,
      art_accent = js ''#9DA88B''\<rparr>"

definition art_of_water_lilies :: artwork where
  "art_of_water_lilies =
     \<lparr>art_slug = js ''water-lilies'',
      art_title = [30561, 33714],
      art_artist = [20811, 21171, 24503, 183, 33707, 22856],
      art_year = [32422] @ js ''1906'',
      art_medium = [24067, 38754, 27833, 30011],
      art_collection = [22823, 37117, 20250, 33402, 26415, 21338, 29289, 39302],
      art_description = [31881, 33394, 30561, 33714, 25955, 22312, 34013, 32511, 33394, 30340, 27700, 38754, 65292, 22278, 21494, 20043, 38388, 26144, 20986, 25671, 26355, 30340, 26525, 26465, 19982, 20809, 12290, 35270, 32447, 38543, 30528, 32454, 30862, 33394, 22359, 28216, 31227, 65292, 27700, 38754, 20223, 20315, 19968, 30452, 22312, 36731, 36731, 21464, 21270, 12290],
      art_alt = [34013, 32511, 19982, 32043, 33394, 20132, 32455, 30340, 20687, 32032, 27744, 22616, 20013, 65292, 31881, 33394, 30561, 33714, 21644, 32511, 33394, 22278, 21494, 28014, 22312, 27700, 38754, 65292, 22402, 19979, 30340, 26525, 26465, 19982, 22825, 31354, 20498, 24433, 31359, 25554, 20854, 38388, 12290],
      art_english_title = js ''Water Lilies'',
      art_english_artist = js ''Claude Monet'',
      art_english_year = js ''c. 1906'',
      art_english_medium = js ''Oil on canvas'',
      art_english_collection = js ''The Metropolitan Museum of Art'',
      art_english_description = js ''Pink water lilies scatter across blue-green water, with reflections of hanging branches and light between the leaves. Small shifts of color make the surface seem gently restless.'',
      art_english_alt = js ''A pixel pond in blue, green and violet, with pink water lilies, round green leaves, hanging branches and reflections of the sky.'',
      art_file = js ''art/water-lilies__fine.svg'',
      art_width = 141,
      art_height = 106,
      art_accent = js ''#D79DB6''\<rparr>"

definition art_of_the_kiss :: artwork where
  "art_of_the_kiss =
     \<lparr>art_slug = js ''the-kiss'',
      art_title = [21563],
      art_artist = [21476, 26031, 22612, 22827, 183, 20811, 37324, 22982, 29305],
      art_year = js ''1907'' @ [8211] @ js ''1908'',
      art_medium = [24067, 38754, 27833, 30011, 183, 37329, 31636],
      art_collection = [32500, 20063, 32435, 32654, 26223, 23467],
      art_description = [30456, 25317, 30340, 20004, 20154, 34987, 37329, 33394, 34915, 34957, 21253, 22260, 65292, 26041, 22359, 19982, 22278, 24418, 32441, 26679, 22312, 34915, 38754, 20132, 38169, 12290, 33050, 19979, 33457, 33609, 32454, 23494, 65292, 38754, 24222, 19982, 21452, 25163, 20174, 35013, 39280, 20013, 26174, 38706, 65292, 30041, 19979, 28201, 26580, 32780, 20146, 36817, 30340, 19968, 30636, 12290],
      art_alt = [37329, 33394, 20687, 32032, 30011, 20013, 65292, 19968, 23545, 20154, 29289, 30456, 25317, 20146, 21563, 65292, 34915, 34957, 24067, 28385, 26041, 24418, 19982, 22278, 24418, 32441, 26679, 65292, 33050, 19979, 26159, 32321, 23494, 33457, 33609, 65292, 21608, 22260, 26377, 37329, 33394, 35013, 39280, 36793, 26694, 12290],
      art_english_title = js ''The Kiss'',
      art_english_artist = js ''Gustav Klimt'',
      art_english_year = js ''1907'' @ [8211] @ js ''1908'',
      art_english_medium = js ''Oil and gold leaf on canvas'',
      art_english_collection = js ''Belvedere, Vienna'',
      art_english_description = js ''Two embracing figures are enclosed in golden robes patterned with rectangles and circles. Flowers gather at their feet while faces and hands emerge from the decoration in a tender, intimate moment.'',
      art_english_alt = js ''A golden pixel painting of two figures embracing and kissing in robes patterned with rectangles and circles, above flowers within an ornamental border.'',
      art_file = js ''art/the-kiss__fine.svg'',
      art_width = 122,
      art_height = 122,
      art_accent = js ''#DEB347''\<rparr>"

definition art_of_american_gothic :: artwork where
  "art_of_american_gothic =
     \<lparr>art_slug = js ''american-gothic'',
      art_title = [32654, 22269, 21733, 29305, 24335],
      art_artist = [26684, 20848, 29305, 183, 20237, 24503],
      art_year = js ''1930'',
      art_medium = [26408, 26495, 27833, 30011],
      art_collection = [33437, 21152, 21733, 33402, 26415, 21338, 29289, 39302],
      art_description = [20004, 20010, 20154, 29289, 24182, 32937, 31449, 22312, 26408, 23627, 21069, 65292, 31508, 30452, 30340, 33609, 21449, 19982, 36523, 21518, 30340, 23574, 39030, 31383, 30456, 20114, 21628, 24212, 12290, 28145, 33394, 22806, 34915, 12289, 26420, 32032, 34915, 39046, 21644, 20005, 32899, 31070, 24773, 65292, 35753, 30011, 38754, 26174, 24471, 23433, 38745, 32780, 31471, 27491, 12290],
      art_alt = [31446, 24133, 20687, 32032, 21452, 20154, 32918, 20687, 20013, 65292, 19968, 21517, 22899, 23376, 19982, 25140, 30524, 38236, 12289, 25163, 25345, 33609, 21449, 30340, 30007, 23376, 24182, 32937, 31449, 31435, 65292, 36523, 21518, 26159, 19968, 26635, 26377, 23574, 39030, 31383, 30340, 30333, 33394, 26408, 23627, 12290],
      art_english_title = js ''American Gothic'',
      art_english_artist = js ''Grant Wood'',
      art_english_year = js ''1930'',
      art_english_medium = js ''Oil on panel'',
      art_english_collection = js ''Art Institute of Chicago'',
      art_english_description = js ''Two figures stand side by side before a wooden house, the upright pitchfork echoing the pointed window behind them. Dark clothes, plain collars and solemn faces give the scene a still, formal presence.'',
      art_english_alt = js ''A vertical pixel portrait of a woman beside a bespectacled man holding a pitchfork, standing before a white wooden house with a pointed window.'',
      art_file = js ''art/american-gothic__fine.svg'',
      art_width = 106,
      art_height = 141,
      art_accent = js ''#D4A059''\<rparr>"

definition artworks :: "artwork list" where
  "artworks =
     [art_of_along_the_river, art_of_a_thousand_miles, art_of_mona_lisa,
      art_of_girl_pearl_earring, art_of_starry_night, art_of_great_wave,
      art_of_nymph_river, art_of_emperors_litter, art_of_palace_ladies,
      art_of_travelers_mountains, art_of_dwelling_fuchun, art_of_hibiscus_pheasant,
      art_of_ink_grapes, art_of_shrimps, art_of_galloping_horse,
      art_of_birth_venus, art_of_last_supper, art_of_school_athens,
      art_of_creation_adam, art_of_night_watch, art_of_las_meninas,
      art_of_liberty_leading, art_of_wanderer_fog, art_of_impression_sunrise,
      art_of_sunflowers, art_of_sunday_afternoon, art_of_water_lilies,
      art_of_the_kiss, art_of_american_gothic]"

lemmas artwork_entries = art_of_along_the_river_def art_of_a_thousand_miles_def art_of_mona_lisa_def
  art_of_girl_pearl_earring_def art_of_starry_night_def art_of_great_wave_def
  art_of_nymph_river_def art_of_emperors_litter_def art_of_palace_ladies_def
  art_of_travelers_mountains_def art_of_dwelling_fuchun_def art_of_hibiscus_pheasant_def
  art_of_ink_grapes_def art_of_shrimps_def art_of_galloping_horse_def
  art_of_birth_venus_def art_of_last_supper_def art_of_school_athens_def
  art_of_creation_adam_def art_of_night_watch_def art_of_las_meninas_def
  art_of_liberty_leading_def art_of_wanderer_fog_def art_of_impression_sunrise_def
  art_of_sunflowers_def art_of_sunday_afternoon_def art_of_water_lilies_def
  art_of_the_kiss_def art_of_american_gothic_def

text \<open>What the rest of the prototype needs of an entry: a name of URL characters, its own file, and a shape.\<close>

lemma artworks_29: "length artworks = 29"
  by (simp add: artworks_def)

lemma artwork_slugs:
  "map art_slug artworks = map js
     [''along-the-river'',
      ''a-thousand-miles'',
      ''mona-lisa'',
      ''girl-pearl-earring'',
      ''starry-night'',
      ''great-wave'',
      ''nymph-river'',
      ''emperors-litter'',
      ''palace-ladies'',
      ''travelers-mountains'',
      ''dwelling-fuchun'',
      ''hibiscus-pheasant'',
      ''ink-grapes'',
      ''shrimps'',
      ''galloping-horse'',
      ''birth-venus'',
      ''last-supper'',
      ''school-athens'',
      ''creation-adam'',
      ''night-watch'',
      ''las-meninas'',
      ''liberty-leading'',
      ''wanderer-fog'',
      ''impression-sunrise'',
      ''sunflowers'',
      ''sunday-afternoon'',
      ''water-lilies'',
      ''the-kiss'',
      ''american-gothic'']"
  by (simp only: artworks_def artwork_entries list.map artwork.simps)

lemma artwork_files: "list_all (\<lambda>a. art_file a = js ''art/'' @ art_slug a @ js ''__fine.svg'') artworks"
  by (simp only: artworks_def artwork_entries list.pred_inject artwork.simps js_append append.simps simp_thms)

lemma artwork_shapes: "list_all (\<lambda>a. 0 < art_width a \<and> 0 < art_height a) artworks"
  by (simp only: artworks_def artwork_entries list.pred_inject artwork.simps) simp

definition artwork_names :: "string list" where
  "artwork_names =
     [''along-the-river'',
      ''a-thousand-miles'',
      ''mona-lisa'',
      ''girl-pearl-earring'',
      ''starry-night'',
      ''great-wave'',
      ''nymph-river'',
      ''emperors-litter'',
      ''palace-ladies'',
      ''travelers-mountains'',
      ''dwelling-fuchun'',
      ''hibiscus-pheasant'',
      ''ink-grapes'',
      ''shrimps'',
      ''galloping-horse'',
      ''birth-venus'',
      ''last-supper'',
      ''school-athens'',
      ''creation-adam'',
      ''night-watch'',
      ''las-meninas'',
      ''liberty-leading'',
      ''wanderer-fog'',
      ''impression-sunrise'',
      ''sunflowers'',
      ''sunday-afternoon'',
      ''water-lilies'',
      ''the-kiss'',
      ''american-gothic'']"

lemma artwork_slug_names: "map art_slug artworks = map js artwork_names"
  unfolding artwork_names_def by (rule artwork_slugs)

lemma artwork_slugs_distinct: "distinct (map art_slug artworks)"
proof -
  have "distinct artwork_names" by code_simp
  then show ?thesis unfolding artwork_slug_names distinct_map by (simp add: inj_on_subset [OF inj_js])
qed

definition slug_unit :: "u16 \<Rightarrow> bool" where
  "slug_unit c \<longleftrightarrow> 97 \<le> c \<and> c \<le> 122 \<or> c = 45"

lemma slug_letters: "list_all slug_unit (js ''abcdefghijklmnopqrstuvwxyz-'')"
  by code_simp

lemma artwork_slug_units: "list_all (\<lambda>s. s \<noteq> [] \<and> list_all slug_unit s) (map art_slug artworks)"
proof -
  have "list_all (\<lambda>s. s \<noteq> [] \<and> list_all (\<lambda>c. c \<in> set ''abcdefghijklmnopqrstuvwxyz-'') s) artwork_names"
    by code_simp
  moreover have "list_all (\<lambda>c. c \<in> set ''abcdefghijklmnopqrstuvwxyz-'') s \<Longrightarrow> list_all slug_unit (js s)" for s
    using slug_letters by (auto simp only: js_def list_all_iff set_map)
  ultimately show ?thesis unfolding artwork_slug_names by (simp only: list_all_iff set_map ball_simps js_eq_Nil) blast
qed

end
