(* ===== verification/Gallery.thy ===== *)
theory Gallery
  imports Interstitial Js_Date Gallery_Artworks
begin

text \<open>
  The interaction prototype of the redirect page (\<open>docs/redirect-gallery/gallery.js\<close>): what its
  address selects, the picture on show, the countdown with its own pause and timer code, and the
  review panel. As in \<open>Interstitial\<close> every event carries one reading of the clock. Addresses the
  page is sent to, by \<open>location.assign\<close> or by its link, are logged with their time. A query is the
  list of pairs \<open>URLSearchParams\<close> reads from it.
\<close>

section \<open>What the address selects\<close>

type_synonym query = "(jstr \<times> jstr) list"

record gallery_page =
  gp_review :: bool
  gp_preview :: bool
  gp_english :: bool

definition gallery_page_of :: "query \<Rightarrow> gallery_page" where
  "gallery_page_of q =
     \<lparr>gp_review = (map_of q (js ''review'') = Some (js ''1'')),
      gp_preview = (map_of q (js ''mode'') = Some (js ''preview'')),
      gp_english = (map_of q (js ''lang'') = Some (js ''en''))\<rparr>"

fun set_param :: "jstr \<Rightarrow> jstr \<Rightarrow> query \<Rightarrow> query" where
  \<comment> \<open>\<open>searchParams.set\<close>: the first pair of that name changes, later ones go, otherwise one is added\<close>
  "set_param k v [] = [(k, v)]"
| "set_param k v ((k', v') # q) =
     (if k' = k then (k, v) # [p \<leftarrow> q. fst p \<noteq> k] else (k', v') # set_param k v q)"

definition query_text :: "query \<Rightarrow> jstr" where
  \<comment> \<open>\<open>`${new URLSearchParams(...)}`\<close>\<close>
  "query_text q = join [38] (map (\<lambda>(k, v). form_encode k @ 61 # form_encode v) q)"

section \<open>Texts\<close>

definition gallery_copy :: "bool \<Rightarrow> (jstr \<times> jstr) list" where
  "gallery_copy english =
     (if english then
        [(js ''album'', js ''The passing gallery''),
         (js ''tagline'', js ''A little art before you arrive.''),
         (js ''reinterpretation'', js ''Masterpieces, reimagined in pixels''),
         (js ''encounter'', js ''YOUR CHANCE ENCOUNTER''),
         (js ''medium'', js ''Medium''),
         (js ''collection'', js ''Collection''),
         (js ''oneAtATime'', js ''A different encounter along the way.''),
         (js ''destination'', js ''YOUR DESTINATION''),
         (js ''fullAddress'', js ''View full destination address''),
         (js ''continue'', js ''Continue now''),
         (js ''imageError'', js ''The artwork could not load. You can still continue to your destination.''),
         (js ''seconds'', js ''seconds to go''),
         (js ''paused'', js ''Take your time''),
         (js ''pause'', js ''Stay a while''),
         (js ''resume'', js ''Resume''),
         (js ''preview'', js ''Link preview''),
         (js ''pausedStatus'', js ''Countdown paused. Take your time with the artwork.''),
         (js ''resumedStatus'', js ''Countdown resumed.''),
         (js ''leaving'', js ''Continuing to the demo destination.'')]
      else
        [(js ''album'', [36884, 20013, 30011, 20876]),
         (js ''tagline'', [22312, 25269, 36798, 20043, 21069, 65292, 36935, 35265, 19968, 24133, 30011, 12290]),
         (js ''reinterpretation'', [21517, 30011, 30340, 20687, 32032, 28436, 32462]),
         (js ''encounter'', [27492, 21051, 65292, 19982, 20320, 30456, 36935]),
         (js ''medium'', [21407, 20316, 23186, 20171]),
         (js ''collection'', [21407, 20316, 39302, 34255]),
         (js ''oneAtATime'', [27599, 27425, 36884, 32463, 65292, 20598, 36935, 19968, 24133, 12290]),
         (js ''destination'', [21363, 23558, 21069, 24448]),
         (js ''fullAddress'', [26597, 30475, 23436, 25972, 30446, 26631, 22320, 22336]),
         (js ''continue'', [31435, 21363, 21069, 24448]),
         (js ''imageError'', [30011, 20316, 26242, 26102, 26410, 33021, 36733, 20837, 65292, 20320, 20173, 21487, 32487, 32493, 21069, 24448, 12290]),
         (js ''seconds'', [31186, 21518, 33258, 21160, 36339, 36716]),
         (js ''paused'', [24050, 26242, 20572, 27427, 36175]),
         (js ''pause'', [20572, 30041, 27427, 36175]),
         (js ''resume'', [32487, 32493, 20498, 35745, 26102]),
         (js ''preview'', [38142, 25509, 39044, 35272]),
         (js ''pausedStatus'', [20498, 35745, 26102, 24050, 26242, 20572, 65292, 21487, 20197, 20572, 30041, 27427, 36175, 12290]),
         (js ''resumedStatus'', [20498, 35745, 26102, 24050, 32487, 32493, 12290]),
         (js ''leaving'', [27491, 22312, 21069, 24448, 26412, 22320, 28436, 31034, 32456, 28857, 12290])])"

definition copy_text :: "bool \<Rightarrow> string \<Rightarrow> jstr" where
  \<comment> \<open>\<open>textContent = copy[key]\<close>: \<open>undefined\<close> empties the element\<close>
  "copy_text english key = text_or_empty (map_of (gallery_copy english) (js key))"

record gallery_document =
  gd_lang :: jstr
  gd_title :: jstr
  gd_masthead :: "jstr option"  \<comment> \<open>\<open>None\<close>: the drawn wordmark stays\<close>
  gd_departure :: jstr

definition gallery_document_of :: "bool \<Rightarrow> gallery_document" where
  "gallery_document_of english =
     \<lparr>gd_lang = (if english then js ''en'' else js ''zh-CN''),
      gd_title = (if english then js ''The passing gallery'' else [36884, 20013, 30011, 20876]),
      gd_masthead = (if english then Some (copy_text english ''album'') else None),
      gd_departure = (if english then js ''Destination and navigation'' else [36339, 36716, 20449, 24687])\<rparr>"

section \<open>State\<close>

record gallery =
  ga_art :: artwork
  ga_busy :: bool           \<comment> \<open>\<open>aria-busy\<close>: the picture is loading\<close>
  ga_broken :: bool         \<comment> \<open>the fallback is shown in place of the picture\<close>
  ga_link :: jstr           \<comment> \<open>the target of the link\<close>
  ga_duration :: rat
  ga_remaining :: rat
  ga_paused :: bool
  ga_started :: rat
  ga_timer :: "rat option"  \<comment> \<open>when the pending timeout is due\<close>
  ga_leaving :: bool
  ga_status :: jstr
  ga_now :: rat
  ga_left :: "(rat \<times> jstr) list"
  ga_address :: bool        \<comment> \<open>the full address is unfolded\<close>
  ga_panel :: bool          \<comment> \<open>the review panel is shown\<close>
  ga_seconds :: jstr        \<comment> \<open>the chosen length of the countdown\<close>
  ga_query :: query

section \<open>The picture\<close>

record art_card =
  ac_title :: jstr
  ac_artist :: jstr
  ac_year :: jstr
  ac_description :: jstr
  ac_medium :: jstr
  ac_collection :: jstr
  ac_alt :: jstr
  ac_edition :: jstr
  ac_editions :: jstr
  ac_ratio :: rat
  ac_accent :: jstr
  ac_source :: jstr

definition edition_of :: "artwork \<Rightarrow> nat" where
  \<comment> \<open>\<open>artworks.indexOf(art) + 1\<close>\<close>
  "edition_of a = (if a \<in> set artworks then Suc (length (takeWhile ((\<noteq>) a) artworks)) else 0)"

definition art_card_of :: "bool \<Rightarrow> artwork \<Rightarrow> art_card" where
  "art_card_of english a =
     \<lparr>ac_title = (if english then art_english_title a else art_title a),
      ac_artist = (if english then art_english_artist a else art_artist a),
      ac_year = (if english then art_english_year a else art_year a),
      ac_description = (if english then art_english_description a else art_description a),
      ac_medium = (if english then art_english_medium a else art_medium a),
      ac_collection = (if english then art_english_collection a else art_collection a),
      ac_alt = (if english then art_english_alt a else art_alt a),
      ac_edition = pad_start 2 48 (js_of_nat (edition_of a)),
      ac_editions = pad_start 2 48 (js_of_nat (length artworks)),
      ac_ratio = of_int (art_width a) / of_int (art_height a),
      ac_accent = art_accent a,
      ac_source = art_file a\<rparr>"

definition destination_query :: "bool \<Rightarrow> artwork \<Rightarrow> jstr \<Rightarrow> query" where
  "destination_query english a reason =
     [(js ''reason'', reason), (js ''art'', art_slug a), (js ''lang'', if english then js ''en'' else js ''zh'')]"

definition local_destination :: "bool \<Rightarrow> artwork \<Rightarrow> jstr \<Rightarrow> jstr" where
  "local_destination english a reason = js ''destination.html?'' @ query_text (destination_query english a reason)"

definition show_artwork :: "bool \<Rightarrow> artwork \<Rightarrow> gallery \<Rightarrow> gallery" where
  "show_artwork english a s =
     s\<lparr>ga_art := a, ga_broken := False, ga_busy := True, ga_link := local_destination english a (js ''manual'')\<rparr>"

definition artwork_named :: "jstr \<Rightarrow> artwork option" where
  "artwork_named slug = find (\<lambda>a. art_slug a = slug) artworks"

definition first_artwork :: "query \<Rightarrow> rat \<Rightarrow> artwork" where
  \<comment> \<open>\<open>r\<close>: what \<open>Math.random()\<close> returns, not less than 0 and less than 1\<close>
  "first_artwork q r =
     (case (if gp_review (gallery_page_of q) then Option.bind (map_of q (js ''art'')) artwork_named else None) of
        Some a \<Rightarrow> a
      | None \<Rightarrow> artworks ! nat \<lfloor>r * of_nat (length artworks)\<rfloor>)"

section \<open>The countdown\<close>

definition spend :: "gallery \<Rightarrow> rat" where
  "spend s = max 0 (ga_remaining s - (ga_now s - ga_started s))"

definition gallery_tick :: "bool \<Rightarrow> gallery \<Rightarrow> gallery" where
  "gallery_tick english s =
     (if ga_paused s \<or> ga_leaving s then s
      else (let s1 = s\<lparr>ga_remaining := spend s, ga_started := ga_now s\<rparr> in
            if ga_remaining s1 \<le> 0
            then s1\<lparr>ga_leaving := True, ga_status := copy_text english ''leaving'',
                     ga_left := ga_left s @ [(ga_now s, local_destination english (ga_art s) (js ''automatic''))]\<rparr>
            else s1\<lparr>ga_timer := Some (ga_now s + 50)\<rparr>))"

definition gallery_pause :: "bool \<Rightarrow> gallery \<Rightarrow> gallery" where
  "gallery_pause english s =
     s\<lparr>ga_remaining := spend s, ga_paused := True, ga_timer := None, ga_status := copy_text english ''pausedStatus''\<rparr>"

definition gallery_resume :: "bool \<Rightarrow> gallery \<Rightarrow> gallery" where
  "gallery_resume english s =
     gallery_tick english
       (s\<lparr>ga_paused := False, ga_started := ga_now s, ga_status := copy_text english ''resumedStatus''\<rparr>)"

definition seconds_value :: "jstr \<Rightarrow> rat" where
  \<comment> \<open>\<open>Number\<close> of a choice of the list, each of which is a numeral\<close>
  "seconds_value v = (case js_number v of JFin q \<Rightarrow> q | _ \<Rightarrow> 0)"

definition seconds_choices :: "jstr list" where
  "seconds_choices = [js ''2'', js ''5'', js ''10'']"

definition gallery_restart :: "bool \<Rightarrow> gallery \<Rightarrow> gallery" where
  "gallery_restart english s =
     gallery_resume english
       (s\<lparr>ga_timer := None, ga_duration := seconds_value (ga_seconds s) * 1000,
           ga_remaining := seconds_value (ga_seconds s) * 1000, ga_panel := False\<rparr>)"

definition gallery_start :: "query \<Rightarrow> rat \<Rightarrow> rat \<Rightarrow> gallery" where
  "gallery_start q r now =
     (let g = gallery_page_of q;
          a = first_artwork q r;
          s = show_artwork (gp_english g) a
                \<lparr>ga_art = a, ga_busy = False, ga_broken = False, ga_link = js ''destination.html'', ga_duration = 2000,
                 ga_remaining = 2000, ga_paused = (gp_review g \<or> gp_preview g), ga_started = now, ga_timer = None,
                 ga_leaving = False, ga_status = [], ga_now = now, ga_left = [], ga_address = False,
                 ga_panel = False, ga_seconds = js ''2'', ga_query = q\<rparr>
      in if ga_paused s then s else gallery_tick (gp_english g) s)"

section \<open>What is drawn of it\<close>

definition gallery_fraction :: "gallery \<Rightarrow> rat" where
  "gallery_fraction s = max 0 (min 1 (ga_remaining s / ga_duration s))"

definition ring_offset :: "gallery \<Rightarrow> rat" where
  "ring_offset s = 816814 / 10000 * (1 - gallery_fraction s)"

definition timer_number :: "gallery_page \<Rightarrow> gallery \<Rightarrow> jstr" where
  "timer_number g s =
     (if gp_preview g then [8599] else if ga_paused s then [8545] else js_of_int \<lceil>ga_remaining s / 1000\<rceil>)"

definition timer_label :: "gallery_page \<Rightarrow> gallery \<Rightarrow> jstr" where
  "timer_label g s =
     copy_text (gp_english g) (if gp_preview g then ''preview'' else if ga_paused s then ''paused'' else ''seconds'')"

definition pause_label :: "gallery_page \<Rightarrow> gallery \<Rightarrow> jstr" where
  "pause_label g s = copy_text (gp_english g) (if ga_paused s then ''resume'' else ''pause'')"

definition pause_symbol :: "gallery \<Rightarrow> jstr" where
  "pause_symbol s = (if ga_paused s then [9655] else [8545])"

definition pause_hidden :: "gallery_page \<Rightarrow> bool" where
  \<comment> \<open>the pause button and the progress track\<close>
  "pause_hidden g = gp_preview g"

section \<open>Events\<close>

datatype gallery_event =
    GalleryTimer
  | PauseToggle
  | ContinueLink
  | AddressSummary
  | PageClick
  | GalleryKey jstr
  | ReviewToggle
  | ReviewArt jstr
  | ReviewSeconds jstr
  | ReviewRestart
  | PictureLoaded
  | PictureFailed

fun gallery_handle :: "gallery_page \<Rightarrow> gallery_event \<Rightarrow> gallery \<Rightarrow> gallery" where
  \<comment> \<open>a click outside the address, on a control or not, also reaches the document and folds it\<close>
  "gallery_handle g GalleryTimer s = gallery_tick (gp_english g) (s\<lparr>ga_timer := None\<rparr>)"
| "gallery_handle g PauseToggle s =
     (if ga_paused s then gallery_resume (gp_english g) s else gallery_pause (gp_english g) s)\<lparr>ga_address := False\<rparr>"
| "gallery_handle g ContinueLink s =
     s\<lparr>ga_leaving := True, ga_timer := None, ga_left := ga_left s @ [(ga_now s, ga_link s)], ga_address := False\<rparr>"
| "gallery_handle g AddressSummary s = s\<lparr>ga_address := \<not> ga_address s\<rparr>"
| "gallery_handle g PageClick s = s\<lparr>ga_address := False\<rparr>"
| "gallery_handle g (GalleryKey k) s =
     (if k = js ''Escape'' then s\<lparr>ga_address := False, ga_panel := False\<rparr> else s)"
| "gallery_handle g ReviewToggle s = s\<lparr>ga_panel := \<not> ga_panel s, ga_address := False\<rparr>"
| "gallery_handle g (ReviewArt slug) s =
     (let s1 = (if ga_paused s then s else gallery_pause (gp_english g) s) in
      case artwork_named slug of
        None \<Rightarrow> s1
      | Some a \<Rightarrow> (show_artwork (gp_english g) a s1)\<lparr>ga_query := set_param (js ''art'') (art_slug a) (ga_query s)\<rparr>)"
| "gallery_handle g (ReviewSeconds v) s = s\<lparr>ga_seconds := v\<rparr>"
| "gallery_handle g ReviewRestart s = (gallery_restart (gp_english g) s)\<lparr>ga_address := False\<rparr>"
| "gallery_handle g PictureLoaded s = s\<lparr>ga_busy := False\<rparr>"
| "gallery_handle g PictureFailed s = s\<lparr>ga_busy := False, ga_broken := True\<rparr>"

fun control_offered :: "gallery_page \<Rightarrow> gallery \<Rightarrow> rat \<Rightarrow> gallery_event \<Rightarrow> bool" where
  "control_offered g s now GalleryTimer = (case ga_timer s of None \<Rightarrow> False | Some due \<Rightarrow> due \<le> now)"
| "control_offered g s now PauseToggle = (\<not> pause_hidden g)"
| "control_offered g s now ReviewToggle = gp_review g"
| "control_offered g s now (ReviewArt slug) = (gp_review g \<and> ga_panel s \<and> slug \<in> set (map art_slug artworks))"
| "control_offered g s now (ReviewSeconds v) = (gp_review g \<and> ga_panel s \<and> v \<in> set seconds_choices)"
| "control_offered g s now ReviewRestart = (gp_review g \<and> ga_panel s)"
| "control_offered g s now PictureLoaded = ga_busy s"
| "control_offered g s now PictureFailed = ga_busy s"
| "control_offered g s now _ = True"

definition gallery_offered :: "gallery_page \<Rightarrow> gallery \<Rightarrow> rat \<times> gallery_event \<Rightarrow> bool" where
  "gallery_offered g s e \<longleftrightarrow> ga_now s \<le> fst e \<and> control_offered g s (fst e) (snd e)"

definition gallery_move :: "gallery_page \<Rightarrow> gallery \<Rightarrow> rat \<times> gallery_event \<Rightarrow> gallery" where
  "gallery_move g s e = gallery_handle g (snd e) (s\<lparr>ga_now := fst e\<rparr>)"

definition language_link :: "bool \<Rightarrow> jstr \<times> jstr" where
  \<comment> \<open>target and label of the link to the other language in the review panel\<close>
  "language_link english =
     (63 # query_text [(js ''review'', js ''1''), (js ''lang'', if english then js ''zh'' else js ''en'')],
      if english then [26597, 30475, 20013, 25991, 29256] @ js '' '' @ [8599] else js ''English version '' @ [8599])"

definition review_options :: "(jstr \<times> jstr) list" where
  "review_options = map (\<lambda>a. (art_slug a, art_title a)) artworks"


section \<open>The prototype and the script that is served\<close>

text \<open>
  The events of the prototype that concern the countdown are events of the served script; choosing
  another picture stops a running countdown, as its pause button does. The rest is invisible to it.
\<close>

fun served_event :: "gallery \<Rightarrow> rat \<times> gallery_event \<Rightarrow> (rat \<times> countdown_event) list" where
  "served_event s (now, GalleryTimer) = [(now, TimerFires)]"
| "served_event s (now, PauseToggle) = [(now, PauseButton)]"
| "served_event s (now, ReviewArt _) = (if ga_paused s then [] else [(now, PauseButton)])"
| "served_event s _ = []"

fun served_events :: "gallery_page \<Rightarrow> gallery \<Rightarrow> (rat \<times> gallery_event) list \<Rightarrow> (rat \<times> countdown_event) list" where
  "served_events g s [] = []"
| "served_events g s (e # es) = served_event s e @ served_events g (gallery_move g s e) es"

definition served_run :: "query \<Rightarrow> rat \<Rightarrow> rat \<Rightarrow> (rat \<times> gallery_event) list \<Rightarrow> (rat \<times> countdown_event) list" where
  "served_run q r t0 es =
     (let s = gallery_start q r t0 in
      (if ga_paused s then [(t0, PauseButton)] else []) @ served_events (gallery_page_of q) s es)"

fun plain_event :: "gallery_event \<Rightarrow> bool" where
  \<comment> \<open>all but leaving by the link and the restart of the review panel\<close>
  "plain_event ContinueLink = False"
| "plain_event ReviewRestart = False"
| "plain_event _ = True"

definition served_by :: "gallery \<Rightarrow> countdown \<Rightarrow> bool" where
  "served_by s c \<longleftrightarrow>
     co_now c \<le> ga_now s \<and> ga_started s \<le> ga_now s \<and> co_duration c = ga_duration s \<and>
     co_remaining c = ga_remaining s \<and> 0 \<le> ga_remaining s \<and> co_leaving c = ga_leaving s \<and>
     co_left c = map fst (ga_left s) \<and>
     (if ga_leaving s then ga_remaining s = 0 \<and> ga_timer s = None
      else co_paused c = ga_paused s \<and>
        (if ga_paused s then ga_timer s = None
         else co_started c = ga_started s \<and>
           (\<exists>due d. ga_timer s = Some due \<and> co_timer c = Some d \<and> d \<le> due)))"

lemmas gallery_handlers = gallery_move_def gallery_tick_def gallery_pause_def gallery_resume_def spend_def
  show_artwork_def Let_def

lemma served_by_irrelevant [simp]:
  "served_by (s\<lparr>ga_address := x\<rparr>) c = served_by s c" "served_by (s\<lparr>ga_query := q\<rparr>) c = served_by s c"
  "served_by (show_artwork english a s) c = served_by s c"
  by (simp_all add: served_by_def show_artwork_def)

lemma served_by_erased:
  assumes "served_by s c" "ga_now s \<le> now"
    "ga_started s' = ga_started s" "ga_duration s' = ga_duration s" "ga_remaining s' = ga_remaining s"
    "ga_leaving s' = ga_leaving s" "ga_left s' = ga_left s" "ga_timer s' = ga_timer s" "ga_paused s' = ga_paused s"
    "ga_now s' = now"
  shows "served_by s' c"
  using assms by (auto simp: served_by_def)

lemma served_by_timer:
  assumes "served_by s c" "gallery_offered g s (now, GalleryTimer)"
  shows "countdown_offered c (now, TimerFires) \<and>
    served_by (gallery_move g s (now, GalleryTimer)) (countdown_move c (now, TimerFires))"
  using assms
  by (auto simp: served_by_def gallery_offered_def gallery_handlers countdown_handlers min_def max_def
      split: option.splits if_splits)

lemma served_by_pause:
  assumes "served_by s c" "ga_now s \<le> now" "\<not> ga_paused s"
  shows "served_by (gallery_pause english (s\<lparr>ga_now := now\<rparr>)) (countdown_move c (now, PauseButton))"
  using assms
  by (auto simp: served_by_def gallery_handlers countdown_handlers max_def split: if_splits)

lemma served_by_resume:
  assumes "served_by s c" "ga_now s \<le> now" "ga_paused s"
  shows "served_by (gallery_resume english (s\<lparr>ga_now := now\<rparr>)) (countdown_move c (now, PauseButton))"
  using assms
  by (auto simp: served_by_def gallery_handlers countdown_handlers min_def max_def split: if_splits)

lemma served_by_step:
  assumes "served_by s c" "gallery_offered g s e" "plain_event (snd e)"
  shows "\<exists>c'. runs countdown_offered countdown_move c (served_event s e) = Some c' \<and> served_by (gallery_move g s e) c'"
proof (cases e)
  case (Pair now ev)
  then have now: "ga_now s \<le> now" "co_now c \<le> now"
    using assms(1,2) by (auto simp: gallery_offered_def served_by_def)
  note erased = served_by_erased [OF assms(1) now(1)]
  show ?thesis
  proof (cases ev)
    case GalleryTimer
    then show ?thesis using served_by_timer [of s c g now] assms Pair by simp
  next
    case PauseToggle
    have "served_by (gallery_move g s (now, PauseToggle)) (countdown_move c (now, PauseButton))"
    proof (cases "ga_paused s")
      case True
      from served_by_resume [OF assms(1) now(1) True, of "gp_english g"] True show ?thesis
        by (simp add: gallery_move_def)
    next
      case False
      from served_by_pause [OF assms(1) now(1) False, of "gp_english g"] False show ?thesis
        by (simp add: gallery_move_def)
    qed
    then show ?thesis using PauseToggle Pair now by simp
  next
    case (ReviewArt slug)
    show ?thesis
    proof (cases "ga_paused s")
      case True
      have "served_by (gallery_move g s (now, ReviewArt slug)) c"
        by (rule erased) (simp_all add: True gallery_move_def show_artwork_def Let_def split: option.split)
      then show ?thesis using ReviewArt Pair True by simp
    next
      case False
      from served_by_pause [OF assms(1) now(1) False, of "gp_english g"] False
      have "served_by (gallery_move g s (now, ReviewArt slug)) (countdown_move c (now, PauseButton))"
        by (simp add: gallery_move_def Let_def split: option.split)
      then show ?thesis using ReviewArt Pair False now by simp
    qed
  qed (use assms(3) Pair in \<open>auto simp: gallery_move_def intro!: erased\<close>)
qed

lemma served_by_runs:
  "runs (gallery_offered g) (gallery_move g) s es = Some s' \<Longrightarrow> list_all (\<lambda>e. plain_event (snd e)) es \<Longrightarrow>
   served_by s c \<Longrightarrow>
   \<exists>c'. runs countdown_offered countdown_move c (served_events g s es) = Some c' \<and> served_by s' c'"
proof (induction es arbitrary: s c)
  case (Cons e es)
  from Cons.prems have e: "gallery_offered g s e" "plain_event (snd e)" and
    rest: "runs (gallery_offered g) (gallery_move g) (gallery_move g s e) es = Some s'" "list_all (\<lambda>e. plain_event (snd e)) es"
    by (auto split: if_splits)
  obtain c' where c': "runs countdown_offered countdown_move c (served_event s e) = Some c'" "served_by (gallery_move g s e) c'"
    using served_by_step [OF Cons.prems(3) e] by blast
  from Cons.IH [OF rest c'(2)] c'(1) show ?case by (simp add: runs_append)
qed simp

lemma served_start:
  "\<exists>c. runs countdown_offered countdown_move (countdown_start 2 t0)
         (if ga_paused (gallery_start q r t0) then [(t0, PauseButton)] else []) = Some c \<and>
       served_by (gallery_start q r t0) c"
  by (auto simp: served_by_def gallery_start_def countdown_start_def gallery_handlers countdown_handlers max_def min_def)

lemma served_run_refines:
  assumes "runs (gallery_offered (gallery_page_of q)) (gallery_move (gallery_page_of q)) (gallery_start q r t0) es = Some s"
    and "list_all (\<lambda>e. plain_event (snd e)) es"
  shows "\<exists>c. runs countdown_offered countdown_move (countdown_start 2 t0) (served_run q r t0 es) = Some c \<and> served_by s c"
proof -
  obtain c where "runs countdown_offered countdown_move (countdown_start 2 t0)
      (if ga_paused (gallery_start q r t0) then [(t0, PauseButton)] else []) = Some c" "served_by (gallery_start q r t0) c"
    using served_start by blast
  with served_by_runs [OF assms, of c] show ?thesis by (auto simp: served_run_def Let_def runs_append)
qed

text \<open>C13 The prototype is a faithful picture of the page that is served. Whatever is done with it short of
  its link and the restart of the review panel, its countdown is a run of the served script's, with
  the same remaining time and fraction, paused and leaving alike, sent away at the same moments; so
  it too leaves by itself only after its two seconds have run, pauses not counted.\<close>
theorem prototype_refines_served_page:
  assumes "runs (gallery_offered (gallery_page_of q)) (gallery_move (gallery_page_of q)) (gallery_start q r t0) es = Some s"
    and "list_all (\<lambda>e. plain_event (snd e)) es"
  shows "\<exists>c. runs countdown_offered countdown_move (countdown_start 2 t0) (served_run q r t0 es) = Some c \<and>
    co_leaving c = ga_leaving s \<and> co_left c = map fst (ga_left s) \<and> co_remaining c = ga_remaining s \<and>
    drawn_fraction c = gallery_fraction s \<and> (ga_leaving s \<or> co_paused c = ga_paused s) \<and>
    (ga_left s = [] \<or> 2000 \<le> running_time (countdown_start 2 t0) (served_run q r t0 es))"
proof -
  obtain c where c: "runs countdown_offered countdown_move (countdown_start 2 t0) (served_run q r t0 es) = Some c" "served_by s c"
    using served_run_refines [OF assms] by blast
  have "countdown_inv (running_time (countdown_start 2 t0) (served_run q r t0 es)) c"
    using countdown_inv_runs [OF c(1) countdown_inv_start] by simp
  moreover have "co_duration c = 2000"
    using duration_runs [OF c(1)] by (simp add: countdown_start_def countdown_handlers Let_def)
  ultimately have "ga_left s = [] \<or> 2000 \<le> running_time (countdown_start 2 t0) (served_run q r t0 es)"
    using c(2) by (auto simp: countdown_inv_def served_by_def)
  then show ?thesis using c by (auto simp: served_by_def drawn_fraction_def gallery_fraction_def)
qed

definition prototype_run :: "(rat \<times> gallery_event) list" where
  "prototype_run =
     [(60, GalleryTimer), (100, PauseToggle), (9000, PauseToggle), (9100, AddressSummary), (12000, GalleryTimer)]"

theorem prototype_refines_served_page_witness:
  "\<exists>c. runs countdown_offered countdown_move (countdown_start 2 0) (served_run [] 0 0 prototype_run) = Some c \<and>
     co_left c = [12000]"
proof -
  let ?g = "gallery_page_of []" and ?s = "gallery_start [] 0 0"
  define s where "s = foldl (gallery_move ?g) ?s prototype_run"
  have r: "runs (gallery_offered ?g) (gallery_move ?g) ?s prototype_run = Some s" "map fst (ga_left s) = [12000]"
    by (simp_all add: s_def prototype_run_def gallery_start_def gallery_page_of_def gallery_offered_def gallery_handlers
        pause_hidden_def max_def)
  have p: "list_all (\<lambda>e. plain_event (snd e)) prototype_run" by (simp add: prototype_run_def)
  from prototype_refines_served_page [OF r(1) p] r(2) show ?thesis by auto
qed


section \<open>Where the prototype can lead\<close>

lemma code_points_plain:
  "list_all form_unreserved s \<Longrightarrow> code_points s = map (\<lambda>c. Some (uint c)) s"
proof (induction s rule: code_points.induct)
  case (2 c)
  then show ?case by (auto simp: form_unreserved_def unit_simps word_le_def)
next
  case (3 h l s)
  have "form_unreserved h \<Longrightarrow> \<not> is_high h \<and> \<not> is_low h"
    by (auto simp: form_unreserved_def unit_simps word_le_def)
  with 3 show ?case by simp
qed simp

lemma form_point_plain: "form_unreserved c \<Longrightarrow> form_point (Some (uint c)) = [c]"
proof -
  assume c: "form_unreserved c"
  then have "uint c < 128 \<and> uint c \<noteq> 32"
    by (auto simp: form_unreserved_def unit_simps word_le_def)
  with c show ?thesis by (simp add: form_point_def)
qed

lemma form_encode_plain: "list_all form_unreserved s \<Longrightarrow> form_encode s = s"
  by (simp add: form_encode_def code_points_plain comp_def)
    (induction s, auto simp: form_point_plain)

lemma artwork_slug_encodes: "a \<in> set artworks \<Longrightarrow> form_encode (art_slug a) = art_slug a"
proof (rule form_encode_plain)
  assume "a \<in> set artworks"
  then have "list_all slug_unit (art_slug a)" using artwork_slug_units by (auto simp: list_all_iff)
  then show "list_all form_unreserved (art_slug a)"
    by (auto simp: list_all_iff slug_unit_def form_unreserved_def unit_simps)
qed

definition demo_address :: "string \<Rightarrow> bool \<Rightarrow> artwork \<Rightarrow> jstr" where
  "demo_address reason english a =
     js (''destination.html?reason='' @ reason @ ''&art='') @ art_slug a @ js (if english then ''&lang=en'' else ''&lang=zh'')"

lemma plain_words:
  "form_encode (js ''reason'') = js ''reason''" "form_encode (js ''art'') = js ''art''"
  "form_encode (js ''lang'') = js ''lang''" "form_encode (js ''manual'') = js ''manual''"
  "form_encode (js ''automatic'') = js ''automatic''" "form_encode (js ''en'') = js ''en''"
  "form_encode (js ''zh'') = js ''zh''"
  by (rule form_encode_plain, code_simp)+

lemma local_destination_address:
  assumes "a \<in> set artworks"
  shows "local_destination english a (js ''manual'') = demo_address ''manual'' english a"
    and "local_destination english a (js ''automatic'') = demo_address ''automatic'' english a"
  by (simp_all add: local_destination_def query_text_def destination_query_def plain_words demo_address_def
      artwork_slug_encodes [OF assms])
    (simp_all add: text_eval)

definition sent_by_timer :: "jstr \<Rightarrow> bool" where
  "sent_by_timer x \<longleftrightarrow> prefix (js ''destination.html?reason=automatic&'') x"

lemma sent_by_timer_address [simp]:
  "sent_by_timer (demo_address ''automatic'' english a)" "\<not> sent_by_timer (demo_address ''manual'' english a)"
  by (simp_all add: sent_by_timer_def demo_address_def text_eval)

definition gallery_inv :: "gallery_page \<Rightarrow> gallery \<Rightarrow> bool" where
  "gallery_inv g s \<longleftrightarrow>
     ga_art s \<in> set artworks \<and> ga_link s = demo_address ''manual'' (gp_english g) (ga_art s) \<and>
     (\<forall>x \<in> set (ga_left s). \<exists>a \<in> set artworks. snd x = demo_address ''manual'' (gp_english g) a \<or>
        snd x = demo_address ''automatic'' (gp_english g) a \<and> (gp_preview g \<longrightarrow> gp_review g)) \<and>
     length [x \<leftarrow> ga_left s. sent_by_timer (snd x)] \<le> (if ga_leaving s then 1 else 0) \<and>
     (gp_preview g \<and> \<not> gp_review g \<longrightarrow> ga_paused s \<and> ga_timer s = None)"

lemma artwork_named_member: "artwork_named slug = Some a \<Longrightarrow> a \<in> set artworks \<and> art_slug a = slug"
  by (simp add: artwork_named_def find_Some_iff in_set_conv_nth) blast

lemma first_artwork_member:
  assumes "0 \<le> r" "r < 1"
  shows "first_artwork q r \<in> set artworks"
proof -
  have "r * 29 < 29" using assms by simp
  then have "\<lfloor>r * 29\<rfloor> < 29" by (simp only: floor_less_iff of_int_numeral)
  then have "nat \<lfloor>r * 29\<rfloor> < 29" by linarith
  then have "nat \<lfloor>r * of_nat (length artworks)\<rfloor> < length artworks" by (simp add: artworks_29)
  then have "artworks ! nat \<lfloor>r * of_nat (length artworks)\<rfloor> \<in> set artworks" by (rule nth_mem)
  then show ?thesis
    by (auto simp: first_artwork_def artwork_named_member split: option.split bind_splits)
qed

lemma gallery_inv_tick:
  "gallery_inv g s \<Longrightarrow> \<not> (gp_preview g \<and> \<not> gp_review g) \<Longrightarrow> gallery_inv g (gallery_tick (gp_english g) s)"
  by (auto simp: gallery_inv_def gallery_tick_def Let_def local_destination_address)

lemma gallery_inv_fields:
  "gallery_inv g (s\<lparr>ga_now := t\<rparr>) = gallery_inv g s" "gallery_inv g (s\<lparr>ga_address := x\<rparr>) = gallery_inv g s"
  "gallery_inv g (s\<lparr>ga_query := q\<rparr>) = gallery_inv g s" "gallery_inv g (s\<lparr>ga_panel := x\<rparr>) = gallery_inv g s"
  "gallery_inv g (s\<lparr>ga_seconds := v\<rparr>) = gallery_inv g s" "gallery_inv g (s\<lparr>ga_busy := x\<rparr>) = gallery_inv g s"
  "gallery_inv g (s\<lparr>ga_broken := x\<rparr>) = gallery_inv g s"
  by (simp_all add: gallery_inv_def)

lemma gallery_inv_show: "gallery_inv g s \<Longrightarrow> a \<in> set artworks \<Longrightarrow> gallery_inv g (show_artwork (gp_english g) a s)"
  by (simp add: gallery_inv_def show_artwork_def local_destination_address)

lemma gallery_inv_pause: "gallery_inv g s \<Longrightarrow> gallery_inv g (gallery_pause english s)"
  by (simp add: gallery_inv_def gallery_pause_def)

lemma gallery_inv_resume:
  "gallery_inv g s \<Longrightarrow> \<not> (gp_preview g \<and> \<not> gp_review g) \<Longrightarrow> gallery_inv g (gallery_resume (gp_english g) s)"
  unfolding gallery_resume_def by (rule gallery_inv_tick) (auto simp: gallery_inv_def)

lemma gallery_inv_handle:
  assumes "gallery_inv g s" "control_offered g s now e"
  shows "gallery_inv g (gallery_handle g e (s\<lparr>ga_now := now\<rparr>))"
proof -
  have t: "gallery_inv g (s\<lparr>ga_now := now\<rparr>)" using assms(1) by (simp add: gallery_inv_fields)
  show ?thesis
  proof (cases e)
    case GalleryTimer
    then have "\<not> (gp_preview g \<and> \<not> gp_review g)" using assms by (auto simp: gallery_inv_def split: option.splits)
    moreover have "gallery_inv g (s\<lparr>ga_now := now, ga_timer := None\<rparr>)" using assms(1) by (simp add: gallery_inv_def)
    ultimately show ?thesis using GalleryTimer gallery_inv_tick by simp
  next
    case PauseToggle
    then show ?thesis
      using assms(2) gallery_inv_pause [OF t] gallery_inv_resume [OF t] by (auto simp: gallery_inv_fields pause_hidden_def)
  next
    case ContinueLink
    then show ?thesis using assms(1) by (auto simp: gallery_inv_def split: if_splits)
  next
    case (ReviewArt slug)
    have p: "gallery_inv g (if ga_paused s then s\<lparr>ga_now := now\<rparr> else gallery_pause (gp_english g) (s\<lparr>ga_now := now\<rparr>))"
      using t gallery_inv_pause [OF t] by simp
    show ?thesis
      using ReviewArt p gallery_inv_show [OF p]
      by (auto simp: Let_def gallery_inv_fields dest!: artwork_named_member split: option.split)
  next
    case ReviewRestart
    have "gallery_inv g (s\<lparr>ga_now := now, ga_timer := None, ga_duration := d, ga_remaining := d', ga_panel := False\<rparr>)" for d d'
      using assms(1) by (simp add: gallery_inv_def)
    then show ?thesis
      using ReviewRestart assms(2) gallery_inv_resume by (simp add: gallery_restart_def gallery_inv_fields)
  qed (use t in \<open>simp_all add: gallery_inv_fields\<close>)
qed

lemma gallery_inv_start:
  assumes "0 \<le> r" "r < 1"
  shows "gallery_inv (gallery_page_of q) (gallery_start q r t0)"
proof -
  show ?thesis
    using first_artwork_member [OF assms, of q]
    by (auto simp: gallery_start_def gallery_handlers gallery_inv_def local_destination_address)
qed

interpretation prototype: react_page "gallery_start q r t0" "gallery_offered (gallery_page_of q)"
  "gallery_move (gallery_page_of q)" "\<lambda>s. 0 \<le> r \<and> r < 1 \<longrightarrow> gallery_inv (gallery_page_of q) s" for q r t0
  by unfold_locales (auto simp: gallery_inv_start gallery_offered_def gallery_move_def intro: gallery_inv_handle)

text \<open>A picture the review address names is the one shown, and the way back from the demonstration
  page (\<open>destination.html\<close>) shows the picture, in the language, that was left.\<close>

definition back_query :: "query \<Rightarrow> query" where
  \<comment> \<open>the query of the link the demonstration page leads back with\<close>
  "back_query q =
     [(js ''review'', js ''1'')] @
     (case map_of q (js ''art'') of None \<Rightarrow> [] | Some v \<Rightarrow> [(js ''art'', v)]) @
     (if map_of q (js ''lang'') = Some (js ''en'') then [(js ''lang'', js ''en'')] else [])"

lemma artwork_named_slug: "a \<in> set artworks \<Longrightarrow> artwork_named (art_slug a) = Some a"
proof -
  assume a: "a \<in> set artworks"
  then obtain b where b: "artwork_named (art_slug a) = Some b"
    by (cases "artwork_named (art_slug a)") (auto simp: artwork_named_def find_None_iff)
  from artwork_named_member [OF this] a artwork_slugs_distinct have "b = a"
    by (auto simp: distinct_map inj_on_def)
  with b show ?thesis by simp
qed

lemma back_shows_same_picture:
  assumes "a \<in> set artworks"
  shows "ga_art (gallery_start (back_query (destination_query english a reason)) r t0) = a"
    and "gallery_page_of (back_query (destination_query english a reason)) =
      \<lparr>gp_review = True, gp_preview = False, gp_english = english\<rparr>"
proof -
  let ?q = "back_query (destination_query english a reason)"
  have p: "gallery_page_of ?q = \<lparr>gp_review = True, gp_preview = False, gp_english = english\<rparr>"
    by (simp add: back_query_def destination_query_def gallery_page_of_def text_eval)
  have "map_of ?q (js ''art'') = Some (art_slug a)"
    by (simp add: back_query_def destination_query_def text_eval)
  then have "first_artwork ?q r = a" using p artwork_named_slug [OF assms] by (simp add: first_artwork_def)
  with p show "ga_art (gallery_start ?q r t0) = a" "gallery_page_of ?q = \<lparr>gp_review = True, gp_preview = False, gp_english = english\<rparr>"
    by (simp_all add: gallery_start_def show_artwork_def Let_def)
qed

text \<open>Once it is leaving, nothing starts the countdown again, so a link opened in another tab leaves the
  page standing still for good.\<close>

lemma leaving_for_good:
  assumes "ga_leaving s" "ga_timer s = None" "e \<noteq> ReviewRestart"
  shows "ga_leaving (gallery_move g s (now, e)) \<and> ga_timer (gallery_move g s (now, e)) = None"
  using assms by (cases e) (auto simp: gallery_handlers split: option.split)

lemma restart_after_link:
  "ga_leaving s \<Longrightarrow> ga_leaving (gallery_move g s (now, ReviewRestart)) \<and>
     ga_timer (gallery_move g s (now, ReviewRestart)) = None"
  by (simp add: gallery_restart_def gallery_handlers)

text \<open>A preview that is also a review leaves by itself once its countdown is restarted.\<close>

lemma reviewed_preview_leaves:
  "let q = [(js ''review'', js ''1''), (js ''mode'', js ''preview'')]; g = gallery_page_of q in
   map_option (\<lambda>s. map fst (ga_left s))
     (runs (gallery_offered g) (gallery_move g) (gallery_start q 0 0)
        [(10, ReviewToggle), (20, ReviewRestart), (70, GalleryTimer), (2100, GalleryTimer)]) = Some [2100]"
proof -
  have "seconds_value (js ''2'') = 2" by (simp add: seconds_value_def number_two)
  then show ?thesis
    by (simp add: gallery_page_of_def gallery_offered_def gallery_start_def gallery_restart_def gallery_handlers
        max_def text_eval)
qed

lemma review_offers_every_picture: "map fst review_options = map art_slug artworks \<and> length review_options = 29"
  by (simp add: review_options_def artworks_29 comp_def)

text \<open>No text of the page is missing in either language, and an edition number has two digits.\<close>

definition static_texts :: "string list" where
  "static_texts =
     [''tagline'', ''imageError'', ''reinterpretation'', ''encounter'', ''medium'', ''collection'', ''oneAtATime'',
      ''destination'', ''fullAddress'', ''continue'']"

lemma no_text_missing: "list_all (\<lambda>k. copy_text True k \<noteq> [] \<and> copy_text False k \<noteq> []) static_texts"
  by (simp add: static_texts_def copy_text_def gallery_copy_def)

lemma edition_bounds:
  assumes "a \<in> set artworks"
  shows "1 \<le> edition_of a \<and> edition_of a \<le> length artworks"
proof -
  have "dropWhile ((\<noteq>) a) artworks \<noteq> []" using assms by (auto simp: dropWhile_eq_Nil_conv)
  moreover have "length (takeWhile ((\<noteq>) a) artworks) + length (dropWhile ((\<noteq>) a) artworks) = length artworks"
    by (simp flip: length_append)
  ultimately show ?thesis using assms by (cases "dropWhile ((\<noteq>) a) artworks") (auto simp: edition_of_def)
qed

text \<open>The prototype leads nowhere but to its own demonstration page. Whatever its address asks for and
  whatever is done with it: a picture of the collection is shown and the link names it, every address
  it is sent to is the demonstration page with a picture of the collection and the language, the
  timer sends it away at most once, and a preview that is no review only leaves by its link.\<close>
lemma prototype_stays_local:
  assumes "0 \<le> r" "r < 1"
    and "reachable (gallery_start q r t0) (gallery_offered (gallery_page_of q)) (gallery_move (gallery_page_of q)) s"
  shows "ga_art s \<in> set artworks \<and> ga_link s = demo_address ''manual'' (gp_english (gallery_page_of q)) (ga_art s) \<and>
    (\<forall>x \<in> set (ga_left s). \<exists>a \<in> set artworks. \<exists>reason. reason \<in> {''manual'', ''automatic''} \<and>
       snd x = demo_address reason (gp_english (gallery_page_of q)) a) \<and>
    length [x \<leftarrow> ga_left s. sent_by_timer (snd x)] \<le> 1 \<and>
    (gp_preview (gallery_page_of q) \<and> \<not> gp_review (gallery_page_of q) \<longrightarrow>
       (\<forall>x \<in> set (ga_left s). \<not> sent_by_timer (snd x)))"
proof -
  have inv: "gallery_inv (gallery_page_of q) s" using prototype.reachable_inv [OF assms(3)] assms(1,2) by simp
  then have "length [x \<leftarrow> ga_left s. sent_by_timer (snd x)] \<le> 1" by (auto simp: gallery_inv_def split: if_splits)
  with inv show ?thesis unfolding gallery_inv_def by (fastforce split: if_splits)
qed

lemma prototype_stays_local_example:
  "\<exists>s. reachable (gallery_start [(js ''lang'', js ''en'')] (1/2) 0) (gallery_offered (gallery_page_of [(js ''lang'', js ''en'')]))
      (gallery_move (gallery_page_of [(js ''lang'', js ''en'')])) s \<and>
    (\<exists>t a reason. ga_left s = [(t, demo_address reason True a)] \<and> a \<in> set artworks)"
proof -
  let ?q = "[(js ''lang'', js ''en'')]"
  define s where "s = foldl (gallery_move (gallery_page_of ?q)) (gallery_start ?q (1/2) 0) [(2500, GalleryTimer)]"
  have run: "runs (gallery_offered (gallery_page_of ?q)) (gallery_move (gallery_page_of ?q)) (gallery_start ?q (1/2) 0)
      [(2500, GalleryTimer)] = Some s" and l: "length (ga_left s) = 1"
    by (simp_all add: s_def gallery_start_def gallery_page_of_def gallery_offered_def gallery_handlers max_def)
  have r: "reachable (gallery_start ?q (1/2) 0) (gallery_offered (gallery_page_of ?q)) (gallery_move (gallery_page_of ?q)) s"
    by (rule runs_from_start [OF run])
  have g: "gp_english (gallery_page_of ?q)" by (simp add: gallery_page_of_def)
  from l obtain x where x: "ga_left s = [x]" by (auto simp: length_Suc_conv)
  from prototype_stays_local [OF _ _ r] x g
  obtain a reason where "a \<in> set artworks" "snd x = demo_address reason True a" by auto
  with x r show ?thesis by (metis prod.collapse)
qed

end
