(* ===== verification/Gallery_Serve.thy ===== *)
theory Gallery_Serve
  imports Js_Uri Gallery_Artworks
begin

text \<open>
  The server of the redirect gallery prototype (\<open>docs/redirect-gallery/serve.mjs\<close>). The path of the
  request as \<open>new URL\<close> parsed it is an argument, \<open>None\<close> when that threw, and so is what \<open>readFile\<close>
  finds in a file, \<open>None\<close> when it fails. \<open>resolve\<close> and \<open>extname\<close> of \<open>node:path\<close> are written out for
  a separator \<open>/\<close>.
\<close>

section \<open>Paths\<close>

fun normal_segments :: "jstr list \<Rightarrow> jstr list \<Rightarrow> jstr list" where
  \<comment> \<open>the segments kept so far, last first; \<open>..\<close> at the top stays there\<close>
  "normal_segments kept [] = rev kept"
| "normal_segments kept (w # ws) =
     (if w = [] \<or> w = js ''.'' then normal_segments kept ws
      else if w = js ''..'' then normal_segments (tl kept) ws
      else normal_segments (w # kept) ws)"

definition resolve_path :: "jstr \<Rightarrow> jstr \<Rightarrow> jstr" where
  \<comment> \<open>\<open>resolve(base, p)\<close>, \<open>base\<close> absolute and \<open>p\<close> not\<close>
  "resolve_path base p = 47 # join [47] (normal_segments [] (split_on 47 (base @ 47 # p)))"

definition ext_name :: "jstr \<Rightarrow> jstr" where
  "ext_name path =
     (let b = last (split_on 47 path); e = takeWhile (\<lambda>c. c \<noteq> 46) (rev b) in
      case dropWhile (\<lambda>c. c \<noteq> 46) (rev b) of
        [] \<Rightarrow> []
      | _ # stem \<Rightarrow> if stem = [] \<or> b = js ''..'' then [] else 46 # rev e)"

section \<open>Requests\<close>

definition mime_types :: "(jstr \<times> jstr) list" where
  "mime_types =
     [(js ''.html'', js ''text/html; charset=utf-8''), (js ''.css'', js ''text/css; charset=utf-8''),
      (js ''.js'', js ''text/javascript; charset=utf-8''), (js ''.svg'', js ''image/svg+xml''),
      (js ''.png'', js ''image/png'')]"

definition requested_file :: "jstr \<Rightarrow> jstr option \<Rightarrow> jstr promise" where
  \<comment> \<open>what the handler computes before it looks at the file; \<open>Inl\<close> is what it throws\<close>
  "requested_file dir pathname =
     (case pathname of
        None \<Rightarrow> Inl Thrown
      | Some p \<Rightarrow>
          (case decode_component p of
             Inl e \<Rightarrow> Inl e
           | Inr d \<Rightarrow> Inr (resolve_path dir (46 # (if d \<noteq> [] \<and> last d = 47 then d @ js ''index.html'' else d)))))"

definition servable :: "jstr \<Rightarrow> jstr \<Rightarrow> jstr option" where
  \<comment> \<open>the content type of a file the handler goes on with\<close>
  "servable dir file = (if prefix (dir @ [47]) file then map_of mime_types (ext_name file) else None)"

datatype 'b served =
    NotFound jstr
  | Found (content_type: jstr) (found_body: "'b option")

definition serve :: "jstr \<Rightarrow> (jstr \<Rightarrow> 'b option) \<Rightarrow> jstr \<Rightarrow> jstr option \<Rightarrow> 'b served" where
  "serve dir read_file verb pathname =
     (case requested_file dir pathname of
        Inl _ \<Rightarrow> NotFound (js ''Not found'')
      | Inr file \<Rightarrow>
          (case servable dir file of
             None \<Rightarrow> NotFound []
           | Some ct \<Rightarrow>
               (case read_file file of
                  None \<Rightarrow> NotFound (js ''Not found'')
                | Some content \<Rightarrow> Found ct (if verb = js ''HEAD'' then None else Some content))))"

definition served_headers :: "jstr \<Rightarrow> (jstr \<times> jstr) list" where
  "served_headers ct =
     [(js ''Content-Type'', ct), (js ''Cache-Control'', js ''no-store''), (js ''X-Robots-Tag'', js ''noindex, nofollow'')]"

section \<open>Segments\<close>

definition plain_segment :: "jstr \<Rightarrow> bool" where
  \<comment> \<open>the name of one file or directory\<close>
  "plain_segment w \<longleftrightarrow> w \<noteq> [] \<and> w \<noteq> js ''.'' \<and> w \<noteq> js ''..'' \<and> 47 \<notin> set w"

definition plain_root :: "jstr \<Rightarrow> bool" where
  \<comment> \<open>a directory as \<open>dirname\<close> of a file URL gives it, not the root of the file system\<close>
  "plain_root dir \<longleftrightarrow> (\<exists>rs. rs \<noteq> [] \<and> list_all plain_segment rs \<and> dir = 47 # join [47] rs)"

lemma normal_segments_plain:
  "list_all plain_segment kept \<Longrightarrow> \<forall>w \<in> set ws. 47 \<notin> set w \<Longrightarrow> list_all plain_segment (normal_segments kept ws)"
proof (induction kept ws rule: normal_segments.induct)
  case (2 kept w ws)
  have "list_all plain_segment (tl kept)" using 2(4) by (cases kept) auto
  with 2 show ?case by (auto simp: plain_segment_def [of w])
qed simp

lemma normal_segments_keep:
  "list_all plain_segment ws \<Longrightarrow> normal_segments kept (ws @ vs) = normal_segments (rev ws @ kept) vs"
  by (induction ws arbitrary: kept) (auto simp: plain_segment_def)

lemma split_join_append:
  assumes "xs \<noteq> []" "\<forall>x \<in> set xs. sep \<notin> set x"
  shows "split_on sep (join [sep] xs @ sep # t) = xs @ split_on sep t"
  using assms
proof (induction xs rule: induct_list012)
  case (2 x)
  then show ?case unfolding split_on_def by (subst split_by_append_sep) (auto simp: split_on_def)
next
  case (3 x y zs)
  have "split_by (\<lambda>c. c = sep) (x @ sep # (join [sep] (y # zs) @ sep # t)) =
      x # split_by (\<lambda>c. c = sep) (join [sep] (y # zs) @ sep # t)"
    by (rule split_by_append_sep) (use 3 in auto)
  with 3 show ?case by (simp add: split_on_def)
qed simp

lemma split_join:
  "xs \<noteq> [] \<Longrightarrow> \<forall>x \<in> set xs. sep \<notin> set x \<Longrightarrow> split_on sep (join [sep] xs) = xs"
  unfolding split_on_def by (rule split_by_join) auto

lemma join_append: "xs \<noteq> [] \<Longrightarrow> ys \<noteq> [] \<Longrightarrow> join sep (xs @ ys) = join sep xs @ sep @ join sep ys"
  by (induction xs rule: induct_list012) (auto simp: join_Cons)

lemma split_on_pieces: "w \<in> set (split_on sep s) \<Longrightarrow> sep \<notin> set w"
  unfolding split_on_def using split_by_pieces by fastforce

lemma resolved_plain:
  obtains ns where "resolve_path base p = 47 # join [47] ns" "list_all plain_segment ns"
proof
  show "resolve_path base p = 47 # join [47] (normal_segments [] (split_on 47 (base @ 47 # p)))"
    by (simp add: resolve_path_def)
  show "list_all plain_segment (normal_segments [] (split_on 47 (base @ 47 # p)))"
    by (rule normal_segments_plain) (auto dest: split_on_pieces)
qed

lemma plain_no_slash: "list_all plain_segment ws \<Longrightarrow> \<forall>w \<in> set ws. 47 \<notin> set w"
  by (auto simp: list_all_iff plain_segment_def)

lemma prefix_of_resolved:
  assumes "rs \<noteq> []" "list_all plain_segment rs" "list_all plain_segment ns"
    and "prefix ((47 # join [47] rs) @ [47]) (47 # join [47] ns)"
  shows "\<exists>ws. ws \<noteq> [] \<and> ns = rs @ ws"
proof -
  obtain t where t: "join [47] ns = join [47] rs @ 47 # t" using assms(4) by (auto simp: prefix_def)
  then have ne: "ns \<noteq> []" by auto
  have "ns = split_on 47 (join [47] ns)" using split_join [OF ne plain_no_slash [OF assms(3)]] by simp
  also have "\<dots> = rs @ split_on 47 t" unfolding t by (rule split_join_append [OF assms(1) plain_no_slash [OF assms(2)]])
  finally show ?thesis by (auto simp: split_on_def)
qed

lemma servable_inside:
  assumes "plain_root dir" "requested_file dir pathname = Inr file" "servable dir file = Some ct"
  shows "\<exists>ws. ws \<noteq> [] \<and> list_all plain_segment ws \<and> file = dir @ 47 # join [47] ws"
proof -
  obtain rs where rs: "rs \<noteq> []" "list_all plain_segment rs" "dir = 47 # join [47] rs"
    using assms(1) by (auto simp: plain_root_def)
  obtain base p where "file = resolve_path base p"
    using assms(2) by (auto simp: requested_file_def split: option.splits sum.splits)
  then obtain ns where ns: "file = 47 # join [47] ns" "list_all plain_segment ns"
    using resolved_plain by metis
  have "prefix ((47 # join [47] rs) @ [47]) (47 # join [47] ns)"
    using assms(3) ns(1) rs(3) by (auto simp: servable_def split: if_splits)
  then obtain ws where ws: "ws \<noteq> []" "ns = rs @ ws" using prefix_of_resolved rs ns(2) by metis
  then show ?thesis using ns rs by (auto simp: join_append)
qed

lemma served_from_root:
  assumes "plain_root dir" "list_all plain_segment ws" "ws \<noteq> []"
    and d: "decode_component p = Inr (47 # join [47] ws)"
  shows "requested_file dir (Some p) = Inr (dir @ 47 # join [47] ws)"
proof -
  obtain rs where rs: "rs \<noteq> []" "list_all plain_segment rs" "dir = 47 # join [47] rs"
    using assms(1) by (auto simp: plain_root_def)
  have l: "last (47 # join [47] ws) \<noteq> 47"
  proof -
    have "plain_segment (last ws)" using assms(2,3) by (simp add: list_all_iff)
    then have "last ws \<noteq> []" "last (last ws) \<noteq> 47" by (auto simp: plain_segment_def dest: last_in_set)
    moreover have "last (join [47] ws) = last (last ws) \<and> join [47] ws \<noteq> []"
      using assms(2,3) by (induction ws rule: induct_list012) (auto simp: plain_segment_def)
    ultimately show ?thesis by simp
  qed
  have s: "split_on 47 (dir @ 47 # 46 # 47 # join [47] ws) = [] # rs @ js ''.'' # ws"
  proof -
    have "split_on 47 ((47 # join [47] rs) @ 47 # 46 # 47 # join [47] ws) =
        [] # split_on 47 (join [47] rs @ 47 # 46 # 47 # join [47] ws)"
      by (simp add: split_on_def)
    also have "\<dots> = [] # rs @ split_on 47 (46 # 47 # join [47] ws)"
      using split_join_append [OF rs(1) plain_no_slash [OF rs(2)]] by simp
    also have "split_on 47 (46 # 47 # join [47] ws) = js ''.'' # split_on 47 (join [47] ws)"
      by (simp add: split_on_def text_eval split: list.split)
    also have "split_on 47 (join [47] ws) = ws" by (rule split_join [OF assms(3) plain_no_slash [OF assms(2)]])
    finally show ?thesis using rs(3) by simp
  qed
  have "normal_segments [] ([] # rs @ js ''.'' # ws) = rs @ ws"
    using normal_segments_keep [OF rs(2), of "[]" "js ''.'' # ws"] normal_segments_keep [OF assms(2), of "rev rs" "[]"]
    by simp
  then show ?thesis
    using d l s rs assms(3) by (simp add: requested_file_def resolve_path_def join_append)
qed

lemma ext_name_inside:
  assumes "plain_root dir" "list_all plain_segment ws" "ws \<noteq> []"
  shows "ext_name (dir @ 47 # join [47] ws) = ext_name (last ws)"
proof -
  obtain rs where rs: "rs \<noteq> []" "list_all plain_segment rs" "dir = 47 # join [47] rs"
    using assms(1) by (auto simp: plain_root_def)
  have "split_on 47 (dir @ 47 # join [47] ws) = [] # rs @ ws"
    using split_join_append [OF rs(1) plain_no_slash [OF rs(2)], of "join [47] ws"]
      split_join [OF assms(3) plain_no_slash [OF assms(2)]] rs(3) by (simp add: split_on_def)
  moreover have "split_on 47 (last ws) = [last ws]"
  proof -
    have "plain_segment (last ws)" using assms(2,3) by (simp add: list_all_iff)
    then have "47 \<notin> set (last ws)" by (simp add: plain_segment_def)
    then show ?thesis unfolding split_on_def by (intro split_by_no_sep) auto
  qed
  ultimately show ?thesis using assms(3) by (simp add: ext_name_def)
qed

section \<open>Properties\<close>

text \<open>The paths under which a file is given out: the one that encodes its name, and its name itself
  when there is nothing to decode in it.\<close>

lemma encoded_path_decodes: "encode_component t = Inr e \<Longrightarrow> decode_component (47 # e) = Inr (47 # t)"
  using decode_encoded [of t e] by (auto simp: decode_component_def split: option.splits)

lemma decode_units_plain: "37 \<notin> set s \<Longrightarrow> decode_units s = Some s"
  by (induction s) auto

lemma plain_path_decodes: "37 \<notin> set s \<Longrightarrow> decode_component s = Inr s"
  by (simp add: decode_component_def decode_units_plain)

lemma serve_below:
  assumes "plain_root dir" "ws \<noteq> []" "list_all plain_segment ws" "read_file (dir @ 47 # join [47] ws) = Some content"
    and "map_of mime_types (ext_name (last ws)) = Some ct" "decode_component p = Inr (47 # join [47] ws)"
  shows "serve dir read_file verb (Some p) = Found ct (if verb = js ''HEAD'' then None else Some content)"
proof -
  have "requested_file dir (Some p) = Inr (dir @ 47 # join [47] ws)"
    using served_from_root assms(1-3,6) by blast
  moreover have "servable dir (dir @ 47 # join [47] ws) = Some ct"
    using assms(5) ext_name_inside [OF assms(1,3,2)] by (simp add: servable_def)
  ultimately show ?thesis using assms(4) by (simp add: serve_def)
qed

text \<open>So every picture of the collection can be seen.\<close>

lemma pictures_are_served:
  assumes "plain_root dir" "a \<in> set artworks" "read_file (dir @ 47 # art_file a) = Some content"
  shows "serve dir read_file (js ''GET'') (Some (47 # art_file a)) = Found (js ''image/svg+xml'') (Some content)"
proof -
  define ws where "ws = [js ''art'', art_slug a @ js ''__fine.svg'']"
  have slug: "art_slug a \<noteq> []" "\<forall>c \<in> set (art_slug a). slug_unit c"
    using artwork_slug_units assms(2) by (auto simp: list_all_iff)
  then have u: "37 \<notin> set (art_slug a)" "47 \<notin> set (art_slug a)" by (auto simp: slug_unit_def)
  have f: "art_file a = join [47] ws"
    using artwork_files assms(2) by (simp add: list_all_iff ws_def text_eval)
  have "list_all plain_segment ws" using u slug(1) by (auto simp: ws_def plain_segment_def text_eval Cons_eq_append_conv append_eq_Cons_conv)
  moreover have "map_of mime_types (ext_name (last ws)) = Some (js ''image/svg+xml'')"
  proof -
    have "split_on 47 (art_slug a @ js ''__fine.svg'') = [art_slug a @ js ''__fine.svg'']"
      unfolding split_on_def using u(2) by (intro split_by_no_sep) (auto simp: text_eval)
    then have "ext_name (last ws) = js ''.svg''" by (simp add: ext_name_def ws_def text_eval append_eq_Cons_conv)
    then show ?thesis by (simp add: mime_types_def text_eval)
  qed
  moreover have "decode_component (47 # join [47] ws) = Inr (47 # join [47] ws)"
    using u(1) by (intro plain_path_decodes) (auto simp: ws_def text_eval)
  ultimately show ?thesis
    using serve_below [OF assms(1), of ws read_file content _ "47 # join [47] ws" "js ''GET''"] assms(3)
    by (simp add: f) (simp add: ws_def text_eval)
qed

text \<open>C22 The server of the prototype gives out exactly the files below its directory that have one of five
  kinds. Whatever path is asked for, with escapes and dots in any combination, a content it gives out
  is what one file below its directory holds, reached by names that are neither empty nor dots, with
  the type of its ending, and no body for \<open>HEAD\<close>; and every such file is given out under every path
  that decodes to its name.\<close>
theorem prototype_server_confined:
  assumes "plain_root dir"
  shows "(serve dir read_file verb pathname = Found ct body \<longrightarrow>
      (\<exists>ws content. ws \<noteq> [] \<and> list_all plain_segment ws \<and> read_file (dir @ 47 # join [47] ws) = Some content \<and>
         map_of mime_types (ext_name (last ws)) = Some ct \<and> body = (if verb = js ''HEAD'' then None else Some content))) \<and>
    (ws \<noteq> [] \<and> list_all plain_segment ws \<and> read_file (dir @ 47 # join [47] ws) = Some content \<and>
       map_of mime_types (ext_name (last ws)) = Some ct \<and> decode_component p = Inr (47 # join [47] ws) \<longrightarrow>
     serve dir read_file verb (Some p) = Found ct (if verb = js ''HEAD'' then None else Some content))"
proof (intro conjI impI)
  assume "serve dir read_file verb pathname = Found ct body"
  then obtain f content where f: "requested_file dir pathname = Inr f" "servable dir f = Some ct"
    "read_file f = Some content" "body = (if verb = js ''HEAD'' then None else Some content)"
    by (auto simp: serve_def split: sum.splits option.splits)
  from servable_inside [OF assms f(1,2)]
  obtain ws where ws: "ws \<noteq> []" "list_all plain_segment ws" "f = dir @ 47 # join [47] ws" by blast
  then have "map_of mime_types (ext_name (last ws)) = Some ct"
    using f(2) ext_name_inside [OF assms ws(2,1)] by (simp add: servable_def split: if_splits)
  with f ws show "\<exists>ws content. ws \<noteq> [] \<and> list_all plain_segment ws \<and>
      read_file (dir @ 47 # join [47] ws) = Some content \<and> map_of mime_types (ext_name (last ws)) = Some ct \<and>
      body = (if verb = js ''HEAD'' then None else Some content)" by blast
next
  assume a: "ws \<noteq> [] \<and> list_all plain_segment ws \<and> read_file (dir @ 47 # join [47] ws) = Some content \<and>
       map_of mime_types (ext_name (last ws)) = Some ct \<and> decode_component p = Inr (47 # join [47] ws)"
  then show "serve dir read_file verb (Some p) = Found ct (if verb = js ''HEAD'' then None else Some content)"
    by (elim conjE) (rule serve_below [OF assms])
qed

definition two_files :: "jstr \<Rightarrow> nat option" where
  "two_files f = (if f = js ''/srv/a b.css'' then Some 1 else if f = js ''/etc/key.html'' then Some 2 else None)"

theorem prototype_server_confined_witness:
  "serve (js ''/srv'') two_files (js ''GET'') (Some (js ''/a%20b.css'')) = Found (js ''text/css; charset=utf-8'') (Some 1) \<and>
   \<not> (\<exists>ct. serve (js ''/srv'') two_files (js ''GET'') (Some (js ''/%2e%2e/etc/key.html'')) = Found ct (Some 2))"
proof -
  have r: "plain_root (js ''/srv'')"
    unfolding plain_root_def by (rule exI [of _ "[js ''srv'']"]) (simp add: plain_segment_def text_eval)
  have "map_of mime_types (ext_name (js ''a b.css'')) = Some (js ''text/css; charset=utf-8'')"
    "decode_component (js ''/a%20b.css'') = Inr (js ''/a b.css'')" by code_simp+
  moreover have "plain_segment (js ''a b.css'')" "two_files (js ''/srv/a b.css'') = Some 1"
    by (simp_all add: plain_segment_def two_files_def text_eval)
  ultimately have "serve (js ''/srv'') two_files (js ''GET'') (Some (js ''/a%20b.css'')) =
     Found (js ''text/css; charset=utf-8'') (Some 1)"
    using conjunct2 [OF prototype_server_confined [OF r, where ws = "[js ''a b.css'']" and p = "js ''/a%20b.css''"
        and read_file = two_files and verb = "js ''GET''"]]
    by (simp add: text_eval)
  moreover have "\<not> (\<exists>ct. serve (js ''/srv'') two_files (js ''GET'') (Some (js ''/%2e%2e/etc/key.html'')) = Found ct (Some 2))"
  proof
    assume "\<exists>ct. serve (js ''/srv'') two_files (js ''GET'') (Some (js ''/%2e%2e/etc/key.html'')) = Found ct (Some 2)"
    then obtain ct where "serve (js ''/srv'') two_files (js ''GET'') (Some (js ''/%2e%2e/etc/key.html'')) = Found ct (Some 2)"
      by blast
    with prototype_server_confined [OF r, of two_files "js ''GET''" "Some (js ''/%2e%2e/etc/key.html'')" ct "Some 2"]
    obtain ws content where "two_files (js ''/srv'' @ 47 # join [47] ws) = Some content"
      "Some 2 = (if js ''GET'' = js ''HEAD'' then None else Some content)" by blast
    then have "two_files (js ''/srv'' @ 47 # join [47] ws) = Some 2" by (auto split: if_splits)
    moreover have "two_files (js ''/srv'' @ 47 # t) \<noteq> Some 2" for t by (simp add: two_files_def text_eval)
    ultimately show False by blast
  qed
  ultimately show ?thesis by blast
qed

end
