(* ===== verification/Totp.thy ===== *)
theory Totp
  imports Js_Value
begin

text \<open>
  The second factor as the smoke test computes it (\<open>scripts/smoke-totp.mjs\<close>): the decoding of a secret
  with the 32-bit shifts of the language, and the six digits taken from a keyed hash. The hash is an
  argument: a key and a message give a list of bytes. Times are milliseconds.
\<close>

unbundle bit_operations_syntax

type_synonym u8 = "8 word"
type_synonym u32 = "32 word"

section \<open>The secret\<close>

definition base32_alphabet :: jstr where
  "base32_alphabet = js ''ABCDEFGHIJKLMNOPQRSTUVWXYZ234567''"

definition cleaned_secret :: "jstr \<Rightarrow> jstr" where
  "cleaned_secret secret = [c \<leftarrow> to_upper secret. \<not> (is_ws c \<or> c = 61)]"

definition base32_index :: "u16 \<Rightarrow> nat option" where
  \<comment> \<open>\<open>BASE32_ALPHABET.indexOf(char)\<close>\<close>
  "base32_index c = index_of [c] base32_alphabet"

fun first_char :: "jstr \<Rightarrow> jstr" where
  \<comment> \<open>what a \<open>for\<close> loop over a string yields first: a unit, or both halves of a pair\<close>
  "first_char (h # l # s) = (if is_high h \<and> is_low l then [h, l] else [h])"
| "first_char s = s"

fun base32_loop :: "nat \<Rightarrow> u32 \<Rightarrow> u8 list \<Rightarrow> jstr \<Rightarrow> u8 list promise" where
  "base32_loop bits v out [] = Inr out"
| "base32_loop bits v out (c # cs) =
     (case base32_index c of
        None \<Rightarrow> Inl (PlainError (js ''not base32: '' @ first_char (c # cs)))
      | Some i \<Rightarrow>
          (let v' = push_bit 5 v OR of_nat i; bits' = bits + 5 in
           if 8 \<le> bits'
           then base32_loop (bits' - 8) v' (out @ [ucast (drop_bit (bits' - 8) v' AND 0xFF)]) cs
           else base32_loop bits' v' out cs))"

definition base32_decode :: "jstr \<Rightarrow> u8 list promise" where
  "base32_decode secret = base32_loop 0 0 [] (cleaned_secret secret)"

section \<open>The code\<close>

definition time_step :: "int \<Rightarrow> int" where
  \<comment> \<open>\<open>Math.floor(at / 1000 / 30)\<close>; at whole milliseconds the divisions round to no other step\<close>
  "time_step at_ms = at_ms div 30000"

definition step_message :: "int \<Rightarrow> u8 list promise" where
  \<comment> \<open>\<open>writeBigUInt64BE\<close>, which throws when the number does not fit\<close>
  "step_message n =
     (if 0 \<le> n \<and> n < 2 ^ 64 then Inr (map (\<lambda>k. of_int (n div 256 ^ (7 - k))) [0..<8]) else Inl Thrown)"

definition read_u32 :: "u8 list \<Rightarrow> nat \<Rightarrow> u32 promise" where
  \<comment> \<open>\<open>readUInt32BE\<close>, which throws outside the buffer\<close>
  "read_u32 d k =
     (if k + 4 \<le> length d
      then Inr (push_bit 24 (ucast (d ! k)) OR push_bit 16 (ucast (d ! (k + 1))) OR
                push_bit 8 (ucast (d ! (k + 2))) OR ucast (d ! (k + 3)))
      else Inl Thrown)"

definition digest_offset :: "u8 list \<Rightarrow> nat" where
  \<comment> \<open>\<open>undefined & 0x0f\<close> is 0\<close>
  "digest_offset d = (if d = [] then 0 else unat (last d AND 0x0F))"

definition digest_code :: "u8 list \<Rightarrow> jstr promise" where
  "digest_code d =
     (case read_u32 d (digest_offset d) of
        Inl e \<Rightarrow> Inl e
      | Inr w \<Rightarrow>
          (let t = js_of_nat (unat (w AND 0x7FFFFFFF) mod 1000000) in Inr (replicate (6 - length t) 48 @ t)))"

definition totp :: "(u8 list \<Rightarrow> u8 list \<Rightarrow> u8 list) \<Rightarrow> jstr \<Rightarrow> int \<Rightarrow> jstr promise" where
  "totp hmac secret at_ms =
     (case step_message (time_step at_ms) of
        Inl e \<Rightarrow> Inl e
      | Inr m \<Rightarrow> (case base32_decode secret of Inl e \<Rightarrow> Inl e | Inr k \<Rightarrow> digest_code (hmac k m)))"

definition wrong_code :: "(u8 list \<Rightarrow> u8 list \<Rightarrow> u8 list) \<Rightarrow> int \<Rightarrow> jstr promise" where
  "wrong_code hmac now =
     (case totp hmac (js ''AAAAAAAAAAAAAAAAAAAAAAAAAAAAAAAA'') now of
        Inl e \<Rightarrow> Inl e
      | Inr t \<Rightarrow> Inr (if t = js ''000000'' then js ''111111'' else js ''000000''))"

section \<open>The decoding as a regrouping of bits\<close>

definition low_bits :: "nat \<Rightarrow> 'a::len word \<Rightarrow> bool list" where
  \<comment> \<open>the lowest bits of a word, highest first\<close>
  "low_bits n v = map (bit v) (rev [0..<n])"

definition byte_of :: "bool list \<Rightarrow> u8" where
  "byte_of bs = horner_sum of_bool 2 (rev bs)"

function bytes_of :: "bool list \<Rightarrow> u8 list" where
  \<comment> \<open>eight at a time, what is left over dropped\<close>
  "bytes_of bs = (if length bs < 8 then [] else byte_of (take 8 bs) # bytes_of (drop 8 bs))"
  by pat_completeness auto
termination by (relation "measure length") auto

declare bytes_of.simps [simp del]

definition secret_bits :: "jstr \<Rightarrow> bool list" where
  \<comment> \<open>five bits for each letter\<close>
  "secret_bits s = concat (map (\<lambda>c. low_bits 5 (of_nat (the (base32_index c)) :: u8)) s)"

lemma low_bits_split: "k \<le> n \<Longrightarrow> low_bits n v = map (bit v) (rev [k..<n]) @ low_bits k v"
proof -
  assume "k \<le> n"
  then have "[0..<n] = [0..<k] @ [k..<n]" using upt_add_eq_append [of 0 k "n - k"] by simp
  then show ?thesis by (simp add: low_bits_def)
qed

lemma length_low_bits [simp]: "length (low_bits n v) = n"
  by (simp add: low_bits_def)

lemma index_bound: "index_of [c] s = Some i \<Longrightarrow> i < length s"
  by (induction s arbitrary: i) (auto split: if_splits)

lemma base32_index_bound: "base32_index c = Some i \<Longrightarrow> i < 32"
  using index_bound [of c base32_alphabet i] by (simp add: base32_index_def base32_alphabet_def)

lemma bit_small:
  assumes "i < 32"
  shows "5 \<le> n \<Longrightarrow> \<not> bit (of_nat i :: u32) n"
    and "n < 5 \<Longrightarrow> bit (of_nat i :: u32) n = bit (of_nat i :: u8) n"
proof -
  have "take_bit 5 i = i" using assms by (simp add: take_bit_nat_eq_self)
  then have "\<not> bit i n" if "5 \<le> n" using that by (metis bit_take_bit_iff linorder_not_less)
  then show "5 \<le> n \<Longrightarrow> \<not> bit (of_nat i :: u32) n" by (simp add: bit_of_nat_iff)
  show "n < 5 \<Longrightarrow> bit (of_nat i :: u32) n = bit (of_nat i :: u8) n" by (simp add: bit_of_nat_iff)
qed

lemma low_bits_shift:
  assumes "i < 32" "n + 5 \<le> 32"
  shows "low_bits (n + 5) (push_bit 5 v OR of_nat i :: u32) = low_bits n v @ low_bits 5 (of_nat i :: u8)"
proof -
  let ?v = "push_bit 5 v OR of_nat i :: u32"
  have "[5..<n + 5] = map (\<lambda>m. m + 5) [0..<n]" by (simp add: map_add_upt)
  moreover have "bit ?v (m + 5) = bit v m" if "m < n" for m
    using that assms by (auto simp: bit_or_iff bit_push_bit_iff bit_small(1))
  ultimately have "map (bit ?v) (rev [5..<n + 5]) = low_bits n v" by (auto simp: low_bits_def rev_map)
  moreover have "low_bits 5 ?v = low_bits 5 (of_nat i :: u8)"
    using assms(1) by (auto simp: low_bits_def bit_or_iff bit_push_bit_iff bit_small(2))
  ultimately show ?thesis using low_bits_split [of 5 "n + 5" ?v] by simp
qed

lemma byte_of_bits: "byte_of (map (bit v) (rev [k..<k + 8])) = ucast (drop_bit k v AND 0xFF :: u32)"
proof (rule bit_word_eqI)
  fix n assume n: "n < LENGTH(8)"
  have m: "(0xFF :: u32) = mask 8" by (simp add: mask_eq_exp_minus_1)
  have "bit (byte_of (map (bit v) (rev [k..<k + 8]))) n = bit v (k + n)"
    using n by (simp add: byte_of_def rev_map [symmetric] bit_horner_sum_bit_word_iff)
  also have "\<dots> = bit (ucast (drop_bit k v AND 0xFF) :: u8) n"
    using n unfolding m by (auto simp: bit_ucast_iff bit_and_iff bit_mask_iff bit_drop_bit_eq)
  finally show "bit (byte_of (map (bit v) (rev [k..<k + 8]))) n = bit (ucast (drop_bit k v AND 0xFF) :: u8) n" .
qed

lemma bytes_of_short: "length bs < 8 \<Longrightarrow> bytes_of bs = []"
  by (subst bytes_of.simps) simp

lemma bytes_of_byte: "length x = 8 \<Longrightarrow> bytes_of (x @ y) = byte_of x # bytes_of y"
  by (subst bytes_of.simps) simp

lemma length_bytes_of: "length (bytes_of bs) = length bs div 8"
proof (induction bs rule: bytes_of.induct)
  case (1 bs)
  show ?case
  proof (cases "length bs < 8")
    case False
    then have "length bs div 8 = Suc (length (drop 8 bs) div 8)" by (simp add: div_if [of "length bs" 8])
    with 1 False show ?thesis by (subst bytes_of.simps) simp
  qed (simp add: bytes_of_short)
qed

lemma base32_loop_exact:
  assumes "bits < 8" "list_all (\<lambda>c. base32_index c \<noteq> None) cs"
  shows "base32_loop bits v out cs = Inr (out @ bytes_of (low_bits bits v @ secret_bits cs))"
  using assms
proof (induction cs arbitrary: bits v out)
  case Nil
  then show ?case by (simp add: secret_bits_def bytes_of_short)
next
  case (Cons c cs)
  then obtain i where i: "base32_index c = Some i" by auto
  define v' where "v' = (push_bit 5 v OR of_nat i :: u32)"
  have b: "low_bits bits v @ secret_bits (c # cs) = low_bits (bits + 5) v' @ secret_bits cs"
    using low_bits_shift [OF base32_index_bound [OF i], of bits v] Cons.prems(1) i by (simp add: secret_bits_def v'_def)
  show ?case
  proof (cases "8 \<le> bits + 5")
    case True
    define k where "k = bits - 3"
    have k: "bits + 5 = k + 8" "k < 8" using True Cons.prems(1) by (simp_all add: k_def)
    have split: "low_bits (k + 8) v' = map (bit v') (rev [k..<k + 8]) @ low_bits k v'" by (rule low_bits_split) simp
    have "length (map (bit v') (rev [k..<k + 8])) = 8" by simp
    from bytes_of_byte [OF this, of "low_bits k v' @ secret_bits cs"]
    have "bytes_of (low_bits (bits + 5) v' @ secret_bits cs) =
        ucast (drop_bit k v' AND 0xFF) # bytes_of (low_bits k v' @ secret_bits cs)"
      by (simp only: k(1) split append_assoc byte_of_bits)
    then show ?thesis
      using Cons.IH [OF k(2), of v'] Cons.prems(2) i b k(1) True by (simp add: Let_def v'_def)
  next
    case False
    then show ?thesis using Cons.IH [of "bits + 5" v' out] Cons.prems(2) i b by (simp add: Let_def v'_def)
  qed
qed

lemma base32_loop_error:
  "dropWhile (\<lambda>c. base32_index c \<noteq> None) cs = bad \<Longrightarrow> bad \<noteq> [] \<Longrightarrow>
   base32_loop bits v out cs = Inl (PlainError (js ''not base32: '' @ first_char bad))"
  by (induction cs arbitrary: bits v out) (auto simp: Let_def split: if_splits option.splits)

lemma length_secret_bits: "length (secret_bits s) = 5 * length s"
  by (induction s) (simp_all add: secret_bits_def)

section \<open>The digits\<close>

lemma dec_digits_short: "n < 10 ^ Suc k \<Longrightarrow> length (dec_digits n) \<le> Suc k"
proof (induction k arbitrary: n)
  case 0
  then show ?case by (subst dec_digits.simps) simp
next
  case (Suc k)
  then have "n div 10 < 10 ^ Suc k" by (simp add: less_mult_imp_div_less mult.commute)
  with Suc.IH show ?case by (subst dec_digits.simps) simp
qed

lemma word_of_byte:
  assumes "unat (x :: u32) < 2 ^ 24"
  shows "unat (push_bit 8 x OR ucast (b :: u8)) = 256 * unat x + unat b"
proof -
  have b: "unat b < 256" using unsigned_less [of b] by simp
  then have c: "unat (ucast b :: u32) = unat b" by (simp add: unsigned_ucast_eq take_bit_nat_eq_self)
  have "push_bit 8 x AND (ucast b :: u32) = 0"
    by (rule bit_word_eqI) (auto simp: bit_and_iff bit_push_bit_iff bit_ucast_iff dest: bit_imp_le_length)
  then have "push_bit 8 x OR (ucast b :: u32) = x * 256 + ucast b"
    by (simp add: disjunctive_add_eq_or [symmetric] push_bit_eq_mult)
  then show ?thesis using assms b c by (simp add: unat_word_ariths)
qed

fun big_endian :: "u8 list \<Rightarrow> nat" where
  "big_endian d = foldl (\<lambda>a b. 256 * a + unat b) 0 d"

lemma read_u32_exact:
  assumes "k + 4 \<le> length d"
  shows "\<exists>w. read_u32 d k = Inr w \<and> unat w = big_endian (take 4 (drop k d))"
proof -
  have bytes: "take 4 (drop k d) = [d ! k, d ! (k + 1), d ! (k + 2), d ! (k + 3)]"
    using assms by (auto simp: list_eq_iff_nth_eq less_Suc_eq numeral_eq_Suc)
  let ?w = "push_bit 8 (push_bit 8 (push_bit 8 (ucast (d ! k)) OR ucast (d ! (k + 1))) OR ucast (d ! (k + 2))) OR
    ucast (d ! (k + 3)) :: u32"
  have r: "read_u32 d k = Inr ?w" using assms by (simp add: read_u32_def push_bit_or or.assoc)
  have l: "unat (d ! j) < 256" for j using unsigned_less [of "d ! j"] by simp
  have u: "unat (ucast (d ! j) :: u32) = unat (d ! j)" for j
    using l [of j] by (simp add: unsigned_ucast_eq take_bit_nat_eq_self)
  have 1: "unat (push_bit 8 (ucast (d ! k)) OR ucast (d ! (k + 1)) :: u32) = 256 * unat (d ! k) + unat (d ! (k + 1))"
    using word_of_byte [of "ucast (d ! k)"] l [of k] u by simp
  have 2: "unat (push_bit 8 (push_bit 8 (ucast (d ! k)) OR ucast (d ! (k + 1))) OR ucast (d ! (k + 2)) :: u32) =
      256 * (256 * unat (d ! k) + unat (d ! (k + 1))) + unat (d ! (k + 2))"
    using 1 l [of k] l [of "k + 1"] by (subst word_of_byte) simp_all
  have "unat ?w = 256 * (256 * (256 * unat (d ! k) + unat (d ! (k + 1))) + unat (d ! (k + 2))) + unat (d ! (k + 3))"
    using 2 l [of k] l [of "k + 1"] l [of "k + 2"] by (subst word_of_byte) simp_all
  with r show ?thesis by (simp add: bytes)
qed

lemma unat_and_mask: "unat (x AND mask k) = unat x mod 2 ^ k"
proof -
  have "unat (x AND mask k) = take_bit k (unat x)" by (simp only: take_bit_eq_mask [symmetric] unsigned_take_bit_eq)
  then show ?thesis by (simp only: take_bit_eq_mod)
qed

lemma digest_code_exact:
  assumes "length d = 20"
  shows "\<exists>t. digest_code d = Inr t \<and> length t = 6 \<and> list_all is_digit t \<and>
    digits_val t = int (big_endian (take 4 (drop (unat (last d) mod 16) d)) mod 2 ^ 31 mod 1000000)"
proof -
  have o: "digest_offset d = unat (last d) mod 16"
  proof -
    have "unat (last d AND 0x0F) = unat (last d) mod 16" using unat_and_mask [of "last d" 4] by (simp add: mask_eq_exp_minus_1)
    then show ?thesis using assms by (auto simp: digest_offset_def)
  qed
  then have "digest_offset d + 4 \<le> length d" using assms by simp
  then obtain w where w: "read_u32 d (digest_offset d) = Inr w"
    "unat w = big_endian (take 4 (drop (digest_offset d) d))" using read_u32_exact by blast
  have m: "unat (w AND 0x7FFFFFFF) = unat w mod 2 ^ 31"
    using unat_and_mask [of w 31] by (simp add: mask_eq_exp_minus_1)
  define n where "n = unat w mod 2 ^ 31 mod 1000000"
  have n: "n < 10 ^ Suc 5" by (simp add: n_def)
  define t where "t = replicate (6 - length (dec_digits n)) 48 @ dec_digits n"
  have "digest_code d = Inr t" using w(1) by (simp add: digest_code_def Let_def m n_def t_def js_of_nat_def)
  moreover have "length t = 6" using dec_digits_short [OF n] by (simp add: t_def)
  moreover have "list_all is_digit t" using dec_digits_all [of n] by (auto simp: t_def list_all_iff is_digit_def)
  moreover have "digits_val t = int n"
  proof -
    have "foldl (\<lambda>n c. 10 * n + uint (c - 48 :: u16)) 0 (replicate k 48) = 0" for k by (induction k) auto
    then have "digits_val t = digits_val (dec_digits n)" by (simp add: t_def digits_val_def)
    then show ?thesis by (simp add: digits_val_dec)
  qed
  ultimately show ?thesis using w(2) o by (auto simp: n_def)
qed

lemma big_endian_snoc: "big_endian (d @ [b]) = 256 * big_endian d + unat b"
  by simp

lemma big_endian_digits:
  "0 \<le> n \<Longrightarrow> int (big_endian (map (\<lambda>k. of_int (n div 256 ^ (j - Suc k))) [0..<j])) = n mod 256 ^ j"
proof (induction j arbitrary: n)
  case (Suc j)
  have "of_int (n div 256 ^ (Suc j - Suc k)) = (of_int (n div 256 div 256 ^ (j - Suc k)) :: u8)" if "k < j" for k
  proof -
    have "Suc j - Suc k = Suc (j - Suc k)" using that by simp
    then show ?thesis by (simp add: zdiv_zmult2_eq)
  qed
  then have "map (\<lambda>k. of_int (n div 256 ^ (Suc j - Suc k)) :: u8) [0..<Suc j] =
      map (\<lambda>k. of_int (n div 256 div 256 ^ (j - Suc k))) [0..<j] @ [of_int n]"
    by (simp del: diff_Suc_Suc)
  moreover have "int (unat (of_int n :: u8)) = n mod 256" by (simp add: uint_word_of_int take_bit_eq_mod)
  moreover have "int (big_endian (map (\<lambda>k. of_int (n div 256 div 256 ^ (j - Suc k))) [0..<j])) = n div 256 mod 256 ^ j"
    using Suc.IH [of "n div 256"] Suc.prems by simp
  ultimately have "int (big_endian (map (\<lambda>k. of_int (n div 256 ^ (Suc j - Suc k))) [0..<Suc j])) =
      256 * (n div 256 mod 256 ^ j) + n mod 256"
    by (simp only: big_endian_snoc of_nat_add of_nat_mult of_nat_numeral)
  then show ?case by (simp only: power_Suc zmod_zmult2_eq zero_le_numeral zero_le_power)
qed simp

lemma step_message_exact:
  assumes "0 \<le> n" "n < 2 ^ 64"
  shows "\<exists>m. step_message n = Inr m \<and> length m = 8 \<and> int (big_endian m) = n"
proof -
  have "n mod 256 ^ 8 = n" using assms by simp
  then show ?thesis
    using big_endian_digits [OF assms(1), of 8] assms by (simp add: step_message_def del: upt_rec_numeral)
qed

section \<open>Properties\<close>

text \<open>The decoding of a secret loses nothing to the 32-bit shifts it is written with: a secret of letters of
  the alphabet, of any length and case, with spaces and padding anywhere, gives exactly the bytes one
  gets by writing five bits for each letter and cutting them into eights, and any other secret is
  refused with its first foreign character.\<close>
lemma base32_decode_exact:
  "base32_decode secret =
     (case dropWhile (\<lambda>c. base32_index c \<noteq> None) (cleaned_secret secret) of
        [] \<Rightarrow> Inr (bytes_of (secret_bits (cleaned_secret secret)))
      | c # cs \<Rightarrow> Inl (PlainError (js ''not base32: '' @ first_char (c # cs))))"
proof (cases "dropWhile (\<lambda>c. base32_index c \<noteq> None) (cleaned_secret secret)")
  case Nil
  then have "list_all (\<lambda>c. base32_index c \<noteq> None) (cleaned_secret secret)"
    by (simp add: dropWhile_eq_Nil_conv list_all_iff)
  from base32_loop_exact [OF _ this, of 0] show ?thesis
    unfolding Nil base32_decode_def by (simp add: low_bits_def)
next
  case (Cons c cs)
  from base32_loop_error [OF Cons] show ?thesis unfolding Cons base32_decode_def by simp
qed

text \<open>C39 A code can always be taken and is always six digits. For a secret of the alphabet, a hash of twenty
  bytes and any time from 1970 on that a 64-bit counter holds: nothing is read outside the hash, the
  code is six digits, their number is the big-endian number at the offset the last byte names, without
  its sign bit, to the base of a million; the hash is keyed with the bits of the secret and taken of the
  eight bytes of the number of half minutes, so the code is the same for all of one half minute.\<close>
theorem totp_code_exact:
  assumes "list_all (\<lambda>c. base32_index c \<noteq> None) (cleaned_secret secret)"
    and "0 \<le> at_ms" "at_ms < 30000 * 2 ^ 64" and "\<And>k m. length (hmac k m) = 20"
  shows "\<exists>m t. length m = 8 \<and> int (big_endian m) = at_ms div 30000 \<and>
    (let d = hmac (bytes_of (secret_bits (cleaned_secret secret))) m in
      (\<forall>at'. at' div 30000 = at_ms div 30000 \<longrightarrow> totp hmac secret at' = Inr t) \<and>
      length t = 6 \<and> list_all is_digit t \<and>
      digits_val t = int (big_endian (take 4 (drop (unat (last d) mod 16) d)) mod 2 ^ 31 mod 1000000))"
proof -
  have "0 \<le> at_ms div 30000" "at_ms div 30000 < 2 ^ 64" using assms(2,3) by (simp_all add: div_less_iff_less_mult)
  then obtain m where m: "step_message (at_ms div 30000) = Inr m" "length m = 8" "int (big_endian m) = at_ms div 30000"
    using step_message_exact by blast
  have k: "base32_decode secret = Inr (bytes_of (secret_bits (cleaned_secret secret)))"
    using base32_loop_exact [OF _ assms(1), of 0] by (simp add: base32_decode_def low_bits_def)
  show ?thesis
    using digest_code_exact [OF assms(4), of "bytes_of (secret_bits (cleaned_secret secret))" m] m k
    by (auto simp: totp_def time_step_def Let_def)
qed

definition sample_hash :: "u8 list \<Rightarrow> u8 list \<Rightarrow> u8 list" where
  "sample_hash k m = take 20 (k @ m @ replicate 20 1)"

theorem totp_code_exact_witness:
  "\<exists>t. totp sample_hash (js ''m e='') 59000 = Inr t \<and> length t = 6 \<and> list_all is_digit t"
proof -
  have "list_all (\<lambda>c. base32_index c \<noteq> None) (cleaned_secret (js ''m e=''))" by code_simp
  moreover have "length (sample_hash k m) = 20" for k m by (simp add: sample_hash_def)
  ultimately obtain t where "\<forall>at'. at' div 30000 = 59000 div 30000 \<longrightarrow> totp sample_hash (js ''m e='') at' = Inr t"
    "length t = 6" "list_all is_digit t"
    using totp_code_exact [of "js ''m e=''" 59000 sample_hash] unfolding Let_def by auto
  then show ?thesis by blast
qed

text \<open>The code meant to be wrong is computed without the secret it is used against, so it can be right.\<close>

definition unlucky_hash :: "u8 list \<Rightarrow> u8 list \<Rightarrow> u8 list" where
  "unlucky_hash k m = replicate 20 (if length k = 5 then 0 else 1)"

lemma base32_decode_length:
  assumes "list_all (\<lambda>c. base32_index c \<noteq> None) (cleaned_secret secret)"
  shows "\<exists>k. base32_decode secret = Inr k \<and> length k = 5 * length (cleaned_secret secret) div 8"
  using base32_loop_exact [OF _ assms, of 0]
  by (simp add: base32_decode_def low_bits_def length_bytes_of length_secret_bits)

lemma totp_at_0: "base32_decode secret = Inr k \<Longrightarrow> totp hmac secret 0 = digest_code (hmac k (replicate 8 0))"
  by (simp add: totp_def time_step_def step_message_def map_replicate_const del: upt_rec_numeral)

lemma letters_a:
  "cleaned_secret (replicate n 65) = replicate n 65" "list_all (\<lambda>c. base32_index c \<noteq> None) (replicate n 65)"
proof -
  have "upper_unit 65 = [65]" "base32_index 65 = Some 0" "\<not> is_ws 65" by code_simp+
  then show "cleaned_secret (replicate n 65) = replicate n 65" "list_all (\<lambda>c. base32_index c \<noteq> None) (replicate n 65)"
    unfolding cleaned_secret_def to_upper_def by (induction n) simp_all
qed

lemma wrong_code_can_be_right:
  "totp unlucky_hash (js ''AAAAAAAA'') 0 = wrong_code unlucky_hash 0"
proof -
  have s: "js ''AAAAAAAA'' = replicate 8 65" "js ''AAAAAAAAAAAAAAAAAAAAAAAAAAAAAAAA'' = replicate 32 65"
    by (simp_all add: text_eval numeral_eq_Suc)
  obtain k where k: "base32_decode (replicate 8 65) = Inr k" "length k = 5"
    using base32_decode_length [of "replicate 8 65"] letters_a by auto
  obtain l where l: "base32_decode (replicate 32 65) = Inr l" "length l = 20"
    using base32_decode_length [of "replicate 32 65"] letters_a by auto
  have z: "digest_code (replicate 20 0) = Inr (js ''000000'')"
  proof -
    have "read_u32 (replicate 20 0) 0 = Inr 0" "digest_offset (replicate 20 0) = 0"
      by (simp_all add: read_u32_def digest_offset_def)
    moreover have "js_of_nat 0 = js ''0''" "replicate 5 48 @ js ''0'' = js ''000000''" by code_simp+
    ultimately show ?thesis by (simp add: digest_code_def)
  qed
  have o: "digest_code (replicate 20 1) \<noteq> Inr (js ''000000'')"
  proof -
    have "take 4 (drop 1 (replicate 20 (1 :: u8))) = [1, 1, 1, 1]" by (simp add: eval_nat_numeral)
    moreover obtain t where "digest_code (replicate 20 1) = Inr t"
      "digits_val t = int (big_endian (take 4 (drop 1 (replicate 20 (1 :: u8)))) mod 2 ^ 31 mod 1000000)"
      using digest_code_exact [of "replicate 20 (1 :: u8)"] by (auto simp del: drop_replicate take_replicate big_endian.simps)
    moreover have "digits_val (js ''000000'') = 0" by (simp add: digits_val_def text_eval)
    ultimately show ?thesis by auto
  qed
  moreover obtain t where "digest_code (replicate 20 1) = Inr t" using digest_code_exact [of "replicate 20 1"] by auto
  ultimately have "wrong_code unlucky_hash 0 = Inr (js ''000000'')"
    using l unfolding wrong_code_def s by (simp add: totp_at_0 unlucky_hash_def)
  with k z show ?thesis unfolding s by (simp add: totp_at_0 unlucky_hash_def)
qed

end
