(* ===== verification/Spec2Isabelle.thy ===== *)
theory Spec2Isabelle
  imports Api_Contract Request_Context Text_Tools Analytics_Injector Navigation Runtime_Form Draft_Guard Feedback
    Audit_Page Buttons Links_Page Stats_Page Settings_Forms Roles_Page Users_Page Oidc_Page
    Register_Page Link_Forms Tokens_Page Security_Page Dashboard Interstitial Countdown_Clock Settings_Home Guarded_Page
    Widgets Api_Wire Landing
    Gallery Gallery_Serve Totp
begin

text \<open>
  Purels is a link shortener: a Go service with a console written in TypeScript (Next.js and React,
  under \<open>web/src\<close>). This development models the console: the client of the API, what the server side of
  the console decides for a request, the landing page, the pages with their state, and the script of
  the page shown between a short link and its destination, with the prototype it came from.

  \<^bold>\<open>Values.\<close> A string is a list of UTF-16 code units (\<open>Js_Text\<close>: \<open>jstr\<close>, with \<open>js\<close> for literals), a
  number is a rational or one of the special values of a double with the rounding of \<open>Number\<close>
  written out (\<open>Js_Number\<close>), JSON and the encodings of a URL are in \<open>Js_Value\<close>, the decoding that undoes them
  in \<open>Js_Uri\<close>, days and the ISO dates in \<open>Js_Date\<close>. A request that settles is a \<open>promise\<close>: \<open>Inl\<close> what it threw, \<open>Inr\<close> its value.

  \<^bold>\<open>The API client\<close> (\<open>web/src/lib/api-client.ts\<close>): the records of the wire in \<open>Api_Types\<close>, one constructor of
  \<open>api_call\<close> per method and its request, the CSRF protocol and the mapping of failures in \<open>Api_Client\<close>;
  \<open>Api_Contract\<close> proves what every call keeps to (which token it carries, when the client navigates
  to the sign-in page, that an argument keeps its place in a URL and can be read back from it).
  \<open>Api_Wire\<close> has the declared types of the request bodies as types of JSON values, which every body the
  console writes conforms to.

  \<^bold>\<open>Languages and the request\<close>: the dictionaries (\<open>Messages_En\<close>, \<open>Messages_Zh\<close>, from
  \<open>web/src/lib/i18n/messages\<close>), translation and the wording of errors (\<open>I18n\<close>), negotiation, the proxy,
  the origin and the two server-side reads (\<open>Request_Context\<close>). The locale \<open>worded_translator\<close> is what pages
  rely on: a key of the dictionary has a text that is not empty.

  \<^bold>\<open>Text\<close> (\<open>Text_Tools\<close>): tags, scopes, CSV files, callback addresses. \<^bold>\<open>Tracking\<close>: validation on both sides and
  the escaping into scripts (\<open>Analytics_Config\<close>), the injected scripts and the page views
  (\<open>Analytics_Injector\<close>). \<^bold>\<open>Navigation\<close>: which entries, tabs and search results an account sees
  (\<open>Navigation\<close>, from \<open>web/src/components/admin-navigation.ts\<close>).

  \<^bold>\<open>Pages.\<close> \<open>Page_Model\<close> says how a client component is modelled: a record of its state with the requests in
  flight and a log of what it causes, a datatype of events, \<open>offered\<close> for the events that can happen in
  a state (a control that is rendered and not disabled, a request that is pending), \<open>move\<close> for the
  handlers up to their next \<open>await\<close>. Its locales \<open>react_page\<close> and \<open>logging_page\<close> carry an invariant and a rule
  for the log to every reachable state; \<open>Settling\<close> adds that answers alone lead to rest, \<open>In_Flight\<close>
  counts pending requests, \<open>Pager\<close> is the arithmetic of pages. Each page interprets them.
    \<^item> The link list (\<open>Links_Page\<close>), the forms of one link (\<open>Link_Forms\<close>), the statistics with their effects
      and cancellations (\<open>Stats_Page\<close>), the audit log (\<open>Audit_Page\<close>), the overview (\<open>Dashboard\<close>).
    \<^item> The policies (\<open>Runtime_Settings\<close> for the draft and its changes, \<open>Runtime_Form\<close> for the form), the forms of
      one saved record (\<open>Saved_Form\<close>, \<open>Settings_Forms\<close>), the guard that keeps a dirty page from being left
      (\<open>Draft_Guard\<close>), the entrance to the settings and the pages put together from
      the forms (\<open>Settings_Home\<close>, \<open>Settings_Pages\<close>), a whole page as it runs, with its gate, its forms and
      one guard that all of them report to (\<open>Guarded_Page\<close>, over the locale \<open>dirty_register\<close>), roles, users
      and sign-in providers (\<open>Roles_Page\<close>, \<open>Users_Page\<close>, \<open>Oidc_Page\<close>).
    \<^item> Signing in, registration with its challenge, API tokens, the second factor (\<open>Sign_In\<close>, \<open>Register_Page\<close>,
      \<open>Tokens_Page\<close>, \<open>Security_Page\<close>).
    \<^item> Toasts and feedback (\<open>Feedback\<close>), buttons (\<open>Buttons\<close>), the shell around the pages (\<open>Shell\<close>), shared controls
      such as the dialog, the code block, the sidebar and the duration field (\<open>Widgets\<close>).

  \<^bold>\<open>The landing page\<close> (\<open>Landing\<close>, from \<open>web/src/app/page.tsx\<close>, \<open>layout.tsx\<close> and \<open>web/src/components/home\<close>): metadata and
  alternates, the structured data with a reader of its text, the links each part offers, the theme set
  before the first paint.

  \<^bold>\<open>The interstitial\<close> (\<open>Interstitial\<close>, from \<open>internal/http/handler/gallery/redirect.js\<close>): the countdown with
  pauses and page transitions over explicit readings of the clock, where a timeout fires when it is due or
  later. \<open>Countdown_Clock\<close> has the same script with the numbers of its timers, over the virtual clock of
  \<open>scripts/redirect-gallery.test.mjs\<close>: a refinement, in which the page also leaves, and at the right
  moment. \<open>Gallery\<close> models the prototype under
  \<open>docs/redirect-gallery\<close> with its own timer code and proves it a refinement of that countdown;
  \<open>Gallery_Artworks\<close> is its collection and \<open>Gallery_Serve\<close> its server with the paths it gives out.

  \<^bold>\<open>One-time codes\<close> (\<open>Totp\<close>, from \<open>scripts/smoke-totp.mjs\<close>): the algorithm the smoke test checks the service
  against, on 32-bit words, compared with the arithmetic of its specification.

  \<^bold>\<open>What is shown.\<close> The lemmas of a page establish an invariant of its state and that the log keeps a rule (what
  is requested is well formed and allowed); the properties, numbered C1 to C40 across the theories,
  state the consequences: nothing injected leaves its script, a save sends exactly the changes, no
  answer of an older request is shown, one request at a time, secrets are written and never read
  back, untouched forms send back what is stored, a dirty page is not left by accident, pages come to
  rest, countdowns run in full.

  \<^bold>\<open>Bounds.\<close> Recursion is structural or has a measure. The effects of the statistics page are flushed with fuel 4:
  three commits always reach a state with nothing left to run (\<open>three_commits\<close>, \<open>flush_settled\<close>). The loop of
  the virtual clock is a \<open>partial_function\<close>, proved to end (\<open>fire_until_ends\<close>). Answers of the
  network, the clock, \<open>fetch\<close>, the parsing of URLs by the platform and its date formatting are
  arguments of the definitions or parts of events.

  \<^bold>\<open>Not modelled.\<close> The Go service (another language); layout, styling and motion; focus except in the shell and
  the dialog; a change of language while a page is mounted, which repeats its first load; case mapping
  beyond the letters \<open>Js_Text\<close> lists; icons and pictures, which only render; the end-to-end, smoke and
  unit test scripts under \<open>scripts\<close> and beside the code, which drive a deployment or assert on the
  modules modelled here, apart from the one-time codes one of them computes itself and the clock of another. Readings of the
  clock are exact numbers and one event takes one.
\<close>

end
